(* ===== verification/Prelude.thy ===== *)
theory Prelude
  imports Main "HOL-Library.Word" "HOL-Library.Sublist"
begin

text \<open>
  The prelude of the development: Go errors as values, the result-and-state actions every
  repository and handler is written in, the invariant calculus for such actions (\<open>keeps\<close>),
  UUIDs and decimal printing.

  A Go function \<open>func (r *Repo) F(ctx, x) (T, error)\<close> that touches state of type \<open>'s\<close> is an
  action \<open>'s \<Rightarrow> (err + T) \<times> 's\<close>: \<open>Inl e\<close> is the non-nil error, and the second component is
  the state after the call, also when the call failed.
\<close>

section \<open>Errors\<close>

text \<open>
  \<open>Err s\<close> is a value made by \<open>errors.New(s)\<close> (a sentinel when it is a package variable),
  \<open>PgErr code msg\<close> an error reported by the database with its SQLSTATE, and
  \<open>WrapErr pre e post\<close> the error \<open>fmt.Errorf("pre%wpost", e)\<close>. \<open>Panic s\<close> is not an error value:
  it is a run-time panic on its way up the stack, which callers pass on untouched.
\<close>

datatype err =
    Err string
  | PgErr string string
  | WrapErr string err string
  | Panic string

primrec err_text :: "err \<Rightarrow> string" where
  "err_text (Err s) = s"
| "err_text (PgErr c m) = m"
| "err_text (WrapErr p e q) = p @ err_text e @ q"
| "err_text (Panic s) = s"

text \<open>\<open>errors.Is\<close>: the target is somewhere on the chain of wrapped errors.\<close>

primrec err_is :: "err \<Rightarrow> err \<Rightarrow> bool" where
  "err_is (Err s) t = (t = Err s)"
| "err_is (PgErr c m) t = (t = PgErr c m)"
| "err_is (WrapErr p e q) t = (t = WrapErr p e q \<or> err_is e t)"
| "err_is (Panic s) t = False"

text \<open>\<open>errors.As(err, &pgErr)\<close> followed by \<open>pgErr.SQLState()\<close>.\<close>

primrec err_sqlstate :: "err \<Rightarrow> string option" where
  "err_sqlstate (Err s) = None"
| "err_sqlstate (PgErr c m) = Some c"
| "err_sqlstate (WrapErr p e q) = err_sqlstate e"
| "err_sqlstate (Panic s) = None"

definition is_panic :: "err \<Rightarrow> bool" where
  "is_panic e = (case e of Panic _ \<Rightarrow> True | _ \<Rightarrow> False)"

lemma err_is_refl [simp]: "\<not> is_panic e \<Longrightarrow> err_is e e"
  by (cases e) (simp_all add: is_panic_def)

text \<open>Division of signed integers in Go truncates towards zero.\<close>

definition go_quot :: "int \<Rightarrow> int \<Rightarrow> int" where
  "go_quot a b = sgn a * sgn b * (\<bar>a\<bar> div \<bar>b\<bar>)"

lemma go_quot_nonneg: "0 \<le> a \<Longrightarrow> 0 < b \<Longrightarrow> go_quot a b = a div b"
  by (cases "a = 0") (auto simp: go_quot_def)

text \<open>Conversion to the signed integers of 32 and 64 bits, which wraps around.\<close>

definition int32 :: "int \<Rightarrow> int" where
  "int32 x = (x + 2 ^ 31) mod 2 ^ 32 - 2 ^ 31"

definition int64 :: "int \<Rightarrow> int" where
  "int64 x = (x + 2 ^ 63) mod 2 ^ 64 - 2 ^ 63"

lemma int32_id: "0 \<le> x \<Longrightarrow> x < 2 ^ 31 \<Longrightarrow> int32 x = x"
  by (simp add: int32_def)

lemma int64_id: "- (2 ^ 63) \<le> x \<Longrightarrow> x < 2 ^ 63 \<Longrightarrow> int64 x = x"
  by (simp add: int64_def)

section \<open>Time\<close>

type_synonym time = int \<comment> \<open>nanoseconds since the Unix epoch\<close>

text \<open>The zero value of \<open>time.Time\<close>: the start of the year 1.\<close>

definition zero_time :: time where
  "zero_time = - 62135596800 * 1000000000"

definition second :: int where
  "second = 1000000000"

text \<open>The verb \<open>%q\<close> on text that needs no escapes.\<close>

definition quoted :: "string \<Rightarrow> string" where
  "quoted s = [CHR 0x22] @ s @ [CHR 0x22]"

section \<open>Actions\<close>

type_synonym ('s, 'a) action = "'s \<Rightarrow> (err + 'a) \<times> 's"

definition ret :: "'a \<Rightarrow> ('s, 'a) action" where
  "ret x s = (Inr x, s)"

definition fail :: "err \<Rightarrow> ('s, 'a) action" where
  "fail e s = (Inl e, s)"

text \<open>\<open>x, err := m(); if err != nil { return err }\<close>, then the rest.\<close>

definition bnd :: "('s, 'a) action \<Rightarrow> ('a \<Rightarrow> ('s, 'b) action) \<Rightarrow> ('s, 'b) action" where
  "bnd m f s = (case m s of (Inl e, s') \<Rightarrow> (Inl e, s') | (Inr x, s') \<Rightarrow> f x s')"

text \<open>\<open>x, err := m()\<close> and both outcomes inspected by what follows; \<open>reply\<close> ends a function that
  answers with a value of its own, such as an HTTP handler.\<close>

definition attempt :: "('s \<Rightarrow> 'r \<times> 's) \<Rightarrow> ('r \<Rightarrow> 's \<Rightarrow> 'b \<times> 's) \<Rightarrow> 's \<Rightarrow> 'b \<times> 's" where
  "attempt m f s = (case m s of (r, s') \<Rightarrow> f r s')"

definition reply :: "'r \<Rightarrow> 's \<Rightarrow> 'r \<times> 's" where
  "reply r s = (r, s)"

text \<open>\<open>if err := m(); err != nil { return g(err) }\<close>: an error is rewritten on its way out.\<close>

definition wrap_err :: "(err \<Rightarrow> err) \<Rightarrow> ('s, 'a) action \<Rightarrow> ('s, 'a) action" where
  "wrap_err g m s = (case m s of (Inl e, s') \<Rightarrow> (Inl (g e), s') | (Inr x, s') \<Rightarrow> (Inr x, s'))"

text \<open>The loop \<open>for _, x := range xs { if err := f(x); err != nil { return err } }\<close>.\<close>

primrec for_each :: "('a \<Rightarrow> ('s, unit) action) \<Rightarrow> 'a list \<Rightarrow> ('s, unit) action" where
  "for_each f [] = ret ()"
| "for_each f (x # xs) = bnd (f x) (\<lambda>_. for_each f xs)"

text \<open>The loop whose body logs its errors and goes on (\<open>continue\<close>).\<close>

primrec for_go :: "('a \<Rightarrow> 's \<Rightarrow> 'r \<times> 's) \<Rightarrow> 'a list \<Rightarrow> 's \<Rightarrow> unit \<times> 's" where
  "for_go f [] = reply ()"
| "for_go f (x # xs) = attempt (f x) (\<lambda>_. for_go f xs)"

lemmas action_defs = ret_def fail_def bnd_def attempt_def reply_def wrap_err_def

lemma bnd_Inr: "m s = (Inr x, s') \<Longrightarrow> bnd m f s = f x s'"
  by (simp add: bnd_def)

lemma bnd_Inl: "m s = (Inl e, s') \<Longrightarrow> bnd m f s = (Inl e, s')"
  by (simp add: bnd_def)

lemma bnd_InrE:
  assumes "bnd m f s = (Inr y, s'')"
  obtains x s' where "m s = (Inr x, s')" "f x s' = (Inr y, s'')"
  using assms by (auto simp: bnd_def split: prod.splits sum.splits)

lemma wrap_err_Inr: "wrap_err g m s = (Inr x, s') \<longleftrightarrow> m s = (Inr x, s')"
  by (auto simp: wrap_err_def split: prod.splits sum.splits)

section \<open>Invariants of actions\<close>

text \<open>
  \<open>keeps I m\<close>: the action keeps the invariant, whether it succeeds or fails. The rules below,
  collected in \<open>keeps_rules\<close>, take a composed action apart.
\<close>

named_theorems keeps_rules

definition keeps :: "('s \<Rightarrow> bool) \<Rightarrow> ('s \<Rightarrow> 'r \<times> 's) \<Rightarrow> bool" where
  "keeps I m \<longleftrightarrow> (\<forall>s. I s \<longrightarrow> I (snd (m s)))"

lemma keepsI: "(\<And>s. I s \<Longrightarrow> I (snd (m s))) \<Longrightarrow> keeps I m"
  by (simp add: keeps_def)

lemma keepsD: "keeps I m \<Longrightarrow> I s \<Longrightarrow> I (snd (m s))"
  by (simp add: keeps_def)

lemma keepsD_eq: "keeps I m \<Longrightarrow> I s \<Longrightarrow> m s = (r, s') \<Longrightarrow> I s'"
  by (auto simp: keeps_def dest: spec [of _ s])

lemma keeps_ret [keeps_rules]: "keeps I (ret x)"
  by (simp add: keeps_def ret_def)

lemma keeps_fail [keeps_rules]: "keeps I (fail e)"
  by (simp add: keeps_def fail_def)

lemma keeps_reply [keeps_rules]: "keeps I (reply r)"
  by (simp add: keeps_def reply_def)

lemma keeps_bnd [keeps_rules]:
  assumes "keeps I m" and "\<And>x. keeps I (f x)"
  shows "keeps I (bnd m f)"
proof (rule keepsI)
  fix s assume "I s"
  obtain r s' where r: "m s = (r, s')" by fastforce
  with assms(1) \<open>I s\<close> have "I s'" by (blast intro: keepsD_eq)
  with r assms(2) show "I (snd (bnd m f s))"
    by (auto simp: bnd_def split: sum.split intro: keepsD)
qed

lemma keeps_attempt [keeps_rules]:
  assumes "keeps I m" and "\<And>r. keeps I (f r)"
  shows "keeps I (attempt m f)"
proof (rule keepsI)
  fix s assume "I s"
  obtain r s' where r: "m s = (r, s')" by fastforce
  with assms(1) \<open>I s\<close> have "I s'" by (blast intro: keepsD_eq)
  with r assms(2) show "I (snd (attempt m f s))"
    by (auto simp: attempt_def intro: keepsD)
qed

lemma snd_wrap_err [simp]: "snd (wrap_err g m s) = snd (m s)"
  by (simp add: wrap_err_def split: prod.split sum.split)

lemma keeps_wrap_err [keeps_rules]: "keeps I m \<Longrightarrow> keeps I (wrap_err g m)"
  by (simp add: keeps_def)

lemma keeps_for_each [keeps_rules]:
  assumes "\<And>x. keeps I (f x)"
  shows "keeps I (for_each f xs)"
  by (induction xs) (auto intro: keeps_ret keeps_bnd assms)

lemma keeps_if [keeps_rules]:
  "keeps I m \<Longrightarrow> keeps I m' \<Longrightarrow> keeps I (if b then m else m')"
  by simp

lemma keeps_case_option [keeps_rules]:
  "keeps I m \<Longrightarrow> (\<And>x. keeps I (f x)) \<Longrightarrow> keeps I (case v of None \<Rightarrow> m | Some x \<Rightarrow> f x)"
  by (cases v) simp_all

lemma keeps_case_sum [keeps_rules]:
  "(\<And>e. keeps I (g e)) \<Longrightarrow> (\<And>x. keeps I (f x)) \<Longrightarrow> keeps I (case v of Inl e \<Rightarrow> g e | Inr x \<Rightarrow> f x)"
  by (cases v) simp_all

lemma keeps_case_prod [keeps_rules]:
  "(\<And>x y. keeps I (f x y)) \<Longrightarrow> keeps I (case v of (x, y) \<Rightarrow> f x y)"
  by (cases v) simp

lemma keeps_let [keeps_rules]: "(\<And>x. keeps I (f x)) \<Longrightarrow> keeps I (let x = v in f x)"
  by simp

lemma keeps_conj:
  assumes "keeps I m" and "keeps J m"
  shows "keeps (\<lambda>s. I s \<and> J s) m"
  using assms by (simp add: keeps_def)

lemma keeps_for_go [keeps_rules]:
  assumes "\<And>x. keeps I (f x)"
  shows "keeps I (for_go f xs)"
  by (induction xs) (auto intro: keeps_reply keeps_attempt assms)

lemma for_go_Cons: "for_go f (x # xs) s = for_go f xs (snd (f x s))"
  by (simp add: attempt_def split: prod.split)

lemma for_go_append: "for_go f (xs @ ys) s = for_go f ys (snd (for_go f xs s))"
  by (induction xs arbitrary: s) (simp_all add: attempt_def reply_def split: prod.split)

section \<open>UUIDs\<close>

text \<open>
  A UUID is its 128 bits. Its text form, the one \<open>uuid.UUID.String()\<close> and the SQL cast
  \<open>id::text\<close> give, is 32 lower-case hexadecimal digits in groups of 8, 4, 4, 4 and 12.
\<close>

type_synonym uuid = "128 word"

definition hexdigit :: "nat \<Rightarrow> char" where
  "hexdigit n = ''0123456789abcdef'' ! n"

definition uuid_nibble :: "uuid \<Rightarrow> nat \<Rightarrow> nat" where
  "uuid_nibble u i = unat (take_bit 4 (drop_bit (4 * (31 - i)) u))"

definition uuid_hex :: "uuid \<Rightarrow> string" where
  "uuid_hex u = map (\<lambda>i. hexdigit (uuid_nibble u i)) [0..<32]"

definition uuid_text :: "uuid \<Rightarrow> string" where
  "uuid_text u = (let h = uuid_hex u in
     take 8 h @ ''-'' @ take 4 (drop 8 h) @ ''-'' @ take 4 (drop 12 h) @ ''-''
     @ take 4 (drop 16 h) @ ''-'' @ drop 20 h)"

lemma length_uuid_hex [simp]: "length (uuid_hex u) = 32"
  by (simp add: uuid_hex_def)

lemma length_uuid_text [simp]: "length (uuid_text u) = 36"
  by (simp add: uuid_text_def Let_def)

lemma uuid_nibble_bound: "uuid_nibble u i < 16"
proof -
  have "unat (take_bit 4 w) < 2 ^ 4" for w :: uuid
    unfolding unsigned_take_bit_eq by (rule take_bit_nat_less_exp)
  then show ?thesis by (simp add: uuid_nibble_def)
qed

lemma hexdigit_inj: "m < 16 \<Longrightarrow> n < 16 \<Longrightarrow> hexdigit m = hexdigit n \<longleftrightarrow> m = n"
proof -
  have "distinct ''0123456789abcdef''" by simp
  then show "m < 16 \<Longrightarrow> n < 16 \<Longrightarrow> hexdigit m = hexdigit n \<longleftrightarrow> m = n"
    unfolding hexdigit_def by (subst nth_eq_iff_index_eq) auto
qed

lemma uuid_nibble_inj:
  assumes "\<And>i. i < 32 \<Longrightarrow> uuid_nibble u i = uuid_nibble v i"
  shows "u = v"
proof (rule bit_word_eqI)
  fix n assume n: "n < LENGTH(128)"
  define i where "i = 31 - n div 4"
  have i: "i < 32" and q: "31 - i = n div 4" using n by (auto simp: i_def)
  from assms [OF i] have "take_bit 4 (drop_bit (4 * (n div 4)) u) = take_bit 4 (drop_bit (4 * (n div 4)) v)"
    by (simp add: uuid_nibble_def q word_unat_eq_iff)
  then have "bit (take_bit 4 (drop_bit (4 * (n div 4)) u)) (n mod 4)
           = bit (take_bit 4 (drop_bit (4 * (n div 4)) v)) (n mod 4)" by simp
  moreover have "n mod 4 < 4" "4 * (n div 4) + n mod 4 = n" by auto
  ultimately show "bit u n = bit v n" by (simp add: bit_take_bit_iff bit_drop_bit_eq)
qed

lemma uuid_hex_inj: "uuid_hex u = uuid_hex v \<longleftrightarrow> u = v"
proof
  assume eq: "uuid_hex u = uuid_hex v"
  have "uuid_nibble u i = uuid_nibble v i" if "i < 32" for i
  proof -
    from eq have "uuid_hex u ! i = uuid_hex v ! i" by simp
    with that show ?thesis
      by (simp add: uuid_hex_def hexdigit_inj uuid_nibble_bound)
  qed
  then show "u = v" by (rule uuid_nibble_inj)
qed simp

lemma uuid_text_inj [simp]: "uuid_text u = uuid_text v \<longleftrightarrow> u = v"
proof
  assume eq: "uuid_text u = uuid_text v"
  let ?h = "uuid_hex u" and ?k = "uuid_hex v"
  from eq have e: "take 8 ?h = take 8 ?k" "take 4 (drop 8 ?h) = take 4 (drop 8 ?k)"
    "take 4 (drop 12 ?h) = take 4 (drop 12 ?k)" "take 4 (drop 16 ?h) = take 4 (drop 16 ?k)"
    "drop 20 ?h = drop 20 ?k"
    by (auto simp: uuid_text_def Let_def)
  have split: "h = take 8 h @ take 4 (drop 8 h) @ take 4 (drop 12 h) @ take 4 (drop 16 h) @ drop 20 h"
    for h :: string
    using append_take_drop_id [of 8 h] append_take_drop_id [of 4 "drop 8 h"]
      append_take_drop_id [of 4 "drop 12 h"] append_take_drop_id [of 4 "drop 16 h"]
    by simp
  have "?h = ?k" by (subst split [of ?h], subst split [of ?k]) (simp only: e)
  then show "u = v" by (simp add: uuid_hex_inj)
qed simp

lemma uuid_text_nth_8: "uuid_text u ! 8 = CHR ''-''"
  by (simp add: uuid_text_def Let_def nth_append)

section \<open>Decimal numbers\<close>

fun dec_nat :: "nat \<Rightarrow> string" where
  "dec_nat n = (if n < 10 then [hexdigit n] else dec_nat (n div 10) @ [hexdigit (n mod 10)])"

declare dec_nat.simps [simp del]

definition dec_int :: "int \<Rightarrow> string" where
  "dec_int i = (if i < 0 then ''-'' @ dec_nat (nat (- i)) else dec_nat (nat i))"

lemma dec_nat_nonempty [simp]: "dec_nat n \<noteq> []"
  by (subst dec_nat.simps) simp

lemma dec_nat_single: "dec_nat n = [c] \<Longrightarrow> n < 10"
  by (subst (asm) dec_nat.simps) (simp split: if_splits)

lemma dec_nat_inj: "dec_nat m = dec_nat n \<Longrightarrow> m = n"
proof (induction m arbitrary: n rule: dec_nat.induct)
  case (1 m)
  show ?case
  proof (cases "m < 10")
    case True
    with "1.prems" have "dec_nat n = [hexdigit m]" by (simp add: dec_nat.simps [of m])
    then have "n < 10" by (rule dec_nat_single)
    with True "1.prems" show ?thesis
      by (simp add: dec_nat.simps [of m] dec_nat.simps [of n] hexdigit_inj)
  next
    case False
    have n: "\<not> n < 10"
    proof
      assume "n < 10"
      with "1.prems" have "dec_nat m = [hexdigit n]" by (simp add: dec_nat.simps [of n])
      with False show False using dec_nat_single by blast
    qed
    from "1.prems" False n have "dec_nat (m div 10) = dec_nat (n div 10)" "hexdigit (m mod 10) = hexdigit (n mod 10)"
      by (simp_all add: dec_nat.simps [of m] dec_nat.simps [of n])
    with "1.IH" [OF False] have "m div 10 = n div 10" "m mod 10 = n mod 10"
      by (simp_all add: hexdigit_inj)
    then show ?thesis by (metis div_mult_mod_eq)
  qed
qed

lemma hexdigit_not_dash: "n < 10 \<Longrightarrow> hexdigit n \<noteq> CHR ''-''"
  by (simp add: hexdigit_def numeral_eq_Suc less_Suc_eq) auto

lemma dec_nat_no_dash: "CHR ''-'' \<notin> set (dec_nat n)"
proof (induction n rule: dec_nat.induct)
  case (1 n)
  have "CHR ''-'' \<noteq> hexdigit k" if "k < 10" for k
    using hexdigit_not_dash [OF that] by simp
  with 1 show ?case by (cases "n < 10") (auto simp: dec_nat.simps [of n])
qed

lemma dec_int_inj [simp]: "dec_int i = dec_int j \<longleftrightarrow> i = j"
proof
  assume eq: "dec_int i = dec_int j"
  have nd: "dec_nat k \<noteq> CHR ''-'' # xs" for k xs
    using dec_nat_no_dash [of k] by auto
  from eq show "i = j"
    by (auto simp: dec_int_def nd nd [symmetric] split: if_splits dest!: dec_nat_inj)
qed simp

section \<open>Lists\<close>

lemma find_SomeD: "find P xs = Some x \<Longrightarrow> x \<in> set xs \<and> P x"
  by (auto simp: find_Some_iff)

lemma find_map_upd:
  "(\<And>x. P (f x) = P x) \<Longrightarrow> find P (map f xs) = map_option f (find P xs)"
  by (induction xs) auto

lemma find_filter_conj: "find P (filter Q xs) = find (\<lambda>x. Q x \<and> P x) xs"
  by (induction xs) auto

lemma find_append:
  "find P (xs @ ys) = (case find P xs of None \<Rightarrow> find P ys | Some x \<Rightarrow> Some x)"
  by (induction xs) auto

lemma distinct_map_filter': "distinct (map f xs) \<Longrightarrow> distinct (map f (filter P xs))"
  by (simp add: distinct_map_filter)

lemma distinct_key_eq:
  "distinct (map k xs) \<Longrightarrow> x \<in> set xs \<Longrightarrow> y \<in> set xs \<Longrightarrow> k x = k y \<Longrightarrow> x = y"
  by (auto simp: distinct_map inj_on_def)

lemma find_by_key:
  "distinct (map k xs) \<Longrightarrow> x \<in> set xs \<Longrightarrow> find (\<lambda>y. k y = k x) xs = Some x"
  by (induction xs) (auto simp: image_iff)

end
