(* ===== verification/Schema.thy ===== *)
theory Schema
  imports Prelude "HOL-Library.Char_ord" "HOL-Library.List_Lexorder" "HOL-Library.Product_Lexorder"
begin

text \<open>
  The rows main-api stores (\<open>db/dbstore/models.go\<close>), the tables, and what executing a
  statement or a transaction against PostgreSQL means.

  The database is outside the repository. What the repositories rely on is written out: a
  statement runs atomically, a transaction's writes appear together or not at all, key, foreign
  key and check constraints are enforced with their SQLSTATE, and any statement may fail. The
  last point is the field \<open>faults\<close> of the state: each statement takes the next entry, \<open>Lost m\<close>
  is a statement that failed without effect, \<open>Ghost m\<close> one that took effect although the client
  saw an error (a connection cut after the commit), and an exhausted list means no more faults.
  Theorems quantify over the fault schedule, so they hold whatever fails where. Columns that no
  query or handler of the model reads (bookkeeping timestamps, \<open>created_by\<close>) are left out.
\<close>

section \<open>Rows\<close>

text \<open>A value of the Go string type \<open>InstanceState\<close> outside the enum is \<open>OtherState s\<close>.\<close>

datatype InstanceState =
    Pending | Provisioning | Running | Stopping | Stopped | Failed | OtherState string

primrec state_text :: "InstanceState \<Rightarrow> string" where
  "state_text Pending = ''pending''"
| "state_text Provisioning = ''provisioning''"
| "state_text Running = ''running''"
| "state_text Stopping = ''stopping''"
| "state_text Stopped = ''stopped''"
| "state_text Failed = ''failed''"
| "state_text (OtherState s) = s"

datatype NodeStatus = Offline | Online | Degraded | Draining

datatype SlotStatus = Free | Reserved | InUse | SlotDraining

record Instance =
  i_id :: uuid
  i_owner :: "uuid option"
  i_node :: uuid
  i_name :: string
  i_state :: InstanceState
  i_memory :: int
  i_vcpus :: int
  i_gpus :: int
  i_slots :: "int list"
  i_pubkeys :: "string list"
  i_ip :: "string option"
  i_image :: string
  i_error :: string
  i_created :: time
  i_updated :: time

record InstanceEvent =
  e_id :: nat
  e_instance :: uuid
  e_from :: "InstanceState option"
  e_to :: InstanceState
  e_reason :: string
  e_meta :: string
  e_created :: time

record GpuSlot =
  s_id :: uuid
  s_node :: uuid
  s_index :: int
  s_gpus :: int
  s_gpu_indices :: "int list"
  s_nvlink :: string
  s_status :: SlotStatus
  s_instance :: "uuid option"

record Node =
  n_id :: uuid
  n_zone :: uuid
  n_name :: string
  n_hostname :: string
  n_version :: string
  n_status :: NodeStatus
  n_topology :: string
  n_hash :: string
  n_heartbeat :: "time option"
  n_registered :: time
  n_updated :: time
  n_policy :: string
  n_team :: "uuid option"

record Credit =
  c_user :: uuid
  c_balance :: int
  c_updated :: time

record CreditLedger =
  l_id :: nat
  l_user :: uuid
  l_delta :: int
  l_reason :: string
  l_instance :: "uuid option"
  l_key :: string
  l_meta :: string
  l_created :: time

record User =
  u_id :: uuid
  u_email :: string
  u_hash :: string
  u_admin :: bool
  u_created :: time

record Session =
  ss_id :: uuid
  ss_user :: uuid
  ss_hash :: string
  ss_expires :: time
  ss_created :: time

record SshKey =
  k_id :: uuid
  k_user :: uuid
  k_label :: string
  k_pubkey :: string
  k_fingerprint :: string
  k_created :: time

record NodeToken =
  t_id :: uuid
  t_node :: uuid
  t_hash :: string
  t_created :: time
  t_revoked :: "time option"

record Team =
  tm_id :: uuid
  tm_name :: string
  tm_description :: string

record TeamMember =
  mb_team :: uuid
  mb_user :: uuid
  mb_joined :: time

record Zone =
  z_id :: uuid
  z_name :: string
  z_default :: bool

record tables =
  instances :: "Instance list"
  events :: "InstanceEvent list"
  slots :: "GpuSlot list"
  nodes :: "Node list"
  credits :: "Credit list"
  ledger :: "CreditLedger list"
  users :: "User list"
  sessions :: "Session list"
  ssh_keys :: "SshKey list"
  node_tokens :: "NodeToken list"
  teams :: "Team list"
  members :: "TeamMember list"
  zones :: "Zone list"

section \<open>The database connection\<close>

datatype fault = Fine | Lost string | Ghost string

text \<open>
  \<open>rnd\<close> is the source of \<open>gen_random_uuid()\<close>, any function at all: an identifier that is
  already taken makes the insert fail with a unique violation. \<open>ctr\<close> counts its draws and
  feeds the \<open>bigserial\<close> columns; \<open>clk\<close> is the value of \<open>now()\<close>.
\<close>

record pg =
  tbl :: tables
  faults :: "fault list"
  rnd :: "nat \<Rightarrow> uuid"
  ctr :: nat
  clk :: time

definition ErrNoRows :: err where
  "ErrNoRows = Err ''no rows in result set''"

definition conn_err :: "string \<Rightarrow> err" where
  "conn_err m = PgErr ''08006'' m"

definition unique_violation :: "string \<Rightarrow> err" where
  "unique_violation m = PgErr ''23505'' m"

definition fk_violation :: "string \<Rightarrow> err" where
  "fk_violation m = PgErr ''23503'' m"

definition check_violation :: "string \<Rightarrow> err" where
  "check_violation m = PgErr ''23514'' m"

definition out_of_range :: "string \<Rightarrow> err" where
  "out_of_range m = PgErr ''22003'' m"

lemmas pg_err_defs = ErrNoRows_def conn_err_def unique_violation_def fk_violation_def
  check_violation_def out_of_range_def

definition pop_fault :: "'z pg_scheme \<Rightarrow> fault \<times> 'z pg_scheme" where
  "pop_fault s = (case faults s of [] \<Rightarrow> (Fine, s) | f # fs \<Rightarrow> (f, s\<lparr>faults := fs\<rparr>))"

definition stmt :: "('z pg_scheme, 'a) action \<Rightarrow> ('z pg_scheme, 'a) action" where
  "stmt q s = (case pop_fault s of
       (Fine, s') \<Rightarrow> q s'
     | (Lost m, s') \<Rightarrow> (Inl (conn_err m), s')
     | (Ghost m, s') \<Rightarrow> (Inl (conn_err m), snd (q s')))"

text \<open>A query that only reads, and a statement that writes (its function is given a random
  UUID, a serial number and the time).\<close>

definition sel :: "(tables \<Rightarrow> err + 'a) \<Rightarrow> ('z pg_scheme, 'a) action" where
  "sel q = stmt (\<lambda>s. (q (tbl s), s))"

definition sel_now :: "(time \<Rightarrow> tables \<Rightarrow> err + 'a) \<Rightarrow> ('z pg_scheme, 'a) action" where
  "sel_now q = stmt (\<lambda>s. (q (clk s) (tbl s), s))"

definition dml :: "(uuid \<Rightarrow> nat \<Rightarrow> time \<Rightarrow> tables \<Rightarrow> err + 'a \<times> tables) \<Rightarrow> ('z pg_scheme, 'a) action" where
  "dml q = stmt (\<lambda>s. let s' = s\<lparr>ctr := Suc (ctr s)\<rparr> in
     case q (rnd s (ctr s)) (ctr s) (clk s) (tbl s) of
       Inl e \<Rightarrow> (Inl e, s')
     | Inr (x, t) \<Rightarrow> (Inr x, s'\<lparr>tbl := t\<rparr>))"

text \<open>
  \<open>Repo.inTx\<close>, the same in the packages \<open>instance\<close>, \<open>slot\<close> and \<open>credit\<close>: begin, run the
  body, commit; a failing body or commit leaves the deferred rollback to undo the writes. A
  commit whose acknowledgement is lost (\<open>Ghost\<close>) reports an error although it took effect.
\<close>

definition in_tx :: "('z pg_scheme, 'a) action \<Rightarrow> ('z pg_scheme, 'a) action" where
  "in_tx f s = (case stmt (ret ()) s of
       (Inl e, s1) \<Rightarrow> (Inl (WrapErr ''begin tx: '' e []), s1)
     | (Inr _, s1) \<Rightarrow> (case f s1 of
           (Inl e, s2) \<Rightarrow> (Inl e, s2\<lparr>tbl := tbl s1\<rparr>)
         | (Inr x, s2) \<Rightarrow> (case pop_fault s2 of
               (Fine, s3) \<Rightarrow> (Inr x, s3)
             | (Lost m, s3) \<Rightarrow> (Inl (conn_err m), s3\<lparr>tbl := tbl s1\<rparr>)
             | (Ghost m, s3) \<Rightarrow> (Inl (conn_err m), s3))))"

section \<open>Invariants on tables\<close>

definition tinv :: "(tables \<Rightarrow> bool) \<Rightarrow> 'z pg_scheme \<Rightarrow> bool" where
  "tinv I s = I (tbl s)"

lemma tbl_pop_fault: "pop_fault s = (f, s') \<Longrightarrow> tbl s' = tbl s"
  by (auto simp: pop_fault_def split: list.splits)

lemma frame_pop_fault:
  "pop_fault s = (f, s') \<Longrightarrow> clk s' = clk s \<and> rnd s' = rnd s \<and> ctr s' = ctr s"
  by (auto simp: pop_fault_def split: list.splits)

lemma pop_fault_no_faults: "faults s = [] \<Longrightarrow> pop_fault s = (Fine, s)"
  by (simp add: pop_fault_def)

lemma keeps_stmt [keeps_rules]: "keeps (tinv I) q \<Longrightarrow> keeps (tinv I) (stmt q)"
proof (rule keepsI)
  fix s :: "'a pg_scheme" assume q: "keeps (tinv I) q" and i: "tinv I s"
  obtain f s' where p: "pop_fault s = (f, s')" by fastforce
  then have "tbl s' = tbl s" by (rule tbl_pop_fault)
  with i have "tinv I s'" by (simp add: tinv_def)
  then have "tinv I (snd (q s'))" by (rule keepsD [OF q])
  with \<open>tinv I s'\<close> p show "tinv I (snd (stmt q s))"
    by (simp add: stmt_def split: fault.split)
qed

lemma keeps_sel [keeps_rules]: "keeps (tinv I) (sel q)"
  unfolding sel_def by (rule keeps_stmt) (simp add: keeps_def)

lemma keeps_sel_now [keeps_rules]: "keeps (tinv I) (sel_now q)"
  unfolding sel_now_def by (rule keeps_stmt) (simp add: keeps_def)

lemma keeps_dml:
  assumes "\<And>u n t T x T'. I T \<Longrightarrow> q u n t T = Inr (x, T') \<Longrightarrow> I T'"
  shows "keeps (tinv I) (dml q)"
  unfolding dml_def
  by (rule keeps_stmt, rule keepsI)
    (auto simp: tinv_def Let_def split: sum.splits intro: assms)

lemma keeps_in_tx [keeps_rules]:
  assumes "keeps (tinv I) f"
  shows "keeps (tinv I) (in_tx f)"
proof (rule keepsI)
  fix s :: "'a pg_scheme" assume i: "tinv I s"
  obtain r s1 where b: "stmt (ret ()) s = (r, s1)" by fastforce
  have i1: "tinv I s1"
    using keepsD_eq [OF keeps_stmt [OF keeps_ret] i b] .
  obtain x s2 where x: "f s1 = (x, s2)" by fastforce
  with assms i1 have i2: "tinv I s2" by (blast intro: keepsD_eq)
  obtain g s3 where g: "pop_fault s2 = (g, s3)" by fastforce
  with i2 have "tinv I s3" by (simp add: tinv_def tbl_pop_fault)
  with i1 b x g show "tinv I (snd (in_tx f s))"
    by (cases g) (auto simp: in_tx_def tinv_def split: sum.split)
qed

text \<open>What a transaction does to the tables: nothing, with an error; or all of the body's
  writes, reported as success or, when the acknowledgement was lost, as a connection error.\<close>

lemma in_tx_cases:
  assumes "in_tx f s = (r, s')"
  obtains (aborted) e where "r = Inl e" "tbl s' = tbl s"
  | (committed) x s1 s2 where "f s1 = (Inr x, s2)" "tbl s1 = tbl s" "clk s1 = clk s"
      "tbl s' = tbl s2" "r = Inr x \<or> (\<exists>m. r = Inl (conn_err m))"
proof -
  obtain b s1 where b: "stmt (ret ()) s = (b, s1)" by fastforce
  then have t1: "tbl s1 = tbl s" "clk s1 = clk s"
    by (auto simp: stmt_def ret_def split: prod.splits fault.splits dest: frame_pop_fault tbl_pop_fault)
  obtain x s2 where x: "f s1 = (x, s2)" by fastforce
  obtain g s3 where g: "pop_fault s2 = (g, s3)" by fastforce
  show thesis
  proof (cases b)
    case (Inl e)
    with assms b t1 show thesis by (auto simp: in_tx_def intro: aborted)
  next
    case b': (Inr _)
    show thesis
    proof (cases x)
      case (Inl e)
      with assms b b' x t1 show thesis by (auto simp: in_tx_def intro: aborted)
    next
      case (Inr y)
      with assms b b' x g t1 show thesis
        by (cases g) (auto simp: in_tx_def tbl_pop_fault intro: aborted committed)
    qed
  qed
qed

lemma in_tx_Inr:
  assumes "in_tx f s = (Inr x, s')"
  obtains s1 s2 where "f s1 = (Inr x, s2)" "tbl s1 = tbl s" "clk s1 = clk s" "tbl s' = tbl s2"
  using assms by (cases rule: in_tx_cases) (auto simp: conn_err_def)

text \<open>A transaction keeps an invariant when its body establishes it on success; what the body
  does on the way, or before it fails, does not matter.\<close>

lemma keeps_in_tx_final:
  assumes "\<And>s1 x s2. I (tbl s1) \<Longrightarrow> f s1 = (Inr x, s2) \<Longrightarrow> I (tbl s2)"
  shows "keeps (tinv I) (in_tx f)"
proof (rule keepsI)
  fix s :: "'a pg_scheme" assume i: "tinv I s"
  obtain r s' where r: "in_tx f s = (r, s')" by fastforce
  from r have "I (tbl s')"
  proof (cases rule: in_tx_cases)
    case aborted
    with i show ?thesis by (simp add: tinv_def)
  next
    case (committed x s1 s2)
    then show ?thesis using i assms [of s1 x s2] by (simp add: tinv_def)
  qed
  with r show "tinv I (snd (in_tx f s))" by (simp add: tinv_def)
qed

lemma sel_Inr:
  "sel q s = (Inr x, s') \<Longrightarrow> q (tbl s) = Inr x \<and> tbl s' = tbl s \<and> clk s' = clk s"
  by (auto simp: sel_def stmt_def tbl_pop_fault split: prod.splits fault.splits dest: frame_pop_fault)

lemma sel_tbl: "sel q s = (r, s') \<Longrightarrow> tbl s' = tbl s \<and> clk s' = clk s"
  by (auto simp: sel_def stmt_def tbl_pop_fault split: prod.splits fault.splits dest: frame_pop_fault)

lemma sel_now_Inr:
  "sel_now q s = (Inr x, s') \<Longrightarrow> q (clk s) (tbl s) = Inr x \<and> tbl s' = tbl s \<and> clk s' = clk s"
  by (auto simp: sel_now_def stmt_def tbl_pop_fault split: prod.splits fault.splits dest: frame_pop_fault)

lemma dml_Inr:
  assumes "dml q s = (Inr x, s')"
  obtains u n where "q u n (clk s) (tbl s) = Inr (x, tbl s')" "clk s' = clk s"
proof -
  obtain f s1 where p: "pop_fault s = (f, s1)" by fastforce
  note fr = tbl_pop_fault [OF p] frame_pop_fault [OF p]
  from assms p fr show thesis
    by (cases f) (auto simp: dml_def stmt_def Let_def split: sum.splits intro: that)
qed

lemma dml_Inl_tbl:
  assumes "dml q s = (Inl e, s')"
  obtains (none) "tbl s' = tbl s"
  | (ghost) u n x m where "q u n (clk s) (tbl s) = Inr (x, tbl s')" "e = conn_err m"
proof -
  obtain f s1 where p: "pop_fault s = (f, s1)" by fastforce
  note fr = tbl_pop_fault [OF p] frame_pop_fault [OF p]
  from assms p fr show thesis
    by (cases f) (auto simp: dml_def stmt_def Let_def split: sum.splits intro: none ghost)
qed

section \<open>Runs without faults\<close>

lemma stmt_fine: "faults s = [] \<Longrightarrow> stmt q s = q s"
  by (simp add: stmt_def pop_fault_def)

lemma sel_fine: "faults s = [] \<Longrightarrow> sel q s = (q (tbl s), s)"
  by (simp add: sel_def stmt_fine)

lemma sel_now_fine: "faults s = [] \<Longrightarrow> sel_now q s = (q (clk s) (tbl s), s)"
  by (simp add: sel_now_def stmt_fine)

lemma dml_fine:
  "faults s = [] \<Longrightarrow> dml q s =
     (case q (rnd s (ctr s)) (ctr s) (clk s) (tbl s) of
       Inl e \<Rightarrow> (Inl e, s\<lparr>ctr := Suc (ctr s)\<rparr>)
     | Inr (x, t) \<Rightarrow> (Inr x, s\<lparr>ctr := Suc (ctr s), tbl := t\<rparr>))"
  by (simp add: dml_def stmt_fine Let_def)

lemma in_tx_fine:
  assumes "faults s = []" and "f s = (r, s2)" and "faults s2 = []"
  shows "in_tx f s = (case r of Inl e \<Rightarrow> (Inl e, s2\<lparr>tbl := tbl s\<rparr>) | Inr x \<Rightarrow> (Inr x, s2))"
  using assms by (simp add: in_tx_def stmt_fine ret_def pop_fault_def split: sum.split)

lemmas fine_simps = stmt_fine sel_fine sel_now_fine dml_fine

text \<open>No fault is scheduled and the clock stands at \<open>t\<close>: kept by everything that runs between two
  ticks of the clock.\<close>

definition calm :: "time \<Rightarrow> 'z pg_scheme \<Rightarrow> bool" where
  "calm t s \<longleftrightarrow> faults s = [] \<and> clk s = t"

lemma keeps_calm_stmt [keeps_rules]: "keeps (calm t) q \<Longrightarrow> keeps (calm t) (stmt q)"
  by (auto simp: keeps_def calm_def stmt_fine)

lemma keeps_calm_sel [keeps_rules]: "keeps (calm t) (sel q)"
  by (simp add: keeps_def calm_def sel_fine)

lemma keeps_calm_sel_now [keeps_rules]: "keeps (calm t) (sel_now q)"
  by (simp add: keeps_def calm_def sel_now_fine)

lemma keeps_calm_dml [keeps_rules]: "keeps (calm t) (dml q)"
  by (auto simp: keeps_def calm_def dml_fine split: sum.split)

lemma in_tx_calm:
  assumes "calm t s" and "keeps (calm t) f"
  shows "in_tx f s = (case f s of (Inl e, s2) \<Rightarrow> (Inl e, s2\<lparr>tbl := tbl s\<rparr>) | (Inr x, s2) \<Rightarrow> (Inr x, s2))"
proof -
  obtain r s2 where r: "f s = (r, s2)" by fastforce
  with assms have "calm t s2" by (blast intro: keepsD_eq)
  with r assms(1) show ?thesis
    by (cases r) (simp_all add: calm_def in_tx_def stmt_fine ret_def pop_fault_def)
qed

lemma keeps_calm_in_tx [keeps_rules]:
  assumes "keeps (calm t) f"
  shows "keeps (calm t) (in_tx f)"
proof (rule keepsI)
  fix s :: "'a pg_scheme" assume c: "calm t s"
  obtain r s2 where r: "f s = (r, s2)" by fastforce
  with assms c have "calm t s2" by (blast intro: keepsD_eq)
  with r in_tx_calm [OF c assms] show "calm t (snd (in_tx f s))"
    by (cases r) (simp_all add: calm_def)
qed

text \<open>A failing transaction without faults has no effect.\<close>

lemma in_tx_calm_Inl:
  assumes "calm t s" and "keeps (calm t) f" and "in_tx f s = (Inl e, s')"
  shows "tbl s' = tbl s"
  using assms(3) by (auto simp: in_tx_calm [OF assms(1,2)] split: prod.splits sum.splits)

end
