(* ===== verification/Dbstore.thy ===== *)
theory Dbstore
  imports Schema
begin

text \<open>
  The queries of \<open>services/main-api/internal/db/dbstore\<close>, one definition per generated method,
  translated from the SQL text the method executes. Rows are kept in the order they were
  inserted: a query without \<open>order by\<close> lists them in that order, which SQL leaves open.
  Text is ordered by byte value.
\<close>

section \<open>Row sets\<close>

definition pick :: "('r \<Rightarrow> bool) \<Rightarrow> 'r list \<Rightarrow> err + 'r" where
  "pick P rs = (case find P rs of None \<Rightarrow> Inl ErrNoRows | Some r \<Rightarrow> Inr r)"

definition set_where :: "('r \<Rightarrow> bool) \<Rightarrow> ('r \<Rightarrow> 'r) \<Rightarrow> 'r list \<Rightarrow> 'r list" where
  "set_where P f rs = map (\<lambda>r. if P r then f r else r) rs"

definition count_where :: "('r \<Rightarrow> bool) \<Rightarrow> 'r list \<Rightarrow> int" where
  "count_where P rs = int (length (filter P rs))"

definition in_int64 :: "int \<Rightarrow> bool" where
  "in_int64 x \<longleftrightarrow> - (2 ^ 63) \<le> x \<and> x < 2 ^ 63"

definition valid_state :: "InstanceState \<Rightarrow> bool" where
  "valid_state st = (case st of OtherState _ \<Rightarrow> False | _ \<Rightarrow> True)"

definition bad_enum :: err where
  "bad_enum = PgErr ''22P02'' ''invalid input value for enum instance_state''"

text \<open>The SQL operator \<open>like\<close>: a percent sign matches any string, an underscore any one
  character, and a backslash takes the next character literally.\<close>

fun like :: "string \<Rightarrow> string \<Rightarrow> bool" where
  "like [] s = (s = [])"
| "like (p # ps) [] = (p = CHR ''%'' \<and> like ps [])"
| "like (p # ps) (c # cs) =
     (if p = CHR ''%'' then like ps (c # cs) \<or> like (p # ps) cs
      else if p = CHR ''_'' then like ps cs
      else if p = CHR 0x5C then (case ps of [] \<Rightarrow> False | q # qs \<Rightarrow> q = c \<and> like qs cs)
      else p = c \<and> like ps cs)"

section \<open>instances.sql.go\<close>

record CreateInstanceParams =
  ci_owner :: "uuid option"
  ci_node :: uuid
  ci_name :: string
  ci_memory :: int
  ci_vcpus :: int
  ci_gpus :: int
  ci_slots :: "int list"
  ci_pubkeys :: "string list"
  ci_image :: string

definition new_instance :: "uuid \<Rightarrow> time \<Rightarrow> CreateInstanceParams \<Rightarrow> Instance" where
  "new_instance u t a = \<lparr>i_id = u, i_owner = ci_owner a, i_node = ci_node a, i_name = ci_name a,
     i_state = Pending, i_memory = ci_memory a, i_vcpus = ci_vcpus a, i_gpus = ci_gpus a,
     i_slots = ci_slots a, i_pubkeys = ci_pubkeys a, i_ip = None, i_image = ci_image a,
     i_error = [], i_created = t, i_updated = t\<rparr>"

definition CreateInstance :: "CreateInstanceParams \<Rightarrow> ('z pg_scheme, Instance) action" where
  "CreateInstance a = dml (\<lambda>u _ t T.
     if ci_memory a \<le> 0 \<or> ci_vcpus a \<le> 0 \<or> ci_gpus a < 0 then Inl (check_violation ''instances'')
     else if \<exists>r\<in>set (instances T). i_id r = u then Inl (unique_violation ''instances_pkey'')
     else if (case ci_owner a of None \<Rightarrow> False | Some v \<Rightarrow> \<not> (\<exists>r\<in>set (users T). u_id r = v))
       then Inl (fk_violation ''instances_owner_id_fkey'')
     else if \<not> (\<exists>r\<in>set (nodes T). n_id r = ci_node a) then Inl (fk_violation ''instances_node_id_fkey'')
     else let r = new_instance u t a in Inr (r, T\<lparr>instances := instances T @ [r]\<rparr>))"

definition DeleteInstance :: "uuid \<Rightarrow> ('z pg_scheme, unit) action" where
  "DeleteInstance i = dml (\<lambda>_ _ _ T. Inr ((), T\<lparr>
     instances := filter (\<lambda>r. i_id r \<noteq> i) (instances T),
     events := filter (\<lambda>e. e_instance e \<noteq> i) (events T),
     slots := set_where (\<lambda>r. s_instance r = Some i) (\<lambda>r. r\<lparr>s_instance := None\<rparr>) (slots T)\<rparr>))"

definition GetInstance :: "uuid \<Rightarrow> ('z pg_scheme, Instance) action" where
  "GetInstance i = sel (\<lambda>T. pick (\<lambda>r. i_id r = i) (instances T))"

definition InsertInstanceEvent ::
  "uuid \<Rightarrow> InstanceState option \<Rightarrow> InstanceState \<Rightarrow> string \<Rightarrow> string \<Rightarrow> ('z pg_scheme, unit) action" where
  "InsertInstanceEvent i fr to reason meta = dml (\<lambda>_ n t T.
     if \<not> valid_state to \<or> (case fr of None \<Rightarrow> False | Some f \<Rightarrow> \<not> valid_state f) then Inl bad_enum
     else if \<not> (\<exists>r\<in>set (instances T). i_id r = i) then Inl (fk_violation ''instance_events_instance_id_fkey'')
     else Inr ((), T\<lparr>events := events T @ [\<lparr>e_id = n, e_instance = i, e_from = fr, e_to = to,
       e_reason = reason, e_meta = meta, e_created = t\<rparr>]\<rparr>))"

definition ListInstanceEvents :: "uuid \<Rightarrow> ('z pg_scheme, InstanceEvent list) action" where
  "ListInstanceEvents i = sel (\<lambda>T. Inr (sort_key e_created (filter (\<lambda>e. e_instance e = i) (events T))))"

definition ListInstances :: "uuid option \<Rightarrow> ('z pg_scheme, Instance list) action" where
  "ListInstances o' = sel (\<lambda>T. Inr (sort_key (\<lambda>r. - i_created r)
     (filter (\<lambda>r. o' = None \<or> i_owner r = o') (instances T))))"

definition ListInstancesByOwnerAndIDPrefix :: "uuid \<Rightarrow> string \<Rightarrow> ('z pg_scheme, Instance list) action" where
  "ListInstancesByOwnerAndIDPrefix o' p = sel (\<lambda>T. Inr (take 2
     (filter (\<lambda>r. i_owner r = Some o' \<and> like (p @ ''%'') (uuid_text (i_id r))) (instances T))))"

definition UpdateInstanceState ::
  "uuid \<Rightarrow> InstanceState \<Rightarrow> string option \<Rightarrow> string option \<Rightarrow> ('z pg_scheme, Instance) action" where
  "UpdateInstanceState i st er ip = dml (\<lambda>_ _ t T.
     if \<not> valid_state st then Inl bad_enum
     else let upd = (\<lambda>r. r\<lparr>i_state := st,
              i_error := (case er of None \<Rightarrow> i_error r | Some m \<Rightarrow> m),
              i_ip := (case ip of None \<Rightarrow> i_ip r | Some a \<Rightarrow> Some a),
              i_updated := t\<rparr>)
          in case find (\<lambda>r. i_id r = i) (instances T) of
               None \<Rightarrow> Inl ErrNoRows
             | Some r \<Rightarrow> Inr (upd r, T\<lparr>instances := set_where (\<lambda>r. i_id r = i) upd (instances T)\<rparr>))"

section \<open>credits.sql.go\<close>

definition GetCredits :: "uuid \<Rightarrow> ('z pg_scheme, Credit) action" where
  "GetCredits u = sel (\<lambda>T. pick (\<lambda>c. c_user c = u) (credits T))"

record InsertCreditLedgerEntryParams =
  lp_user :: uuid
  lp_delta :: int
  lp_reason :: string
  lp_instance :: "uuid option"
  lp_key :: string
  lp_meta :: string

definition InsertCreditLedgerEntry :: "InsertCreditLedgerEntryParams \<Rightarrow> ('z pg_scheme, CreditLedger) action" where
  "InsertCreditLedgerEntry a = dml (\<lambda>_ n t T.
     if \<exists>l\<in>set (ledger T). l_key l = lp_key a then Inl (unique_violation ''credit_ledger_idempotency_key_key'')
     else if \<not> (\<exists>r\<in>set (users T). u_id r = lp_user a) then Inl (fk_violation ''credit_ledger_user_id_fkey'')
     else let l = \<lparr>l_id = n, l_user = lp_user a, l_delta = lp_delta a, l_reason = lp_reason a,
              l_instance = lp_instance a, l_key = lp_key a, l_meta = lp_meta a, l_created = t\<rparr>
          in Inr (l, T\<lparr>ledger := ledger T @ [l]\<rparr>))"

definition ListBillableRunningInstances :: "('z pg_scheme, (uuid \<times> uuid option \<times> int) list) action" where
  "ListBillableRunningInstances = sel (\<lambda>T. Inr (map (\<lambda>r. (i_id r, i_owner r, i_gpus r))
     (filter (\<lambda>r. i_state r = Running \<and> i_owner r \<noteq> None) (instances T))))"

definition ListCreditLedgerEntries :: "uuid \<Rightarrow> int \<Rightarrow> ('z pg_scheme, CreditLedger list) action" where
  "ListCreditLedgerEntries u lim = sel (\<lambda>T. Inr (take (nat lim)
     (sort_key (\<lambda>l. (- l_created l, - int (l_id l))) (filter (\<lambda>l. l_user l = u) (ledger T)))))"

definition ListUsersWithNegativeBalance :: "('z pg_scheme, uuid list) action" where
  "ListUsersWithNegativeBalance = sel (\<lambda>T. Inr (map c_user (filter (\<lambda>c. c_balance c \<le> 0) (credits T))))"

definition UpsertCredits :: "uuid \<Rightarrow> int \<Rightarrow> ('z pg_scheme, unit) action" where
  "UpsertCredits u d = dml (\<lambda>_ _ t T.
     case find (\<lambda>c. c_user c = u) (credits T) of
       None \<Rightarrow>
         if \<not> (\<exists>r\<in>set (users T). u_id r = u) then Inl (fk_violation ''credits_user_id_fkey'')
         else Inr ((), T\<lparr>credits := credits T @ [\<lparr>c_user = u, c_balance = d, c_updated = t\<rparr>]\<rparr>)
     | Some c \<Rightarrow>
         if \<not> in_int64 (c_balance c + d) then Inl (out_of_range ''bigint out of range'')
         else Inr ((), T\<lparr>credits := set_where (\<lambda>c. c_user c = u)
                (\<lambda>c. c\<lparr>c_balance := c_balance c + d, c_updated := t\<rparr>) (credits T)\<rparr>))"

section \<open>nodes.sql.go\<close>

definition GetDefaultZone :: "('z pg_scheme, Zone) action" where
  "GetDefaultZone = sel (\<lambda>T. pick z_default (zones T))"

definition GetNode :: "uuid \<Rightarrow> ('z pg_scheme, Node) action" where
  "GetNode i = sel (\<lambda>T. pick (\<lambda>n. n_id n = i) (nodes T))"

definition GetNodeByName :: "string \<Rightarrow> ('z pg_scheme, Node) action" where
  "GetNodeByName nm = sel (\<lambda>T. pick (\<lambda>n. n_name n = nm) (nodes T))"

definition ListNodes :: "('z pg_scheme, Node list) action" where
  "ListNodes = sel (\<lambda>T. Inr (sort_key n_name (nodes T)))"

definition ListNodesAccessibleToUser :: "uuid \<Rightarrow> ('z pg_scheme, Node list) action" where
  "ListNodesAccessibleToUser u = sel (\<lambda>T. Inr (sort_key n_name (filter (\<lambda>n.
     n_policy n = ''public'' \<or>
     n_policy n = ''owner_team'' \<and>
       (case n_team n of None \<Rightarrow> False
        | Some t \<Rightarrow> \<exists>m\<in>set (members T). mb_user m = u \<and> mb_team m = t)) (nodes T))))"

definition ListNonTerminalInstancesForNode :: "uuid \<Rightarrow> ('z pg_scheme, (uuid \<times> InstanceState) list) action" where
  "ListNonTerminalInstancesForNode nd = sel (\<lambda>T. Inr (map (\<lambda>r. (i_id r, i_state r))
     (filter (\<lambda>r. i_node r = nd \<and> i_state r \<in> {Pending, Provisioning, Running}) (instances T))))"

definition node_is_stale :: "time \<Rightarrow> Node \<Rightarrow> bool" where
  "node_is_stale cutoff n \<longleftrightarrow> n_status n \<noteq> Offline \<and>
     (case n_heartbeat n of None \<Rightarrow> True | Some t \<Rightarrow> t < cutoff)"

definition MarkStaleNodesOfflineReturning :: "time \<Rightarrow> ('z pg_scheme, uuid list) action" where
  "MarkStaleNodesOfflineReturning cutoff = dml (\<lambda>_ _ t T.
     Inr (map n_id (filter (node_is_stale cutoff) (nodes T)),
          T\<lparr>nodes := set_where (node_is_stale cutoff)
               (\<lambda>n. n\<lparr>n_status := Offline, n_updated := t\<rparr>) (nodes T)\<rparr>))"

definition NodeAccessPolicy :: "uuid \<Rightarrow> ('z pg_scheme, string \<times> uuid option) action" where
  "NodeAccessPolicy i = sel (\<lambda>T. case pick (\<lambda>n. n_id n = i) (nodes T) of
     Inl e \<Rightarrow> Inl e | Inr n \<Rightarrow> Inr (n_policy n, n_team n))"

definition TouchNodeHeartbeat :: "uuid \<Rightarrow> ('z pg_scheme, unit) action" where
  "TouchNodeHeartbeat i = dml (\<lambda>_ _ t T. Inr ((), T\<lparr>nodes := set_where (\<lambda>n. n_id n = i)
     (\<lambda>n. n\<lparr>n_heartbeat := Some t,
            n_status := (if n_status n = Offline then Online else n_status n),
            n_updated := t\<rparr>) (nodes T)\<rparr>))"

record UpsertNodeParams =
  un_zone :: uuid
  un_name :: string
  un_hostname :: string
  un_version :: string
  un_topology :: string

definition UpsertNode :: "UpsertNodeParams \<Rightarrow> ('z pg_scheme, Node) action" where
  "UpsertNode a = dml (\<lambda>u _ t T.
     let upd = (\<lambda>n. n\<lparr>n_hostname := un_hostname a, n_version := un_version a, n_status := Online,
                n_topology := un_topology a, n_heartbeat := Some t, n_updated := t\<rparr>)
     in case find (\<lambda>n. n_name n = un_name a) (nodes T) of
          Some n \<Rightarrow> Inr (upd n, T\<lparr>nodes := set_where (\<lambda>n. n_name n = un_name a) upd (nodes T)\<rparr>)
        | None \<Rightarrow>
            if \<exists>n\<in>set (nodes T). n_id n = u then Inl (unique_violation ''nodes_pkey'')
            else if \<not> (\<exists>z\<in>set (zones T). z_id z = un_zone a) then Inl (fk_violation ''nodes_zone_id_fkey'')
            else let n = \<lparr>n_id = u, n_zone = un_zone a, n_name = un_name a, n_hostname = un_hostname a,
                     n_version = un_version a, n_status = Online, n_topology = un_topology a,
                     n_hash = [], n_heartbeat = Some t, n_registered = t, n_updated = t,
                     n_policy = ''public'', n_team = None\<rparr>
                 in Inr (n, T\<lparr>nodes := nodes T @ [n]\<rparr>))"

section \<open>slots.sql.go\<close>

definition BindSlotToInstance :: "uuid \<Rightarrow> uuid \<Rightarrow> ('z pg_scheme, GpuSlot) action" where
  "BindSlotToInstance sid inst = dml (\<lambda>_ _ _ T.
     let P = (\<lambda>r. s_id r = sid \<and> s_status r = Reserved);
         upd = (\<lambda>r. r\<lparr>s_status := InUse, s_instance := Some inst\<rparr>)
     in case find P (slots T) of
          None \<Rightarrow> Inl ErrNoRows
        | Some r \<Rightarrow>
            if \<not> (\<exists>i\<in>set (instances T). i_id i = inst) then Inl (fk_violation ''gpu_slots_current_instance_fkey'')
            else Inr (upd r, T\<lparr>slots := set_where P upd (slots T)\<rparr>))"

definition CountFreeSlotsByGPUCount :: "uuid \<Rightarrow> int \<Rightarrow> ('z pg_scheme, int) action" where
  "CountFreeSlotsByGPUCount nd g = sel (\<lambda>T. Inr (count_where
     (\<lambda>r. s_node r = nd \<and> s_gpus r = g \<and> s_status r = Free) (slots T)))"

definition CountNonFreeSlotsForNode :: "uuid \<Rightarrow> ('z pg_scheme, int) action" where
  "CountNonFreeSlotsForNode nd = sel (\<lambda>T. Inr (count_where
     (\<lambda>r. s_node r = nd \<and> s_status r \<noteq> Free) (slots T)))"

definition DeleteSlotsForNode :: "uuid \<Rightarrow> ('z pg_scheme, int) action" where
  "DeleteSlotsForNode nd = dml (\<lambda>_ _ _ T.
     Inr (count_where (\<lambda>r. s_node r = nd) (slots T),
          T\<lparr>slots := filter (\<lambda>r. s_node r \<noteq> nd) (slots T)\<rparr>))"

definition InsertSlot :: "uuid \<Rightarrow> int \<Rightarrow> int \<Rightarrow> int list \<Rightarrow> string \<Rightarrow> ('z pg_scheme, GpuSlot) action" where
  "InsertSlot nd ix g gs nv = dml (\<lambda>u _ _ T.
     if g \<le> 0 then Inl (check_violation ''gpu_slots_gpu_count_check'')
     else if \<exists>r\<in>set (slots T). s_id r = u then Inl (unique_violation ''gpu_slots_pkey'')
     else if \<exists>r\<in>set (slots T). s_node r = nd \<and> s_index r = ix
       then Inl (unique_violation ''gpu_slots_node_id_slot_index_key'')
     else if \<not> (\<exists>n\<in>set (nodes T). n_id n = nd) then Inl (fk_violation ''gpu_slots_node_id_fkey'')
     else let r = \<lparr>s_id = u, s_node = nd, s_index = ix, s_gpus = g, s_gpu_indices = gs,
                   s_nvlink = nv, s_status = Free, s_instance = None\<rparr>
          in Inr (r, T\<lparr>slots := slots T @ [r]\<rparr>))"

definition ListSlotsForNode :: "uuid \<Rightarrow> ('z pg_scheme, GpuSlot list) action" where
  "ListSlotsForNode nd = sel (\<lambda>T. Inr (sort_key s_index (filter (\<lambda>r. s_node r = nd) (slots T))))"

text \<open>\<open>LockNodeForReservation\<close> takes an advisory lock that the transaction holds to its end:
  transactions on one node run one after the other, as actions do here.\<close>

definition LockNodeForReservation :: "uuid \<Rightarrow> ('z pg_scheme, unit) action" where
  "LockNodeForReservation nd = sel (\<lambda>_. Inr ())"

definition ReleaseAllOrphanReservedSlots :: "('z pg_scheme, int) action" where
  "ReleaseAllOrphanReservedSlots = dml (\<lambda>_ _ _ T.
     let P = (\<lambda>r. s_status r = Reserved \<and> s_instance r = None)
     in Inr (count_where P (slots T),
             T\<lparr>slots := set_where P (\<lambda>r. r\<lparr>s_status := Free, s_instance := None\<rparr>) (slots T)\<rparr>))"

definition ReleaseReservedSlots :: "uuid list \<Rightarrow> ('z pg_scheme, int) action" where
  "ReleaseReservedSlots ids = dml (\<lambda>_ _ _ T.
     let P = (\<lambda>r. s_id r \<in> set ids \<and> s_status r = Reserved)
     in Inr (count_where P (slots T),
             T\<lparr>slots := set_where P (\<lambda>r. r\<lparr>s_status := Free, s_instance := None\<rparr>) (slots T)\<rparr>))"

definition ReleaseSlotsForInstance :: "uuid \<Rightarrow> ('z pg_scheme, int) action" where
  "ReleaseSlotsForInstance i = dml (\<lambda>_ _ _ T.
     let P = (\<lambda>r. s_instance r = Some i)
     in Inr (count_where P (slots T),
             T\<lparr>slots := set_where P (\<lambda>r. r\<lparr>s_status := Free, s_instance := None\<rparr>) (slots T)\<rparr>))"

text \<open>The order of candidates in \<open>ReserveFreeSlots\<close>: slots with an NVLink domain first, then by
  domain, then by index.\<close>

definition slot_rank :: "GpuSlot \<Rightarrow> nat \<times> string \<times> int" where
  "slot_rank r = (if s_nvlink r \<noteq> [] then 0 else 1, s_nvlink r, s_index r)"

definition reservable :: "uuid \<Rightarrow> int \<Rightarrow> GpuSlot \<Rightarrow> bool" where
  "reservable nd g r \<longleftrightarrow> s_node r = nd \<and> s_status r = Free \<and> s_gpus r = g"

definition picked :: "uuid \<Rightarrow> int \<Rightarrow> nat \<Rightarrow> GpuSlot list \<Rightarrow> GpuSlot list" where
  "picked nd g lim rs = take lim (sort_key slot_rank (filter (reservable nd g) rs))"

definition ReserveFreeSlots :: "uuid \<Rightarrow> int \<Rightarrow> int \<Rightarrow> ('z pg_scheme, GpuSlot list) action" where
  "ReserveFreeSlots nd g lim = dml (\<lambda>_ _ _ T.
     let ids = map s_id (picked nd g (nat lim) (slots T));
         upd = (\<lambda>r. r\<lparr>s_status := Reserved\<rparr>)
     in Inr (map upd (filter (\<lambda>r. s_id r \<in> set ids) (slots T)),
             T\<lparr>slots := set_where (\<lambda>r. s_id r \<in> set ids) upd (slots T)\<rparr>))"

definition UpdateNodeProfileHash :: "uuid \<Rightarrow> string \<Rightarrow> ('z pg_scheme, unit) action" where
  "UpdateNodeProfileHash nd h = dml (\<lambda>_ _ t T. Inr ((), T\<lparr>nodes := set_where (\<lambda>n. n_id n = nd)
     (\<lambda>n. n\<lparr>n_hash := h, n_updated := t\<rparr>) (nodes T)\<rparr>))"

section \<open>ssh\_keys.sql.go\<close>

definition CreateSSHKey :: "uuid \<Rightarrow> string \<Rightarrow> string \<Rightarrow> string \<Rightarrow> ('z pg_scheme, SshKey) action" where
  "CreateSSHKey usr lbl pub fp = dml (\<lambda>u _ t T.
     if \<exists>k\<in>set (ssh_keys T). k_id k = u then Inl (unique_violation ''ssh_keys_pkey'')
     else if \<exists>k\<in>set (ssh_keys T). k_user k = usr \<and> k_fingerprint k = fp
       then Inl (unique_violation ''ssh_keys_user_id_fingerprint_key'')
     else if \<not> (\<exists>r\<in>set (users T). u_id r = usr) then Inl (fk_violation ''ssh_keys_user_id_fkey'')
     else let k = \<lparr>k_id = u, k_user = usr, k_label = lbl, k_pubkey = pub, k_fingerprint = fp,
                   k_created = t\<rparr>
          in Inr (k, T\<lparr>ssh_keys := ssh_keys T @ [k]\<rparr>))"

definition DeleteSSHKeyForUser :: "uuid \<Rightarrow> uuid \<Rightarrow> ('z pg_scheme, int) action" where
  "DeleteSSHKeyForUser kid usr = dml (\<lambda>_ _ _ T.
     Inr (count_where (\<lambda>k. k_id k = kid \<and> k_user k = usr) (ssh_keys T),
          T\<lparr>ssh_keys := filter (\<lambda>k. \<not> (k_id k = kid \<and> k_user k = usr)) (ssh_keys T)\<rparr>))"

definition ListSSHKeysForUser :: "uuid \<Rightarrow> ('z pg_scheme, SshKey list) action" where
  "ListSSHKeysForUser usr = sel (\<lambda>T. Inr (sort_key (\<lambda>k. - k_created k)
     (filter (\<lambda>k. k_user k = usr) (ssh_keys T))))"

definition LookupSSHKeyByFingerprint :: "string \<Rightarrow> ('z pg_scheme, SshKey) action" where
  "LookupSSHKeyByFingerprint fp = sel (\<lambda>T. pick (\<lambda>k. k_fingerprint k = fp) (ssh_keys T))"

section \<open>users.sql.go\<close>

definition CreateUser_q :: "string \<Rightarrow> string \<Rightarrow> bool \<Rightarrow> ('z pg_scheme, User) action" where
  "CreateUser_q em ph adm = dml (\<lambda>u _ t T.
     if \<exists>r\<in>set (users T). u_id r = u then Inl (unique_violation ''users_pkey'')
     else if \<exists>r\<in>set (users T). u_email r = em then Inl (unique_violation ''users_email_key'')
     else let r = \<lparr>u_id = u, u_email = em, u_hash = ph, u_admin = adm, u_created = t\<rparr>
          in Inr (r, T\<lparr>users := users T @ [r]\<rparr>))"

definition GetUserByEmail :: "string \<Rightarrow> ('z pg_scheme, User) action" where
  "GetUserByEmail em = sel (\<lambda>T. pick (\<lambda>r. u_email r = em) (users T))"

definition GetUser_q :: "uuid \<Rightarrow> ('z pg_scheme, User) action" where
  "GetUser_q i = sel (\<lambda>T. pick (\<lambda>r. u_id r = i) (users T))"

definition CreateSession_q :: "uuid \<Rightarrow> string \<Rightarrow> time \<Rightarrow> ('z pg_scheme, Session) action" where
  "CreateSession_q usr h ex = dml (\<lambda>u _ t T.
     if \<exists>r\<in>set (sessions T). ss_id r = u then Inl (unique_violation ''sessions_pkey'')
     else if \<exists>r\<in>set (sessions T). ss_hash r = h then Inl (unique_violation ''sessions_token_hash_key'')
     else if \<not> (\<exists>r\<in>set (users T). u_id r = usr) then Inl (fk_violation ''sessions_user_id_fkey'')
     else let r = \<lparr>ss_id = u, ss_user = usr, ss_hash = h, ss_expires = ex, ss_created = t\<rparr>
          in Inr (r, T\<lparr>sessions := sessions T @ [r]\<rparr>))"

definition GetSessionByTokenHash :: "string \<Rightarrow> ('z pg_scheme, Session) action" where
  "GetSessionByTokenHash h = sel_now (\<lambda>t T. pick (\<lambda>r. ss_hash r = h \<and> ss_expires r > t) (sessions T))"

definition DeleteSessionByTokenHash :: "string \<Rightarrow> ('z pg_scheme, unit) action" where
  "DeleteSessionByTokenHash h = dml (\<lambda>_ _ _ T.
     Inr ((), T\<lparr>sessions := filter (\<lambda>r. ss_hash r \<noteq> h) (sessions T)\<rparr>))"

definition DeleteExpiredSessions :: "('z pg_scheme, int) action" where
  "DeleteExpiredSessions = dml (\<lambda>_ _ t T.
     Inr (count_where (\<lambda>r. ss_expires r \<le> t) (sessions T),
          T\<lparr>sessions := filter (\<lambda>r. \<not> ss_expires r \<le> t) (sessions T)\<rparr>))"

section \<open>node\_tokens.sql.go and teams.sql.go\<close>

definition NodeTokenInsert :: "uuid \<Rightarrow> string \<Rightarrow> ('z pg_scheme, NodeToken) action" where
  "NodeTokenInsert nd h = dml (\<lambda>u _ t T.
     if \<exists>r\<in>set (node_tokens T). t_id r = u then Inl (unique_violation ''node_tokens_pkey'')
     else if \<exists>r\<in>set (node_tokens T). t_node r = nd \<and> t_hash r = h
       then Inl (unique_violation ''node_tokens_node_hash_idx'')
     else if \<not> (\<exists>n\<in>set (nodes T). n_id n = nd) then Inl (fk_violation ''node_tokens_node_id_fkey'')
     else let r = \<lparr>t_id = u, t_node = nd, t_hash = h, t_created = t, t_revoked = None\<rparr>
          in Inr (r, T\<lparr>node_tokens := node_tokens T @ [r]\<rparr>))"

definition NodeTokenRevoke :: "uuid \<Rightarrow> ('z pg_scheme, unit) action" where
  "NodeTokenRevoke i = dml (\<lambda>_ _ t T. Inr ((), T\<lparr>node_tokens :=
     set_where (\<lambda>r. t_id r = i \<and> t_revoked r = None) (\<lambda>r. r\<lparr>t_revoked := Some t\<rparr>) (node_tokens T)\<rparr>))"

definition ListActiveNodeTokens :: "uuid \<Rightarrow> ('z pg_scheme, NodeToken list) action" where
  "ListActiveNodeTokens nd = sel (\<lambda>T. Inr (filter (\<lambda>r. t_node r = nd \<and> t_revoked r = None) (node_tokens T)))"

definition ListNodeTokens :: "uuid \<Rightarrow> ('z pg_scheme, NodeToken list) action" where
  "ListNodeTokens nd = sel (\<lambda>T. Inr (sort_key (\<lambda>r. - t_created r) (filter (\<lambda>r. t_node r = nd) (node_tokens T))))"

definition IsUserInTeam :: "uuid \<Rightarrow> uuid \<Rightarrow> ('z pg_scheme, bool) action" where
  "IsUserInTeam usr team = sel (\<lambda>T. Inr (\<exists>m\<in>set (members T). mb_user m = usr \<and> mb_team m = team))"

definition TeamCreate :: "string \<Rightarrow> string \<Rightarrow> ('z pg_scheme, Team) action" where
  "TeamCreate nm ds = dml (\<lambda>u _ _ T.
     if \<exists>r\<in>set (teams T). tm_id r = u then Inl (unique_violation ''teams_pkey'')
     else if \<exists>r\<in>set (teams T). tm_name r = nm then Inl (unique_violation ''teams_name_key'')
     else let r = \<lparr>tm_id = u, tm_name = nm, tm_description = ds\<rparr>
          in Inr (r, T\<lparr>teams := teams T @ [r]\<rparr>))"

definition TeamGetByName :: "string \<Rightarrow> ('z pg_scheme, Team) action" where
  "TeamGetByName nm = sel (\<lambda>T. pick (\<lambda>r. tm_name r = nm) (teams T))"

definition TeamMemberAdd :: "uuid \<Rightarrow> uuid \<Rightarrow> ('z pg_scheme, unit) action" where
  "TeamMemberAdd team usr = dml (\<lambda>_ _ t T.
     if \<exists>m\<in>set (members T). mb_team m = team \<and> mb_user m = usr then Inr ((), T)
     else if \<not> (\<exists>r\<in>set (teams T). tm_id r = team) then Inl (fk_violation ''team_members_team_id_fkey'')
     else if \<not> (\<exists>r\<in>set (users T). u_id r = usr) then Inl (fk_violation ''team_members_user_id_fkey'')
     else Inr ((), T\<lparr>members := members T @ [\<lparr>mb_team = team, mb_user = usr, mb_joined = t\<rparr>]\<rparr>))"

definition TeamMemberRemove :: "uuid \<Rightarrow> uuid \<Rightarrow> ('z pg_scheme, unit) action" where
  "TeamMemberRemove team usr = dml (\<lambda>_ _ _ T.
     Inr ((), T\<lparr>members := filter (\<lambda>m. \<not> (mb_team m = team \<and> mb_user m = usr)) (members T)\<rparr>))"

definition TeamGet :: "uuid \<Rightarrow> ('z pg_scheme, Team) action" where
  "TeamGet i = sel (\<lambda>T. pick (\<lambda>r. tm_id r = i) (teams T))"

definition TeamList :: "('z pg_scheme, Team list) action" where
  "TeamList = sel (\<lambda>T. Inr (sort_key tm_name (teams T)))"

definition TeamIDsForUser :: "uuid \<Rightarrow> ('z pg_scheme, uuid list) action" where
  "TeamIDsForUser usr = sel (\<lambda>T. Inr (map mb_team (filter (\<lambda>m. mb_user m = usr) (members T))))"

text \<open>A row of \<open>TeamMembersForTeam\<close>: user, joining time, e-mail.\<close>

definition TeamMembersForTeam :: "uuid \<Rightarrow> ('z pg_scheme, (uuid \<times> time \<times> string) list) action" where
  "TeamMembersForTeam team = sel (\<lambda>T. Inr (sort_key (\<lambda>r. snd (snd r))
     (concat (map (\<lambda>m. map (\<lambda>u. (mb_user m, mb_joined m, u_email u))
        (filter (\<lambda>u. u_id u = mb_user m) (users T))) (filter (\<lambda>m. mb_team m = team) (members T))))))"

definition GetActiveNodeToken :: "uuid \<Rightarrow> string \<Rightarrow> ('z pg_scheme, NodeToken) action" where
  "GetActiveNodeToken nd h = sel (\<lambda>T. pick (\<lambda>r. t_node r = nd \<and> t_hash r = h \<and> t_revoked r = None) (node_tokens T))"

definition MarkStaleNodesOffline :: "time \<Rightarrow> ('z pg_scheme, int) action" where
  "MarkStaleNodesOffline cutoff = dml (\<lambda>_ _ t T.
     Inr (count_where (node_is_stale cutoff) (nodes T),
          T\<lparr>nodes := set_where (node_is_stale cutoff)
               (\<lambda>n. n\<lparr>n_status := Offline, n_updated := t\<rparr>) (nodes T)\<rparr>))"

definition GetSSHKeyForUser :: "uuid \<Rightarrow> uuid \<Rightarrow> ('z pg_scheme, SshKey) action" where
  "GetSSHKeyForUser kid usr = sel (\<lambda>T. pick (\<lambda>k. k_id k = kid \<and> k_user k = usr) (ssh_keys T))"

section \<open>admin.sql.go\<close>

record ListSlotsForAdminViewRow =
  sr_id :: uuid
  sr_node :: uuid
  sr_node_name :: string
  sr_index :: int
  sr_gpus :: int
  sr_gpu_indices :: "int list"
  sr_nvlink :: string
  sr_status :: SlotStatus
  sr_instance :: "uuid option"

definition ListSlotsForAdminView :: "('z pg_scheme, ListSlotsForAdminViewRow list) action" where
  "ListSlotsForAdminView = sel (\<lambda>T. Inr (sort_key (\<lambda>r. (sr_node_name r, sr_index r))
     (concat (map (\<lambda>s. map (\<lambda>n. \<lparr>sr_id = s_id s, sr_node = s_node s, sr_node_name = n_name n,
        sr_index = s_index s, sr_gpus = s_gpus s, sr_gpu_indices = s_gpu_indices s,
        sr_nvlink = s_nvlink s, sr_status = s_status s, sr_instance = s_instance s\<rparr>)
        (filter (\<lambda>n. n_id n = s_node s) (nodes T))) (slots T)))))"

record ListUsersAdminViewRow =
  ur_id :: uuid
  ur_email :: string
  ur_admin :: bool
  ur_created :: time
  ur_balance :: int
  ur_active :: int

definition ListUsersAdminView :: "int \<Rightarrow> ('z pg_scheme, ListUsersAdminViewRow list) action" where
  "ListUsersAdminView lim = sel (\<lambda>T. Inr (take (nat lim) (sort_key (\<lambda>r. - ur_created r)
     (map (\<lambda>u. \<lparr>ur_id = u_id u, ur_email = u_email u, ur_admin = u_admin u, ur_created = u_created u,
        ur_balance = (case find (\<lambda>c. c_user c = u_id u) (credits T) of None \<Rightarrow> 0 | Some c \<Rightarrow> c_balance c),
        ur_active = count_where (\<lambda>i. i_owner i = Some (u_id u) \<and>
          i_state i \<in> {Pending, Provisioning, Running, Stopping}) (instances T)\<rparr>) (users T)))))"

section \<open>Laws of row sets\<close>

lemma pick_Inr: "pick P rs = Inr r \<Longrightarrow> r \<in> set rs \<and> P r"
  by (auto simp: pick_def split: option.splits dest: find_SomeD)

lemma pick_Inl: "pick P rs = Inl e \<longleftrightarrow> e = ErrNoRows \<and> (\<forall>r\<in>set rs. \<not> P r)"
proof (cases "find P rs")
  case None
  then have "\<forall>r\<in>set rs. \<not> P r" by (simp add: find_None_iff)
  with None show ?thesis by (auto simp: pick_def)
next
  case (Some r)
  then show ?thesis using find_SomeD [OF Some] by (auto simp: pick_def)
qed

lemma set_where_simps [simp]:
  "set_where P f [] = []"
  "set_where P f (r # rs) = (if P r then f r else r) # set_where P f rs"
  by (simp_all add: set_where_def)

lemma length_set_where [simp]: "length (set_where P f rs) = length rs"
  by (simp add: set_where_def)

lemma in_set_where: "r \<in> set (set_where P f rs) \<longleftrightarrow> (\<exists>q\<in>set rs. r = (if P q then f q else q))"
  by (auto simp: set_where_def)

lemma ex_set_where:
  "(\<And>r. k (f r) = k r) \<Longrightarrow> (\<exists>q\<in>set (set_where P f rs). k q = x) \<longleftrightarrow> (\<exists>q\<in>set rs. k q = x)"
  by (auto simp: set_where_def)

lemma map_set_where: "(\<And>r. k (f r) = k r) \<Longrightarrow> map k (set_where P f rs) = map k rs"
  by (simp add: set_where_def)

lemma filter_set_where_False:
  "(\<And>r. r \<in> set rs \<Longrightarrow> Q r \<Longrightarrow> \<not> P r) \<Longrightarrow> (\<And>r. r \<in> set rs \<Longrightarrow> P r \<Longrightarrow> \<not> Q (f r)) \<Longrightarrow>
   filter Q (set_where P f rs) = filter Q rs"
  by (induction rs) auto

lemma find_set_where_other:
  "(\<And>r. k (f r) = k r) \<Longrightarrow> (\<And>r. P r \<Longrightarrow> k r \<noteq> x) \<Longrightarrow>
   find (\<lambda>r. k r = x) (set_where P f rs) = find (\<lambda>r. k r = x) rs"
  by (induction rs) (auto split: if_splits)

lemma find_set_where_key:
  "(\<And>r. k (f r) = k r) \<Longrightarrow>
   find (\<lambda>r. k r = x) (set_where (\<lambda>r. k r = y) f rs) =
     (if x = y then map_option f (find (\<lambda>r. k r = x) rs) else find (\<lambda>r. k r = x) rs)"
  by (induction rs) auto

lemma like_prefix:
  assumes "set p \<inter> {CHR ''%'', CHR ''_'', CHR 0x5C} = {}"
  shows "like (p @ ''%'') s \<longleftrightarrow> prefix p s"
  using assms
proof (induction p arbitrary: s)
  case Nil
  have "like ''%'' s" by (induction s) auto
  then show ?case by simp
next
  case (Cons c p)
  then show ?case by (cases s) auto
qed

lemma in_int64_0 [simp]: "in_int64 0"
  by (simp add: in_int64_def)

end
