(* ===== verification/InstanceRepo.thy ===== *)
theory InstanceRepo
  imports Dbstore
begin

text \<open>
  Package \<open>instance\<close> of main-api: the lifecycle state machine (\<open>state.go\<close>) and the repository
  that persists transitions together with their audit events (\<open>repo.go\<close>).
\<close>

section \<open>The state machine\<close>

definition AllStates :: "InstanceState list" where
  "AllStates = [Pending, Provisioning, Running, Stopping, Stopped, Failed]"

definition allowedTransitions :: "InstanceState \<Rightarrow> InstanceState list option" where
  "allowedTransitions st = (case st of
       Pending \<Rightarrow> Some [Provisioning, Failed, Stopped]
     | Provisioning \<Rightarrow> Some [Running, Failed, Stopping]
     | Running \<Rightarrow> Some [Stopping, Failed]
     | Stopping \<Rightarrow> Some [Stopped, Failed]
     | Stopped \<Rightarrow> Some []
     | Failed \<Rightarrow> Some []
     | OtherState _ \<Rightarrow> None)"

definition IsTerminal :: "InstanceState \<Rightarrow> bool" where
  "IsTerminal st \<longleftrightarrow> st = Stopped \<or> st = Failed"

definition ErrInvalidTransition :: err where
  "ErrInvalidTransition = Err ''instance: invalid state transition''"

definition CanTransition :: "InstanceState \<Rightarrow> InstanceState \<Rightarrow> bool" where
  "CanTransition fr to =
     (if fr = to then True
      else case allowedTransitions fr of
             None \<Rightarrow> False
           | Some allowed \<Rightarrow> to \<in> set allowed)"

definition Validate_state :: "InstanceState \<Rightarrow> err option" where
  "Validate_state st = (if st \<in> set AllStates then None
     else Some (Err (''instance: unknown state '' @ quoted (state_text st))))"

section \<open>The repository\<close>

definition Repo_Create :: "CreateInstanceParams \<Rightarrow> ('z pg_scheme, Instance) action" where
  "Repo_Create a = in_tx (
     bnd (wrap_err (\<lambda>e. WrapErr ''insert instance: '' e []) (CreateInstance a)) (\<lambda>created.
     bnd (wrap_err (\<lambda>e. WrapErr ''insert event: '' e [])
            (InsertInstanceEvent (i_id created) None Pending ''created'' ''{}'')) (\<lambda>_.
     ret created)))"

record TransitionOptions =
  o_reason :: string
  o_error :: string
  o_ip :: "string option"
  o_meta :: string
  o_skip :: bool

abbreviation opts :: "string \<Rightarrow> string \<Rightarrow> TransitionOptions" where
  "opts reason er \<equiv> \<lparr>o_reason = reason, o_error = er, o_ip = None, o_meta = [], o_skip = False\<rparr>"

definition Transition ::
  "uuid \<Rightarrow> InstanceState \<Rightarrow> TransitionOptions \<Rightarrow> ('z pg_scheme, Instance) action" where
  "Transition i to op = (case Validate_state to of
       Some e \<Rightarrow> fail e
     | None \<Rightarrow> in_tx (
         bnd (wrap_err (\<lambda>e. WrapErr ''load instance: '' e []) (GetInstance i)) (\<lambda>current.
         let fr = i_state current in
         if fr = to \<and> o_skip op then
           fail (WrapErr [] ErrInvalidTransition ('': idempotent '' @ state_text fr @ ''->'' @ state_text to @ '' rejected''))
         else if \<not> CanTransition fr to then
           fail (WrapErr [] ErrInvalidTransition ('': '' @ state_text fr @ ''->'' @ state_text to))
         else
           bnd (wrap_err (\<lambda>e. WrapErr ''update state: '' e [])
                  (UpdateInstanceState i to
                     (if o_error op \<noteq> [] then Some (o_error op) else None) (o_ip op))) (\<lambda>updated.
           bnd (wrap_err (\<lambda>e. WrapErr ''insert event: '' e [])
                  (InsertInstanceEvent i (Some fr) to (o_reason op)
                     (if o_meta op = [] then ''{}'' else o_meta op))) (\<lambda>_.
           ret updated)))))"

definition Repo_Get :: "uuid \<Rightarrow> ('z pg_scheme, Instance) action" where
  "Repo_Get i = GetInstance i"

definition Repo_Delete :: "uuid \<Rightarrow> ('z pg_scheme, unit) action" where
  "Repo_Delete i = DeleteInstance i"

definition ListForOwner :: "uuid option \<Rightarrow> ('z pg_scheme, Instance list) action" where
  "ListForOwner o' = ListInstances o'"

definition FindByOwnerAndIDPrefix :: "uuid \<Rightarrow> string \<Rightarrow> ('z pg_scheme, Instance list) action" where
  "FindByOwnerAndIDPrefix o' p = ListInstancesByOwnerAndIDPrefix o' p"

section \<open>The state machine: terminal states and rank\<close>

lemmas sm_defs = CanTransition_def allowedTransitions_def IsTerminal_def

lemma terminal_no_exit: "IsTerminal fr \<Longrightarrow> CanTransition fr to \<longleftrightarrow> to = fr"
  by (auto simp: sm_defs)

lemma CanTransition_refl [simp]: "CanTransition st st"
  by (simp add: CanTransition_def)

lemma valid_iff_AllStates: "valid_state st \<longleftrightarrow> st \<in> set AllStates"
  by (cases st) (auto simp: valid_state_def AllStates_def)

lemma CanTransition_valid: "CanTransition fr to \<Longrightarrow> valid_state to \<Longrightarrow> valid_state fr"
  by (cases fr; cases to) (simp_all add: valid_state_def sm_defs)

text \<open>Every proper step moves forward: a life has at most four proper steps after its creation.\<close>

fun state_rank :: "InstanceState \<Rightarrow> nat" where
  "state_rank Pending = 4"
| "state_rank Provisioning = 3"
| "state_rank Running = 2"
| "state_rank Stopping = 1"
| "state_rank _ = 0"

lemma transition_decreases_rank: "CanTransition fr to \<Longrightarrow> fr \<noteq> to \<Longrightarrow> state_rank to < state_rank fr"
  by (cases fr) (auto simp: sm_defs)

section \<open>Functional behaviour of the repository\<close>

definition apply_transition ::
  "uuid \<Rightarrow> InstanceState \<Rightarrow> TransitionOptions \<Rightarrow> time \<Rightarrow> Instance \<Rightarrow> Instance" where
  "apply_transition i to op t r = r\<lparr>i_state := to,
     i_error := (if o_error op \<noteq> [] then o_error op else i_error r),
     i_ip := (case o_ip op of None \<Rightarrow> i_ip r | Some a \<Rightarrow> Some a),
     i_updated := t\<rparr>"

definition transition_event ::
  "uuid \<Rightarrow> nat \<Rightarrow> InstanceState \<Rightarrow> InstanceState \<Rightarrow> TransitionOptions \<Rightarrow> time \<Rightarrow> InstanceEvent" where
  "transition_event i n fr to op t = \<lparr>e_id = n, e_instance = i, e_from = Some fr, e_to = to,
     e_reason = o_reason op, e_meta = (if o_meta op = [] then ''{}'' else o_meta op), e_created = t\<rparr>"

text \<open>The tables after a transition whose transaction committed.\<close>

definition transition_tables ::
  "uuid \<Rightarrow> nat \<Rightarrow> InstanceState \<Rightarrow> InstanceState \<Rightarrow> TransitionOptions \<Rightarrow> time \<Rightarrow> tables \<Rightarrow> tables" where
  "transition_tables i n fr to op t T = T\<lparr>
     instances := set_where (\<lambda>r. i_id r = i) (apply_transition i to op t) (instances T),
     events := events T @ [transition_event i n fr to op t]\<rparr>"

lemma UpdateInstanceState_Inr:
  assumes "UpdateInstanceState i to er ip s = (Inr u, s')"
    and "er = (if o_error op \<noteq> [] then Some (o_error op) else None)" and "ip = o_ip op"
  obtains r where "find (\<lambda>r. i_id r = i) (instances (tbl s)) = Some r"
    "u = apply_transition i to op (clk s) r"
    "tbl s' = (tbl s)\<lparr>instances := set_where (\<lambda>r. i_id r = i) (apply_transition i to op (clk s)) (instances (tbl s))\<rparr>"
    "clk s' = clk s"
proof -
  have f: "(\<lambda>r. r\<lparr>i_state := to, i_error := case er of None \<Rightarrow> i_error r | Some m \<Rightarrow> m,
        i_ip := case ip of None \<Rightarrow> i_ip r | Some a \<Rightarrow> Some a, i_updated := t\<rparr>)
      = apply_transition i to op t" for t
    using assms(2,3) by (auto simp: apply_transition_def fun_eq_iff)
  show thesis
    using assms(1) unfolding UpdateInstanceState_def
    by (elim dml_Inr) (auto simp: Let_def f split: if_splits option.splits intro: that)
qed

lemma InsertInstanceEvent_Inr:
  assumes "InsertInstanceEvent i fr to reason meta s = (Inr u, s')"
  obtains n where "tbl s' = (tbl s)\<lparr>events := events (tbl s) @ [\<lparr>e_id = n, e_instance = i, e_from = fr,
      e_to = to, e_reason = reason, e_meta = meta, e_created = clk s\<rparr>]\<rparr>"
    "\<exists>r\<in>set (instances (tbl s)). i_id r = i"
  using assms unfolding InsertInstanceEvent_def
  by (elim dml_Inr) (auto split: if_splits option.splits intro: that [OF sym])

lemma Transition_cases:
  assumes "Transition i to op s = (r, s')"
  obtains (aborted) e where "r = Inl e" "tbl s' = tbl s"
  | (committed) row n where "find (\<lambda>r. i_id r = i) (instances (tbl s)) = Some row"
      "CanTransition (i_state row) to" "to \<in> set AllStates" "\<not> (i_state row = to \<and> o_skip op)"
      "tbl s' = transition_tables i n (i_state row) to op (clk s) (tbl s)"
      "r = Inr (apply_transition i to op (clk s) row) \<or> (\<exists>m. r = Inl (conn_err m))"
proof (cases "Validate_state to")
  case (Some e)
  with assms show thesis by (intro aborted) (auto simp: Transition_def fail_def)
next
  case None
  then have to: "to \<in> set AllStates" by (simp add: Validate_state_def split: if_splits)
  from assms show thesis
    unfolding Transition_def None option.case
  proof (cases rule: in_tx_cases)
    case (aborted e)
    then show thesis by (rule that(1))
  next
    case (committed x s1 s2)
    from committed(1) obtain cur s3 where c: "GetInstance i s1 = (Inr cur, s3)"
      and rest: "(let fr = i_state cur in if fr = to \<and> o_skip op
         then fail (WrapErr [] ErrInvalidTransition ('': idempotent '' @ state_text fr @ ''->'' @ state_text to @ '' rejected''))
         else if \<not> CanTransition fr to then fail (WrapErr [] ErrInvalidTransition ('': '' @ state_text fr @ ''->'' @ state_text to))
         else bnd (wrap_err (\<lambda>e. WrapErr ''update state: '' e [])
                (UpdateInstanceState i to (if o_error op \<noteq> [] then Some (o_error op) else None) (o_ip op)))
              (\<lambda>updated. bnd (wrap_err (\<lambda>e. WrapErr ''insert event: '' e [])
                (InsertInstanceEvent i (Some fr) to (o_reason op) (if o_meta op = [] then ''{}'' else o_meta op)))
                (\<lambda>_. ret updated))) s3 = (Inr x, s2)"
      by (elim bnd_InrE) (simp add: wrap_err_Inr)
    from c have cur: "find (\<lambda>r. i_id r = i) (instances (tbl s)) = Some cur" "tbl s3 = tbl s" "clk s3 = clk s"
      using committed(2,3) unfolding GetInstance_def
      by (auto dest!: sel_Inr simp: pick_def split: option.splits)
    from rest have ok: "CanTransition (i_state cur) to" "\<not> (i_state cur = to \<and> o_skip op)"
      by (auto simp: Let_def fail_def split: if_splits)
    with rest obtain u s4 where u: "UpdateInstanceState i to
          (if o_error op \<noteq> [] then Some (o_error op) else None) (o_ip op) s3 = (Inr u, s4)"
      and ev: "InsertInstanceEvent i (Some (i_state cur)) to (o_reason op)
          (if o_meta op = [] then ''{}'' else o_meta op) s4 = (Inr (), s2)" and x: "x = u"
      by (auto simp: Let_def wrap_err_Inr ret_def elim!: bnd_InrE)
    obtain row where row: "find (\<lambda>r. i_id r = i) (instances (tbl s3)) = Some row"
      "u = apply_transition i to op (clk s3) row"
      "tbl s4 = (tbl s3)\<lparr>instances := set_where (\<lambda>r. i_id r = i) (apply_transition i to op (clk s3)) (instances (tbl s3))\<rparr>"
      "clk s4 = clk s3"
      using u by (elim UpdateInstanceState_Inr [where op = op]) auto
    from ev obtain n where "tbl s2 = (tbl s4)\<lparr>events := events (tbl s4) @ [\<lparr>e_id = n, e_instance = i,
      e_from = Some (i_state cur), e_to = to, e_reason = o_reason op,
      e_meta = (if o_meta op = [] then ''{}'' else o_meta op), e_created = clk s4\<rparr>]\<rparr>"
      by (elim InsertInstanceEvent_Inr) auto
    then have t2: "tbl s' = transition_tables i n (i_state cur) to op (clk s) (tbl s)"
      using row cur committed(4) by (simp add: transition_tables_def transition_event_def)
    have "row = cur" using row(1) cur(1,2) by simp
    with row x cur committed(5) have "r = Inr (apply_transition i to op (clk s) cur) \<or> (\<exists>m. r = Inl (conn_err m))"
      by auto
    with t2 cur ok to show thesis by (intro that(2)) auto
  qed
qed

lemma UpdateInstanceState_fine:
  assumes "faults s = []" "valid_state to" "find (\<lambda>r. i_id r = i) (instances (tbl s)) = Some row"
  shows "UpdateInstanceState i to (if o_error op \<noteq> [] then Some (o_error op) else None) (o_ip op) s =
    (Inr (apply_transition i to op (clk s) row), s\<lparr>ctr := Suc (ctr s), tbl := (tbl s)\<lparr>instances :=
       set_where (\<lambda>r. i_id r = i) (apply_transition i to op (clk s)) (instances (tbl s))\<rparr>\<rparr>)"
proof -
  have "(\<lambda>r. r\<lparr>i_state := to,
      i_error := case (if o_error op \<noteq> [] then Some (o_error op) else None) of None \<Rightarrow> i_error r | Some m \<Rightarrow> m,
      i_ip := case o_ip op of None \<Rightarrow> i_ip r | Some a \<Rightarrow> Some a, i_updated := t\<rparr>) = apply_transition i to op t" for t
    by (auto simp: apply_transition_def fun_eq_iff)
  with assms show ?thesis by (simp add: UpdateInstanceState_def dml_fine Let_def)
qed

lemma InsertInstanceEvent_fine:
  assumes "faults s = []" "valid_state to" "valid_state fr" "\<exists>r\<in>set (instances (tbl s)). i_id r = i"
  shows "InsertInstanceEvent i (Some fr) to reason meta s =
    (Inr (), s\<lparr>ctr := Suc (ctr s), tbl := (tbl s)\<lparr>events := events (tbl s) @ [\<lparr>e_id = ctr s, e_instance = i,
       e_from = Some fr, e_to = to, e_reason = reason, e_meta = meta, e_created = clk s\<rparr>]\<rparr>\<rparr>)"
  using assms by (simp add: InsertInstanceEvent_def dml_fine)

lemma Transition_fine:
  assumes "faults s = []" "to \<in> set AllStates" and row: "find (\<lambda>r. i_id r = i) (instances (tbl s)) = Some row"
    and can: "CanTransition (i_state row) to" "\<not> (i_state row = to \<and> o_skip op)"
  shows "Transition i to op s = (Inr (apply_transition i to op (clk s) row),
    s\<lparr>ctr := Suc (Suc (ctr s)), tbl := transition_tables i (Suc (ctr s)) (i_state row) to op (clk s) (tbl s)\<rparr>)"
proof -
  have v: "valid_state to" "valid_state (i_state row)"
    using assms(2) can(1) by (auto simp: valid_iff_AllStates [symmetric] intro: CanTransition_valid)
  let ?s1 = "s\<lparr>ctr := Suc (ctr s), tbl := (tbl s)\<lparr>instances :=
       set_where (\<lambda>r. i_id r = i) (apply_transition i to op (clk s)) (instances (tbl s))\<rparr>\<rparr>"
  have ex: "\<exists>r\<in>set (instances (tbl ?s1)). i_id r = i"
    using find_SomeD [OF row] by (simp add: ex_set_where [where k = i_id] apply_transition_def) auto
  have g: "GetInstance i s = (Inr row, s)" using assms(1) row by (simp add: GetInstance_def sel_fine pick_def)
  note ev = InsertInstanceEvent_fine [of ?s1, OF _ v ex]
  have ns: "(i_state row = to \<and> o_skip op) = False" using can(2) by simp
  show ?thesis
    using assms(1,2) can(1)
    by (simp add: ns Transition_def Validate_state_def in_tx_def stmt_fine bnd_def wrap_err_def g Let_def ret_def
        UpdateInstanceState_fine [OF assms(1) v(1) row, simplified] ev pop_fault_def transition_tables_def
        transition_event_def)
qed

lemma CreateInstance_Inr:
  assumes "CreateInstance a s = (Inr r, s')"
  obtains u where "r = new_instance u (clk s) a" "\<forall>q\<in>set (instances (tbl s)). i_id q \<noteq> u"
    "0 < ci_memory a" "0 < ci_vcpus a" "0 \<le> ci_gpus a"
    "tbl s' = (tbl s)\<lparr>instances := instances (tbl s) @ [r]\<rparr>" "clk s' = clk s"
  using assms unfolding CreateInstance_def
  by (elim dml_Inr) (auto simp: Let_def not_le not_less split: if_splits intro: that)

lemma Repo_Create_cases:
  fixes s :: "'z pg_scheme"
  assumes "Repo_Create a s = (r, s')"
  obtains (aborted) e where "r = Inl e" "tbl s' = tbl s"
  | (committed) u n where "\<forall>q\<in>set (instances (tbl s)). i_id q \<noteq> u"
    "tbl s' = (tbl s)\<lparr>instances := instances (tbl s) @ [new_instance u (clk s) a],
       events := events (tbl s) @ [\<lparr>e_id = n, e_instance = u, e_from = None, e_to = Pending,
         e_reason = ''created'', e_meta = ''{}'', e_created = clk s\<rparr>]\<rparr>"
    "0 < ci_memory a" "0 < ci_vcpus a" "0 \<le> ci_gpus a"
    "r = Inr (new_instance u (clk s) a) \<or> (\<exists>m. r = Inl (conn_err m))"
proof -
  note cases = aborted committed
  from assms show thesis unfolding Repo_Create_def
  proof (cases rule: in_tx_cases)
    case (aborted e)
    then show thesis by (rule cases(1))
  next
    case (committed x s1 s2)
    then obtain s3 where cr: "CreateInstance a s1 = (Inr x, s3)"
      and ev: "InsertInstanceEvent (i_id x) None Pending ''created'' ''{}'' s3 = (Inr (), s2)"
      by (auto simp: wrap_err_Inr ret_def elim!: bnd_InrE)
    obtain u where u: "x = new_instance u (clk s) a" "\<forall>q\<in>set (instances (tbl s)). i_id q \<noteq> u"
      "0 < ci_memory a" "0 < ci_vcpus a" "0 \<le> ci_gpus a"
      "tbl s3 = (tbl s)\<lparr>instances := instances (tbl s) @ [x]\<rparr>" "clk s3 = clk s"
      using CreateInstance_Inr [OF cr] committed(2,3) by (metis)
    from ev obtain n where "tbl s2 = (tbl s3)\<lparr>events := events (tbl s3) @ [\<lparr>e_id = n, e_instance = i_id x,
        e_from = None, e_to = Pending, e_reason = ''created'', e_meta = ''{}'', e_created = clk s3\<rparr>]\<rparr>"
      by (elim InsertInstanceEvent_Inr) auto
    with u committed show thesis
      by (intro cases(2) [of u n]) (auto simp: new_instance_def)
  qed
qed

section \<open>The audit trail\<close>

text \<open>
  \<open>event_path a es b\<close>: the events lead from state \<open>a\<close> to state \<open>b\<close> (\<open>None\<close> before the
  instance exists), each starting where the one before it ended and each allowed.
\<close>

fun event_path :: "InstanceState option \<Rightarrow> InstanceEvent list \<Rightarrow> InstanceState option \<Rightarrow> bool" where
  "event_path a [] b = (a = b)"
| "event_path a (e # es) b = (e_from e = a \<and>
     (case a of None \<Rightarrow> e_to e = Pending | Some f \<Rightarrow> CanTransition f (e_to e)) \<and>
     event_path (Some (e_to e)) es b)"

definition events_of :: "uuid \<Rightarrow> tables \<Rightarrow> InstanceEvent list" where
  "events_of i T = filter (\<lambda>e. e_instance e = i) (events T)"

definition audit_ok :: "tables \<Rightarrow> bool" where
  "audit_ok T \<longleftrightarrow> distinct (map i_id (instances T)) \<and>
     (\<forall>r\<in>set (instances T). event_path None (events_of (i_id r) T) (Some (i_state r))) \<and>
     (\<forall>e\<in>set (events T). \<exists>r\<in>set (instances T). i_id r = e_instance e)"

lemma event_path_snoc:
  "event_path a (es @ [e]) b \<longleftrightarrow> b = Some (e_to e) \<and> event_path a es (e_from e) \<and>
     (case e_from e of None \<Rightarrow> e_to e = Pending | Some f \<Rightarrow> CanTransition f (e_to e))"
  by (induction es arbitrary: a) auto

lemma audit_ok_cong:
  "instances T' = instances T \<Longrightarrow> events T' = events T \<Longrightarrow> audit_ok T' = audit_ok T"
  by (simp add: audit_ok_def events_of_def)

lemma audit_ok_transition:
  assumes ok: "audit_ok T" and row: "find (\<lambda>r. i_id r = i) (instances T) = Some row"
    and can: "CanTransition (i_state row) to"
  shows "audit_ok (transition_tables i n (i_state row) to op t T)"
proof -
  let ?T = "transition_tables i n (i_state row) to op t T" and ?f = "apply_transition i to op t"
  have f: "i_id (?f r) = i_id r" "i_state (?f r) = to" for r by (auto simp: apply_transition_def)
  from row have r: "row \<in> set (instances T)" "i_id row = i" by (auto dest: find_SomeD)
  have d: "distinct (map i_id (instances T))" using ok by (simp add: audit_ok_def)
  have ids: "map i_id (instances ?T) = map i_id (instances T)"
    by (simp add: transition_tables_def map_set_where f)
  have ev: "events_of j ?T = events_of j T @ (if j = i then [transition_event i n (i_state row) to op t] else [])" for j
    by (simp add: events_of_def transition_tables_def transition_event_def)
  have "event_path None (events_of (i_id q) ?T) (Some (i_state q))" if "q \<in> set (instances ?T)" for q
  proof -
    from that obtain p where p: "p \<in> set (instances T)" "q = (if i_id p = i then ?f p else p)"
      by (auto simp: transition_tables_def in_set_where)
    have path: "event_path None (events_of (i_id p) T) (Some (i_state p))"
      using ok p(1) by (simp add: audit_ok_def)
    show ?thesis
    proof (cases "i_id p = i")
      case True
      with d p(1) r have "p = row" by (metis distinct_key_eq)
      with True p(2) path can show ?thesis
        by (simp add: ev f event_path_snoc transition_event_def)
    next
      case False
      with p(2) path show ?thesis by (simp add: ev)
    qed
  qed
  moreover have "\<exists>q\<in>set (instances ?T). i_id q = e_instance e" if "e \<in> set (events ?T)" for e
  proof -
    from that r ok have "\<exists>p\<in>set (instances T). i_id p = e_instance e"
      by (auto simp: transition_tables_def transition_event_def audit_ok_def)
    then have "e_instance e \<in> set (map i_id (instances T))" by (metis image_eqI set_map)
    then show ?thesis unfolding ids [symmetric] by auto
  qed
  ultimately show ?thesis using d ids by (simp add: audit_ok_def)
qed

lemma audit_ok_create:
  assumes ok: "audit_ok T" and fresh: "\<forall>q\<in>set (instances T). i_id q \<noteq> u"
    and new: "i_id r = u" "i_state r = Pending"
    and e: "e_instance e = u" "e_from e = None" "e_to e = Pending"
  shows "audit_ok (T\<lparr>instances := instances T @ [r], events := events T @ [e]\<rparr>)"
proof -
  have "events_of u T = []" using ok fresh by (auto simp: audit_ok_def events_of_def filter_empty_conv)
  moreover have "u \<notin> i_id ` set (instances T)" using fresh by auto
  ultimately show ?thesis using ok new e
    by (auto simp: audit_ok_def events_of_def)
qed

lemma audit_ok_delete:
  assumes "audit_ok T"
  shows "audit_ok (T\<lparr>instances := filter (\<lambda>r. i_id r \<noteq> i) (instances T),
     events := filter (\<lambda>e. e_instance e \<noteq> i) (events T), slots := ss\<rparr>)" (is "audit_ok ?T")
proof -
  have "events_of j ?T = events_of j T" if "j \<noteq> i" for j
    using that by (auto simp: events_of_def intro: filter_cong)
  with assms show ?thesis
    by (fastforce simp: audit_ok_def distinct_map_filter)
qed

end
