(* ===== verification/SlotRepo.thy ===== *)
theory SlotRepo
  imports Dbstore
begin

text \<open>
  Package \<open>slot\<close> of main-api (\<open>slot/repo.go\<close>): reservation of GPU slots, binding to an
  instance, release, recovery at start-up and synchronisation with the profile an agent reports.
\<close>

section \<open>Operations\<close>

definition ErrNoFreeSlots :: err where
  "ErrNoFreeSlots = Err ''slot: no free slots for requested size''"

type_synonym Reservation = "GpuSlot list"

definition SlotIndices :: "Reservation \<Rightarrow> int list" where
  "SlotIndices res = map s_index res"

definition IDs :: "Reservation \<Rightarrow> uuid list" where
  "IDs res = map s_id res"

definition Reserve :: "uuid \<Rightarrow> int \<Rightarrow> int \<Rightarrow> ('z pg_scheme, Reservation) action" where
  "Reserve nodeID gpuSize cnt =
     (if cnt \<le> 0 then fail (Err (''slot: count must be > 0, got '' @ dec_int cnt))
      else in_tx (
        bnd (wrap_err (\<lambda>e. WrapErr ''advisory lock: '' e []) (LockNodeForReservation nodeID)) (\<lambda>_.
        bnd (wrap_err (\<lambda>e. WrapErr ''reserve: '' e []) (ReserveFreeSlots nodeID gpuSize cnt)) (\<lambda>ss.
        if int (length ss) < cnt
        then fail (WrapErr [] ErrNoFreeSlots ('': have '' @ dec_nat (length ss) @ '', need '' @ dec_int cnt))
        else ret ss))))"

definition bind_one :: "uuid \<Rightarrow> GpuSlot \<Rightarrow> ('z pg_scheme, unit) action" where
  "bind_one inst sl = bnd (wrap_err (\<lambda>e. WrapErr (''bind slot '' @ uuid_text (s_id sl) @ '': '') e [])
     (BindSlotToInstance (s_id sl) inst)) (\<lambda>_. ret ())"

definition BindToInstance :: "Reservation \<Rightarrow> uuid \<Rightarrow> ('z pg_scheme, unit) action" where
  "BindToInstance res inst = in_tx (for_each (bind_one inst) res)"

definition ReleaseReserved :: "Reservation \<Rightarrow> ('z pg_scheme, unit) action" where
  "ReleaseReserved res = (if res = [] then ret ()
     else bnd (ReleaseReservedSlots (IDs res)) (\<lambda>_. ret ()))"

definition ReleaseForInstance :: "uuid \<Rightarrow> ('z pg_scheme, int) action" where
  "ReleaseForInstance inst = ReleaseSlotsForInstance inst"

definition RecoverOrphanReservations :: "('z pg_scheme, int) action" where
  "RecoverOrphanReservations = ReleaseAllOrphanReservedSlots"

datatype SyncResult = SyncUnchanged | SyncReplaced | SyncDegraded

record ProfileSlot =
  ps_index :: int
  ps_gpus :: int
  ps_gpu_indices :: "int list"
  ps_nvlink :: string

definition insert_slots :: "uuid \<Rightarrow> ProfileSlot list \<Rightarrow> ('z pg_scheme, unit) action" where
  "insert_slots nodeID = for_each (\<lambda>p. bnd (wrap_err (\<lambda>e. WrapErr (''insert slot '' @ dec_int (ps_index p) @ '': '') e [])
     (InsertSlot nodeID (ps_index p) (ps_gpus p) (ps_gpu_indices p) (ps_nvlink p))) (\<lambda>_. ret ()))"

definition sync_body :: "uuid \<Rightarrow> string \<Rightarrow> ProfileSlot list \<Rightarrow> ('z pg_scheme, SyncResult) action" where
  "sync_body nodeID profileHash ps =
     bnd (wrap_err (\<lambda>e. WrapErr ''count non-free: '' e []) (CountNonFreeSlotsForNode nodeID)) (\<lambda>inUse.
     if inUse > 0 then ret SyncDegraded
     else bnd (wrap_err (\<lambda>e. WrapErr ''delete existing: '' e []) (DeleteSlotsForNode nodeID)) (\<lambda>_.
          bnd (insert_slots nodeID ps) (\<lambda>_.
          bnd (wrap_err (\<lambda>e. WrapErr ''update profile_hash: '' e []) (UpdateNodeProfileHash nodeID profileHash)) (\<lambda>_.
          ret SyncReplaced))))"

definition SyncFromProfile ::
  "uuid \<Rightarrow> string \<Rightarrow> ProfileSlot list \<Rightarrow> ('z pg_scheme, SyncResult) action" where
  "SyncFromProfile nodeID profileHash ps =
     bnd (wrap_err (\<lambda>e. WrapErr ''load node: '' e []) (GetNode nodeID)) (\<lambda>node.
     if n_hash node = profileHash \<and> profileHash \<noteq> [] then ret SyncUnchanged
     else in_tx (sync_body nodeID profileHash ps))"

section \<open>The slot invariant\<close>

text \<open>
  What the scheduler relies on: slots are identified by their id and by node and index, a slot
  that names an instance is in use by an instance that exists, and a slot belongs to a node.
\<close>

definition slot_ok :: "tables \<Rightarrow> GpuSlot \<Rightarrow> bool" where
  "slot_ok T r \<longleftrightarrow> 0 < s_gpus r \<and> s_node r \<in> n_id ` set (nodes T) \<and>
     (case s_instance r of None \<Rightarrow> True
      | Some i \<Rightarrow> s_status r = InUse \<and> i \<in> i_id ` set (instances T))"

definition slots_ok :: "tables \<Rightarrow> bool" where
  "slots_ok T \<longleftrightarrow> distinct (map s_id (slots T)) \<and> distinct (map (\<lambda>r. (s_node r, s_index r)) (slots T)) \<and>
     (\<forall>r\<in>set (slots T). slot_ok T r)"

lemma slots_okD:
  assumes "slots_ok T"
  shows "distinct (map s_id (slots T))" "distinct (map (\<lambda>r. (s_node r, s_index r)) (slots T))"
    "r \<in> set (slots T) \<Longrightarrow> slot_ok T r"
  using assms by (auto simp: slots_ok_def)

lemma slots_ok_set_where:
  assumes "slots_ok T"
    and key: "\<And>r. s_id (f r) = s_id r" "\<And>r. s_node (f r) = s_node r" "\<And>r. s_index (f r) = s_index r"
    and ok: "\<And>r. r \<in> set (slots T) \<Longrightarrow> P r \<Longrightarrow> slot_ok T r \<Longrightarrow> slot_ok T (f r)"
  shows "slots_ok (T\<lparr>slots := set_where P f (slots T)\<rparr>)"
proof -
  have "slot_ok (T\<lparr>slots := X\<rparr>) = slot_ok T" for X by (simp add: slot_ok_def fun_eq_iff cong: option.case_cong)
  with assms show ?thesis
    by (auto simp: slots_ok_def map_set_where in_set_where)
qed

lemma slots_ok_mono:
  assumes "slots_ok T" and "slots T' = slots T" and "i_id ` set (instances T) \<subseteq> i_id ` set (instances T')"
    and "n_id ` set (nodes T) \<subseteq> n_id ` set (nodes T')"
  shows "slots_ok T'"
proof -
  have "slot_ok T' r" if "slot_ok T r" for r
    using that assms(3,4) by (auto simp: slot_ok_def split: option.splits)
  with assms show ?thesis by (auto simp: slots_ok_def)
qed

section \<open>Reservation\<close>

definition reserve_tables :: "uuid \<Rightarrow> int \<Rightarrow> int \<Rightarrow> tables \<Rightarrow> tables" where
  "reserve_tables nd g c T = T\<lparr>slots := set_where
     (\<lambda>r. s_id r \<in> s_id ` set (picked nd g (nat c) (slots T))) (\<lambda>r. r\<lparr>s_status := Reserved\<rparr>) (slots T)\<rparr>"

definition reserved_rows :: "uuid \<Rightarrow> int \<Rightarrow> int \<Rightarrow> tables \<Rightarrow> GpuSlot list" where
  "reserved_rows nd g c T = map (\<lambda>r. r\<lparr>s_status := Reserved\<rparr>)
     (filter (\<lambda>r. s_id r \<in> s_id ` set (picked nd g (nat c) (slots T))) (slots T))"

lemma ReserveFreeSlots_Inr:
  assumes "ReserveFreeSlots nd g c s = (Inr rs, s')"
  shows "rs = reserved_rows nd g c (tbl s) \<and> tbl s' = reserve_tables nd g c (tbl s)"
  using assms unfolding ReserveFreeSlots_def
  by (elim dml_Inr) (auto simp: Let_def reserve_tables_def reserved_rows_def)

lemma Reserve_cases:
  fixes s :: "'z pg_scheme"
  assumes "Reserve nd g c s = (r, s')"
  obtains (aborted) e where "r = Inl e" "tbl s' = tbl s"
  | (committed) "0 < c" "c \<le> int (length (reserved_rows nd g c (tbl s)))"
      "tbl s' = reserve_tables nd g c (tbl s)"
      "r = Inr (reserved_rows nd g c (tbl s)) \<or> (\<exists>m. r = Inl (conn_err m))"
proof (cases "c \<le> 0")
  case True
  with assms show thesis by (intro aborted) (auto simp: Reserve_def fail_def)
next
  case False
  note cases = aborted committed
  from False assms have "in_tx (bnd (wrap_err (\<lambda>e. WrapErr ''advisory lock: '' e []) (LockNodeForReservation nd)) (\<lambda>_.
        bnd (wrap_err (\<lambda>e. WrapErr ''reserve: '' e []) (ReserveFreeSlots nd g c)) (\<lambda>ss.
        if int (length ss) < c
        then fail (WrapErr [] ErrNoFreeSlots ('': have '' @ dec_nat (length ss) @ '', need '' @ dec_int c))
        else ret ss))) s = (r, s')" by (simp add: Reserve_def)
  then show thesis
  proof (cases rule: in_tx_cases)
    case (aborted e)
    then show thesis by (rule cases(1))
  next
    case (committed x s1 s2)
    then obtain s3 where "LockNodeForReservation nd s1 = (Inr (), s3)"
      and res: "ReserveFreeSlots nd g c s3 = (Inr x, s2)" and len: "\<not> int (length x) < c"
      by (auto simp: wrap_err_Inr ret_def fail_def split: if_splits elim!: bnd_InrE)
    then have "tbl s3 = tbl s" using committed(2) by (auto simp: LockNodeForReservation_def dest: sel_Inr)
    with ReserveFreeSlots_Inr [OF res] len False committed show thesis by (intro cases(2)) auto
  qed
qed

lemma picked_subset: "set (picked nd g n rs) \<subseteq> set (filter (reservable nd g) rs)"
proof -
  have "set (picked nd g n rs) \<subseteq> set (sort_key slot_rank (filter (reservable nd g) rs))"
    unfolding picked_def by (rule set_take_subset)
  then show ?thesis by simp
qed

lemma picked_in: "r \<in> set (picked nd g n rs) \<Longrightarrow> r \<in> set rs \<and> reservable nd g r"
  using picked_subset [of nd g n rs] by auto

lemma length_filter_keys:
  assumes "distinct (map k xs)" and "distinct (map k ys)" and "set ys \<subseteq> set xs"
  shows "length (filter (\<lambda>x. k x \<in> k ` set ys) xs) = length ys"
proof -
  have "set (map k (filter (\<lambda>x. k x \<in> k ` set ys) xs)) = set (map k ys)" using assms(3) by auto
  moreover have "distinct (map k (filter (\<lambda>x. k x \<in> k ` set ys) xs))"
    using assms(1) by (rule distinct_map_filter')
  ultimately have "length (map k (filter (\<lambda>x. k x \<in> k ` set ys) xs)) = length (map k ys)"
    using assms(2) by (metis distinct_card)
  then show ?thesis by simp
qed

lemma distinct_picked:
  assumes "distinct (map s_id rs)"
  shows "distinct (map s_id (picked nd g n rs))"
proof -
  have "inj_on s_id (set (filter (reservable nd g) rs))" and d: "distinct (filter (reservable nd g) rs)"
    using distinct_map_filter' [OF assms, of "reservable nd g"] by (auto simp: distinct_map)
  then show ?thesis
    using picked_subset [of nd g n rs]
    by (auto simp: distinct_map picked_def intro: inj_on_subset distinct_take)
qed

lemma length_reserved_rows:
  assumes "distinct (map s_id (slots T))"
  shows "length (reserved_rows nd g c T) = min (length (filter (reservable nd g) (slots T))) (nat c)"
proof -
  have sub: "set (picked nd g (nat c) (slots T)) \<subseteq> set (slots T)"
    using picked_subset [of nd g "nat c" "slots T"] by auto
  have "length (reserved_rows nd g c T) = length (picked nd g (nat c) (slots T))"
    unfolding reserved_rows_def length_map
    by (rule length_filter_keys [OF assms distinct_picked [OF assms] sub])
  then show ?thesis by (simp add: picked_def)
qed

text \<open>A row whose id was picked is one of the picked rows.\<close>

lemma picked_id_iff:
  assumes "distinct (map s_id (slots T))" and "r \<in> set (slots T)"
  shows "s_id r \<in> s_id ` set (picked nd g n (slots T)) \<longleftrightarrow> r \<in> set (picked nd g n (slots T))"
proof
  assume "s_id r \<in> s_id ` set (picked nd g n (slots T))"
  then obtain q where q: "q \<in> set (picked nd g n (slots T))" "s_id q = s_id r" by auto
  then have "q \<in> set (slots T)" using picked_subset [of nd g n "slots T"] by auto
  with q assms have "q = r" using distinct_key_eq by metis
  with q show "r \<in> set (picked nd g n (slots T))" by simp
qed simp

lemma picked_minimal:
  assumes "r \<in> set (picked nd g n rs)" and "q \<in> set rs" and "reservable nd g q"
    and "q \<notin> set (picked nd g n rs)"
  shows "slot_rank r \<le> slot_rank q"
proof -
  let ?s = "sort_key slot_rank (filter (reservable nd g) rs)"
  have sorted: "sorted (map slot_rank (take n ?s) @ map slot_rank (drop n ?s))"
    by (simp flip: map_append)
  have "q \<in> set ?s" using assms(2,3) by simp
  then have "q \<in> set (take n ?s) \<union> set (drop n ?s)" by (metis append_take_drop_id set_append)
  with assms(4) have "q \<in> set (drop n ?s)" by (simp add: picked_def)
  with assms(1) sorted show ?thesis by (simp add: sorted_append picked_def)
qed

lemma slots_ok_reserve:
  assumes "slots_ok T"
  shows "slots_ok (reserve_tables nd g c T)"
proof -
  have "slot_ok T (r\<lparr>s_status := Reserved\<rparr>)"
    if "r \<in> set (slots T)" "s_id r \<in> s_id ` set (picked nd g (nat c) (slots T))" "slot_ok T r" for r
  proof -
    from that(1,2) have "r \<in> set (picked nd g (nat c) (slots T))"
      using picked_id_iff [OF slots_okD(1) [OF assms]] by blast
    then have "reservable nd g r" using picked_subset [of nd g "nat c" "slots T"] by auto
    with that(3) show ?thesis by (auto simp: slot_ok_def reservable_def split: option.splits)
  qed
  then show ?thesis unfolding reserve_tables_def
    by (intro slots_ok_set_where [OF assms]) auto
qed

section \<open>Binding and release\<close>

definition bind_tables :: "uuid \<Rightarrow> uuid \<Rightarrow> tables \<Rightarrow> tables" where
  "bind_tables sid inst T = T\<lparr>slots := set_where (\<lambda>r. s_id r = sid \<and> s_status r = Reserved)
     (\<lambda>r. r\<lparr>s_status := InUse, s_instance := Some inst\<rparr>) (slots T)\<rparr>"

definition release_tables :: "(GpuSlot \<Rightarrow> bool) \<Rightarrow> tables \<Rightarrow> tables" where
  "release_tables P T = T\<lparr>slots := set_where P (\<lambda>r. r\<lparr>s_status := Free, s_instance := None\<rparr>) (slots T)\<rparr>"

lemma slots_ok_bind:
  assumes "slots_ok T" and "inst \<in> i_id ` set (instances T)"
  shows "slots_ok (bind_tables sid inst T)"
  unfolding bind_tables_def
  using assms by (intro slots_ok_set_where) (auto simp: slot_ok_def)

lemma slots_ok_release: "slots_ok T \<Longrightarrow> slots_ok (release_tables P T)"
  unfolding release_tables_def by (intro slots_ok_set_where) (auto simp: slot_ok_def)

lemma slots_ok_delete:
  assumes "slots_ok T"
  shows "slots_ok (T\<lparr>instances := filter (\<lambda>r. i_id r \<noteq> i) (instances T), events := es,
     slots := set_where (\<lambda>r. s_instance r = Some i) (\<lambda>r. r\<lparr>s_instance := None\<rparr>) (slots T)\<rparr>)"
    (is "slots_ok ?T")
proof -
  have "slot_ok ?T (if s_instance r = Some i then r\<lparr>s_instance := None\<rparr> else r)" if "slot_ok T r" for r
    using that by (auto simp: slot_ok_def split: option.splits)
  with assms show ?thesis
    by (auto simp: slots_ok_def map_set_where in_set_where)
qed

lemma BindSlotToInstance_step:
  assumes "BindSlotToInstance sid inst s = (r, s')"
  obtains (none) "tbl s' = tbl s"
  | (bound) "tbl s' = bind_tables sid inst (tbl s)" "inst \<in> i_id ` set (instances (tbl s))"
      "\<exists>q\<in>set (slots (tbl s)). s_id q = sid \<and> s_status q = Reserved"
proof -
  have "tbl s' = tbl s \<or> tbl s' = bind_tables sid inst (tbl s) \<and> inst \<in> i_id ` set (instances (tbl s))
      \<and> (\<exists>q\<in>set (slots (tbl s)). s_id q = sid \<and> s_status q = Reserved)"
  proof (cases r)
    case (Inl e)
    with assms show ?thesis unfolding BindSlotToInstance_def
      by (auto elim!: dml_Inl_tbl simp: Let_def bind_tables_def split: option.splits if_splits dest!: find_SomeD)
  next
    case (Inr x)
    with assms show ?thesis unfolding BindSlotToInstance_def
      by (auto elim!: dml_Inr simp: Let_def bind_tables_def split: option.splits if_splits dest!: find_SomeD)
  qed
  then show thesis using none bound by blast
qed

text \<open>A write that changes the tables by \<open>g\<close> when it takes effect, and cannot fail otherwise.\<close>

lemma dml_total:
  assumes "dml (\<lambda>_ _ _ T. Inr (f T, g T)) s = (r, s')"
  shows "tbl s' = tbl s \<and> (\<exists>m. r = Inl (conn_err m)) \<or>
    tbl s' = g (tbl s) \<and> (r = Inr (f (tbl s)) \<or> (\<exists>m. r = Inl (conn_err m)))"
  using assms
  by (auto simp: dml_def stmt_def Let_def tbl_pop_fault split: prod.splits fault.splits dest: tbl_pop_fault)

lemma release_cases:
  "ReleaseForInstance i s = (r, s') \<Longrightarrow> tbl s' = tbl s \<or> tbl s' = release_tables (\<lambda>q. s_instance q = Some i) (tbl s)"
  "RecoverOrphanReservations s = (r', s') \<Longrightarrow>
     tbl s' = tbl s \<or> tbl s' = release_tables (\<lambda>q. s_status q = Reserved \<and> s_instance q = None) (tbl s)"
  "ReleaseReservedSlots ids s = (r'', s') \<Longrightarrow>
     tbl s' = tbl s \<or> tbl s' = release_tables (\<lambda>q. s_id q \<in> set ids \<and> s_status q = Reserved) (tbl s)"
  unfolding ReleaseForInstance_def ReleaseSlotsForInstance_def RecoverOrphanReservations_def
    ReleaseAllOrphanReservedSlots_def ReleaseReservedSlots_def Let_def
  by (drule dml_total, auto simp: release_tables_def)+

section \<open>Synchronisation with a profile\<close>

text \<open>The rows a profile turns into, for the ids the database drew.\<close>

definition profile_row :: "uuid \<Rightarrow> ProfileSlot \<Rightarrow> uuid \<Rightarrow> GpuSlot" where
  "profile_row nd p u = \<lparr>s_id = u, s_node = nd, s_index = ps_index p, s_gpus = ps_gpus p,
     s_gpu_indices = ps_gpu_indices p, s_nvlink = ps_nvlink p, s_status = Free, s_instance = None\<rparr>"

definition sync_tables :: "uuid \<Rightarrow> string \<Rightarrow> ProfileSlot list \<Rightarrow> uuid list \<Rightarrow> time \<Rightarrow> tables \<Rightarrow> tables" where
  "sync_tables nd h ps us t T = T\<lparr>
     slots := filter (\<lambda>r. s_node r \<noteq> nd) (slots T) @ map2 (profile_row nd) ps us,
     nodes := set_where (\<lambda>n. n_id n = nd) (\<lambda>n. n\<lparr>n_hash := h, n_updated := t\<rparr>) (nodes T)\<rparr>"

lemma InsertSlot_Inr:
  assumes "InsertSlot nd (ps_index p) (ps_gpus p) (ps_gpu_indices p) (ps_nvlink p) s = (Inr r, s')"
  obtains u where "tbl s' = (tbl s)\<lparr>slots := slots (tbl s) @ [profile_row nd p u]\<rparr>"
    "\<forall>q\<in>set (slots (tbl s)). s_id q \<noteq> u \<and> \<not> (s_node q = nd \<and> s_index q = ps_index p)"
    "0 < ps_gpus p" "\<exists>n\<in>set (nodes (tbl s)). n_id n = nd" "clk s' = clk s"
  using assms unfolding InsertSlot_def
  by (elim dml_Inr) (force simp: Let_def profile_row_def not_le split: if_splits intro: that [OF sym])

definition slots_grow :: "uuid \<Rightarrow> ProfileSlot list \<Rightarrow> tables \<Rightarrow> uuid list \<Rightarrow> bool" where
  "slots_grow nd ps T us \<longleftrightarrow> length us = length ps \<and>
     distinct us \<and> set us \<inter> s_id ` set (slots T) = {} \<and>
     distinct (map ps_index ps) \<and> (\<forall>p\<in>set ps. 0 < ps_gpus p \<and>
       (\<forall>q\<in>set (slots T). \<not> (s_node q = nd \<and> s_index q = ps_index p))) \<and>
     (ps \<noteq> [] \<longrightarrow> (\<exists>n\<in>set (nodes T). n_id n = nd))"

lemma insert_slots_Inr:
  "insert_slots nd ps s = (Inr (), s') \<Longrightarrow> \<exists>us. slots_grow nd ps (tbl s) us \<and> clk s' = clk s \<and>
     tbl s' = (tbl s)\<lparr>slots := slots (tbl s) @ map2 (profile_row nd) ps us\<rparr>"
proof (induction ps arbitrary: s)
  case Nil
  then show ?case by (simp add: insert_slots_def ret_def slots_grow_def)
next
  case (Cons p ps)
  from Cons.prems obtain r s1 where
    i: "InsertSlot nd (ps_index p) (ps_gpus p) (ps_gpu_indices p) (ps_nvlink p) s = (Inr r, s1)"
    and rest: "insert_slots nd ps s1 = (Inr (), s')"
    by (auto simp: insert_slots_def wrap_err_Inr ret_def elim!: bnd_InrE)
  from InsertSlot_Inr [OF i] obtain u where
    u: "tbl s1 = (tbl s)\<lparr>slots := slots (tbl s) @ [profile_row nd p u]\<rparr>"
    "\<forall>q\<in>set (slots (tbl s)). s_id q \<noteq> u \<and> \<not> (s_node q = nd \<and> s_index q = ps_index p)"
    "0 < ps_gpus p" "\<exists>n\<in>set (nodes (tbl s)). n_id n = nd" "clk s1 = clk s" by metis
  from Cons.IH [OF rest] obtain us where us: "slots_grow nd ps (tbl s1) us" "clk s' = clk s1"
    "tbl s' = (tbl s1)\<lparr>slots := slots (tbl s1) @ map2 (profile_row nd) ps us\<rparr>" by blast
  from us(1) u have "slots_grow nd (p # ps) (tbl s) (u # us)"
    by (auto simp: slots_grow_def profile_row_def)
  with us u show ?case by (intro exI [of _ "u # us"]) simp
qed

lemma sync_body_Inr:
  assumes "sync_body nd h ps s = (Inr x, s')"
  shows "tbl s' = tbl s \<and> x = SyncDegraded \<or> (\<exists>us. tbl s' = sync_tables nd h ps us (clk s) (tbl s) \<and>
      (\<forall>q\<in>set (slots (tbl s)). s_node q = nd \<longrightarrow> s_status q = Free) \<and>
      slots_grow nd ps ((tbl s)\<lparr>slots := filter (\<lambda>r. s_node r \<noteq> nd) (slots (tbl s))\<rparr>) us \<and> x = SyncReplaced)"
proof -
  from assms obtain k s1 where k: "CountNonFreeSlotsForNode nd s = (Inr k, s1)"
    and rest: "(if k > 0 then ret SyncDegraded
     else bnd (wrap_err (\<lambda>e. WrapErr ''delete existing: '' e []) (DeleteSlotsForNode nd)) (\<lambda>_.
          bnd (insert_slots nd ps) (\<lambda>_.
          bnd (wrap_err (\<lambda>e. WrapErr ''update profile_hash: '' e []) (UpdateNodeProfileHash nd h)) (\<lambda>_.
          ret SyncReplaced)))) s1 = (Inr x, s')"
    unfolding sync_body_def by (auto simp: wrap_err_Inr elim: bnd_InrE)
  from k have k': "tbl s1 = tbl s" "clk s1 = clk s"
    "k = count_where (\<lambda>r. s_node r = nd \<and> s_status r \<noteq> Free) (slots (tbl s))"
    unfolding CountNonFreeSlotsForNode_def by (auto dest!: sel_Inr)
  show ?thesis
  proof (cases "k > 0")
    case True
    with rest k' show ?thesis by (simp add: ret_def)
  next
    case False
    with rest obtain d s2 s3 where del: "DeleteSlotsForNode nd s1 = (Inr d, s2)"
      and ins: "insert_slots nd ps s2 = (Inr (), s3)"
      and hash: "UpdateNodeProfileHash nd h s3 = (Inr (), s')" and x: "x = SyncReplaced"
      by (auto simp: wrap_err_Inr ret_def elim!: bnd_InrE)
    from del have d: "tbl s2 = (tbl s)\<lparr>slots := filter (\<lambda>r. s_node r \<noteq> nd) (slots (tbl s))\<rparr>" "clk s2 = clk s"
      using k' unfolding DeleteSlotsForNode_def by (auto elim!: dml_Inr)
    from insert_slots_Inr [OF ins] obtain us where us: "slots_grow nd ps (tbl s2) us" "clk s3 = clk s2"
      "tbl s3 = (tbl s2)\<lparr>slots := slots (tbl s2) @ map2 (profile_row nd) ps us\<rparr>" by blast
    from hash have "tbl s' = (tbl s3)\<lparr>nodes := set_where (\<lambda>n. n_id n = nd)
        (\<lambda>n. n\<lparr>n_hash := h, n_updated := clk s3\<rparr>) (nodes (tbl s3))\<rparr>"
      unfolding UpdateNodeProfileHash_def by (auto elim!: dml_Inr)
    moreover have "\<forall>q\<in>set (slots (tbl s)). s_node q = nd \<longrightarrow> s_status q = Free"
      using False k' by (auto simp: count_where_def filter_empty_conv)
    ultimately show ?thesis using d us x by (auto simp: sync_tables_def)
  qed
qed

lemma SyncFromProfile_cases:
  fixes s :: "'z pg_scheme"
  assumes "SyncFromProfile nd h ps s = (r, s')"
  obtains (kept) "tbl s' = tbl s" "r \<noteq> Inr SyncReplaced"
  | (replaced) us where "tbl s' = sync_tables nd h ps us (clk s) (tbl s)"
      "\<forall>q\<in>set (slots (tbl s)). s_node q = nd \<longrightarrow> s_status q = Free"
      "slots_grow nd ps ((tbl s)\<lparr>slots := filter (\<lambda>r. s_node r \<noteq> nd) (slots (tbl s))\<rparr>) us"
      "r = Inr SyncReplaced \<or> (\<exists>m. r = Inl (conn_err m))"
proof -
  obtain g s1 where g: "GetNode nd s = (g, s1)" by fastforce
  then have t1: "tbl s1 = tbl s" "clk s1 = clk s" by (auto simp: GetNode_def dest: sel_tbl)
  show thesis
  proof (cases g)
    case (Inl e)
    with assms g t1 show thesis by (intro kept) (auto simp: SyncFromProfile_def bnd_def wrap_err_def)
  next
    case (Inr node)
    show thesis
    proof (cases "n_hash node = h \<and> h \<noteq> []")
      case True
      with assms g t1 Inr show thesis
        by (intro kept) (auto simp: SyncFromProfile_def bnd_def wrap_err_def ret_def)
    next
      case False
      with assms g Inr have "in_tx (sync_body nd h ps) s1 = (r, s')"
        by (auto simp: SyncFromProfile_def bnd_Inr wrap_err_def)
      then show thesis
      proof (cases rule: in_tx_cases)
        case aborted
        with t1 show thesis by (intro kept) auto
      next
        case (committed x s2 s3)
        with sync_body_Inr [OF committed(1)] t1 show thesis
          by (auto intro: kept replaced)
      qed
    qed
  qed
qed

lemma slots_ok_sync:
  assumes ok: "slots_ok T"
    and grow: "slots_grow nd ps (T\<lparr>slots := filter (\<lambda>r. s_node r \<noteq> nd) (slots T)\<rparr>) us"
  shows "slots_ok (sync_tables nd h ps us t T)"
proof -
  let ?T = "sync_tables nd h ps us t T" and ?new = "map2 (profile_row nd) ps us"
  have len: "length us = length ps" using grow by (simp add: slots_grow_def)
  have ids: "map s_id ?new = us" and keys: "map (\<lambda>r. (s_node r, s_index r)) ?new = map (\<lambda>p. (nd, ps_index p)) ps"
    using len by (auto simp: profile_row_def intro!: nth_equalityI)
  have "map n_id (nodes ?T) = map n_id (nodes T)" by (simp add: sync_tables_def map_set_where)
  then have nodes: "n_id ` set (nodes ?T) = n_id ` set (nodes T)" by (metis set_map)
  from nodes have old: "slot_ok T r \<Longrightarrow> slot_ok ?T r" for r
    by (auto simp: slot_ok_def sync_tables_def split: option.splits)
  have "slot_ok ?T (profile_row nd p u)" if "p \<in> set ps" for p u
  proof -
    from that grow have "0 < ps_gpus p" "\<exists>n\<in>set (nodes T). n_id n = nd" by (auto simp: slots_grow_def)
    then have "nd \<in> n_id ` set (nodes T)" by auto
    with nodes \<open>0 < ps_gpus p\<close> show ?thesis by (simp add: slot_ok_def profile_row_def)
  qed
  then have new: "slot_ok ?T r" if "r \<in> set ?new" for r
    using that by (auto dest: set_zip_leftD)
  have "distinct (map s_id (slots ?T))"
    using ids grow ok by (auto simp: sync_tables_def slots_grow_def slots_ok_def distinct_map_filter)
  moreover have "distinct (map (\<lambda>r. (s_node r, s_index r)) (slots ?T))"
    using keys grow ok
    by (auto simp: sync_tables_def slots_grow_def slots_ok_def distinct_map_filter distinct_map inj_on_def)
  moreover have "slot_ok ?T r" if "r \<in> set (slots ?T)" for r
    using that ok old new by (auto simp: slots_ok_def sync_tables_def)
  ultimately show ?thesis by (simp add: slots_ok_def)
qed

end
