(* ===== verification/CreditRepo.thy ===== *)
theory CreditRepo
  imports Dbstore
begin

text \<open>
  Package \<open>credit\<close> of main-api (\<open>credit/repo.go\<close>): the append-only ledger and the cached balance
  per user, written together in one transaction.
\<close>

section \<open>Operations\<close>

definition ErrDuplicateIdempotency :: err where
  "ErrDuplicateIdempotency = Err ''credit: duplicate idempotency key''"

definition isUniqueViolation :: "err \<Rightarrow> bool" where
  "isUniqueViolation e = (err_sqlstate e = Some ''23505'')"

record PostInput =
  p_user :: uuid
  p_delta :: int
  p_reason :: string
  p_instance :: "uuid option"
  p_key :: string
  p_meta :: string

definition ledger_params :: "PostInput \<Rightarrow> InsertCreditLedgerEntryParams" where
  "ledger_params inp = \<lparr>lp_user = p_user inp, lp_delta = p_delta inp, lp_reason = p_reason inp,
     lp_instance = p_instance inp, lp_key = p_key inp,
     lp_meta = (if p_meta inp = [] then ''{}'' else p_meta inp)\<rparr>"

definition Post :: "PostInput \<Rightarrow> ('z pg_scheme, CreditLedger) action" where
  "Post inp = (if p_key inp = [] then fail (Err ''credit: idempotency_key required'')
     else in_tx (
       bnd (wrap_err (\<lambda>e. if isUniqueViolation e then ErrDuplicateIdempotency
                          else WrapErr ''insert ledger: '' e [])
              (InsertCreditLedgerEntry (ledger_params inp))) (\<lambda>row.
       bnd (wrap_err (\<lambda>e. WrapErr ''update balance: '' e [])
              (UpsertCredits (p_user inp) (p_delta inp))) (\<lambda>_.
       ret row))))"

definition Balance :: "uuid \<Rightarrow> ('z pg_scheme, int) action" where
  "Balance u = attempt (GetCredits u) (\<lambda>r. case r of
       Inl e \<Rightarrow> if err_is e ErrNoRows then ret 0 else fail (WrapErr ''get credits: '' e [])
     | Inr c \<Rightarrow> ret (c_balance c))"

definition History :: "uuid \<Rightarrow> int \<Rightarrow> ('z pg_scheme, CreditLedger list) action" where
  "History u lim = ListCreditLedgerEntries u (if lim \<le> 0 \<or> lim > 200 then 50 else lim)"

definition UsersWithNegativeBalance :: "('z pg_scheme, uuid list) action" where
  "UsersWithNegativeBalance = ListUsersWithNegativeBalance"

section \<open>The ledger invariant\<close>

text \<open>What a user's balance should be: the sum of the user's ledger entries.\<close>

definition ledger_sum :: "uuid \<Rightarrow> CreditLedger list \<Rightarrow> int" where
  "ledger_sum u ls = sum_list (map l_delta (filter (\<lambda>l. l_user l = u) ls))"

definition cached_balance :: "uuid \<Rightarrow> tables \<Rightarrow> int" where
  "cached_balance u T = (case find (\<lambda>c. c_user c = u) (credits T) of None \<Rightarrow> 0 | Some c \<Rightarrow> c_balance c)"

definition ledger_ok :: "tables \<Rightarrow> bool" where
  "ledger_ok T \<longleftrightarrow> distinct (map c_user (credits T)) \<and> distinct (map l_key (ledger T)) \<and>
     (\<forall>u\<in>c_user ` set (credits T) \<union> l_user ` set (ledger T). cached_balance u T = ledger_sum u (ledger T))"

lemma ledger_sum_append [simp]: "ledger_sum u (ls @ ms) = ledger_sum u ls + ledger_sum u ms"
  by (simp add: ledger_sum_def)

lemma ledger_sum_single [simp]: "ledger_sum u [l] = (if l_user l = u then l_delta l else 0)"
  by (simp add: ledger_sum_def)

text \<open>The invariant speaks about every user, also those without a row.\<close>

lemma ledger_ok_balance:
  assumes "ledger_ok T"
  shows "cached_balance u T = ledger_sum u (ledger T)"
proof (cases "u \<in> c_user ` set (credits T) \<union> l_user ` set (ledger T)")
  case True
  with assms show ?thesis by (simp add: ledger_ok_def)
next
  case False
  then have "find (\<lambda>c. c_user c = u) (credits T) = None" by (auto simp: find_None_iff)
  moreover have "filter (\<lambda>l. l_user l = u) (ledger T) = []"
    using False by (auto simp: filter_empty_conv)
  ultimately show ?thesis by (simp add: cached_balance_def ledger_sum_def)
qed

lemma ledger_okI:
  assumes "distinct (map c_user (credits T))" "distinct (map l_key (ledger T))"
    and "\<And>u. cached_balance u T = ledger_sum u (ledger T)"
  shows "ledger_ok T"
  using assms by (simp add: ledger_ok_def)

lemma ledger_ok_cong: "credits T' = credits T \<Longrightarrow> ledger T' = ledger T \<Longrightarrow> ledger_ok T' = ledger_ok T"
  by (simp add: ledger_ok_def cached_balance_def)

section \<open>Posting\<close>

definition post_entry :: "PostInput \<Rightarrow> nat \<Rightarrow> time \<Rightarrow> CreditLedger" where
  "post_entry inp n t = \<lparr>l_id = n, l_user = p_user inp, l_delta = p_delta inp, l_reason = p_reason inp,
     l_instance = p_instance inp, l_key = p_key inp,
     l_meta = (if p_meta inp = [] then ''{}'' else p_meta inp), l_created = t\<rparr>"

definition credit_row :: "uuid \<Rightarrow> int \<Rightarrow> time \<Rightarrow> Credit list \<Rightarrow> Credit list" where
  "credit_row u d t cs = (if \<exists>c\<in>set cs. c_user c = u
     then set_where (\<lambda>c. c_user c = u) (\<lambda>c. c\<lparr>c_balance := c_balance c + d, c_updated := t\<rparr>) cs
     else cs @ [\<lparr>c_user = u, c_balance = d, c_updated = t\<rparr>])"

definition post_tables :: "PostInput \<Rightarrow> nat \<Rightarrow> time \<Rightarrow> tables \<Rightarrow> tables" where
  "post_tables inp n t T = T\<lparr>ledger := ledger T @ [post_entry inp n t],
     credits := credit_row (p_user inp) (p_delta inp) t (credits T)\<rparr>"

lemma InsertCreditLedgerEntry_Inr:
  assumes "InsertCreditLedgerEntry (ledger_params inp) s = (Inr l, s')"
  obtains n where "l = post_entry inp n (clk s)" "\<forall>l\<in>set (ledger (tbl s)). l_key l \<noteq> p_key inp"
    "tbl s' = (tbl s)\<lparr>ledger := ledger (tbl s) @ [post_entry inp n (clk s)]\<rparr>" "clk s' = clk s"
  using assms unfolding InsertCreditLedgerEntry_def
  by (elim dml_Inr) (auto simp: Let_def ledger_params_def post_entry_def split: if_splits intro: that [OF _ _ sym])

lemma UpsertCredits_Inr:
  assumes "UpsertCredits u d s = (Inr x, s')"
  shows "tbl s' = (tbl s)\<lparr>credits := credit_row u d (clk s) (credits (tbl s))\<rparr>"
  using assms unfolding UpsertCredits_def
proof (elim dml_Inr)
  fix v n
  assume eq: "(case find (\<lambda>c. c_user c = u) (credits (tbl s)) of
       None \<Rightarrow> if \<not> (\<exists>r\<in>set (users (tbl s)). u_id r = u) then Inl (fk_violation ''credits_user_id_fkey'')
               else Inr ((), (tbl s)\<lparr>credits := credits (tbl s) @ [\<lparr>c_user = u, c_balance = d, c_updated = clk s\<rparr>]\<rparr>)
     | Some c \<Rightarrow> if \<not> in_int64 (c_balance c + d) then Inl (out_of_range ''bigint out of range'')
               else Inr ((), (tbl s)\<lparr>credits := set_where (\<lambda>c. c_user c = u)
                  (\<lambda>c. c\<lparr>c_balance := c_balance c + d, c_updated := clk s\<rparr>) (credits (tbl s))\<rparr>)) = Inr (x, tbl s')"
  show ?thesis
  proof (cases "find (\<lambda>c. c_user c = u) (credits (tbl s))")
    case None
    then have "\<not> (\<exists>c\<in>set (credits (tbl s)). c_user c = u)" by (auto simp: find_None_iff)
    with eq None show ?thesis by (simp add: credit_row_def split: if_splits)
  next
    case (Some c)
    then have "\<exists>c\<in>set (credits (tbl s)). c_user c = u" by (auto dest: find_SomeD)
    with eq Some show ?thesis by (simp add: credit_row_def split: if_splits)
  qed
qed

lemma Post_cases:
  fixes s :: "'z pg_scheme"
  assumes "Post inp s = (r, s')"
  obtains (aborted) e where "r = Inl e" "tbl s' = tbl s"
  | (committed) n where "p_key inp \<noteq> []" "p_key inp \<notin> l_key ` set (ledger (tbl s))"
      "tbl s' = post_tables inp n (clk s) (tbl s)"
      "r = Inr (post_entry inp n (clk s)) \<or> (\<exists>m. r = Inl (conn_err m))"
proof (cases "p_key inp = []")
  case True
  with assms show thesis by (intro aborted) (auto simp: Post_def fail_def)
next
  case False
  note cases = aborted committed
  let ?body = "bnd (wrap_err (\<lambda>e. if isUniqueViolation e then ErrDuplicateIdempotency else WrapErr ''insert ledger: '' e [])
      (InsertCreditLedgerEntry (ledger_params inp)) :: ('z pg_scheme, CreditLedger) action) (\<lambda>row.
      bnd (wrap_err (\<lambda>e. WrapErr ''update balance: '' e []) (UpsertCredits (p_user inp) (p_delta inp))) (\<lambda>_. ret row))"
  from False assms have "in_tx ?body s = (r, s')" by (simp add: Post_def)
  then show thesis
  proof (cases rule: in_tx_cases)
    case (aborted e)
    then show thesis by (rule cases(1))
  next
    case (committed x s1 s2)
    from committed(1) obtain s3 where ins: "InsertCreditLedgerEntry (ledger_params inp) s1 = (Inr x, s3)"
      and ups: "UpsertCredits (p_user inp) (p_delta inp) s3 = (Inr (), s2)"
      by (auto simp: wrap_err_Inr ret_def elim!: bnd_InrE)
    from InsertCreditLedgerEntry_Inr [OF ins] obtain n where
      n: "x = post_entry inp n (clk s1)" "\<forall>l\<in>set (ledger (tbl s1)). l_key l \<noteq> p_key inp"
      "tbl s3 = (tbl s1)\<lparr>ledger := ledger (tbl s1) @ [post_entry inp n (clk s1)]\<rparr>" "clk s3 = clk s1" by blast
    with UpsertCredits_Inr [OF ups] committed False show thesis
      by (intro cases(2) [of n]) (auto simp: post_tables_def)
  qed
qed

lemma cached_balance_post:
  "cached_balance u (post_tables inp n t T) = cached_balance u T + (if p_user inp = u then p_delta inp else 0)"
proof (cases "\<exists>c\<in>set (credits T). c_user c = p_user inp")
  case True
  then obtain c where "find (\<lambda>c. c_user c = p_user inp) (credits T) = Some c"
    by (metis (mono_tags, lifting) find_None_iff not_None_eq)
  with True show ?thesis
    by (auto simp: cached_balance_def post_tables_def credit_row_def find_set_where_key split: option.split)
next
  case False
  then have n: "find (\<lambda>c. c_user c = p_user inp) (credits T) = None" by (auto simp: find_None_iff)
  with False show ?thesis
    by (auto simp: cached_balance_def post_tables_def credit_row_def find_append split: option.split)
qed

lemma ledger_ok_post:
  assumes ok: "ledger_ok T" and new: "p_key inp \<notin> l_key ` set (ledger T)"
  shows "ledger_ok (post_tables inp n t T)"
proof (rule ledger_okI)
  show "distinct (map c_user (credits (post_tables inp n t T)))"
    using ok by (auto simp: ledger_ok_def post_tables_def credit_row_def map_set_where)
  show "distinct (map l_key (ledger (post_tables inp n t T)))"
    using ok new by (auto simp: ledger_ok_def post_tables_def post_entry_def)
  show "cached_balance u (post_tables inp n t T) = ledger_sum u (ledger (post_tables inp n t T))" for u
    unfolding cached_balance_post
    using ledger_ok_balance [OF ok, of u] by (simp add: post_tables_def post_entry_def)
qed

lemma Post_duplicate:
  assumes "p_key inp \<in> l_key ` set (ledger (tbl s))" and "Post inp s = (r, s')"
  shows "tbl s' = tbl s \<and> (\<exists>e. r = Inl e)"
  using assms(2) by (cases rule: Post_cases) (use assms(1) in auto)

lemma Post_duplicate_fine:
  assumes "p_key inp \<in> l_key ` set (ledger (tbl s))" and "p_key inp \<noteq> []" and "faults s = []"
  shows "fst (Post inp s) = Inl ErrDuplicateIdempotency"
proof -
  have "\<exists>l\<in>set (ledger (tbl s)). l_key l = p_key inp" using assms(1) by auto
  with assms(2,3) show ?thesis
    by (simp add: Post_def in_tx_def stmt_fine dml_fine InsertCreditLedgerEntry_def ledger_params_def
        action_defs isUniqueViolation_def unique_violation_def)
qed

end
