(* ===== verification/DbSteps.thy ===== *)
theory DbSteps
  imports InstanceRepo SlotRepo CreditRepo
begin

text \<open>
  The database as a state machine: \<open>db_step\<close> relates the tables before and after one effect that
  some repository operation commits. Every handler and worker of main-api, whatever fails on the
  way, moves the tables along this relation (the \<open>keeps\<close> facts collected in \<open>db_rules\<close>), so an
  invariant of the relation is an invariant of the service. The locale \<open>db_invariant\<close> is that
  argument; it is interpreted for the audit trail, the slots and the ledger.
\<close>

definition delete_tables :: "uuid \<Rightarrow> tables \<Rightarrow> tables" where
  "delete_tables i T = T\<lparr>
     instances := filter (\<lambda>r. i_id r \<noteq> i) (instances T),
     events := filter (\<lambda>e. e_instance e \<noteq> i) (events T),
     slots := set_where (\<lambda>r. s_instance r = Some i) (\<lambda>r. r\<lparr>s_instance := None\<rparr>) (slots T)\<rparr>"

definition create_tables :: "uuid \<Rightarrow> nat \<Rightarrow> CreateInstanceParams \<Rightarrow> time \<Rightarrow> tables \<Rightarrow> tables" where
  "create_tables u n a t T = T\<lparr>instances := instances T @ [new_instance u t a],
     events := events T @ [\<lparr>e_id = n, e_instance = u, e_from = None, e_to = Pending,
       e_reason = ''created'', e_meta = ''{}'', e_created = t\<rparr>]\<rparr>"

text \<open>Writes to the other tables: nodes may be added and updated but are never removed.\<close>

definition same_core :: "tables \<Rightarrow> tables \<Rightarrow> bool" where
  "same_core T T' \<longleftrightarrow> instances T' = instances T \<and> events T' = events T \<and> slots T' = slots T \<and>
     credits T' = credits T \<and> ledger T' = ledger T \<and>
     n_id ` set (nodes T) \<subseteq> n_id ` set (nodes T')"

text \<open>\<open>G\<close> says which profiles are synchronised with which node: all of them, for most invariants.\<close>

type_synonym admission = "uuid \<Rightarrow> ProfileSlot list \<Rightarrow> bool"

inductive db_step :: "admission \<Rightarrow> tables \<Rightarrow> tables \<Rightarrow> bool" for G where
  created: "\<forall>q\<in>set (instances T). i_id q \<noteq> u \<Longrightarrow> db_step G T (create_tables u n a t T)"
| transition: "find (\<lambda>r. i_id r = i) (instances T) = Some row \<Longrightarrow> CanTransition (i_state row) to \<Longrightarrow>
    to \<in> set AllStates \<Longrightarrow> db_step G T (transition_tables i n (i_state row) to op t T)"
| deleted: "db_step G T (delete_tables i T)"
| reserved: "db_step G T (reserve_tables nd g c T)"
| bound: "inst \<in> i_id ` set (instances T) \<Longrightarrow> db_step G T (bind_tables sid inst T)"
| released: "db_step G T (release_tables P T)"
| synced: "G nd ps \<Longrightarrow> \<forall>q\<in>set (slots T). s_node q = nd \<longrightarrow> s_status q = Free \<Longrightarrow>
    slots_grow nd ps (T\<lparr>slots := filter (\<lambda>r. s_node r \<noteq> nd) (slots T)\<rparr>) us \<Longrightarrow>
    db_step G T (sync_tables nd h ps us t T)"
| posted: "p_key inp \<noteq> [] \<Longrightarrow> p_key inp \<notin> l_key ` set (ledger T) \<Longrightarrow> db_step G T (post_tables inp n t T)"
| other: "same_core T T' \<Longrightarrow> db_step G T T'"

inductive_cases db_stepE: "db_step G T T'"

abbreviation db_reach :: "admission \<Rightarrow> tables \<Rightarrow> tables \<Rightarrow> bool" where
  "db_reach G T0 T \<equiv> (db_step G)\<^sup>*\<^sup>* T0 T"

named_theorems db_rules

section \<open>Every repository operation moves along the relation\<close>

lemma reach_step: "db_reach G T0 T \<Longrightarrow> db_step G T T' \<Longrightarrow> db_reach G T0 T'"
  by (rule rtranclp.rtrancl_into_rtrancl)

lemma keeps_reachI:
  assumes "\<And>s r s'. m s = (r, s') \<Longrightarrow> tbl s' = tbl s \<or> db_step G (tbl s) (tbl s')"
  shows "keeps (tinv (db_reach G T0)) m"
proof (rule keepsI)
  fix s :: "'a pg_scheme" assume i: "tinv (db_reach G T0) s"
  obtain r s' where "m s = (r, s')" by fastforce
  with assms [OF this] i show "tinv (db_reach G T0) (snd (m s))"
    by (auto simp: tinv_def intro: reach_step)
qed

lemma keeps_reach_dml:
  assumes "\<And>u n t T x T'. q u n t T = Inr (x, T') \<Longrightarrow> same_core T T'"
  shows "keeps (tinv (db_reach G T0)) (dml q)"
  by (rule keeps_dml) (auto intro: reach_step other assms)

lemma keeps_Repo_Create [db_rules]: "keeps (tinv (db_reach G T0)) (Repo_Create a)"
proof (rule keeps_reachI)
  fix s s' :: "'a pg_scheme" and r assume "Repo_Create a s = (r, s')"
  then show "tbl s' = tbl s \<or> db_step G (tbl s) (tbl s')"
  proof (cases rule: Repo_Create_cases)
    case (committed u n)
    then show ?thesis
      using created [where T = "tbl s" and u = u and n = n and a = a and t = "clk s" and G = G] by (simp add: create_tables_def)
  qed simp
qed

lemma keeps_Transition [db_rules]: "keeps (tinv (db_reach G T0)) (Transition i to op)"
proof (rule keeps_reachI)
  fix s s' :: "'a pg_scheme" and r assume "Transition i to op s = (r, s')"
  then show "tbl s' = tbl s \<or> db_step G (tbl s) (tbl s')"
    by (cases rule: Transition_cases) (auto intro: transition)
qed

lemma keeps_Repo_Delete [db_rules]: "keeps (tinv (db_reach G T0)) (Repo_Delete i)"
  unfolding Repo_Delete_def DeleteInstance_def
  by (rule keeps_dml) (auto intro: reach_step deleted simp flip: delete_tables_def)

lemma keeps_Reserve [db_rules]: "keeps (tinv (db_reach G T0)) (Reserve nd g c)"
proof (rule keeps_reachI)
  fix s s' :: "'a pg_scheme" and r assume "Reserve nd g c s = (r, s')"
  then show "tbl s' = tbl s \<or> db_step G (tbl s) (tbl s')"
    by (cases rule: Reserve_cases) (auto intro: reserved)
qed

lemma keeps_BindSlotToInstance: "keeps (tinv (db_reach G T0)) (BindSlotToInstance sid inst)"
proof (rule keeps_reachI)
  fix s s' :: "'a pg_scheme" and r assume "BindSlotToInstance sid inst s = (r, s')"
  then show "tbl s' = tbl s \<or> db_step G (tbl s) (tbl s')"
    by (cases rule: BindSlotToInstance_step) (auto intro: bound)
qed

lemma keeps_BindToInstance [db_rules]: "keeps (tinv (db_reach G T0)) (BindToInstance res inst)"
  unfolding BindToInstance_def bind_one_def by (intro keeps_rules keeps_BindSlotToInstance)

lemma keeps_ReleaseReservedSlots: "keeps (tinv (db_reach G T0)) (ReleaseReservedSlots ids)"
  by (rule keeps_reachI) (drule release_cases(3), auto intro: released)

lemma keeps_ReleaseReserved [db_rules]: "keeps (tinv (db_reach G T0)) (ReleaseReserved res)"
  unfolding ReleaseReserved_def by (intro keeps_rules keeps_ReleaseReservedSlots)

lemma keeps_ReleaseForInstance [db_rules]: "keeps (tinv (db_reach G T0)) (ReleaseForInstance i)"
  by (rule keeps_reachI) (drule release_cases(1), auto intro: released)

lemma keeps_RecoverOrphanReservations [db_rules]: "keeps (tinv (db_reach G T0)) RecoverOrphanReservations"
  by (rule keeps_reachI) (drule release_cases(2), auto intro: released)

lemma keeps_SyncFromProfile [db_rules]: "G nd ps \<Longrightarrow> keeps (tinv (db_reach G T0)) (SyncFromProfile nd h ps)"
proof (rule keeps_reachI)
  assume G: "G nd ps"
  fix s s' :: "'a pg_scheme" and r assume "SyncFromProfile nd h ps s = (r, s')"
  then show "tbl s' = tbl s \<or> db_step G (tbl s) (tbl s')"
    by (cases rule: SyncFromProfile_cases) (auto intro: synced [of G, OF G])
qed

lemma keeps_Post [db_rules]: "keeps (tinv (db_reach G T0)) (Post inp)"
proof (rule keeps_reachI)
  fix s s' :: "'a pg_scheme" and r assume "Post inp s = (r, s')"
  then show "tbl s' = tbl s \<or> db_step G (tbl s) (tbl s')"
    by (cases rule: Post_cases) (auto intro: posted)
qed

lemmas read_defs = GetInstance_def ListInstanceEvents_def ListInstances_def
  ListInstancesByOwnerAndIDPrefix_def GetCredits_def ListBillableRunningInstances_def
  ListCreditLedgerEntries_def ListUsersWithNegativeBalance_def GetDefaultZone_def GetNode_def
  GetNodeByName_def ListNodes_def ListNodesAccessibleToUser_def ListNonTerminalInstancesForNode_def
  NodeAccessPolicy_def CountFreeSlotsByGPUCount_def CountNonFreeSlotsForNode_def ListSlotsForNode_def
  LockNodeForReservation_def ListSSHKeysForUser_def LookupSSHKeyByFingerprint_def GetUserByEmail_def
  GetUser_q_def GetSessionByTokenHash_def ListActiveNodeTokens_def ListNodeTokens_def IsUserInTeam_def
  TeamGetByName_def TeamGet_def TeamList_def TeamIDsForUser_def TeamMembersForTeam_def GetActiveNodeToken_def
  GetSSHKeyForUser_def ListSlotsForAdminView_def ListUsersAdminView_def

text \<open>Reads keep any invariant of the tables, at any stage.\<close>

lemma keeps_reads [keeps_rules]:
  "keeps (tinv I) (GetInstance i)" "keeps (tinv I) (ListInstances o')"
  "keeps (tinv I) (ListInstancesByOwnerAndIDPrefix v p)" "keeps (tinv I) (GetCredits u)"
  "keeps (tinv I) ListBillableRunningInstances" "keeps (tinv I) (ListCreditLedgerEntries u lim)"
  "keeps (tinv I) ListUsersWithNegativeBalance" "keeps (tinv I) GetDefaultZone" "keeps (tinv I) (GetNode i)"
  "keeps (tinv I) (GetNodeByName nm)" "keeps (tinv I) ListNodes" "keeps (tinv I) (ListNodesAccessibleToUser u)"
  "keeps (tinv I) (ListNonTerminalInstancesForNode nd)" "keeps (tinv I) (ListSlotsForNode nd)"
  "keeps (tinv I) (ListSSHKeysForUser u)" "keeps (tinv I) (LookupSSHKeyByFingerprint fp)"
  "keeps (tinv I) (GetUserByEmail em)" "keeps (tinv I) (GetUser_q u)" "keeps (tinv I) (GetSessionByTokenHash h)"
  "keeps (tinv I) (ListActiveNodeTokens nd)" "keeps (tinv I) (ListNodeTokens nd)" "keeps (tinv I) (IsUserInTeam u t)"
  "keeps (tinv I) (TeamGetByName nm)" "keeps (tinv I) (TeamGet i)" "keeps (tinv I) TeamList"
  "keeps (tinv I) (TeamIDsForUser u)" "keeps (tinv I) (TeamMembersForTeam t)"
  "keeps (tinv I) (GetActiveNodeToken nd h)" "keeps (tinv I) (GetSSHKeyForUser i u)"
  "keeps (tinv I) ListSlotsForAdminView" "keeps (tinv I) (ListUsersAdminView lim)"
  "keeps (tinv I) (NodeAccessPolicy i)"
  unfolding read_defs by (rule keeps_sel keeps_sel_now)+

lemma n_id_set_where: "(\<And>n. n_id (f n) = n_id n) \<Longrightarrow> n_id ` set (set_where P f ns) = n_id ` set ns"
  by (metis map_set_where set_map)

lemma keeps_other_writes [db_rules]:
  "keeps (tinv (db_reach G T0)) (UpsertNode un)"
  "keeps (tinv (db_reach G T0)) (TouchNodeHeartbeat i)"
  "keeps (tinv (db_reach G T0)) (MarkStaleNodesOfflineReturning c)"
  "keeps (tinv (db_reach G T0)) (MarkStaleNodesOffline c)"
  "keeps (tinv (db_reach G T0)) (CreateSSHKey usr lbl pub fp)"
  "keeps (tinv (db_reach G T0)) (DeleteSSHKeyForUser kid usr)"
  "keeps (tinv (db_reach G T0)) (CreateUser_q em ph adm)"
  "keeps (tinv (db_reach G T0)) (CreateSession_q usr h ex)"
  "keeps (tinv (db_reach G T0)) (DeleteSessionByTokenHash h)"
  "keeps (tinv (db_reach G T0)) DeleteExpiredSessions"
  "keeps (tinv (db_reach G T0)) (NodeTokenInsert nd h)"
  "keeps (tinv (db_reach G T0)) (NodeTokenRevoke i)"
  "keeps (tinv (db_reach G T0)) (TeamCreate nm ds)"
  "keeps (tinv (db_reach G T0)) (TeamMemberAdd team usr)"
  "keeps (tinv (db_reach G T0)) (TeamMemberRemove team usr)"
  unfolding UpsertNode_def TouchNodeHeartbeat_def MarkStaleNodesOfflineReturning_def
    MarkStaleNodesOffline_def CreateSSHKey_def
    DeleteSSHKeyForUser_def CreateUser_q_def CreateSession_q_def DeleteSessionByTokenHash_def
    DeleteExpiredSessions_def NodeTokenInsert_def NodeTokenRevoke_def TeamCreate_def TeamMemberAdd_def
    TeamMemberRemove_def
  by (rule keeps_reach_dml,
      auto simp: same_core_def Let_def n_id_set_where split: if_splits option.splits)+

section \<open>Invariants of the relation\<close>

locale db_invariant =
  fixes G :: admission and I :: "tables \<Rightarrow> bool"
  assumes step: "db_step G T T' \<Longrightarrow> I T \<Longrightarrow> I T'"
begin

lemma reachable: "db_reach G T T' \<Longrightarrow> I T \<Longrightarrow> I T'"
  by (induction rule: rtranclp_induct) (auto intro: step)

lemma kept:
  assumes "\<And>T0. keeps (tinv (db_reach G T0)) m"
  shows "keeps (tinv I) m"
proof (rule keepsI)
  fix s :: "'a pg_scheme" assume "tinv I s"
  moreover have "tinv (db_reach G (tbl s)) (snd (m s))"
    by (rule keepsD [OF assms]) (simp add: tinv_def)
  ultimately show "tinv I (snd (m s))" by (auto simp: tinv_def intro: reachable)
qed

lemma kept_after:
  assumes "\<And>T0. keeps (tinv (db_reach G T0)) m" and "I (tbl s)" and "m s = (r, s')"
  shows "I (tbl s')"
  using keepsD [OF kept [OF assms(1)], of s] assms(2,3) by (simp add: tinv_def)

end

lemma audit_ok_step: "db_step G T T' \<Longrightarrow> audit_ok T \<Longrightarrow> audit_ok T'"
proof (induction rule: db_step.induct)
  case (created T u n a t)
  then show ?case unfolding create_tables_def by (intro audit_ok_create) (auto simp: new_instance_def)
next
  case (transition i T row to n op t)
  then show ?case by (intro audit_ok_transition)
next
  case (deleted T i)
  then show ?case unfolding delete_tables_def by (intro audit_ok_delete)
next
  case (other T T')
  then show ?case using audit_ok_cong [of T' T] by (simp add: same_core_def)
qed (simp_all add: audit_ok_cong [of _ T for T] reserve_tables_def bind_tables_def release_tables_def
    sync_tables_def post_tables_def audit_ok_def events_of_def)

lemma slots_ok_step: "db_step G T T' \<Longrightarrow> slots_ok T \<Longrightarrow> slots_ok T'"
proof (induction rule: db_step.induct)
  case (created T u n a t)
  then show ?case by (elim slots_ok_mono) (auto simp: create_tables_def)
next
  case (transition i T row to n op t)
  have "map i_id (instances (transition_tables i n (i_state row) to op t T)) = map i_id (instances T)"
    by (simp add: transition_tables_def map_set_where apply_transition_def)
  then have "i_id ` set (instances (transition_tables i n (i_state row) to op t T)) = i_id ` set (instances T)"
    by (metis set_map)
  with transition show ?case by (elim slots_ok_mono) (auto simp: transition_tables_def)
next
  case (deleted T i)
  then show ?case unfolding delete_tables_def by (intro slots_ok_delete)
next
  case (posted inp T n t)
  then show ?case by (elim slots_ok_mono) (auto simp: post_tables_def)
next
  case (other T T')
  then show ?case by (intro slots_ok_mono [of T T']) (auto simp: same_core_def)
qed (auto intro: slots_ok_reserve slots_ok_bind slots_ok_release slots_ok_sync)

lemma ledger_ok_step: "db_step G T T' \<Longrightarrow> ledger_ok T \<Longrightarrow> ledger_ok T'"
proof (induction rule: db_step.induct)
  case (posted inp T n t)
  then show ?case by (intro ledger_ok_post)
next
  case (other T T')
  then show ?case using ledger_ok_cong [of T' T] by (simp add: same_core_def)
qed (simp_all add: ledger_ok_def cached_balance_def create_tables_def transition_tables_def delete_tables_def
    reserve_tables_def bind_tables_def release_tables_def sync_tables_def)

interpretation audit: db_invariant G audit_ok for G
  by unfold_locales (rule audit_ok_step)

interpretation slot_inv: db_invariant G slots_ok for G
  by unfold_locales (rule slots_ok_step)

interpretation ledger_inv: db_invariant G ledger_ok for G
  by unfold_locales (rule ledger_ok_step)

text \<open>The ledger is append-only.\<close>

lemma ledger_append_step: "db_step G T T' \<Longrightarrow> prefix L (ledger T) \<Longrightarrow> prefix L (ledger T')"
  by (induction rule: db_step.induct)
    (simp_all add: create_tables_def transition_tables_def delete_tables_def reserve_tables_def
      bind_tables_def release_tables_def sync_tables_def post_tables_def same_core_def)

interpretation ledger_append: db_invariant G "\<lambda>T. prefix L (ledger T)" for G L
  by unfold_locales (rule ledger_append_step)

end
