(* ===== verification/Proto.thy ===== *)
theory Proto
  imports Prelude
begin

text \<open>
  The messages of the agent protocol (\<open>shared/proto/agent/v1\<close>). Fields that no modelled function
  reads (timestamps, load figures, protobuf bookkeeping) are left out.
\<close>

datatype PbInstanceState =
    INSTANCE_STATE_UNSPECIFIED
  | INSTANCE_STATE_PROVISIONING
  | INSTANCE_STATE_RUNNING
  | INSTANCE_STATE_STOPPING
  | INSTANCE_STATE_STOPPED
  | INSTANCE_STATE_FAILED
  | OtherPbState int

record Gpu =
  g_index :: int
  g_pci :: string
  g_model :: string
  g_memory :: nat
  g_iommu_group :: string
  g_driver :: string
  g_companions :: "string list"
  g_vfio_ready :: bool
  g_bind_blocker :: string

record NvlinkPair =
  nv_a :: int
  nv_b :: int

record SlotSpec =
  sp_index :: int
  sp_gpus :: int
  sp_gpu_indices :: "int list"
  sp_nvlink :: string

record Profile_pb =
  pf_name :: string
  pf_hash :: string
  pf_slots :: "SlotSpec list"

record Topology =
  tp_gpus :: "Gpu list"
  tp_nvlink :: "NvlinkPair list"
  tp_iommu :: bool
  tp_profile :: "Profile_pb option"

record Register_pb =
  rg_node_name :: string
  rg_hostname :: string
  rg_version :: string
  rg_token :: string
  rg_topology :: "Topology option"
  rg_endpoint :: string

record InstanceStatus =
  st_instance :: string
  st_state :: PbInstanceState
  st_ip :: string
  st_error :: string

text \<open>\<open>NoPayload\<close> is a message whose \<open>oneof\<close> is not set, or set to a case this build does not
  know.\<close>

datatype AgentMessage =
    MRegister Register_pb
  | MHeartbeat
  | MTopology "Topology option"
  | MInstanceStatus InstanceStatus
  | MAck
  | NoPayload

record CreateInstance_pb =
  cm_instance :: string
  cm_name :: string
  cm_memory :: nat
  cm_vcpus :: nat
  cm_pubkeys :: "string list"
  cm_slots :: "int list"
  cm_image :: string
  cm_pci :: "string list"

datatype ControlMessage =
    CRegisterAck string int
  | CCreateInstance CreateInstance_pb
  | CDestroyInstance string
  | CPing

end
