(* ===== verification/GuardedMap.thy ===== *)
theory GuardedMap
  imports Main
begin

text \<open>
  The interface of a table that maps a key to the one holder that is current for it, where a
  holder removes itself only while it is still the current one: the agent registry of main-api
  (a stream's \<open>cleanup\<close>), the mux session registry of ssh-proxy and the operation slots of the
  VM runtime all promise it. The lemmas say what an interleaving of registrations and clean-ups
  leaves behind.
\<close>

datatype ('k, 'e) guard_op = Put 'k 'e | Drop 'k 'e

locale guarded_map =
  fixes lookup :: "'s \<Rightarrow> 'k \<Rightarrow> 'e option"
    and put :: "'k \<Rightarrow> 'e \<Rightarrow> 's \<Rightarrow> 's"
    and drop_own :: "'k \<Rightarrow> 'e \<Rightarrow> 's \<Rightarrow> 's"
  assumes lookup_put: "lookup (put k e s) k' = (if k' = k then Some e else lookup s k')"
    and lookup_drop: "lookup (drop_own k e s) k' =
      (if k' = k \<and> lookup s k = Some e then None else lookup s k')"
begin

primrec apply_op :: "('k, 'e) guard_op \<Rightarrow> 's \<Rightarrow> 's" where
  "apply_op (Put k e) s = put k e s"
| "apply_op (Drop k e) s = drop_own k e s"

definition run_ops :: "('k, 'e) guard_op list \<Rightarrow> 's \<Rightarrow> 's" where
  "run_ops ops s = fold apply_op ops s"

lemma run_ops_Nil [simp]: "run_ops [] s = s"
  by (simp add: run_ops_def)

lemma run_ops_Cons [simp]: "run_ops (x # xs) s = run_ops xs (apply_op x s)"
  by (simp add: run_ops_def)

lemma run_ops_append: "run_ops (xs @ ys) s = run_ops ys (run_ops xs s)"
  by (simp add: run_ops_def)

lemma stays_until_replaced:
  assumes "lookup s k = Some e"
    and "\<forall>x\<in>set ops. x \<noteq> Drop k e \<and> (\<forall>e'. x \<noteq> Put k e')"
  shows "lookup (run_ops ops s) k = Some e"
  using assms
proof (induction ops arbitrary: s)
  case Nil
  then show ?case by simp
next
  case (Cons x xs)
  have "lookup (apply_op x s) k = Some e"
    using Cons.prems by (cases x) (auto simp: lookup_put lookup_drop)
  with Cons show ?case by simp
qed

text \<open>The newest registration survives every clean-up but its own.\<close>

lemma newest_wins:
  assumes "\<forall>x\<in>set ops. x \<noteq> Drop k e \<and> (\<forall>e'. x \<noteq> Put k e')"
  shows "lookup (run_ops (Put k e # ops) s) k = Some e"
  using assms by (simp add: stays_until_replaced lookup_put)

text \<open>A holder that has cleaned up is not found again unless it registers again.\<close>

lemma dropped_is_gone:
  assumes "lookup s k \<noteq> Some e" and "Put k e \<notin> set ops"
  shows "lookup (run_ops ops s) k \<noteq> Some e"
  using assms
proof (induction ops arbitrary: s)
  case Nil
  then show ?case by simp
next
  case (Cons x xs)
  have "lookup (apply_op x s) k \<noteq> Some e"
    using Cons.prems by (cases x) (auto simp: lookup_put lookup_drop)
  with Cons show ?case by simp
qed

lemma after_own_drop:
  assumes "Put k e \<notin> set ops"
  shows "lookup (run_ops (Drop k e # ops) s) k \<noteq> Some e"
  using assms by (simp add: dropped_is_gone lookup_drop)

end

end
