(* ===== verification/AgentRegistry.thy ===== *)
theory AgentRegistry
  imports Schema Proto GuardedMap
begin

text \<open>
  The agent registry of main-api (\<open>grpc/registry.go\<close>) and the state main-api keeps beside the
  database: the registry's map and the send channels its entries point to. A Go channel is an
  address into the store \<open>chans\<close>; an entry of the map is a pointer, so it carries the address it
  was allocated at (\<open>en_ptr\<close>), and comparing entries compares addresses.
\<close>

record registryEntry =
  en_ptr :: nat
  en_ch :: nat
  en_endpoint :: string

record chan =
  ch_buf :: "ControlMessage list"
  ch_cap :: nat
  ch_closed :: bool
  ch_out :: "ControlMessage list" \<comment> \<open>what the send loop has taken from the channel\<close>

text \<open>What happens within \<open>agentSendTimeout\<close> to a send that finds the buffer full: the send loop
  takes a message, nothing happens, or the stream ends and closes the channel.\<close>

datatype wait = Drained | TimedOut | ClosedMeanwhile

record world = pg +
  reg :: "uuid \<Rightarrow> registryEntry option"
  chans :: "nat \<Rightarrow> chan"
  heap :: nat \<comment> \<open>addresses below are allocated\<close>
  waits :: "wait list"

definition ErrAgentNotConnected :: err where
  "ErrAgentNotConnected = Err ''agent: not connected''"

text \<open>A send on a closed channel panics.\<close>

definition closed_panic :: err where
  "closed_panic = Panic ''send on closed channel''"

definition Register :: "uuid \<Rightarrow> nat \<Rightarrow> string \<Rightarrow> 'z world_scheme \<Rightarrow> registryEntry \<times> 'z world_scheme" where
  "Register nodeID ch ep s =
     (let entry = \<lparr>en_ptr = heap s, en_ch = ch, en_endpoint = ep\<rparr>
      in (entry, s\<lparr>heap := Suc (heap s), reg := (reg s)(nodeID \<mapsto> entry)\<rparr>))"

text \<open>The function \<open>Register\<close> returns to its caller.\<close>

definition cleanup :: "uuid \<Rightarrow> registryEntry \<Rightarrow> 'z world_scheme \<Rightarrow> 'z world_scheme" where
  "cleanup nodeID entry s = (case reg s nodeID of
       None \<Rightarrow> s
     | Some cur \<Rightarrow> if cur = entry then s\<lparr>reg := (reg s)(nodeID := None)\<rparr> else s)"

definition pop_wait :: "'z world_scheme \<Rightarrow> wait \<times> 'z world_scheme" where
  "pop_wait s = (case waits s of [] \<Rightarrow> (TimedOut, s) | w # ws \<Rightarrow> (w, s\<lparr>waits := ws\<rparr>))"

definition set_chan :: "nat \<Rightarrow> chan \<Rightarrow> 'z world_scheme \<Rightarrow> 'z world_scheme" where
  "set_chan c v s = s\<lparr>chans := (chans s)(c := v)\<rparr>"

definition Send :: "uuid \<Rightarrow> ControlMessage \<Rightarrow> ('z world_scheme, unit) action" where
  "Send nodeID msg s = (case reg s nodeID of
       None \<Rightarrow> (Inl ErrAgentNotConnected, s)
     | Some entry \<Rightarrow>
         (let c = en_ch entry; v = chans s c in
          if ch_closed v then (Inl closed_panic, s)
          else if length (ch_buf v) < ch_cap v then (Inr (), set_chan c (v\<lparr>ch_buf := ch_buf v @ [msg]\<rparr>) s)
          else (case pop_wait s of
                  (TimedOut, s') \<Rightarrow> (Inl ErrAgentNotConnected, s')
                | (ClosedMeanwhile, s') \<Rightarrow> (Inl closed_panic, set_chan c (v\<lparr>ch_closed := True\<rparr>) s')
                | (Drained, s') \<Rightarrow> (Inr (), set_chan c (v\<lparr>ch_buf := List.drop 1 (ch_buf v @ [msg]),
                     ch_out := ch_out v @ take 1 (ch_buf v @ [msg])\<rparr>) s'))))"

definition Connected :: "uuid \<Rightarrow> 'z world_scheme \<Rightarrow> bool" where
  "Connected nodeID s = (reg s nodeID \<noteq> None)"

definition TunnelEndpoint :: "uuid \<Rightarrow> 'z world_scheme \<Rightarrow> string option" where
  "TunnelEndpoint nodeID s = (case reg s nodeID of
       None \<Rightarrow> None
     | Some entry \<Rightarrow> if en_endpoint entry = [] then None else Some (en_endpoint entry))"

section \<open>Frame\<close>

lemma tbl_pop_wait: "pop_wait s = (w, s') \<Longrightarrow> tbl s' = tbl s \<and> reg s' = reg s \<and> chans s' = chans s"
  by (auto simp: pop_wait_def split: list.splits)

lemma tbl_set_chan [simp]: "tbl (set_chan c v s) = tbl s" "reg (set_chan c v s) = reg s"
  by (simp_all add: set_chan_def)

lemma Send_frame: "Send n m s = (r, s') \<Longrightarrow> tbl s' = tbl s \<and> reg s' = reg s"
  by (auto simp: Send_def Let_def set_chan_def split: option.splits if_splits prod.splits wait.splits
      dest: tbl_pop_wait)

lemma keeps_Send [keeps_rules]: "keeps (tinv I) (Send n m)"
proof (rule keepsI)
  fix s :: "'a world_scheme" assume i: "tinv I s"
  obtain r s' where r: "Send n m s = (r, s')" by fastforce
  from Send_frame [OF this] i r show "tinv I (snd (Send n m s))" by (simp add: tinv_def)
qed

text \<open>A send succeeds only into an open channel of the node's current entry, and then the
  message is the last one the channel has taken in.\<close>

definition chan_log :: "chan \<Rightarrow> ControlMessage list" where
  "chan_log v = ch_out v @ ch_buf v"

lemma Send_ok:
  assumes "Send n m s = (Inr (), s')"
  obtains e where "reg s n = Some e" "\<not> ch_closed (chans s (en_ch e))"
    "chan_log (chans s' (en_ch e)) = chan_log (chans s (en_ch e)) @ [m]"
    "\<forall>c. c \<noteq> en_ch e \<longrightarrow> chans s' c = chans s c"
proof -
  from assms obtain e where e: "reg s n = Some e" by (auto simp: Send_def split: option.splits)
  let ?v = "chans s (en_ch e)"
  have td: "take 1 xs @ List.drop 1 xs = xs" for xs :: "ControlMessage list" by (rule append_take_drop_id)
  obtain w s1 where w: "pop_wait s = (w, s1)" by fastforce
  have "\<not> ch_closed ?v" using assms e by (auto simp: Send_def Let_def)
  moreover have "chan_log (chans s' (en_ch e)) = chan_log ?v @ [m] \<and> (\<forall>c. c \<noteq> en_ch e \<longrightarrow> chans s' c = chans s c)"
    using assms e w tbl_pop_wait [OF w] td [of "ch_buf ?v @ [m]"]
    by (cases w) (auto simp: Send_def Let_def set_chan_def chan_log_def split: if_splits)
  ultimately show thesis using e by (auto intro: that)
qed

section \<open>The registry as a guarded map\<close>

definition put_entry :: "uuid \<Rightarrow> registryEntry \<Rightarrow> 'z world_scheme \<Rightarrow> 'z world_scheme" where
  "put_entry nodeID e s = s\<lparr>reg := (reg s)(nodeID \<mapsto> e)\<rparr>"

interpretation agents: guarded_map "reg :: world \<Rightarrow> uuid \<Rightarrow> registryEntry option" put_entry cleanup
  by unfold_locales (auto simp: put_entry_def cleanup_def split: option.split)

lemma Register_put:
  "Register n ch ep s = (e, s') \<Longrightarrow> s' = put_entry n e (s\<lparr>heap := Suc (heap s)\<rparr>)"
  by (auto simp: Register_def Let_def put_entry_def)

end
