(* ===== verification/External.thy ===== *)
theory External
  imports Proto
begin

text \<open>
  Code the repository calls but does not contain, as the fields of a record every definition that
  uses it takes as an argument: UUID and address parsing, the protobuf JSON codec, password
  hashing, SSH key parsing. What a theorem needs of one of them is a premise of that theorem.
\<close>

record ext =
  uuid_Parse :: "string \<Rightarrow> err + uuid"
  netip_ParseAddr :: "string \<Rightarrow> err + string"
  protojson_Marshal :: "Topology \<Rightarrow> err + string"
  protojson_Unmarshal :: "string \<Rightarrow> err + Topology"
  json_gpus :: "string \<Rightarrow> err + nat" \<comment> \<open>the length of the member \<open>gpus\<close> of a JSON object\<close>

text \<open>A concrete instance for witnesses: it knows the identifiers below 16, takes every address
  as it is and has one topology with two GPUs.\<close>

definition sample_gpu :: "int \<Rightarrow> string \<Rightarrow> string list \<Rightarrow> Gpu" where
  "sample_gpu ix pci cs = \<lparr>g_index = ix, g_pci = pci, g_model = ''RTX'', g_memory = 0, g_iommu_group = ''1'',
     g_driver = ''vfio-pci'', g_companions = cs, g_vfio_ready = True, g_bind_blocker = []\<rparr>"

definition sample_topology :: Topology where
  "sample_topology = \<lparr>tp_gpus = [sample_gpu 0 ''0000:16:00.0'' [''0000:16:00.1''], sample_gpu 1 ''0000:27:00.0'' []],
     tp_nvlink = [], tp_iommu = True, tp_profile = None\<rparr>"

definition sample_ext :: ext where
  "sample_ext = \<lparr>
     uuid_Parse = (\<lambda>s. case find (\<lambda>u. uuid_text u = s) (map of_nat [0..<16]) of
        None \<Rightarrow> Inl (Err ''invalid UUID'') | Some u \<Rightarrow> Inr u),
     netip_ParseAddr = (\<lambda>s. if s = [] then Inl (Err ''unable to parse IP'') else Inr s),
     protojson_Marshal = (\<lambda>_. Inr ''{gpus}''),
     protojson_Unmarshal = (\<lambda>s. if s = ''{gpus}'' then Inr sample_topology else Inl (Err ''syntax error'')),
     json_gpus = (\<lambda>s. if s = ''{gpus}'' then Inr 2 else if s = ''{}'' then Inr 0 else Inl (Err ''syntax error''))\<rparr>"

lemma find_eq: "find (\<lambda>x. x = y) xs = (if y \<in> set xs then Some y else None)"
  by (induction xs) auto

lemma sample_uuid_Parse:
  "uuid_Parse sample_ext (uuid_text u) =
     (if u \<in> set (map of_nat [0..<16]) then Inr u else Inl (Err ''invalid UUID''))"
  by (simp add: sample_ext_def find_eq)

end
