(* ===== verification/AgentStream.thy ===== *)
theory AgentStream
  imports DbSteps AgentRegistry External
begin

text \<open>
  Packages \<open>node\<close> and \<open>grpcsrv\<close> of main-api: the node repository (\<open>node/repo.go\<close>) and the agent
  stream service (\<open>grpc/agent_stream.go\<close>): registration of an agent, its messages, the sweeper
  that fails the instances of nodes whose heartbeat stopped, and the end of a stream.
\<close>

section \<open>Node repository\<close>

definition UpsertOnline :: "UpsertNodeParams \<Rightarrow> ('z pg_scheme, Node) action" where
  "UpsertOnline inp = UpsertNode inp"

definition TouchHeartbeat :: "uuid \<Rightarrow> ('z pg_scheme, unit) action" where
  "TouchHeartbeat i = TouchNodeHeartbeat i"

definition UpdateTopology :: "uuid \<Rightarrow> string \<Rightarrow> ('z pg_scheme, unit) action" where
  "UpdateTopology i js = ret ()"

definition MarkStaleOffline :: "time \<Rightarrow> ('z pg_scheme, uuid list) action" where
  "MarkStaleOffline before = MarkStaleNodesOfflineReturning before"

definition NonTerminalInstancesForNode :: "uuid \<Rightarrow> ('z pg_scheme, (uuid \<times> InstanceState) list) action" where
  "NonTerminalInstancesForNode nd = ListNonTerminalInstancesForNode nd"

definition NodeRepo_List :: "('z pg_scheme, Node list) action" where
  "NodeRepo_List = ListNodes"

definition ListAccessibleToUser :: "uuid \<Rightarrow> ('z pg_scheme, Node list) action" where
  "ListAccessibleToUser u = ListNodesAccessibleToUser u"

definition NodeRepo_Get :: "uuid \<Rightarrow> ('z pg_scheme, Node) action" where
  "NodeRepo_Get i = GetNode i"

definition DefaultZoneID :: "('z pg_scheme, uuid) action" where
  "DefaultZoneID = bnd GetDefaultZone (\<lambda>z. ret (z_id z))"

lemmas node_repo_defs = UpsertOnline_def TouchHeartbeat_def UpdateTopology_def MarkStaleOffline_def
  NonTerminalInstancesForNode_def NodeRepo_List_def ListAccessibleToUser_def NodeRepo_Get_def DefaultZoneID_def

section \<open>The stream service\<close>

text \<open>The optional collaborators of the service are flags: false is the nil pointer.\<close>

record AgentStreamService =
  as_instances :: bool
  as_slots :: bool
  as_profiles :: bool
  as_registry :: bool
  as_token :: string
  as_zone :: uuid
  as_heartbeat :: int \<comment> \<open>nanoseconds\<close>
  as_buffer :: int

definition rpc_err :: "string \<Rightarrow> string \<Rightarrow> err" where
  "rpc_err code msg = Err (''rpc error: code = '' @ code @ '' desc = '' @ msg)"

definition heartbeatInterval :: "AgentStreamService \<Rightarrow> int" where
  "heartbeatInterval svc = (if as_heartbeat svc > 0 then as_heartbeat svc else 15 * 1000000000)"

definition sendBuffer :: "AgentStreamService \<Rightarrow> int" where
  "sendBuffer svc = (if as_buffer svc > 0 then as_buffer svc else 16)"

definition marshalTopology :: "ext \<Rightarrow> Topology option \<Rightarrow> err + string" where
  "marshalTopology X t = (case t of None \<Rightarrow> Inr ''{}'' | Some tp \<Rightarrow> protojson_Marshal X tp)"

definition toProfileSlots :: "SlotSpec list \<Rightarrow> ProfileSlot list" where
  "toProfileSlots ss = map (\<lambda>s. \<lparr>ps_index = sp_index s, ps_gpus = sp_gpus s,
     ps_gpu_indices = sp_gpu_indices s, ps_nvlink = sp_nvlink s\<rparr>) ss"

definition mapInstanceState :: "PbInstanceState \<Rightarrow> err + InstanceState" where
  "mapInstanceState st = (case st of
       INSTANCE_STATE_PROVISIONING \<Rightarrow> Inr Provisioning
     | INSTANCE_STATE_RUNNING \<Rightarrow> Inr Running
     | INSTANCE_STATE_STOPPING \<Rightarrow> Inr Stopping
     | INSTANCE_STATE_STOPPED \<Rightarrow> Inr Stopped
     | INSTANCE_STATE_FAILED \<Rightarrow> Inr Failed
     | _ \<Rightarrow> Inl (Err ''unknown instance state''))"

definition status_options :: "ext \<Rightarrow> InstanceStatus \<Rightarrow> TransitionOptions" where
  "status_options X st = \<lparr>o_reason = ''agent_report'', o_error = st_error st,
     o_ip = (if st_ip st \<noteq> [] then (case netip_ParseAddr X (st_ip st) of Inl _ \<Rightarrow> None | Inr a \<Rightarrow> Some a) else None),
     o_meta = [], o_skip = False\<rparr>"

definition release_if_terminal ::
  "AgentStreamService \<Rightarrow> uuid \<Rightarrow> InstanceState \<Rightarrow> ('z pg_scheme, unit) action" where
  "release_if_terminal svc i to =
     (if as_slots svc \<and> IsTerminal to then attempt (ReleaseForInstance i) (\<lambda>_. ret ()) else ret ())"

definition applyInstanceStatus ::
  "AgentStreamService \<Rightarrow> ext \<Rightarrow> InstanceStatus \<Rightarrow> ('z pg_scheme, unit) action" where
  "applyInstanceStatus svc X st =
     (if \<not> as_instances svc then ret ()
      else case uuid_Parse X (st_instance st) of
        Inl e \<Rightarrow> fail e
      | Inr i \<Rightarrow> (case mapInstanceState (st_state st) of
          Inl e \<Rightarrow> fail e
        | Inr to \<Rightarrow> attempt (Transition i to (status_options X st)) (\<lambda>r.
            case r of
              Inl e \<Rightarrow> if \<not> err_is e ErrInvalidTransition then fail e else release_if_terminal svc i to
            | Inr _ \<Rightarrow> release_if_terminal svc i to)))"

definition handleAgentMessage ::
  "AgentStreamService \<Rightarrow> ext \<Rightarrow> uuid \<Rightarrow> AgentMessage \<Rightarrow> ('z pg_scheme, unit) action" where
  "handleAgentMessage svc X nodeID msg = (case msg of
       MHeartbeat \<Rightarrow> TouchHeartbeat nodeID
     | MTopology t \<Rightarrow> (case marshalTopology X t of
           Inl e \<Rightarrow> fail e
         | Inr raw \<Rightarrow> UpdateTopology nodeID raw)
     | MInstanceStatus st \<Rightarrow> applyInstanceStatus svc X st
     | MAck \<Rightarrow> ret ()
     | MRegister _ \<Rightarrow> fail (rpc_err ''InvalidArgument'' ''Register received after initial handshake'')
     | NoPayload \<Rightarrow> fail (rpc_err ''InvalidArgument'' ''unknown AgentMessage payload <nil>''))"

text \<open>What \<open>stream.Recv()\<close> returns.\<close>

datatype recv = RecvMsg AgentMessage | RecvEOF | RecvCanceled err | RecvErr err

text \<open>\<open>receiveLoop\<close> on the results of its successive \<open>Recv\<close> calls; a list that runs out stands
  for the end of the stream.\<close>

fun receiveLoop ::
  "AgentStreamService \<Rightarrow> ext \<Rightarrow> uuid \<Rightarrow> recv list \<Rightarrow> 'z pg_scheme \<Rightarrow> err option \<times> 'z pg_scheme" where
  "receiveLoop svc X nodeID [] = reply None"
| "receiveLoop svc X nodeID (RecvMsg msg # rs) =
     attempt (handleAgentMessage svc X nodeID msg) (\<lambda>_. receiveLoop svc X nodeID rs)"
| "receiveLoop svc X nodeID (RecvEOF # rs) = reply None"
| "receiveLoop svc X nodeID (RecvCanceled e # rs) = reply None"
| "receiveLoop svc X nodeID (RecvErr e # rs) = reply (Some e)"

definition make_chan :: "nat \<Rightarrow> 'z world_scheme \<Rightarrow> nat \<times> 'z world_scheme" where
  "make_chan cap s = (heap s, s\<lparr>heap := Suc (heap s),
     chans := (chans s)(heap s := \<lparr>ch_buf = [], ch_cap = cap, ch_closed = False, ch_out = []\<rparr>)\<rparr>)"

definition close_chan :: "nat \<Rightarrow> 'z world_scheme \<Rightarrow> unit \<times> 'z world_scheme" where
  "close_chan c s = ((), set_chan c ((chans s c)\<lparr>ch_closed := True\<rparr>) s)"

text \<open>One turn of \<open>sendLoop\<close>: the next message goes out on the stream.\<close>

definition sendLoop_turn :: "nat \<Rightarrow> 'z world_scheme \<Rightarrow> ControlMessage option \<times> 'z world_scheme" where
  "sendLoop_turn c s = (case ch_buf (chans s c) of
       [] \<Rightarrow> (None, s)
     | m # ms \<Rightarrow> (Some m, set_chan c ((chans s c)\<lparr>ch_buf := ms, ch_out := ch_out (chans s c) @ [m]\<rparr>) s))"

record stream =
  str_node :: uuid
  str_ch :: nat
  str_entry :: "registryEntry option"

text \<open>The first part of \<open>Stream\<close>, up to the registered send channel. \<open>ack\<close> is the outcome of
  sending the RegisterAck.\<close>

definition stream_open ::
  "AgentStreamService \<Rightarrow> ext \<Rightarrow> recv \<Rightarrow> err option \<Rightarrow> ('z world_scheme, stream) action" where
  "stream_open svc X first ack =
     (case first of
        RecvEOF \<Rightarrow> fail (rpc_err ''Canceled'' ''recv Register: EOF'')
      | RecvCanceled e \<Rightarrow> fail (rpc_err ''Canceled'' (''recv Register: '' @ err_text e))
      | RecvErr e \<Rightarrow> fail (rpc_err ''Canceled'' (''recv Register: '' @ err_text e))
      | RecvMsg (MRegister rg) \<Rightarrow>
          if rg_token rg = [] \<or> rg_token rg \<noteq> as_token svc
          then fail (rpc_err ''Unauthenticated'' ''invalid agent token'')
          else (case marshalTopology X (rg_topology rg) of
            Inl e \<Rightarrow> fail (rpc_err ''InvalidArgument'' (''topology json: '' @ err_text e))
          | Inr topo \<Rightarrow>
            bnd (wrap_err (\<lambda>e. rpc_err ''Internal'' (''register: '' @ err_text e))
                   (UpsertOnline \<lparr>un_zone = as_zone svc, un_name = rg_node_name rg,
                      un_hostname = rg_hostname rg, un_version = rg_version rg, un_topology = topo\<rparr>)) (\<lambda>n.
            case ack of
              Some e \<Rightarrow> fail (rpc_err ''Canceled'' (''send RegisterAck: '' @ err_text e))
            | None \<Rightarrow>
              attempt (case rg_topology rg of
                         Some tp \<Rightarrow> (case tp_profile tp of
                             Some pf \<Rightarrow> if as_profiles svc
                               then SyncFromProfile (n_id n) (pf_hash pf) (toProfileSlots (pf_slots pf))
                               else ret SyncUnchanged
                           | None \<Rightarrow> ret SyncUnchanged)
                       | None \<Rightarrow> ret SyncUnchanged) (\<lambda>_.
              attempt (make_chan (nat (sendBuffer svc))) (\<lambda>ch.
              if as_registry svc
              then attempt (Register (n_id n) ch (rg_endpoint rg)) (\<lambda>e.
                     ret \<lparr>str_node = n_id n, str_ch = ch, str_entry = Some e\<rparr>)
              else ret \<lparr>str_node = n_id n, str_ch = ch, str_entry = None\<rparr>))))
      | RecvMsg _ \<Rightarrow> fail (rpc_err ''InvalidArgument'' ''first message must be Register''))"

text \<open>The end of \<open>Stream\<close>: the send channel is closed while the entry is still registered, and
  the deferred clean-up runs when the function returns.\<close>

definition stream_cleanup :: "stream \<Rightarrow> 'z world_scheme \<Rightarrow> unit \<times> 'z world_scheme" where
  "stream_cleanup st s = ((), case str_entry st of None \<Rightarrow> s | Some e \<Rightarrow> cleanup (str_node st) e s)"

definition Stream ::
  "AgentStreamService \<Rightarrow> ext \<Rightarrow> recv \<Rightarrow> err option \<Rightarrow> recv list \<Rightarrow> err option \<Rightarrow> ('z world_scheme, unit) action" where
  "Stream svc X first ack recvs sendErr =
     bnd (stream_open svc X first ack) (\<lambda>st.
     attempt (receiveLoop svc X (str_node st) recvs) (\<lambda>recvErr.
     attempt (close_chan (str_ch st)) (\<lambda>_.
     attempt (stream_cleanup st) (\<lambda>_.
     case recvErr of
       Some e \<Rightarrow> fail e
     | None \<Rightarrow> (case sendErr of Some e \<Rightarrow> fail e | None \<Rightarrow> ret ())))))"

section \<open>The sweeper\<close>

definition reap_one :: "AgentStreamService \<Rightarrow> uuid \<times> InstanceState \<Rightarrow> ('z pg_scheme, unit) action" where
  "reap_one svc row =
     attempt (Transition (fst row) Failed (opts ''node_offline'' ''agent heartbeat timed out; node marked offline'')) (\<lambda>r.
     case r of
       Inl e \<Rightarrow> if \<not> err_is e ErrInvalidTransition then ret ()
                else if as_slots svc then attempt (ReleaseForInstance (fst row)) (\<lambda>_. ret ()) else ret ()
     | Inr _ \<Rightarrow> if as_slots svc then attempt (ReleaseForInstance (fst row)) (\<lambda>_. ret ()) else ret ())"

definition reapInstancesForOfflineNode ::
  "AgentStreamService \<Rightarrow> uuid \<Rightarrow> 'z pg_scheme \<Rightarrow> unit \<times> 'z pg_scheme" where
  "reapInstancesForOfflineNode svc nodeID =
     attempt (NonTerminalInstancesForNode nodeID) (\<lambda>r. case r of
       Inl e \<Rightarrow> reply ()
     | Inr rows \<Rightarrow> for_go (reap_one svc) rows)"

text \<open>One tick of \<open>StaleSweeper\<close>.\<close>

definition StaleSweeper_tick ::
  "AgentStreamService \<Rightarrow> time \<Rightarrow> int \<Rightarrow> 'z pg_scheme \<Rightarrow> unit \<times> 'z pg_scheme" where
  "StaleSweeper_tick svc now ttl =
     attempt (MarkStaleOffline (now - ttl)) (\<lambda>r. case r of
       Inl e \<Rightarrow> reply ()
     | Inr ids \<Rightarrow> for_go (reapInstancesForOfflineNode svc) ids)"

section \<open>Every operation moves along the database relation\<close>

lemma tbl_make_chan: "keeps (tinv I) (make_chan c)" "keeps (tinv I) (close_chan c')"
    "keeps (tinv I) (sendLoop_turn c')" "keeps (tinv I) (Register n ch ep)" "keeps (tinv I) (stream_cleanup st)"
  by (auto simp: keeps_def tinv_def make_chan_def close_chan_def sendLoop_turn_def Register_def Let_def
      stream_cleanup_def cleanup_def split: list.split option.split)

lemma keeps_applyInstanceStatus [db_rules]: "keeps (tinv (db_reach G T0)) (applyInstanceStatus svc X st)"
  unfolding applyInstanceStatus_def release_if_terminal_def by (intro keeps_rules db_rules)

lemma keeps_handleAgentMessage [db_rules]: "keeps (tinv (db_reach G T0)) (handleAgentMessage svc X nd msg)"
  unfolding handleAgentMessage_def node_repo_defs
  by (cases msg) (simp_all, (intro keeps_rules db_rules)+)

lemma keeps_receiveLoop [db_rules]: "keeps (tinv (db_reach G T0)) (receiveLoop svc X nd rs)"
  by (induction svc X nd rs rule: receiveLoop.induct) (auto intro!: keeps_rules db_rules)

text \<open>The one event that changes the slot layout of a node is the registration of its agent.\<close>

definition admits :: "admission \<Rightarrow> recv \<Rightarrow> bool" where
  "admits G first \<longleftrightarrow> (\<forall>rg tp pf nd. first = RecvMsg (MRegister rg) \<longrightarrow> rg_topology rg = Some tp \<longrightarrow>
     tp_profile tp = Some pf \<longrightarrow> G nd (toProfileSlots (pf_slots pf)))"

lemma admits_all [simp]: "admits (\<lambda>_ _. True) first"
  by (simp add: admits_def)

lemma keeps_stream_open [db_rules]:
  assumes "admits G first"
  shows "keeps (tinv (db_reach G T0)) (stream_open svc X first ack)"
proof (cases first)
  case (RecvMsg m)
  show ?thesis
  proof (cases m)
    case (MRegister rg)
    have sync: "keeps (tinv (db_reach G T0)) (case rg_topology rg of
         Some tp \<Rightarrow> (case tp_profile tp of
             Some pf \<Rightarrow> if as_profiles svc then SyncFromProfile nd (pf_hash pf) (toProfileSlots (pf_slots pf)) else ret SyncUnchanged
           | None \<Rightarrow> ret SyncUnchanged)
       | None \<Rightarrow> ret SyncUnchanged)" for nd
      using assms RecvMsg MRegister
      by (auto simp: admits_def keeps_rules split: option.split intro: db_rules)
    show ?thesis unfolding stream_open_def node_repo_defs RecvMsg recv.case MRegister AgentMessage.case
      by (intro keeps_rules sync; intro keeps_rules db_rules tbl_make_chan)
  qed (simp_all add: RecvMsg stream_open_def keeps_rules)
qed (simp_all add: stream_open_def keeps_rules)

lemma keeps_Stream [db_rules]: "admits G first \<Longrightarrow> keeps (tinv (db_reach G T0)) (Stream svc X first ack recvs sendErr)"
  unfolding Stream_def by (intro keeps_rules db_rules tbl_make_chan)

lemma keeps_StaleSweeper_tick [db_rules]: "keeps (tinv (db_reach G T0)) (StaleSweeper_tick svc now ttl)"
  unfolding StaleSweeper_tick_def reapInstancesForOfflineNode_def reap_one_def node_repo_defs
  by (intro keeps_rules db_rules)

end
