(* ===== verification/Http.thy ===== *)
theory Http
  imports Schema
begin

text \<open>
  What the HTTP handlers of main-api read and write: request bodies after JSON decoding, the JSON
  views they answer with, and responses. JSON itself is not modelled: a body is what decoding it
  gave, and a response carries the value that is encoded.
\<close>

text \<open>\<open>io.ReadAll\<close> followed by \<open>json.Unmarshal\<close>: either may fail.\<close>

datatype 'a body_in = ReadErr err | BadJson err | Decoded 'a

record InstanceView =
  iv_id :: uuid
  iv_node :: uuid
  iv_name :: string
  iv_state :: string
  iv_memory :: int
  iv_vcpus :: int
  iv_gpus :: int
  iv_pubkeys :: "string list"
  iv_ip :: string
  iv_error :: string
  iv_created :: time
  iv_updated :: time

record CreditEntryView =
  cv_id :: nat
  cv_delta :: int
  cv_reason :: string
  cv_key :: string
  cv_instance :: "uuid option"
  cv_meta :: string
  cv_created :: time

record UserNodeView =
  uv_id :: uuid
  uv_name :: string
  uv_status :: string
  uv_gpus :: nat

record NodeView =
  nv_id :: uuid
  nv_name :: string
  nv_hostname :: string
  nv_status :: string
  nv_version :: string
  nv_gpus :: nat
  nv_heartbeat :: "time option"
  nv_registered :: time

record userView =
  us_id :: uuid
  us_email :: string
  us_admin :: bool
  us_created :: time

record SSHKeyView =
  kv_id :: uuid
  kv_label :: string
  kv_pubkey :: string
  kv_fingerprint :: string
  kv_created :: time

record AdminUserView =
  au_id :: uuid
  au_email :: string
  au_admin :: bool
  au_balance :: int
  au_active :: int
  au_created :: time

record AdminSlotView =
  av_id :: uuid
  av_node :: uuid
  av_node_name :: string
  av_index :: int
  av_gpus :: int
  av_gpu_indices :: "int list"
  av_nvlink :: string
  av_status :: string
  av_instance :: "uuid option"

record Signed =
  sg_payload :: string
  sg_signature :: string

datatype json =
    JInstance InstanceView
  | JInstances "InstanceView list"
  | JEntry CreditEntryView int
  | JLedger int "CreditEntryView list"
  | JUserNodes "UserNodeView list"
  | JNodes "NodeView list"
  | JUser userView
  | JKey SSHKeyView
  | JKeys "SSHKeyView list"
  | JAdminUsers "AdminUserView list"
  | JAdminSlots "AdminSlotView list"
  | JSigned Signed
  | JAgentAuth string string string string

text \<open>The cookie of a response: a session token with its expiry, or its removal.\<close>

datatype cookie = SetSession string time | ExpireSession

text \<open>\<open>HPanic\<close>: the handler's goroutine panicked; \<open>net/http\<close> drops the connection.\<close>

datatype response =
    HError nat string string
  | HJson nat "cookie option" json
  | HStatus nat "cookie option"
  | HPanic string

primrec status_of :: "response \<Rightarrow> nat option" where
  "status_of (HError c k m) = Some c"
| "status_of (HJson c ck j) = Some c"
| "status_of (HStatus c ck) = Some c"
| "status_of (HPanic m) = None"

definition writeJSON :: "nat \<Rightarrow> json \<Rightarrow> response" where
  "writeJSON st b = HJson st None b"

definition writeError :: "nat \<Rightarrow> string \<Rightarrow> string \<Rightarrow> response" where
  "writeError st code msg = HError st code msg"

definition node_status_text :: "NodeStatus \<Rightarrow> string" where
  "node_status_text st = (case st of Offline \<Rightarrow> ''offline'' | Online \<Rightarrow> ''online''
     | Degraded \<Rightarrow> ''degraded'' | Draining \<Rightarrow> ''draining'')"

definition slot_status_text :: "SlotStatus \<Rightarrow> string" where
  "slot_status_text st = (case st of Free \<Rightarrow> ''free'' | Reserved \<Rightarrow> ''reserved''
     | InUse \<Rightarrow> ''in_use'' | SlotDraining \<Rightarrow> ''draining'')"

end
