(* ===== verification/GoStrings.thy ===== *)
theory GoStrings
  imports Prelude
begin

text \<open>
  The functions of Go's package \<open>strings\<close> the sources call, on byte strings. Case folding and
  white space are those of ASCII: a byte of a multi-byte UTF-8 sequence is left as it is and is
  not white space.
\<close>

definition TrimPrefix :: "string \<Rightarrow> string \<Rightarrow> string" where
  "TrimPrefix s p = (if prefix p s then drop (length p) s else s)"

definition TrimSuffix :: "string \<Rightarrow> string \<Rightarrow> string" where
  "TrimSuffix s p = (if suffix p s then take (length s - length p) s else s)"

definition is_space :: "char \<Rightarrow> bool" where
  "is_space c \<longleftrightarrow> c \<in> {CHR '' '', CHR 0x09, CHR 0x0A, CHR 0x0B, CHR 0x0C, CHR 0x0D}"

definition TrimSpace :: "string \<Rightarrow> string" where
  "TrimSpace s = rev (dropWhile is_space (rev (dropWhile is_space s)))"

definition lower_char :: "char \<Rightarrow> char" where
  "lower_char c = (let n = of_char c :: nat in
     if 65 \<le> n \<and> n \<le> 90 then char_of (n + 32) else c)"

definition ToLower :: "string \<Rightarrow> string" where
  "ToLower s = map lower_char s"

text \<open>\<open>strings.Split(s, sep)\<close> for a separator of one byte: never the empty list.\<close>

fun Split :: "string \<Rightarrow> char \<Rightarrow> string list" where
  "Split [] c = [[]]"
| "Split (x # xs) c =
     (if x = c then [] # Split xs c
      else (case Split xs c of [] \<Rightarrow> [[x]] | y # ys \<Rightarrow> (x # y) # ys))"

text \<open>\<open>strings.Index(s, sub)\<close> for one byte, \<open>None\<close> for the result \<open>-1\<close>.\<close>

fun IndexChar :: "string \<Rightarrow> char \<Rightarrow> nat option" where
  "IndexChar [] c = None"
| "IndexChar (x # xs) c = (if x = c then Some 0 else map_option Suc (IndexChar xs c))"

text \<open>\<open>strings.Contains\<close>.\<close>

fun Contains :: "string \<Rightarrow> string \<Rightarrow> bool" where
  "Contains [] p = (p = [])"
| "Contains (x # xs) p = (prefix p (x # xs) \<or> Contains xs p)"

section \<open>Laws\<close>

lemma TrimPrefix_append [simp]: "TrimPrefix (p @ s) p = s"
  by (simp add: TrimPrefix_def)

lemma TrimSuffix_append [simp]: "TrimSuffix (s @ p) p = s"
  by (simp add: TrimSuffix_def suffix_def)

lemma TrimPrefix_noop: "\<not> prefix p s \<Longrightarrow> TrimPrefix s p = s"
  by (simp add: TrimPrefix_def)

lemma TrimPrefix_changed: "TrimPrefix s p \<noteq> s \<Longrightarrow> s = p @ TrimPrefix s p"
  by (auto simp: TrimPrefix_def prefix_def split: if_splits)

lemma Split_nonempty [simp]: "Split s c \<noteq> []"
  by (induction s) (auto split: list.split)

lemma Split_no_sep: "c \<notin> set s \<Longrightarrow> Split s c = [s]"
  by (induction s) auto

lemma Split_append_sep:
  "c \<notin> set s \<Longrightarrow> Split (s @ c # t) c = s # Split t c"
  by (induction s) auto

lemma Split_parts: "p \<in> set (Split s c) \<Longrightarrow> c \<notin> set p"
proof (induction s arbitrary: p)
  case Nil
  then show ?case by simp
next
  case (Cons x xs)
  obtain y ys where y: "Split xs c = y # ys" by (cases "Split xs c") auto
  with Cons show ?case by (auto split: if_splits)
qed

text \<open>Splitting loses nothing: joining the parts with the separator gives the string back.\<close>

fun join_char :: "char \<Rightarrow> string list \<Rightarrow> string" where
  "join_char c [] = []"
| "join_char c [p] = p"
| "join_char c (p # q # ps) = p @ c # join_char c (q # ps)"

lemma join_char_Cons: "ps \<noteq> [] \<Longrightarrow> join_char c (p # ps) = p @ c # join_char c ps"
  by (cases ps) auto

lemma join_Split: "join_char c (Split s c) = s"
proof (induction s)
  case Nil
  then show ?case by simp
next
  case (Cons x xs)
  obtain y ys where y: "Split xs c = y # ys" by (cases "Split xs c") auto
  with Cons show ?case
    by (cases ys) (auto simp: join_char_Cons)
qed

lemma Contains_single: "Contains s [c] \<longleftrightarrow> c \<in> set s"
  by (induction s) (auto simp: prefix_def Cons_eq_append_conv)

lemma Contains_iff_sublist: "Contains s p \<longleftrightarrow> sublist p s"
proof (induction s)
  case Nil
  then show ?case by simp
next
  case (Cons x xs)
  then show ?case by (simp add: sublist_Cons_right)
qed

lemma IndexChar_None: "IndexChar s c = None \<longleftrightarrow> c \<notin> set s"
  by (induction s) auto

lemma IndexChar_Some:
  "IndexChar s c = Some i \<Longrightarrow> i < length s \<and> s ! i = c \<and> c \<notin> set (take i s)"
  by (induction s arbitrary: i) (auto split: if_splits)

lemma lower_char_idem [simp]: "lower_char (lower_char c) = lower_char c"
  by (simp add: lower_char_def Let_def)

lemma ToLower_idem [simp]: "ToLower (ToLower s) = ToLower s"
  by (simp add: ToLower_def comp_def)

lemma ToLower_append [simp]: "ToLower (s @ t) = ToLower s @ ToLower t"
  by (simp add: ToLower_def)

lemma length_ToLower [simp]: "length (ToLower s) = length s"
  by (simp add: ToLower_def)

lemma lower_char_eq_dot: "lower_char c = CHR ''.'' \<longleftrightarrow> c = CHR ''.''"
proof
  assume eq: "lower_char c = CHR ''.''"
  show "c = CHR ''.''"
  proof (cases "65 \<le> (of_char c :: nat) \<and> (of_char c :: nat) \<le> 90")
    case True
    then have "of_char (lower_char c) = (of_char c :: nat) + 32"
      by (simp add: lower_char_def Let_def)
    with eq True show ?thesis by simp
  next
    case False
    with eq show ?thesis by (auto simp: lower_char_def Let_def)
  qed
qed (simp add: lower_char_def)

lemma TrimSpace_no_leading: "TrimSpace s \<noteq> [] \<Longrightarrow> \<not> is_space (hd (TrimSpace s))"
proof -
  assume ne: "TrimSpace s \<noteq> []"
  let ?m = "dropWhile is_space s"
  let ?r = "dropWhile is_space (rev ?m)"
  obtain k where k: "rev ?m = takeWhile is_space (rev ?m) @ ?r"
    by (metis takeWhile_dropWhile_id)
  then have m: "?m = rev ?r @ rev (takeWhile is_space (rev ?m))"
    by (metis rev_append rev_rev_ident)
  from ne have "rev ?r \<noteq> []" by (simp add: TrimSpace_def)
  then have "hd (TrimSpace s) = hd ?m" unfolding TrimSpace_def using m by (metis hd_append2)
  moreover have "?m \<noteq> []" using m \<open>rev ?r \<noteq> []\<close> by (metis append_is_Nil_conv)
  ultimately show ?thesis by (simp add: hd_dropWhile)
qed

lemma TrimSpace_no_trailing: "TrimSpace s \<noteq> [] \<Longrightarrow> \<not> is_space (last (TrimSpace s))"
  unfolding TrimSpace_def by (metis hd_dropWhile last_rev rev_is_Nil_conv)

lemma TrimSpace_id: "s = [] \<or> \<not> is_space (hd s) \<and> \<not> is_space (last s) \<Longrightarrow> TrimSpace s = s"
proof (cases "s = []")
  case False
  assume "s = [] \<or> \<not> is_space (hd s) \<and> \<not> is_space (last s)"
  with False have h: "\<not> is_space (hd s)" and l: "\<not> is_space (last s)" by auto
  from False h have "dropWhile is_space s = s" by (cases s) auto
  moreover from False l have "dropWhile is_space (rev s) = rev s"
    by (cases "rev s") (auto simp: last_conv_nth hd_rev [symmetric])
  ultimately show ?thesis by (simp add: TrimSpace_def)
qed (simp add: TrimSpace_def)

lemma TrimSpace_idem [simp]: "TrimSpace (TrimSpace s) = TrimSpace s"
  by (rule TrimSpace_id) (use TrimSpace_no_leading TrimSpace_no_trailing in blast)

end
