(* ===== verification/InstanceApi.thy ===== *)
theory InstanceApi
  imports AgentStream Http GoStrings
begin

text \<open>
  The instance endpoints of main-api: the operator handlers (\<open>api/admin_instances.go\<close>), with the
  reserve, create, bind and dispatch sequence they share with the user handlers
  (\<open>api/user_instances.go\<close>), and the SSH key store they draw on (\<open>sshkeys/sshkeys.go\<close>).
\<close>

section \<open>SSH keys of a user\<close>

definition PubkeysForUser :: "uuid \<Rightarrow> ('z pg_scheme, string list) action" where
  "PubkeysForUser u = attempt (ListSSHKeysForUser u) (\<lambda>r. case r of
       Inl e \<Rightarrow> if err_is e ErrNoRows then ret [] else fail e
     | Inr rows \<Rightarrow> ret (map k_pubkey rows))"

section \<open>Configuration and requests\<close>

text \<open>The optional collaborators of \<open>InstanceHandlers\<close>; false is nil. The functions behind
  \<open>ExtraSSHKeysForOwner\<close> and \<open>BalanceForOwner\<close> are the ones \<open>cmd/main-api\<close> wires in.\<close>

record InstanceHandlers =
  ih_slots :: bool
  ih_extras :: bool
  ih_balance :: bool
  ih_team :: bool

record createInstanceRequest =
  cr_node :: string
  cr_name :: string
  cr_memory :: int
  cr_vcpus :: int
  cr_gpus :: int
  cr_pubkeys :: "string list"
  cr_image :: string

definition toInstanceView :: "Instance \<Rightarrow> InstanceView" where
  "toInstanceView r = \<lparr>iv_id = i_id r, iv_node = i_node r, iv_name = i_name r,
     iv_state = state_text (i_state r), iv_memory = i_memory r, iv_vcpus = i_vcpus r, iv_gpus = i_gpus r,
     iv_pubkeys = i_pubkeys r, iv_ip = (case i_ip r of None \<Rightarrow> [] | Some a \<Rightarrow> a), iv_error = i_error r,
     iv_created = i_created r, iv_updated = i_updated r\<rparr>"

section \<open>Helpers\<close>

text \<open>The two loops of \<open>mergeSSHPubkeys\<close>, with the set \<open>seen\<close> and the list \<open>out\<close> they share.\<close>

primrec merge_loop :: "string list \<Rightarrow> string set \<times> string list \<Rightarrow> string set \<times> string list" where
  "merge_loop [] acc = acc"
| "merge_loop (k # ks) acc = (case acc of (seen, out) \<Rightarrow>
     merge_loop ks (if k \<in> seen then (seen, out) else (insert k seen, out @ [k])))"

definition mergeSSHPubkeys :: "string list \<Rightarrow> string list \<Rightarrow> string list" where
  "mergeSSHPubkeys a b = snd (merge_loop b (merge_loop a ({}, [])))"

text \<open>The inner loops of \<open>resolvePassthroughPCI\<close>: \<open>by_index\<close> is the map built from the topology,
  in which a later GPU with the same index replaces an earlier one.\<close>

definition by_index :: "Gpu list \<Rightarrow> int \<Rightarrow> Gpu option" where
  "by_index gs = fold (\<lambda>g m. m(g_index g \<mapsto> g)) gs (\<lambda>_. None)"

fun collect_pci :: "(int \<Rightarrow> Gpu option) \<Rightarrow> int list \<Rightarrow> err + string list" where
  "collect_pci m [] = Inr []"
| "collect_pci m (ix # ixs) = (case m ix of
       None \<Rightarrow> Inl (Err (''gpu index '' @ dec_int ix @ '' not in topology''))
     | Some g \<Rightarrow> (case collect_pci m ixs of
           Inl e \<Rightarrow> Inl e
         | Inr ps \<Rightarrow> Inr (g_pci g # g_companions g @ ps)))"

definition resolvePassthroughPCI :: "ext \<Rightarrow> string \<Rightarrow> GpuSlot list \<Rightarrow> err + string list" where
  "resolvePassthroughPCI X js ss =
     (if js = [] \<or> js = ''{}'' then Inl (Err ''node has no stored topology'')
      else case protojson_Unmarshal X js of
        Inl e \<Rightarrow> Inl (WrapErr ''parse topology: '' e [])
      | Inr topo \<Rightarrow> collect_pci (by_index (tp_gpus topo)) (concat (map s_gpu_indices ss)))"

section \<open>Creation\<close>

text \<open>A step of a handler that may already answer: \<open>Inl\<close> is the response, \<open>Inr\<close> goes on. The
  sources return the status 0 for the second case.\<close>

definition validateCreate ::
  "ext \<Rightarrow> createInstanceRequest body_in \<Rightarrow> 'z world_scheme \<Rightarrow>
     (response + createInstanceRequest \<times> Node) \<times> 'z world_scheme" where
  "validateCreate X body = (case body of
       ReadErr e \<Rightarrow> reply (Inl (writeError 400 ''read_body'' (err_text e)))
     | BadJson e \<Rightarrow> reply (Inl (writeError 400 ''bad_json'' (err_text e)))
     | Decoded req \<Rightarrow> (case uuid_Parse X (cr_node req) of
         Inl e \<Rightarrow> reply (Inl (writeError 400 ''bad_node_id'' (err_text e)))
       | Inr nodeID \<Rightarrow>
         if cr_name req = [] \<or> cr_memory req \<le> 0 \<or> cr_vcpus req \<le> 0
         then reply (Inl (writeError 400 ''bad_fields'' ''name, memory_mb, vcpus required''))
         else if cr_gpus req < 0
         then reply (Inl (writeError 400 ''bad_gpu_count'' ''gpu_count must be >= 0''))
         else attempt (NodeRepo_Get nodeID) (\<lambda>r. case r of
           Inl e \<Rightarrow> reply (Inl (writeError 404 ''node_not_found'' (err_text e)))
         | Inr node \<Rightarrow>
             if n_status node \<noteq> Online
             then reply (Inl (writeError 409 ''node_offline'' ''target node is not online''))
             else (\<lambda>s. if \<not> Connected (n_id node) s
                  then (Inl (writeError 409 ''agent_not_connected'' ''agent stream is not open''), s)
                  else (Inr (req, node), s)))))"

definition reserveIfNeeded ::
  "InstanceHandlers \<Rightarrow> ext \<Rightarrow> createInstanceRequest \<Rightarrow> Node \<Rightarrow> 'z pg_scheme \<Rightarrow>
     (response + Reservation \<times> string list) \<times> 'z pg_scheme" where
  "reserveIfNeeded h X req node =
     (if cr_gpus req = 0 then reply (Inr ([], []))
      else if \<not> ih_slots h
      then reply (Inl (writeError 500 ''slots_unavailable'' ''slot repo not wired''))
      else attempt (Reserve (n_id node) (cr_gpus req) 1) (\<lambda>r. case r of
        Inl e \<Rightarrow> if err_is e ErrNoFreeSlots
                 then reply (Inl (writeError 409 ''no_free_slots'' (err_text e)))
                 else reply (Inl (writeError 500 ''reserve_failed'' (err_text e)))
      | Inr res \<Rightarrow> (case resolvePassthroughPCI X (n_topology node) res of
            Inl e \<Rightarrow> attempt (ReleaseReserved res) (\<lambda>_.
                     reply (Inl (writeError 500 ''resolve_pci'' (err_text e))))
          | Inr pci \<Rightarrow> reply (Inr (res, pci)))))"

definition create_params :: "createInstanceRequest \<Rightarrow> Node \<Rightarrow> uuid option \<Rightarrow> Reservation \<Rightarrow> CreateInstanceParams" where
  "create_params req node owner res = \<lparr>ci_owner = owner, ci_node = n_id node, ci_name = cr_name req,
     ci_memory = cr_memory req, ci_vcpus = cr_vcpus req, ci_gpus = cr_gpus req,
     ci_slots = SlotIndices res, ci_pubkeys = cr_pubkeys req, ci_image = cr_image req\<rparr>"

definition create_message :: "Instance \<Rightarrow> Reservation \<Rightarrow> string list \<Rightarrow> ControlMessage" where
  "create_message inst res pci = CCreateInstance \<lparr>cm_instance = uuid_text (i_id inst), cm_name = i_name inst,
     cm_memory = nat (i_memory inst mod 2 ^ 32), cm_vcpus = nat (i_vcpus inst mod 2 ^ 32),
     cm_pubkeys = i_pubkeys inst, cm_slots = SlotIndices res, cm_image = i_image inst, cm_pci = pci\<rparr>"

definition dispatchCreate ::
  "uuid \<Rightarrow> Instance \<Rightarrow> Reservation \<Rightarrow> string list \<Rightarrow> ('z world_scheme, unit) action" where
  "dispatchCreate nodeID inst res pci = Send nodeID (create_message inst res pci)"

definition markFailed :: "uuid \<Rightarrow> string \<Rightarrow> string \<Rightarrow> 'z pg_scheme \<Rightarrow> unit \<times> 'z pg_scheme" where
  "markFailed i reason msg = attempt (Transition i Failed (opts reason msg)) (\<lambda>_. reply ())"

definition when_gpu :: "createInstanceRequest \<Rightarrow> ('s \<Rightarrow> unit \<times> 's) \<Rightarrow> 's \<Rightarrow> unit \<times> 's" where
  "when_gpu req m = (if cr_gpus req > 0 then m else reply ())"

definition runCreate ::
  "InstanceHandlers \<Rightarrow> ext \<Rightarrow> createInstanceRequest \<Rightarrow> Node \<Rightarrow> uuid option \<Rightarrow>
     'z world_scheme \<Rightarrow> response \<times> 'z world_scheme" where
  "runCreate h X req node owner =
     attempt (reserveIfNeeded h X req node) (\<lambda>rv. case rv of
       Inl resp \<Rightarrow> reply resp
     | Inr (res, pci) \<Rightarrow>
         attempt (Repo_Create (create_params req node owner res)) (\<lambda>cr. case cr of
           Inl e \<Rightarrow>
             attempt (when_gpu req (attempt (ReleaseReserved res) (\<lambda>_. reply ()))) (\<lambda>_.
             reply (writeError 500 ''create_failed'' (err_text e)))
         | Inr inst \<Rightarrow>
             attempt (if cr_gpus req > 0 then BindToInstance res (i_id inst) else ret ()) (\<lambda>b. case b of
               Inl e \<Rightarrow>
                 attempt (ReleaseReserved res) (\<lambda>_.
                 attempt (markFailed (i_id inst) ''bind_failed'' (err_text e)) (\<lambda>_.
                 reply (writeError 500 ''bind_failed'' (err_text e))))
             | Inr _ \<Rightarrow>
                 attempt (dispatchCreate (n_id node) inst res pci) (\<lambda>d. case d of
                   Inl e \<Rightarrow>
                     if is_panic e then reply (HPanic (err_text e))
                     else
                       attempt (when_gpu req (attempt (ReleaseForInstance (i_id inst)) (\<lambda>_. reply ()))) (\<lambda>_.
                       attempt (markFailed (i_id inst) ''dispatch_failed'' (err_text e)) (\<lambda>_.
                       reply (writeError 502 ''dispatch_failed'' (err_text e))))
                 | Inr _ \<Rightarrow> reply (writeJSON 201 (JInstance (toInstanceView inst)))))))"

definition Admin_Create ::
  "InstanceHandlers \<Rightarrow> ext \<Rightarrow> createInstanceRequest body_in \<Rightarrow> 'z world_scheme \<Rightarrow> response \<times> 'z world_scheme" where
  "Admin_Create h X body = attempt (validateCreate X body) (\<lambda>v. case v of
       Inl resp \<Rightarrow> reply resp
     | Inr (req, node) \<Rightarrow> runCreate h X req node None)"

text \<open>The three gates of \<open>CreateForOwner\<close>; \<open>Some\<close> is the response of a gate that refuses.\<close>

definition acl_gate :: "InstanceHandlers \<Rightarrow> Node \<Rightarrow> uuid \<Rightarrow> 'z pg_scheme \<Rightarrow> response option \<times> 'z pg_scheme" where
  "acl_gate h node owner =
     (if ih_team h \<and> n_policy node = ''owner_team'' then
        (case n_team node of
           None \<Rightarrow> reply (Some (writeError 404 ''node_not_found'' ''node not found''))
         | Some team \<Rightarrow> attempt (IsUserInTeam owner team) (\<lambda>r. case r of
             Inl e \<Rightarrow> reply (Some (writeError 500 ''membership_lookup'' (err_text e)))
           | Inr ok \<Rightarrow> if \<not> ok then reply (Some (writeError 404 ''node_not_found'' ''node not found''))
                       else reply None))
      else reply None)"

definition balance_gate :: "InstanceHandlers \<Rightarrow> uuid \<Rightarrow> 'z pg_scheme \<Rightarrow> response option \<times> 'z pg_scheme" where
  "balance_gate h owner =
     (if ih_balance h then attempt (Balance owner) (\<lambda>r. case r of
        Inl e \<Rightarrow> reply (Some (writeError 500 ''balance_lookup'' (err_text e)))
      | Inr bal \<Rightarrow> if bal \<le> 0
          then reply (Some (writeError 402 ''insufficient_balance'' ''credit balance must be positive to create an instance''))
          else reply None)
      else reply None)"

definition extra_keys :: "InstanceHandlers \<Rightarrow> uuid \<Rightarrow> createInstanceRequest \<Rightarrow> 'z pg_scheme \<Rightarrow>
    createInstanceRequest \<times> 'z pg_scheme" where
  "extra_keys h owner req =
     (if ih_extras h then attempt (PubkeysForUser owner) (\<lambda>r.
        reply (req\<lparr>cr_pubkeys := mergeSSHPubkeys (cr_pubkeys req)
          (case r of Inl _ \<Rightarrow> [] | Inr ks \<Rightarrow> ks)\<rparr>))
      else reply req)"

definition CreateForOwner ::
  "InstanceHandlers \<Rightarrow> ext \<Rightarrow> createInstanceRequest body_in \<Rightarrow> uuid \<Rightarrow> 'z world_scheme \<Rightarrow> response \<times> 'z world_scheme" where
  "CreateForOwner h X body owner = attempt (validateCreate X body) (\<lambda>v. case v of
       Inl resp \<Rightarrow> reply resp
     | Inr (req, node) \<Rightarrow> attempt (acl_gate h node owner) (\<lambda>g. case g of
         Some resp \<Rightarrow> reply resp
       | None \<Rightarrow> attempt (balance_gate h owner) (\<lambda>g. case g of
           Some resp \<Rightarrow> reply resp
         | None \<Rightarrow> attempt (extra_keys h owner req) (\<lambda>req'. runCreate h X req' node (Some owner)))))"

section \<open>Listing, reading and deletion\<close>

definition Admin_List :: "'z pg_scheme \<Rightarrow> response \<times> 'z pg_scheme" where
  "Admin_List = attempt (ListForOwner None) (\<lambda>r. case r of
       Inl e \<Rightarrow> reply (writeError 500 ''list_failed'' (err_text e))
     | Inr rows \<Rightarrow> reply (writeJSON 200 (JInstances (map toInstanceView rows))))"

text \<open>What both \<open>Delete\<close> handlers do once the row is loaded.\<close>

definition delete_loaded ::
  "InstanceHandlers \<Rightarrow> Instance \<Rightarrow> uuid \<Rightarrow> string \<Rightarrow> 'z world_scheme \<Rightarrow> response \<times> 'z world_scheme" where
  "delete_loaded h inst i reason =
     (if i_state inst = Stopped \<or> i_state inst = Failed then
        attempt (if ih_slots h then attempt (ReleaseForInstance i) (\<lambda>_. reply ()) else reply ()) (\<lambda>_.
        attempt (Repo_Delete i) (\<lambda>d. case d of
          Inl e \<Rightarrow> reply (writeError 500 ''delete_failed'' (err_text e))
        | Inr _ \<Rightarrow> reply (HStatus 204 None)))
      else
        attempt (Transition i Stopping (opts reason [])) (\<lambda>t.
        if (case t of Inl e \<Rightarrow> \<not> err_is e ErrInvalidTransition | Inr _ \<Rightarrow> False)
        then reply (writeError 500 ''transition_failed'' (case t of Inl e \<Rightarrow> err_text e | Inr _ \<Rightarrow> []))
        else attempt (Send (i_node inst) (CDestroyInstance (uuid_text (i_id inst)))) (\<lambda>d. case d of
            Inl e \<Rightarrow> if is_panic e then reply (HPanic (err_text e))
                     else if \<not> err_is e ErrAgentNotConnected then reply (writeError 502 ''dispatch_failed'' (err_text e))
                     else reply (HStatus 202 None)
          | Inr _ \<Rightarrow> reply (HStatus 202 None))))"

definition Admin_Delete :: "InstanceHandlers \<Rightarrow> ext \<Rightarrow> string \<Rightarrow> 'z world_scheme \<Rightarrow> response \<times> 'z world_scheme" where
  "Admin_Delete h X idStr = (case uuid_Parse X idStr of
       Inl e \<Rightarrow> reply (writeError 400 ''bad_id'' (err_text e))
     | Inr i \<Rightarrow> attempt (Repo_Get i) (\<lambda>r. case r of
         Inl e \<Rightarrow> reply (writeError 404 ''not_found'' (err_text e))
       | Inr inst \<Rightarrow> delete_loaded h inst i ''admin_delete''))"

definition ownsInstance :: "Instance \<Rightarrow> User \<Rightarrow> bool" where
  "ownsInstance inst user = (i_owner inst = Some (u_id user))"

definition User_List :: "User \<Rightarrow> 'z pg_scheme \<Rightarrow> response \<times> 'z pg_scheme" where
  "User_List user = attempt (ListForOwner (Some (u_id user))) (\<lambda>r. case r of
       Inl e \<Rightarrow> reply (writeError 500 ''list_failed'' (err_text e))
     | Inr rows \<Rightarrow> reply (writeJSON 200 (JInstances (map toInstanceView rows))))"

text \<open>The lookup both user handlers start with.\<close>

definition load_owned :: "ext \<Rightarrow> User \<Rightarrow> string \<Rightarrow> 'z pg_scheme \<Rightarrow> (response + Instance \<times> uuid) \<times> 'z pg_scheme" where
  "load_owned X user idStr = (case uuid_Parse X idStr of
       Inl e \<Rightarrow> reply (Inl (writeError 400 ''bad_id'' (err_text e)))
     | Inr i \<Rightarrow> attempt (Repo_Get i) (\<lambda>r. case r of
         Inl e \<Rightarrow> if err_is e ErrNoRows
                  then reply (Inl (writeError 404 ''not_found'' ''instance not found''))
                  else reply (Inl (writeError 500 ''lookup_failed'' ''instance lookup failed''))
       | Inr inst \<Rightarrow> if \<not> ownsInstance inst user
                  then reply (Inl (writeError 404 ''not_found'' ''instance not found''))
                  else reply (Inr (inst, i))))"

definition User_Get :: "ext \<Rightarrow> User \<Rightarrow> string \<Rightarrow> 'z pg_scheme \<Rightarrow> response \<times> 'z pg_scheme" where
  "User_Get X user idStr = attempt (load_owned X user idStr) (\<lambda>v. case v of
       Inl resp \<Rightarrow> reply resp
     | Inr (inst, i) \<Rightarrow> reply (writeJSON 200 (JInstance (toInstanceView inst))))"

definition User_Create ::
  "InstanceHandlers \<Rightarrow> ext \<Rightarrow> User \<Rightarrow> createInstanceRequest body_in \<Rightarrow> 'z world_scheme \<Rightarrow> response \<times> 'z world_scheme" where
  "User_Create h X user body = CreateForOwner h X body (u_id user)"

definition User_Delete :: "InstanceHandlers \<Rightarrow> ext \<Rightarrow> User \<Rightarrow> string \<Rightarrow> 'z world_scheme \<Rightarrow> response \<times> 'z world_scheme" where
  "User_Delete h X user idStr = attempt (load_owned X user idStr) (\<lambda>v. case v of
       Inl resp \<Rightarrow> reply resp
     | Inr (inst, i) \<Rightarrow> delete_loaded h inst i ''user_delete'')"

section \<open>Every handler moves along the database relation\<close>

lemma keeps_Connected_test [keeps_rules]: "keeps I (\<lambda>s. if b s then (f s, s) else (g s, s))"
  by (simp add: keeps_def)

lemma keeps_case_body [keeps_rules]:
  "(\<And>e. keeps I (f e)) \<Longrightarrow> (\<And>e. keeps I (g e)) \<Longrightarrow> (\<And>x. keeps I (k x)) \<Longrightarrow>
   keeps I (case b of ReadErr e \<Rightarrow> f e | BadJson e \<Rightarrow> g e | Decoded x \<Rightarrow> k x)"
  by (cases b) simp_all

lemma keeps_validateCreate [keeps_rules]: "keeps (tinv I) (validateCreate X body)"
  unfolding validateCreate_def NodeRepo_Get_def by (intro keeps_rules)

lemma keeps_runCreate [db_rules]: "keeps (tinv (db_reach G T0)) (runCreate h X req node owner)"
  unfolding runCreate_def reserveIfNeeded_def when_gpu_def dispatchCreate_def markFailed_def
  by (intro keeps_rules db_rules)

lemma keeps_gates [keeps_rules]:
  "keeps (tinv I) (acl_gate h node owner)" "keeps (tinv I) (balance_gate h owner)"
  "keeps (tinv I) (extra_keys h owner req)"
  unfolding acl_gate_def balance_gate_def extra_keys_def Balance_def PubkeysForUser_def
  by (intro keeps_rules)+

lemma keeps_Admin_Create [db_rules]: "keeps (tinv (db_reach G T0)) (Admin_Create h X body)"
  unfolding Admin_Create_def by (intro keeps_rules db_rules)

lemma keeps_CreateForOwner [db_rules]: "keeps (tinv (db_reach G T0)) (CreateForOwner h X body owner)"
  unfolding CreateForOwner_def by (intro keeps_rules db_rules)

lemma keeps_User_Create [db_rules]: "keeps (tinv (db_reach G T0)) (User_Create h X user body)"
  unfolding User_Create_def by (rule keeps_CreateForOwner)

lemma keeps_delete_loaded [db_rules]: "keeps (tinv (db_reach G T0)) (delete_loaded h inst i reason)"
  unfolding delete_loaded_def by (intro keeps_rules db_rules)

lemma keeps_load_owned [keeps_rules]: "keeps (tinv I) (load_owned X user idStr)"
  unfolding load_owned_def Repo_Get_def by (intro keeps_rules)

lemma keeps_Admin_Delete [db_rules]: "keeps (tinv (db_reach G T0)) (Admin_Delete h X idStr)"
  unfolding Admin_Delete_def Repo_Get_def by (intro keeps_rules db_rules)

lemma keeps_User_Delete [db_rules]: "keeps (tinv (db_reach G T0)) (User_Delete h X user idStr)"
  unfolding User_Delete_def by (intro keeps_rules db_rules)

lemma keeps_instance_reads [keeps_rules]:
  "keeps (tinv I) Admin_List" "keeps (tinv I) (User_List user)" "keeps (tinv I) (User_Get X user idStr)"
  unfolding Admin_List_def User_List_def User_Get_def ListForOwner_def by (intro keeps_rules)+

end
