(* ===== verification/AdminApi.thy ===== *)
theory AdminApi
  imports InstanceApi
begin

text \<open>
  The remaining handlers over the repositories: credits (\<open>api/admin_credits.go\<close>,
  \<open>api/user_credits.go\<close>), nodes (\<open>api/admin.go\<close>, \<open>api/user_nodes.go\<close>), the dashboard's admin views
  (\<open>api/session_admin_handlers.go\<close>), SSH keys (\<open>sshkeys/sshkeys.go\<close>, \<open>api/user_ssh_keys.go\<close>) and the
  bearer-token guards.
\<close>

section \<open>Credits\<close>

record adminRechargeRequest =
  rq_delta :: int
  rq_reason :: string
  rq_key :: string
  rq_meta :: string

definition toCreditEntryView :: "CreditLedger \<Rightarrow> CreditEntryView" where
  "toCreditEntryView e = \<lparr>cv_id = l_id e, cv_delta = l_delta e, cv_reason = l_reason e, cv_key = l_key e,
     cv_instance = l_instance e, cv_meta = l_meta e, cv_created = l_created e\<rparr>"

definition Recharge :: "ext \<Rightarrow> string \<Rightarrow> adminRechargeRequest body_in \<Rightarrow> 'z pg_scheme \<Rightarrow> response \<times> 'z pg_scheme" where
  "Recharge X idStr body = (case uuid_Parse X idStr of
       Inl e \<Rightarrow> reply (writeError 400 ''bad_user_id'' (err_text e))
     | Inr userID \<Rightarrow> (case body of
         ReadErr e \<Rightarrow> reply (writeError 400 ''read_body'' (err_text e))
       | BadJson e \<Rightarrow> reply (writeError 400 ''bad_json'' (err_text e))
       | Decoded req \<Rightarrow>
         if rq_delta req = 0 then reply (writeError 400 ''zero_delta'' ''delta_milli must be non-zero'')
         else if rq_reason req = [] then reply (writeError 400 ''missing_reason'' ''reason is required'')
         else if rq_key req = [] then reply (writeError 400 ''missing_idempotency_key'' ''idempotency_key is required'')
         else attempt (Post \<lparr>p_user = userID, p_delta = rq_delta req, p_reason = rq_reason req,
                p_instance = None, p_key = rq_key req, p_meta = rq_meta req\<rparr>) (\<lambda>r. case r of
           Inl e \<Rightarrow> if err_is e ErrDuplicateIdempotency
             then reply (writeError 409 ''duplicate_idempotency'' ''ledger entry already exists for this key'')
             else reply (writeError 500 ''post_failed'' (err_text e))
         | Inr entry \<Rightarrow> attempt (Balance userID) (\<lambda>b. case b of
             Inl e \<Rightarrow> reply (writeError 500 ''balance_failed'' (err_text e))
           | Inr bal \<Rightarrow> reply (writeJSON 201 (JEntry (toCreditEntryView entry) bal))))))"

text \<open>The part \<open>AdminCreditHandlers.Balance\<close> and \<open>UserCreditHandlers.Balance\<close> share.\<close>

definition balance_and_ledger :: "uuid \<Rightarrow> 'z pg_scheme \<Rightarrow> response \<times> 'z pg_scheme" where
  "balance_and_ledger userID = attempt (Balance userID) (\<lambda>b. case b of
       Inl e \<Rightarrow> reply (writeError 500 ''balance_failed'' (err_text e))
     | Inr bal \<Rightarrow> attempt (History userID 50) (\<lambda>r. case r of
         Inl e \<Rightarrow> reply (writeError 500 ''history_failed'' (err_text e))
       | Inr es \<Rightarrow> reply (writeJSON 200 (JLedger bal (map toCreditEntryView es)))))"

definition Admin_Balance :: "ext \<Rightarrow> string \<Rightarrow> 'z pg_scheme \<Rightarrow> response \<times> 'z pg_scheme" where
  "Admin_Balance X idStr = (case uuid_Parse X idStr of
       Inl e \<Rightarrow> reply (writeError 400 ''bad_user_id'' (err_text e))
     | Inr userID \<Rightarrow> balance_and_ledger userID)"

definition User_Balance :: "User \<Rightarrow> 'z pg_scheme \<Rightarrow> response \<times> 'z pg_scheme" where
  "User_Balance user = balance_and_ledger (u_id user)"

section \<open>Nodes\<close>

text \<open>The number of GPUs in a stored topology; a topology that does not parse counts none.\<close>

definition gpuCountFromTopology :: "ext \<Rightarrow> string \<Rightarrow> nat" where
  "gpuCountFromTopology X raw = (if raw = [] then 0
     else case json_gpus X raw of Inl _ \<Rightarrow> 0 | Inr n \<Rightarrow> n)"

definition toView :: "ext \<Rightarrow> Node \<Rightarrow> NodeView" where
  "toView X n = \<lparr>nv_id = n_id n, nv_name = n_name n, nv_hostname = n_hostname n,
     nv_status = node_status_text (n_status n), nv_version = n_version n,
     nv_gpus = gpuCountFromTopology X (n_topology n), nv_heartbeat = n_heartbeat n,
     nv_registered = n_registered n\<rparr>"

definition Admin_ListNodes :: "ext \<Rightarrow> 'z pg_scheme \<Rightarrow> response \<times> 'z pg_scheme" where
  "Admin_ListNodes X = attempt NodeRepo_List (\<lambda>r. case r of
       Inl e \<Rightarrow> reply (writeError 500 ''list_nodes_failed'' (err_text e))
     | Inr ns \<Rightarrow> reply (writeJSON 200 (JNodes (map (toView X) ns))))"

definition User_ListNodes :: "ext \<Rightarrow> User option \<Rightarrow> 'z pg_scheme \<Rightarrow> response \<times> 'z pg_scheme" where
  "User_ListNodes X u = (case u of
       None \<Rightarrow> reply (writeError 401 ''unauthenticated'' ''session required'')
     | Some user \<Rightarrow> attempt (ListAccessibleToUser (u_id user)) (\<lambda>r. case r of
         Inl e \<Rightarrow> reply (writeError 500 ''list_failed'' (err_text e))
       | Inr rows \<Rightarrow> reply (writeJSON 200 (JUserNodes (map (\<lambda>n. \<lparr>uv_id = n_id n, uv_name = n_name n,
             uv_status = node_status_text (n_status n), uv_gpus = gpuCountFromTopology X (n_topology n)\<rparr>)
             (filter (\<lambda>n. n_status n = Online) rows))))))"

section \<open>The dashboard's admin views\<close>

definition Session_ListUsers :: "'z pg_scheme \<Rightarrow> response \<times> 'z pg_scheme" where
  "Session_ListUsers = attempt (ListUsersAdminView 200) (\<lambda>r. case r of
       Inl e \<Rightarrow> reply (writeError 500 ''list_users_failed'' (err_text e))
     | Inr rows \<Rightarrow> reply (writeJSON 200 (JAdminUsers (map (\<lambda>u. \<lparr>au_id = ur_id u, au_email = ur_email u,
          au_admin = ur_admin u, au_balance = ur_balance u, au_active = ur_active u,
          au_created = ur_created u\<rparr>) rows))))"

definition Session_ListSlots :: "'z pg_scheme \<Rightarrow> response \<times> 'z pg_scheme" where
  "Session_ListSlots = attempt ListSlotsForAdminView (\<lambda>r. case r of
       Inl e \<Rightarrow> reply (writeError 500 ''list_slots_failed'' (err_text e))
     | Inr rows \<Rightarrow> reply (writeJSON 200 (JAdminSlots (map (\<lambda>x. \<lparr>av_id = sr_id x, av_node = sr_node x,
          av_node_name = sr_node_name x, av_index = sr_index x, av_gpus = sr_gpus x,
          av_gpu_indices = sr_gpu_indices x, av_nvlink = sr_nvlink x,
          av_status = slot_status_text (sr_status x), av_instance = sr_instance x\<rparr>) rows))))"

section \<open>SSH keys\<close>

definition ErrInvalidPubkey :: err where
  "ErrInvalidPubkey = Err ''sshkeys: invalid public key''"

definition ErrDuplicate :: err where
  "ErrDuplicate = Err ''sshkeys: duplicate key''"

definition ErrNotFound :: err where
  "ErrNotFound = Err ''sshkeys: not found''"

text \<open>The SSH library: parsing an authorized-keys line gives the canonical line
  \<open>ssh.MarshalAuthorizedKey\<close> prints and the key's wire form; \<open>sha256_b64\<close> is SHA-256 in unpadded
  base64.\<close>

record ssh_lib =
  ParseAuthorizedKey :: "string \<Rightarrow> err + string \<times> string"
  sha256_b64 :: "string \<Rightarrow> string"

definition Fingerprint :: "ssh_lib \<Rightarrow> string \<Rightarrow> string" where
  "Fingerprint L wire = sha256_b64 L wire"

definition normalizeFingerprint :: "string \<Rightarrow> string" where
  "normalizeFingerprint s = TrimPrefix s ''SHA256:''"

definition Keys_Add :: "ssh_lib \<Rightarrow> uuid \<Rightarrow> string \<Rightarrow> string \<Rightarrow> ('z pg_scheme, SshKey) action" where
  "Keys_Add L userID lbl pubkey =
     (let label = TrimSpace lbl in
      if label = [] then fail (WrapErr [] ErrInvalidPubkey '': label required'')
      else if length label > 64 then fail (WrapErr [] ErrInvalidPubkey '': label too long'')
      else if length pubkey > 4096 then fail (WrapErr [] ErrInvalidPubkey '': pubkey too long'')
      else case ParseAuthorizedKey L pubkey of
        Inl e \<Rightarrow> fail (WrapErr [] ErrInvalidPubkey ('': '' @ err_text e))
      | Inr (line, wire) \<Rightarrow>
          wrap_err (\<lambda>e. if isUniqueViolation e then ErrDuplicate else WrapErr ''create ssh_key: '' e [])
            (CreateSSHKey userID label (TrimSpace line) (Fingerprint L wire)))"

definition Keys_List :: "uuid \<Rightarrow> ('z pg_scheme, SshKey list) action" where
  "Keys_List userID = ListSSHKeysForUser userID"

definition Keys_Delete :: "uuid \<Rightarrow> uuid \<Rightarrow> ('z pg_scheme, unit) action" where
  "Keys_Delete userID i =
     bnd (wrap_err (\<lambda>e. WrapErr ''delete ssh_key: '' e []) (DeleteSSHKeyForUser i userID)) (\<lambda>n.
     if n = 0 then fail ErrNotFound else ret ())"

definition LookupUserByFingerprint :: "string \<Rightarrow> ('z pg_scheme, uuid) action" where
  "LookupUserByFingerprint fp =
     bnd (wrap_err (\<lambda>e. if err_is e ErrNoRows then ErrNotFound else WrapErr ''lookup ssh_key fingerprint: '' e [])
            (LookupSSHKeyByFingerprint (normalizeFingerprint fp))) (\<lambda>row. ret (k_user row))"

record addSSHKeyRequest =
  ak_label :: string
  ak_pubkey :: string

definition toSSHKeyView :: "SshKey \<Rightarrow> SSHKeyView" where
  "toSSHKeyView k = \<lparr>kv_id = k_id k, kv_label = k_label k, kv_pubkey = k_pubkey k,
     kv_fingerprint = k_fingerprint k, kv_created = k_created k\<rparr>"

definition SSHKeys_List :: "User \<Rightarrow> 'z pg_scheme \<Rightarrow> response \<times> 'z pg_scheme" where
  "SSHKeys_List user = attempt (Keys_List (u_id user)) (\<lambda>r. case r of
       Inl e \<Rightarrow> reply (writeError 500 ''list_failed'' (err_text e))
     | Inr rows \<Rightarrow> reply (writeJSON 200 (JKeys (map toSSHKeyView rows))))"

definition SSHKeys_Add :: "ssh_lib \<Rightarrow> User \<Rightarrow> addSSHKeyRequest body_in \<Rightarrow> 'z pg_scheme \<Rightarrow> response \<times> 'z pg_scheme" where
  "SSHKeys_Add L user body = (case body of
       ReadErr e \<Rightarrow> reply (writeError 400 ''read_body'' (err_text e))
     | BadJson e \<Rightarrow> reply (writeError 400 ''bad_json'' (err_text e))
     | Decoded req \<Rightarrow> attempt (Keys_Add L (u_id user) (ak_label req) (ak_pubkey req)) (\<lambda>r. case r of
         Inl e \<Rightarrow> if err_is e ErrDuplicate then reply (writeError 409 ''duplicate'' ''key already added'')
                  else if err_is e ErrInvalidPubkey then reply (writeError 400 ''invalid_pubkey'' (err_text e))
                  else reply (writeError 500 ''add_failed'' (err_text e))
       | Inr row \<Rightarrow> reply (writeJSON 201 (JKey (toSSHKeyView row)))))"

definition SSHKeys_Delete :: "ext \<Rightarrow> User \<Rightarrow> string \<Rightarrow> 'z pg_scheme \<Rightarrow> response \<times> 'z pg_scheme" where
  "SSHKeys_Delete X user idStr = (case uuid_Parse X idStr of
       Inl e \<Rightarrow> reply (writeError 400 ''bad_id'' (err_text e))
     | Inr i \<Rightarrow> attempt (Keys_Delete (u_id user) i) (\<lambda>r. case r of
         Inl e \<Rightarrow> if err_is e ErrNotFound then reply (writeError 404 ''not_found'' ''ssh key not found'')
                  else reply (writeError 500 ''delete_failed'' (err_text e))
       | Inr _ \<Rightarrow> reply (HStatus 204 None)))"

section \<open>Bearer-token guards\<close>

text \<open>\<open>RequireAdminToken\<close> and \<open>RequireInternalToken\<close> around a handler; \<open>auth\<close> is the Authorization
  header, empty when absent.\<close>

definition bearer_ok :: "string \<Rightarrow> string \<Rightarrow> bool" where
  "bearer_ok expected auth =
     (let token = TrimPrefix auth ''Bearer '' in \<not> (token = auth \<or> token \<noteq> expected))"

definition RequireAdminToken ::
  "string \<Rightarrow> string \<Rightarrow> ('s \<Rightarrow> response \<times> 's) \<Rightarrow> 's \<Rightarrow> response \<times> 's" where
  "RequireAdminToken expected auth nxt = (if expected = [] then nxt
     else if \<not> bearer_ok expected auth
     then reply (writeError 401 ''unauthenticated'' ''invalid or missing bearer token'') else nxt)"

definition RequireInternalToken ::
  "string \<Rightarrow> string \<Rightarrow> ('s \<Rightarrow> response \<times> 's) \<Rightarrow> 's \<Rightarrow> response \<times> 's" where
  "RequireInternalToken expected auth nxt = (if expected = [] then nxt
     else if \<not> bearer_ok expected auth
     then reply (writeError 401 ''unauthenticated'' ''invalid or missing internal bearer token'') else nxt)"

lemma bearer_ok_iff: "bearer_ok t auth \<longleftrightarrow> auth = ''Bearer '' @ t"
  by (auto simp: bearer_ok_def Let_def TrimPrefix_def prefix_def)

section \<open>Database relation\<close>

lemma keeps_Recharge [db_rules]: "keeps (tinv (db_reach G T0)) (Recharge X idStr body)"
  unfolding Recharge_def Balance_def by (intro keeps_rules db_rules)

lemma keeps_SSHKeys_Add [db_rules]: "keeps (tinv (db_reach G T0)) (SSHKeys_Add L user b)"
  unfolding SSHKeys_Add_def Keys_Add_def by (intro keeps_rules db_rules)

lemma keeps_SSHKeys_Delete [db_rules]: "keeps (tinv (db_reach G T0)) (SSHKeys_Delete X user idStr)"
  unfolding SSHKeys_Delete_def Keys_Delete_def by (intro keeps_rules db_rules)

lemma keeps_LookupUserByFingerprint [keeps_rules]: "keeps (tinv I) (LookupUserByFingerprint fp)"
  unfolding LookupUserByFingerprint_def by (intro keeps_rules)

lemma keeps_admin_reads [keeps_rules]:
  "keeps (tinv I) (Admin_Balance X idStr)" "keeps (tinv I) (User_Balance user)"
  "keeps (tinv I) (Admin_ListNodes X)" "keeps (tinv I) (User_ListNodes X u)"
  "keeps (tinv I) Session_ListUsers" "keeps (tinv I) Session_ListSlots" "keeps (tinv I) (SSHKeys_List user)"
  unfolding Admin_Balance_def User_Balance_def balance_and_ledger_def Balance_def History_def Admin_ListNodes_def
    User_ListNodes_def Session_ListUsers_def Session_ListSlots_def SSHKeys_List_def Keys_List_def node_repo_defs
  by (intro keeps_rules)+

end
