(* ===== verification/Auth.thy ===== *)
theory Auth
  imports InstanceApi AdminApi
begin

text \<open>
  User accounts of main-api: password and e-mail policy (\<open>auth/auth.go\<close>), the user and session
  repository (\<open>auth/repo.go\<close>), the login rate limiter (\<open>auth/ratelimit.go\<close>) and the handlers of
  \<open>/api/v1/auth/*\<close> (\<open>api/auth_handlers.go\<close>).
\<close>

section \<open>Policy\<close>

definition ErrWeakPassword :: err where
  "ErrWeakPassword = Err ''auth: password does not meet policy''"

definition ErrInvalidEmail :: err where
  "ErrInvalidEmail = Err ''auth: invalid email''"

definition ErrInvalidCredentials :: err where
  "ErrInvalidCredentials = Err ''auth: invalid credentials''"

definition ErrUserNotFound :: err where
  "ErrUserNotFound = Err ''auth: user not found''"

definition ErrSessionNotFound :: err where
  "ErrSessionNotFound = Err ''auth: session not found''"

definition ErrEmailTaken :: err where
  "ErrEmailTaken = Err ''auth: email already registered''"

lemmas auth_errs = ErrWeakPassword_def ErrInvalidEmail_def ErrInvalidCredentials_def ErrUserNotFound_def
  ErrSessionNotFound_def ErrEmailTaken_def

definition MinPasswordLength :: nat where
  "MinPasswordLength = 10"

text \<open>The cryptographic functions the package calls: bcrypt, SHA-256 in hex, unpadded URL-safe
  base64.\<close>

record auth_lib =
  bcrypt_Generate :: "string \<Rightarrow> err + string"
  bcrypt_Compare :: "string \<Rightarrow> string \<Rightarrow> bool"
  sha256_hex :: "string \<Rightarrow> string"
  b64url :: "string \<Rightarrow> string"

definition ValidatePassword :: "string \<Rightarrow> err option" where
  "ValidatePassword p =
     (if length p < MinPasswordLength
      then Some (WrapErr [] ErrWeakPassword ('': minimum '' @ dec_nat MinPasswordLength @ '' characters''))
      else if length p > 72 then Some (WrapErr [] ErrWeakPassword '': maximum 72 characters'')
      else None)"

definition HashPassword :: "auth_lib \<Rightarrow> string \<Rightarrow> err + string" where
  "HashPassword A p = (case ValidatePassword p of
       Some e \<Rightarrow> Inl e
     | None \<Rightarrow> (case bcrypt_Generate A p of
           Inl e \<Rightarrow> Inl (WrapErr ''bcrypt: '' e [])
         | Inr h \<Rightarrow> Inr h))"

definition ComparePassword :: "auth_lib \<Rightarrow> string \<Rightarrow> string \<Rightarrow> err option" where
  "ComparePassword A h p = (if bcrypt_Compare A h p then None else Some ErrInvalidCredentials)"

definition NormalizeEmail :: "string \<Rightarrow> string" where
  "NormalizeEmail em = ToLower (TrimSpace em)"

definition ValidateEmail :: "string \<Rightarrow> err option" where
  "ValidateEmail em =
     (if em = [] then Some ErrInvalidEmail
      else if (case IndexChar em (CHR ''@'') of None \<Rightarrow> True | Some at \<Rightarrow> at < 1 \<or> at = length em - 1)
      then Some ErrInvalidEmail
      else if Contains em '' '' then Some ErrInvalidEmail
      else None)"

definition HashSessionToken :: "auth_lib \<Rightarrow> string \<Rightarrow> string" where
  "HashSessionToken A tok = sha256_hex A tok"

text \<open>\<open>GenerateSessionToken\<close>; \<open>buf\<close> is what \<open>rand.Read\<close> gave for the 32 bytes.\<close>

definition GenerateSessionToken :: "auth_lib \<Rightarrow> err + string \<Rightarrow> err + string \<times> string" where
  "GenerateSessionToken A buf = (case buf of
       Inl e \<Rightarrow> Inl (WrapErr ''rand: '' e [])
     | Inr b \<Rightarrow> let raw = b64url A b in Inr (raw, HashSessionToken A raw))"

section \<open>Repository\<close>

definition CreateUser :: "auth_lib \<Rightarrow> string \<Rightarrow> string \<Rightarrow> ('z pg_scheme, User) action" where
  "CreateUser A em pw =
     (let email = NormalizeEmail em in
      case ValidateEmail email of
        Some e \<Rightarrow> fail e
      | None \<Rightarrow> (case HashPassword A pw of
          Inl e \<Rightarrow> fail e
        | Inr h \<Rightarrow>
            wrap_err (\<lambda>e. if isUniqueViolation e then ErrEmailTaken else WrapErr ''create user: '' e [])
              (CreateUser_q email h False)))"

definition Authenticate :: "auth_lib \<Rightarrow> string \<Rightarrow> string \<Rightarrow> ('z pg_scheme, User) action" where
  "Authenticate A em pw =
     bnd (wrap_err (\<lambda>e. if err_is e ErrNoRows then ErrInvalidCredentials else WrapErr ''get user: '' e [])
            (GetUserByEmail (NormalizeEmail em))) (\<lambda>u.
     case ComparePassword A (u_hash u) pw of
       Some _ \<Rightarrow> fail ErrInvalidCredentials
     | None \<Rightarrow> ret u)"

definition GetUser :: "uuid \<Rightarrow> ('z pg_scheme, User) action" where
  "GetUser i = wrap_err (\<lambda>e. if err_is e ErrNoRows then ErrUserNotFound else WrapErr ''get user: '' e [])
     (GetUser_q i)"

text \<open>\<open>now\<close> is the process clock of the call.\<close>

definition CreateSession ::
  "auth_lib \<Rightarrow> err + string \<Rightarrow> time \<Rightarrow> uuid \<Rightarrow> int \<Rightarrow> ('z pg_scheme, string \<times> Session) action" where
  "CreateSession A buf now userID ttl =
     (if ttl \<le> 0 then fail (Err ''auth: ttl must be positive'')
      else case GenerateSessionToken A buf of
        Inl e \<Rightarrow> fail e
      | Inr (raw, h) \<Rightarrow>
          bnd (wrap_err (\<lambda>e. WrapErr ''create session: '' e []) (CreateSession_q userID h (now + ttl))) (\<lambda>sess.
          ret (raw, sess)))"

definition LookupSession :: "auth_lib \<Rightarrow> string \<Rightarrow> ('z pg_scheme, Session \<times> User) action" where
  "LookupSession A raw =
     (if raw = [] then fail ErrSessionNotFound
      else bnd (wrap_err (\<lambda>e. if err_is e ErrNoRows then ErrSessionNotFound else WrapErr ''get session: '' e [])
                  (GetSessionByTokenHash (HashSessionToken A raw))) (\<lambda>sess.
           bnd (wrap_err (\<lambda>e. WrapErr ''get user: '' e []) (GetUser_q (ss_user sess))) (\<lambda>user.
           ret (sess, user))))"

definition RevokeSession :: "auth_lib \<Rightarrow> string \<Rightarrow> ('z pg_scheme, unit) action" where
  "RevokeSession A raw = (if raw = [] then ret () else DeleteSessionByTokenHash (HashSessionToken A raw))"

definition SweepExpired :: "('z pg_scheme, int) action" where
  "SweepExpired = DeleteExpiredSessions"

section \<open>The rate limiter\<close>

record RateLimiter =
  hits :: "string \<Rightarrow> time list option"
  rl_limit :: nat
  rl_window :: int
  rl_last :: time

definition NewRateLimiter :: "nat \<Rightarrow> int \<Rightarrow> RateLimiter" where
  "NewRateLimiter lim w = \<lparr>hits = (\<lambda>_. None), rl_limit = lim, rl_window = w, rl_last = zero_time\<rparr>"

definition sweepLocked :: "time \<Rightarrow> RateLimiter \<Rightarrow> RateLimiter" where
  "sweepLocked cutoff r = r\<lparr>hits := (\<lambda>k. case hits r k of
       None \<Rightarrow> None
     | Some ts \<Rightarrow> if \<exists>t\<in>set ts. t > cutoff then Some ts else None)\<rparr>"

definition Allow :: "string \<Rightarrow> time \<Rightarrow> RateLimiter \<Rightarrow> bool \<times> RateLimiter" where
  "Allow key now r =
     (let cutoff = now - rl_window r;
          old = (case hits r key of None \<Rightarrow> [] | Some ts \<Rightarrow> ts);
          fresh0 = filter (\<lambda>t. t > cutoff) old;
          allowed = length fresh0 < rl_limit r;
          fresh = (if allowed then fresh0 @ [now] else fresh0);
          r1 = r\<lparr>hits := (hits r)(key := (if fresh = [] then None else Some fresh))\<rparr>;
          r2 = (if now - rl_last r \<ge> rl_window r then (sweepLocked cutoff r1)\<lparr>rl_last := now\<rparr> else r1)
      in (allowed, r2))"

section \<open>Client address\<close>

text \<open>\<open>net.SplitHostPort\<close>.\<close>

definition last_index :: "string \<Rightarrow> char \<Rightarrow> nat option" where
  "last_index s c = map_option (\<lambda>i. length s - 1 - i) (IndexChar (rev s) c)"

definition SplitHostPort :: "string \<Rightarrow> err + string \<times> string" where
  "SplitHostPort hp = (case last_index hp (CHR '':'') of
       None \<Rightarrow> Inl (Err ''missing port in address'')
     | Some i \<Rightarrow>
         if hp \<noteq> [] \<and> hp ! 0 = CHR ''['' then
           (case IndexChar hp (CHR '']'') of
              None \<Rightarrow> Inl (Err ''missing ']' in address'')
            | Some e \<Rightarrow>
                if e + 1 = length hp then Inl (Err ''missing port in address'')
                else if e + 1 \<noteq> i then
                  (if hp ! (e + 1) = CHR '':'' then Inl (Err ''too many colons in address'')
                   else Inl (Err ''missing port in address''))
                else if CHR ''['' \<in> set (drop 1 hp) then Inl (Err ''unexpected '[' in address'')
                else if CHR '']'' \<in> set (drop (e + 1) hp) then Inl (Err ''unexpected ']' in address'')
                else Inr (take (e - 1) (drop 1 hp), drop (i + 1) hp))
         else if CHR '':'' \<in> set (take i hp) then Inl (Err ''too many colons in address'')
         else if CHR ''['' \<in> set hp then Inl (Err ''unexpected '[' in address'')
         else if CHR '']'' \<in> set hp then Inl (Err ''unexpected ']' in address'')
         else Inr (take i hp, drop (i + 1) hp))"

definition remote_host :: "string \<Rightarrow> string" where
  "remote_host remote = (case SplitHostPort remote of Inl _ \<Rightarrow> remote | Inr (host, _) \<Rightarrow> host)"

definition clientIP :: "string \<Rightarrow> string \<Rightarrow> int \<Rightarrow> string" where
  "clientIP xff remote trustedHops =
     (if trustedHops > 0 \<and> xff \<noteq> [] then
        let parts = Split xff (CHR '','');
            idx = nat (max 0 (int (length parts) - trustedHops));
            ip = TrimSpace (parts ! idx)
        in if ip \<noteq> [] then ip else remote_host remote
      else remote_host remote)"

section \<open>Handlers\<close>

record AuthConfig =
  ac_ttl :: int
  ac_hops :: int

record credentials =
  cd_email :: string
  cd_password :: string

definition toUserView :: "User \<Rightarrow> userView" where
  "toUserView u = \<lparr>us_id = u_id u, us_email = u_email u, us_admin = u_admin u, us_created = u_created u\<rparr>"

text \<open>\<open>issueSessionCookie\<close> returns the cookie it sets.\<close>

definition issueSessionCookie ::
  "auth_lib \<Rightarrow> AuthConfig \<Rightarrow> err + string \<Rightarrow> time \<Rightarrow> uuid \<Rightarrow> ('z pg_scheme, cookie) action" where
  "issueSessionCookie A cfg buf now userID =
     bnd (CreateSession A buf now userID (ac_ttl cfg)) (\<lambda>(raw, sess). ret (SetSession raw (ss_expires sess)))"

definition expireCookie :: cookie where
  "expireCookie = ExpireSession"

text \<open>A body that cannot be read and one that is not JSON answer alike (\<open>decodeJSON\<close>).\<close>

definition body_err :: "'a body_in \<Rightarrow> err + 'a" where
  "body_err b = (case b of ReadErr e \<Rightarrow> Inl e | BadJson e \<Rightarrow> Inl e | Decoded x \<Rightarrow> Inr x)"

definition Auth_Register ::
  "auth_lib \<Rightarrow> AuthConfig \<Rightarrow> err + string \<Rightarrow> time \<Rightarrow> credentials body_in \<Rightarrow> 'z pg_scheme \<Rightarrow> response \<times> 'z pg_scheme" where
  "Auth_Register A cfg buf now body = (case body_err body of
       Inl e \<Rightarrow> reply (writeError 400 ''bad_json'' (err_text e))
     | Inr req \<Rightarrow> attempt (CreateUser A (cd_email req) (cd_password req)) (\<lambda>r. case r of
         Inl e \<Rightarrow> if err_is e ErrEmailTaken then reply (writeError 409 ''email_taken'' ''email already registered'')
                  else if err_is e ErrInvalidEmail then reply (writeError 400 ''invalid_email'' (err_text e))
                  else if err_is e ErrWeakPassword then reply (writeError 400 ''weak_password'' (err_text e))
                  else reply (writeError 500 ''register_failed'' (err_text e))
       | Inr user \<Rightarrow> attempt (issueSessionCookie A cfg buf now (u_id user)) (\<lambda>c. case c of
           Inl e \<Rightarrow> reply (writeError 500 ''session_failed'' (err_text e))
         | Inr ck \<Rightarrow> reply (HJson 201 (Some ck) (JUser (toUserView user))))))"

text \<open>\<open>Login\<close>: the limiter, when there is one, is consulted and updated before the body is read.\<close>

definition Auth_Login ::
  "auth_lib \<Rightarrow> AuthConfig \<Rightarrow> err + string \<Rightarrow> time \<Rightarrow> string \<Rightarrow> string \<Rightarrow> credentials body_in \<Rightarrow>
     RateLimiter option \<times> 'z pg_scheme \<Rightarrow> response \<times> (RateLimiter option \<times> 'z pg_scheme)" where
  "Auth_Login A cfg buf now xff remote body st = (case st of (lim, s) \<Rightarrow>
     (case (case lim of None \<Rightarrow> (True, None)
            | Some r \<Rightarrow> map_prod id Some (Allow (clientIP xff remote (ac_hops cfg)) now r)) of
        (False, lim') \<Rightarrow> (writeError 429 ''rate_limited'' ''too many login attempts, try again later'', (lim', s))
      | (True, lim') \<Rightarrow>
          map_prod id (Pair lim') (
            (case body_err body of
               Inl e \<Rightarrow> reply (writeError 400 ''bad_json'' (err_text e))
             | Inr req \<Rightarrow> attempt (Authenticate A (cd_email req) (cd_password req)) (\<lambda>r. case r of
                 Inl e \<Rightarrow> reply (writeError 401 ''invalid_credentials'' ''invalid email or password'')
               | Inr user \<Rightarrow> attempt (issueSessionCookie A cfg buf now (u_id user)) (\<lambda>c. case c of
                   Inl e \<Rightarrow> reply (writeError 500 ''session_failed'' (err_text e))
                 | Inr ck \<Rightarrow> reply (HJson 200 (Some ck) (JUser (toUserView user)))))) s)))"

definition Auth_Logout :: "auth_lib \<Rightarrow> string option \<Rightarrow> 'z pg_scheme \<Rightarrow> response \<times> 'z pg_scheme" where
  "Auth_Logout A ck = (case ck of
       None \<Rightarrow> reply (HStatus 204 (Some expireCookie))
     | Some raw \<Rightarrow> attempt (RevokeSession A raw) (\<lambda>_. reply (HStatus 204 (Some expireCookie))))"

definition Auth_Me :: "User option \<Rightarrow> 's \<Rightarrow> response \<times> 's" where
  "Auth_Me u = (case u of
       None \<Rightarrow> reply (writeError 401 ''unauthenticated'' ''no session'')
     | Some user \<Rightarrow> reply (writeJSON 200 (JUser (toUserView user))))"

section \<open>Session middleware\<close>

text \<open>\<open>LoadSession\<close>: the user a request carries, from its session cookie.\<close>

definition LoadSession :: "auth_lib \<Rightarrow> string option \<Rightarrow> 'z pg_scheme \<Rightarrow> User option \<times> 'z pg_scheme" where
  "LoadSession A ck = (case ck of
       None \<Rightarrow> reply None
     | Some raw \<Rightarrow> if raw = [] then reply None
         else attempt (LookupSession A raw) (\<lambda>r. case r of Inl _ \<Rightarrow> reply None | Inr (_, u) \<Rightarrow> reply (Some u)))"

definition RequireUser :: "User option \<Rightarrow> (User \<Rightarrow> 's \<Rightarrow> response \<times> 's) \<Rightarrow> 's \<Rightarrow> response \<times> 's" where
  "RequireUser u nxt = (case u of
       None \<Rightarrow> reply (writeError 401 ''unauthenticated'' ''valid session required'')
     | Some user \<Rightarrow> nxt user)"

definition RequireAdmin :: "User option \<Rightarrow> (User \<Rightarrow> 's \<Rightarrow> response \<times> 's) \<Rightarrow> 's \<Rightarrow> response \<times> 's" where
  "RequireAdmin u nxt = (case u of
       None \<Rightarrow> reply (writeError 404 ''not_found'' ''not found'')
     | Some user \<Rightarrow> if \<not> u_admin user then reply (writeError 404 ''not_found'' ''not found'') else nxt user)"

section \<open>Laws\<close>

lemma keeps_Auth_Register [db_rules]: "keeps (tinv (db_reach G T0)) (Auth_Register A cfg buf now body)"
  unfolding Auth_Register_def CreateUser_def issueSessionCookie_def CreateSession_def
  by (intro keeps_rules db_rules)

lemma keeps_Auth_Logout [db_rules]: "keeps (tinv (db_reach G T0)) (Auth_Logout A ck)"
  unfolding Auth_Logout_def RevokeSession_def by (intro keeps_rules db_rules)

lemma keeps_LoadSession [keeps_rules]: "keeps (tinv I) (LoadSession A ck)"
  unfolding LoadSession_def LookupSession_def by (intro keeps_rules)

end
