(* ===== verification/TtlCache.thy ===== *)
theory TtlCache
  imports Schema
begin

text \<open>
  The interface of a cache of positive answers with a time to live, in front of an authority that
  may change its mind: main-api's agent-auth handler and the verifier of ssh-proxy both promise
  it. \<open>ask\<close> is the authority's answer to a query in a given state, \<open>look\<close> the cached lookup, which reads
  the clock twice: at \<open>now\<close>, to test the entry, and at \<open>fin\<close>, after the authority has answered, to set the
  new entry's expiry. The lemmas bound how long a revoked credential is still accepted.
\<close>

text \<open>The test both caches start with.\<close>

definition cache_hit :: "int \<Rightarrow> time \<Rightarrow> ('v \<times> time) option \<Rightarrow> 'v option" where
  "cache_hit ttl now e = (if ttl > 0 then
     (case e of None \<Rightarrow> None | Some (v, ex) \<Rightarrow> if now < ex then Some v else None) else None)"

lemma cache_hit_Some: "cache_hit ttl now e = Some v \<longleftrightarrow> 0 < ttl \<and> (\<exists>ex. e = Some (v, ex) \<and> now < ex)"
  by (auto simp: cache_hit_def split: option.splits if_splits)

lemma cache_hit_None: "cache_hit ttl now e = None \<longleftrightarrow> \<not> (0 < ttl \<and> (\<exists>v ex. e = Some (v, ex) \<and> now < ex))"
  by (auto simp: cache_hit_def split: option.splits if_splits)

locale ttl_cache =
  fixes ask :: "'k \<Rightarrow> 's \<Rightarrow> 'v option"
    and look :: "'k \<Rightarrow> time \<Rightarrow> time \<Rightarrow> 's \<Rightarrow> 'v option \<times> 's"
    and entry :: "'s \<Rightarrow> 'k \<Rightarrow> ('v \<times> time) option"
    and ttl :: int
  assumes hit: "0 < ttl \<Longrightarrow> entry s k = Some (v, ex) \<Longrightarrow> now < ex \<Longrightarrow> look k now fin s = (Some v, s)"
    and miss: "\<not> (0 < ttl \<and> (\<exists>v ex. entry s k = Some (v, ex) \<and> now < ex)) \<Longrightarrow>
      look k now fin s = (r, s') \<Longrightarrow> r = ask k s \<and>
        entry s' k' = (if k' = k \<and> 0 < ttl \<and> r \<noteq> None then Some (the r, fin + ttl) else entry s k')"
begin

definition until :: "time \<Rightarrow> 'k \<Rightarrow> 's \<Rightarrow> bool" where
  "until d k s \<longleftrightarrow> (\<forall>v ex. entry s k = Some (v, ex) \<longrightarrow> ex \<le> d)"

text \<open>With a clock that does not go back, no entry outlives the present by more than the time to
  live.\<close>

lemma look_until:
  assumes "look k now fin s = (r, s')" and "until d k' s" and "k' = k \<longrightarrow> fin + ttl \<le> d"
  shows "until d k' s'"
proof (cases "0 < ttl \<and> (\<exists>v ex. entry s k = Some (v, ex) \<and> now < ex)")
  case True
  then have "s' = s" using assms(1) hit by fastforce
  with assms(2) show ?thesis by simp
next
  case False
  from miss [OF False assms(1), of k'] assms(2,3) show ?thesis
    by (auto simp: until_def split: if_splits)
qed

text \<open>Once the authority refuses a key, looking it up creates no new entry for it.\<close>

lemma refused_until:
  assumes "look k now fin s = (r, s')" and "ask k s = None" and "until d k s"
  shows "until d k s'"
proof (cases "0 < ttl \<and> (\<exists>v ex. entry s k = Some (v, ex) \<and> now < ex)")
  case True
  then have "s' = s" using assms(1) hit by fastforce
  with assms(3) show ?thesis by simp
next
  case False
  from miss [OF False assms(1), of k] assms(2,3) show ?thesis
    by (auto simp: until_def split: if_splits)
qed

lemma other_until:
  assumes "look k now fin s = (r, s')" and "k' \<noteq> k"
  shows "until d k' s' = until d k' s"
proof (cases "0 < ttl \<and> (\<exists>v ex. entry s k = Some (v, ex) \<and> now < ex)")
  case True
  then have "s' = s" using assms(1) hit by fastforce
  then show ?thesis by simp
next
  case False
  from miss [OF False assms(1), of k'] assms(2) show ?thesis by (simp add: until_def)
qed

lemma refused_after:
  assumes "until d k s" and "ask k s = None" and "d \<le> now"
  shows "fst (look k now fin s) = None"
proof -
  have "\<not> (0 < ttl \<and> (\<exists>v ex. entry s k = Some (v, ex) \<and> now < ex))"
    using assms(1,3) by (fastforce simp: until_def)
  moreover obtain r s' where r: "look k now fin s = (r, s')" by fastforce
  ultimately have "r = ask k s" using miss by blast
  with assms(2) r show ?thesis by simp
qed

text \<open>What is accepted was accepted by the authority when it was asked.\<close>

lemma accepted_fresh:
  assumes "look k now fin s = (Some v, s')" and "until now k s"
  shows "ask k s = Some v"
proof -
  have "\<not> (0 < ttl \<and> (\<exists>v ex. entry s k = Some (v, ex) \<and> now < ex))"
    using assms(2) by (fastforce simp: until_def)
  from miss [OF this assms(1), of k] show ?thesis by simp
qed

end

end
