(* ===== verification/AgentAuth.thy ===== *)
theory AgentAuth
  imports Auth TtlCache
begin

text \<open>
  Package \<open>agentauth\<close> of main-api: the endpoint \<open>/internal/agent-auth\<close>, which tells ssh-proxy
  whether a node's token is active, with a cache of positive answers.
\<close>

definition ErrNodeNotFound :: err where
  "ErrNodeNotFound = Err ''node not found''"

record AuthNodeView =
  nw_node :: uuid
  nw_policy :: string
  nw_team :: "uuid option"
  nw_version :: string

definition PgRepo_ListActiveNodeTokens :: "uuid \<Rightarrow> ('z pg_scheme, NodeToken list) action" where
  "PgRepo_ListActiveNodeTokens nd =
     wrap_err (\<lambda>e. WrapErr ''list active node tokens: '' e []) (ListActiveNodeTokens nd)"

definition NodeAuthView :: "uuid \<Rightarrow> ('z pg_scheme, AuthNodeView) action" where
  "NodeAuthView nd =
     bnd (wrap_err (\<lambda>e. if err_is e ErrNoRows then ErrNodeNotFound else WrapErr ''node access policy: '' e [])
            (NodeAccessPolicy nd)) (\<lambda>row.
     bnd (wrap_err (\<lambda>e. WrapErr ''get node: '' e []) (GetNode nd)) (\<lambda>full.
     ret \<lparr>nw_node = nd, nw_policy = fst row, nw_team = snd row, nw_version = n_version full\<rparr>))"

type_synonym aa_cache = "uuid \<times> string \<Rightarrow> (AuthNodeView \<times> time) option"

record 'z aa_state =
  aa_cache :: aa_cache
  aa_db :: "'z pg_scheme"

text \<open>\<open>NewHandler\<close>: an empty cache in front of the repository.\<close>

definition NewHandler :: "'z pg_scheme \<Rightarrow> 'z aa_state" where
  "NewHandler db = \<lparr>aa_cache = (\<lambda>_. None), aa_db = db\<rparr>"

text \<open>The part of \<open>lookup\<close> after a cache miss: the repository and the bcrypt comparisons.\<close>

definition authority :: "auth_lib \<Rightarrow> uuid \<Rightarrow> string \<Rightarrow> 'z pg_scheme \<Rightarrow> AuthNodeView option \<times> 'z pg_scheme" where
  "authority A nd token =
     attempt (PgRepo_ListActiveNodeTokens nd) (\<lambda>r. case r of
       Inl _ \<Rightarrow> reply None
     | Inr toks \<Rightarrow>
         if toks = [] then reply None
         else if \<not> (\<exists>t\<in>set toks. bcrypt_Compare A (t_hash t) token) then reply None
         else attempt (NodeAuthView nd) (\<lambda>v. case v of Inl _ \<Rightarrow> reply None | Inr view \<Rightarrow> reply (Some view)))"

definition lookup_token ::
  "auth_lib \<Rightarrow> int \<Rightarrow> uuid \<Rightarrow> string \<Rightarrow> time \<Rightarrow> time \<Rightarrow> 'z aa_state \<Rightarrow> AuthNodeView option \<times> 'z aa_state" where
  "lookup_token A ttl nd token now fin s =
     (case cache_hit ttl now (aa_cache s (nd, token)) of
        Some view \<Rightarrow> (Some view, s)
      | None \<Rightarrow> (case authority A nd token (aa_db s) of (r, db) \<Rightarrow>
          (r, s\<lparr>aa_db := db, aa_cache := (case r of
                 None \<Rightarrow> aa_cache s
               | Some v \<Rightarrow> if ttl > 0 then (aa_cache s)((nd, token) \<mapsto> (v, fin + ttl)) else aa_cache s)\<rparr>)))"

record aa_request =
  ar_node :: string
  ar_token :: string

text \<open>The response body: node id, policy, team (empty when none), version.\<close>

datatype aa_response = AAError nat string string | AAOk string string string string

definition AgentAuth_ServeHTTP ::
  "auth_lib \<Rightarrow> ext \<Rightarrow> int \<Rightarrow> time \<Rightarrow> time \<Rightarrow> bool \<Rightarrow> aa_request body_in \<Rightarrow> 'z aa_state \<Rightarrow> aa_response \<times> 'z aa_state" where
  "AgentAuth_ServeHTTP A X ttl now fin is_post body s =
     (if \<not> is_post then (AAError 405 ''method_not_allowed'' ''POST required'', s)
      else case body of
        ReadErr e \<Rightarrow> (AAError 400 ''read_body'' (err_text e), s)
      | BadJson e \<Rightarrow> (AAError 400 ''bad_json'' (err_text e), s)
      | Decoded req \<Rightarrow> (case uuid_Parse X (ar_node req) of
          Inl e \<Rightarrow> (AAError 400 ''bad_node_id'' ''node_id must be a UUID'', s)
        | Inr nd \<Rightarrow>
          if ar_token req = [] then (AAError 401 ''unauthenticated'' ''token required'', s)
          else (case lookup_token A ttl nd (ar_token req) now fin s of
                  (None, s') \<Rightarrow> (AAError 401 ''unauthenticated'' ''invalid or revoked token'', s')
                | (Some v, s') \<Rightarrow> (AAOk (uuid_text nd) (nw_policy v)
                     (case nw_team v of None \<Rightarrow> [] | Some t \<Rightarrow> uuid_text t) (nw_version v), s'))))"

section \<open>The cache contract\<close>

lemma lookup_token_hit:
  assumes "0 < ttl" "aa_cache s k = Some (v, ex)" "now < ex"
  shows "lookup_token A ttl (fst k) (snd k) now fin s = (Some v, s)"
  using assms by (simp add: lookup_token_def cache_hit_def)

lemma lookup_token_miss:
  assumes "\<not> (0 < ttl \<and> (\<exists>v ex. aa_cache s k = Some (v, ex) \<and> now < ex))"
    and "lookup_token A ttl (fst k) (snd k) now fin s = (r, s')"
  shows "r = fst (authority A (fst k) (snd k) (aa_db s)) \<and> aa_db s' = snd (authority A (fst k) (snd k) (aa_db s)) \<and>
    aa_cache s' k' = (if k' = k \<and> 0 < ttl \<and> r \<noteq> None then Some (the r, fin + ttl) else aa_cache s k')"
proof -
  obtain a db where a: "authority A (fst k) (snd k) (aa_db s) = (a, db)" by fastforce
  from assms(1) have "cache_hit ttl now (aa_cache s k) = None" by (simp only: cache_hit_None not_False_eq_True)
  with assms(2) a show ?thesis by (cases a) (auto simp: lookup_token_def)
qed

interpretation agent_auth: ttl_cache
  "\<lambda>k s. fst (authority A (fst k) (snd k) (aa_db (s :: 'z aa_state)))"
  "\<lambda>k. lookup_token A ttl (fst k) (snd k)" aa_cache ttl for A ttl
proof unfold_locales
  fix s :: "'z aa_state" and k v ex now fin
  assume "0 < ttl" "aa_cache s k = Some (v, ex)" "now < ex"
  then show "lookup_token A ttl (fst k) (snd k) now fin s = (Some v, s)"
    by (rule lookup_token_hit)
next
  fix s s' :: "'z aa_state" and k now fin r k'
  assume "\<not> (0 < ttl \<and> (\<exists>v ex. aa_cache s k = Some (v, ex) \<and> now < ex))"
    and "lookup_token A ttl (fst k) (snd k) now fin s = (r, s')"
  from lookup_token_miss [OF this, of k'] show "r = fst (authority A (fst k) (snd k) (aa_db s)) \<and>
      aa_cache s' k' = (if k' = k \<and> 0 < ttl \<and> r \<noteq> None then Some (the r, fin + ttl) else aa_cache s k')"
    by simp
qed

text \<open>A token is accepted by the authority only while an active row of the node matches it.\<close>

lemma authority_active:
  assumes "fst (authority A nd tok s) = Some v"
  shows "\<exists>t\<in>set (node_tokens (tbl s)). t_node t = nd \<and> t_revoked t = None \<and> bcrypt_Compare A (t_hash t) tok"
proof -
  obtain r s1 where r: "ListActiveNodeTokens nd s = (r, s1)" by fastforce
  with assms obtain toks where toks: "r = Inr toks" "\<exists>t\<in>set toks. bcrypt_Compare A (t_hash t) tok"
    by (cases r) (auto simp: authority_def PgRepo_ListActiveNodeTokens_def attempt_def wrap_err_def reply_def
        split: if_splits)
  from r toks(1) have "toks = filter (\<lambda>r. t_node r = nd \<and> t_revoked r = None) (node_tokens (tbl s))"
    by (auto simp: ListActiveNodeTokens_def dest!: sel_Inr)
  with toks(2) show ?thesis by auto
qed

end
