(* ===== verification/SshTicket.thy ===== *)
theory SshTicket
  imports Auth
begin

text \<open>
  SSH access: signed tickets (\<open>sshticket/ticket.go\<close>) and the endpoint \<open>/internal/ssh-ticket\<close>
  (\<open>api/internal_ssh_ticket.go\<close>), which turns the key fingerprint and the subdomain an SSH client
  presents into a ticket for one running instance of the key's owner.
\<close>

section \<open>Tickets\<close>

record Ticket =
  tk_session :: string
  tk_instance :: uuid
  tk_node :: uuid
  tk_ip :: string
  tk_port :: nat
  tk_endpoint :: string
  tk_expires :: time

text \<open>The codecs and the MAC: JSON of a ticket, standard base64, HMAC-SHA256.\<close>

record ticket_lib =
  json_Marshal :: "Ticket \<Rightarrow> err + string"
  json_Unmarshal :: "string \<Rightarrow> err + Ticket"
  b64_enc :: "string \<Rightarrow> string"
  b64_dec :: "string \<Rightarrow> err + string"
  hmac_sha256 :: "string \<Rightarrow> string \<Rightarrow> string"

text \<open>What the codecs document: decoding gives back what was encoded.\<close>

definition codecs_ok :: "ticket_lib \<Rightarrow> bool" where
  "codecs_ok L \<longleftrightarrow> (\<forall>x. b64_dec L (b64_enc L x) = Inr x) \<and>
     (\<forall>t raw. json_Marshal L t = Inr raw \<longrightarrow> json_Unmarshal L raw = Inr t)"

record Signer =
  sn_secret :: string
  sn_ttl :: int

definition NewSigner :: "string \<Rightarrow> int \<Rightarrow> err + Signer" where
  "NewSigner secret ttl =
     (if length secret < 16 then Inl (Err ''sshticket: secret must be at least 16 bytes'')
      else if ttl \<le> 0 then Inl (Err ''sshticket: TTL must be positive'')
      else Inr \<lparr>sn_secret = secret, sn_ttl = ttl\<rparr>)"

text \<open>\<open>fresh\<close> is the UUID \<open>uuid.NewString\<close> draws, \<open>now\<close> the signer's clock.\<close>

definition complete_ticket :: "Signer \<Rightarrow> string \<Rightarrow> time \<Rightarrow> Ticket \<Rightarrow> Ticket" where
  "complete_ticket sg fresh now t = t\<lparr>
     tk_session := (if tk_session t = [] then fresh else tk_session t),
     tk_expires := (if tk_expires t = zero_time then now + sn_ttl sg else tk_expires t)\<rparr>"

definition Issue :: "ticket_lib \<Rightarrow> Signer \<Rightarrow> string \<Rightarrow> time \<Rightarrow> Ticket \<Rightarrow> err + Signed" where
  "Issue L sg fresh now t = (case json_Marshal L (complete_ticket sg fresh now t) of
       Inl e \<Rightarrow> Inl (WrapErr ''marshal ticket: '' e [])
     | Inr raw \<Rightarrow> let payload = b64_enc L raw in
         Inr \<lparr>sg_payload = payload, sg_signature = b64_enc L (hmac_sha256 L (sn_secret sg) payload)\<rparr>)"

definition ErrInvalidSignature :: err where
  "ErrInvalidSignature = Err ''sshticket: invalid signature''"

definition ErrExpired :: err where
  "ErrExpired = Err ''sshticket: expired''"

definition Verify :: "ticket_lib \<Rightarrow> string \<Rightarrow> time \<Rightarrow> Signed \<Rightarrow> err + Ticket" where
  "Verify L secret now sg =
     (if b64_enc L (hmac_sha256 L secret (sg_payload sg)) \<noteq> sg_signature sg then Inl ErrInvalidSignature
      else case b64_dec L (sg_payload sg) of
        Inl e \<Rightarrow> Inl (WrapErr ''decode payload: '' e [])
      | Inr raw \<Rightarrow> (case json_Unmarshal L raw of
          Inl e \<Rightarrow> Inl (WrapErr ''parse ticket: '' e [])
        | Inr t \<Rightarrow> if now > tk_expires t then Inl ErrExpired else Inr t))"

section \<open>The endpoint\<close>

record sshTicketRequest =
  tr_prefix :: string
  tr_fingerprint :: string

definition minSubdomainPrefixLen :: nat where "minSubdomainPrefixLen = 8"

definition maxSubdomainPrefixLen :: nat where "maxSubdomainPrefixLen = 32"

definition isHexLower :: "string \<Rightarrow> bool" where
  "isHexLower s \<longleftrightarrow> (\<forall>c\<in>set s. c \<in> set ''0123456789abcdef'')"

definition parseSSHTicketRequest :: "sshTicketRequest body_in \<Rightarrow> response + sshTicketRequest" where
  "parseSSHTicketRequest body = (case body of
       ReadErr e \<Rightarrow> Inl (writeError 400 ''read_body'' (err_text e))
     | BadJson e \<Rightarrow> Inl (writeError 400 ''bad_json'' (err_text e))
     | Decoded req \<Rightarrow>
         let p = ToLower (TrimSpace (tr_prefix req)); f = TrimSpace (tr_fingerprint req) in
         if p = [] then Inl (writeError 400 ''missing_prefix'' ''subdomain_prefix required'')
         else if length p < minSubdomainPrefixLen \<or> length p > maxSubdomainPrefixLen \<or> \<not> isHexLower p
         then Inl (writeError 400 ''bad_prefix'' ''subdomain_prefix must be 8-32 lowercase hex chars'')
         else if f = [] then Inl (writeError 400 ''missing_fingerprint'' ''ssh_key_fingerprint required'')
         else Inr \<lparr>tr_prefix = p, tr_fingerprint = f\<rparr>)"

definition errAmbiguousPrefix :: err where
  "errAmbiguousPrefix = Err ''multiple instances match the prefix''"

definition resolveInstanceByPrefix :: "uuid \<Rightarrow> string \<Rightarrow> ('z pg_scheme, Instance) action" where
  "resolveInstanceByPrefix owner p =
     bnd (wrap_err (\<lambda>e. WrapErr ''lookup instance by prefix: '' e []) (FindByOwnerAndIDPrefix owner p)) (\<lambda>ms.
     case ms of
       [] \<Rightarrow> fail (Err ''instance not found'')
     | [m] \<Rightarrow> ret m
     | _ \<Rightarrow> fail errAmbiguousPrefix)"

definition instance_ticket :: "Instance \<Rightarrow> Node \<Rightarrow> string \<Rightarrow> Ticket" where
  "instance_ticket inst node ip = \<lparr>tk_session = [], tk_instance = i_id inst, tk_node = n_id node, tk_ip = ip,
     tk_port = 22, tk_endpoint = [], tk_expires = zero_time\<rparr>"

definition SSHTicketHandler ::
  "ticket_lib \<Rightarrow> Signer \<Rightarrow> bool \<Rightarrow> string \<Rightarrow> time \<Rightarrow> sshTicketRequest body_in \<Rightarrow> 'z pg_scheme \<Rightarrow> response \<times> 'z pg_scheme" where
  "SSHTicketHandler L sg keys fresh now body = (case parseSSHTicketRequest body of
       Inl resp \<Rightarrow> reply resp
     | Inr req \<Rightarrow>
         if \<not> keys then reply (writeError 503 ''ssh_auth_disabled'' ''ssh-key authentication is not configured on this server'')
         else attempt (LookupUserByFingerprint (tr_fingerprint req)) (\<lambda>o'. case o' of
           Inl e \<Rightarrow> reply (writeError 404 ''instance_lookup'' ''instance not found'')
         | Inr owner \<Rightarrow> attempt (resolveInstanceByPrefix owner (tr_prefix req)) (\<lambda>r. case r of
             Inl e \<Rightarrow> reply (writeError (if err_is e errAmbiguousPrefix then 409 else 404) ''instance_lookup'' (err_text e))
           | Inr inst \<Rightarrow>
               if i_state inst \<noteq> Running then reply (writeError 409 ''not_running'' (state_text (i_state inst)))
               else (case i_ip inst of
                 None \<Rightarrow> reply (writeError 409 ''no_vm_ip'' ''instance has no vm_internal_ip yet'')
               | Some ip \<Rightarrow> attempt (NodeRepo_Get (i_node inst)) (\<lambda>n. case n of
                   Inl e \<Rightarrow> reply (writeError 500 ''node_lookup'' (err_text e))
                 | Inr node \<Rightarrow>
                     if n_status node \<noteq> Online then reply (writeError 409 ''node_offline'' ''target node is not online'')
                     else (case Issue L sg fresh now (instance_ticket inst node ip) of
                         Inl e \<Rightarrow> reply (writeError 500 ''sign'' (err_text e))
                       | Inr tick \<Rightarrow> reply (writeJSON 200 (JSigned tick))))))))"

section \<open>Laws\<close>

lemma keeps_SSHTicketHandler [keeps_rules]: "keeps (tinv I) (SSHTicketHandler L sg keys fresh now body)"
proof -
  have r: "keeps (tinv I) (resolveInstanceByPrefix owner p)" for owner p
    unfolding resolveInstanceByPrefix_def FindByOwnerAndIDPrefix_def
    by (intro keeps_rules) (simp add: keeps_rules split: list.split)
  show ?thesis unfolding SSHTicketHandler_def NodeRepo_Get_def by (intro keeps_rules r)
qed

lemma hex_no_wildcard:
  assumes "isHexLower p"
  shows "set p \<inter> {CHR ''%'', CHR ''_'', CHR 0x5C} = {}"
  using assms by (force simp: isHexLower_def)

lemma hex_prefix_short:
  assumes "isHexLower p" and "prefix p (uuid_text u)"
  shows "length p \<le> 8"
proof (rule ccontr)
  assume "\<not> length p \<le> 8"
  then have "p ! 8 = uuid_text u ! 8" using assms(2) by (auto simp: prefix_def nth_append)
  with \<open>\<not> length p \<le> 8\<close> have "CHR ''-'' \<in> set p" by (metis nth_mem not_le uuid_text_nth_8)
  with assms(1) show False by (force simp: isHexLower_def)
qed

end
