(* ===== verification/Billing.thy ===== *)
theory Billing
  imports DbSteps AgentRegistry
begin

text \<open>
  Package \<open>billing\<close> of main-api: the rate table (\<open>rates.go\<close>) and the metering worker
  (\<open>worker.go\<close>), which charges every running instance once per minute and dispatches the
  destruction of the instances of users whose balance is used up.
\<close>

section \<open>Rates\<close>

type_synonym RateTable = "int \<Rightarrow> int option"

text \<open>The checks of \<open>LoadRates\<close>, on the entries the YAML decoder returned in the order the map is
  ranged over; reading and decoding the file are the caller's \<open>err + \<dots>\<close>.\<close>

definition bad_rate :: "int \<times> int \<Rightarrow> err option" where
  "bad_rate e = (if fst e < 0 then Some (Err (''rates: gpu count '' @ dec_int (fst e) @ '' is negative''))
     else if snd e < 0 then Some (Err (''rates: rate for gpu='' @ dec_int (fst e) @ '' is negative''))
     else None)"

definition LoadRates :: "err + (err + (int \<times> int) list) \<Rightarrow> err + RateTable" where
  "LoadRates file = (case file of
       Inl e \<Rightarrow> Inl (WrapErr ''read rates: '' e [])
     | Inr (Inl e) \<Rightarrow> Inl (WrapErr ''parse rates: '' e [])
     | Inr (Inr es) \<Rightarrow>
         if es = [] then Inl (Err ''rates: gpu_rates_milli_per_minute must have at least one entry'')
         else (case List.map_filter bad_rate es of
                 e # _ \<Rightarrow> Inl e
               | [] \<Rightarrow> Inr (map_of es)))"

definition MilliPerMinute :: "RateTable option \<Rightarrow> int \<Rightarrow> int" where
  "MilliPerMinute t g = (case t of None \<Rightarrow> 0 | Some rates \<Rightarrow> (case rates g of None \<Rightarrow> 0 | Some r \<Rightarrow> r))"

section \<open>The worker\<close>

definition minute_bucket :: "time \<Rightarrow> int" where
  "minute_bucket now = go_quot (now div 1000000000) 60"

definition billing_key :: "uuid \<Rightarrow> int \<Rightarrow> string" where
  "billing_key i bucket = ''billing:'' @ uuid_text i @ '':'' @ dec_int bucket"

definition charge_input :: "uuid \<Rightarrow> uuid \<Rightarrow> int \<Rightarrow> int \<Rightarrow> PostInput" where
  "charge_input i owner rate bucket = \<lparr>p_user = owner, p_delta = - rate, p_reason = ''running_minute'',
     p_instance = Some i, p_key = billing_key i bucket, p_meta = []\<rparr>"

definition charge_one :: "RateTable option \<Rightarrow> int \<Rightarrow> uuid \<times> uuid option \<times> int \<Rightarrow> ('z pg_scheme, unit) action" where
  "charge_one rates bucket row = (case row of (i, owner, gpus) \<Rightarrow>
     (case owner of
        None \<Rightarrow> ret ()
      | Some u \<Rightarrow>
          let rate = MilliPerMinute rates gpus in
          if rate = 0 then ret ()
          else attempt (Post (charge_input i u rate bucket)) (\<lambda>_. ret ())))"

definition charge :: "RateTable option \<Rightarrow> time \<Rightarrow> ('z pg_scheme, unit) action" where
  "charge rates now = bnd ListBillableRunningInstances (\<lambda>rows.
     attempt (for_go (charge_one rates (minute_bucket now)) rows) (\<lambda>_. ret ()))"

text \<open>The inner loops of \<open>sweepBankrupt\<close>: a failed send is logged, a panic ends the process.\<close>

definition sweep_instance :: "Instance \<Rightarrow> ('z world_scheme, unit) action" where
  "sweep_instance inst =
     (if i_state inst \<noteq> Running \<and> i_state inst \<noteq> Provisioning then ret ()
      else attempt (Send (i_node inst) (CDestroyInstance (uuid_text (i_id inst)))) (\<lambda>r. case r of
             Inl e \<Rightarrow> if is_panic e then fail e else ret ()
           | Inr _ \<Rightarrow> ret ()))"

definition sweep_user :: "uuid \<Rightarrow> ('z world_scheme, unit) action" where
  "sweep_user u = attempt (ListInstances (Some u)) (\<lambda>r. case r of
       Inl e \<Rightarrow> ret ()
     | Inr insts \<Rightarrow> for_each sweep_instance insts)"

definition sweepBankrupt :: "bool \<Rightarrow> ('z world_scheme, unit) action" where
  "sweepBankrupt dispatcher =
     (if \<not> dispatcher then ret () else bnd UsersWithNegativeBalance (\<lambda>us. for_each sweep_user us))"

definition wrap_unless_panic :: "string \<Rightarrow> err \<Rightarrow> err" where
  "wrap_unless_panic p e = (if is_panic e then e else WrapErr p e [])"

definition runOnce :: "RateTable option \<Rightarrow> time \<Rightarrow> bool \<Rightarrow> ('z world_scheme, unit) action" where
  "runOnce rates now dispatcher =
     bnd (wrap_err (wrap_unless_panic ''charge: '') (charge rates now)) (\<lambda>_.
     bnd (wrap_err (wrap_unless_panic ''sweep: '') (sweepBankrupt dispatcher)) (\<lambda>_. ret ()))"

text \<open>\<open>applyDefaults\<close>: the interval between ticks.\<close>

definition billing_interval :: "int \<Rightarrow> int" where
  "billing_interval tick = (if tick \<le> 0 then 30 * second else tick)"

text \<open>\<open>Run\<close>: one iteration per tick, at the clock of that tick; its error is only logged. A cancelled context ends it.\<close>

fun Worker_Run :: "RateTable option \<Rightarrow> bool \<Rightarrow> time list \<Rightarrow> 'z world_scheme \<Rightarrow> 'z world_scheme" where
  "Worker_Run rates dispatcher [] s = s"
| "Worker_Run rates dispatcher (now # ticks) s = Worker_Run rates dispatcher ticks (snd (runOnce rates now dispatcher s))"

section \<open>Laws\<close>

lemma keeps_charge [db_rules]: "keeps (tinv (db_reach G T0)) (charge rates now)"
  unfolding charge_def charge_one_def by (intro keeps_rules db_rules)

lemma keeps_sweepBankrupt [db_rules]: "keeps (tinv (db_reach G T0)) (sweepBankrupt d)"
  unfolding sweepBankrupt_def sweep_user_def sweep_instance_def UsersWithNegativeBalance_def
  by (intro keeps_rules db_rules)

lemma keeps_runOnce [db_rules]: "keeps (tinv (db_reach G T0)) (runOnce rates now d)"
  unfolding runOnce_def by (intro keeps_rules db_rules)

text \<open>The key names the instance and the minute: different pairs have different keys.\<close>

lemma billing_key_inj: "billing_key i b = billing_key j c \<longleftrightarrow> i = j \<and> b = c"
proof
  assume "billing_key i b = billing_key j c"
  then have "uuid_text i @ '':'' @ dec_int b = uuid_text j @ '':'' @ dec_int c" by (simp add: billing_key_def)
  then have "uuid_text i = uuid_text j \<and> '':'' @ dec_int b = '':'' @ dec_int c"
    by (subst (asm) append_eq_append_conv) auto
  then show "i = j \<and> b = c" by simp
qed simp

end
