(* ===== verification/Router.thy ===== *)
theory Router
  imports AgentAuth SshTicket Billing
begin

text \<open>
  The HTTP surface of main-api (\<open>api/router.go\<close>): which handler a request reaches and which guard it
  passes on the way. A path is the list of its segments, a pattern a method with literal and
  wildcard segments, and a \<open>ServeMux\<close> a list of patterns with their handlers. Requests carry the raw
  body; \<open>decoders\<close> is \<open>encoding/json\<close> at the request types.
\<close>

section \<open>Patterns\<close>

datatype seg = Lit string | Wild

type_synonym pattern = "string \<times> seg list"

fun seg_match :: "seg \<Rightarrow> string \<Rightarrow> bool" where
  "seg_match (Lit l) x = (x = l)"
| "seg_match Wild x = (x \<noteq> [])"

definition path_match :: "seg list \<Rightarrow> string list \<Rightarrow> bool" where
  "path_match ps xs = list_all2 seg_match ps xs"

text \<open>A pattern for GET also serves HEAD.\<close>

definition pat_match :: "pattern \<Rightarrow> string \<Rightarrow> string list \<Rightarrow> bool" where
  "pat_match p m xs = ((m = fst p \<or> fst p = ''GET'' \<and> m = ''HEAD'') \<and> path_match (snd p) xs)"

definition mux_handler :: "(pattern \<times> 'h) list \<Rightarrow> string \<Rightarrow> string list \<Rightarrow> (pattern \<times> 'h) option" where
  "mux_handler mx m xs = find (\<lambda>e. pat_match (fst e) m xs) mx"

text \<open>\<open>r.PathValue("id")\<close>: the segment the wildcard of the matched pattern stands for.\<close>

definition path_value :: "seg list \<Rightarrow> string list \<Rightarrow> string" where
  "path_value ps xs = (case filter (\<lambda>e. fst e = Wild) (zip ps xs) of [] \<Rightarrow> [] | e # _ \<Rightarrow> snd e)"

text \<open>What a \<open>ServeMux\<close> answers when no pattern matches: 405 when the path is known under another
  method, 404 otherwise.\<close>

definition no_route :: "(pattern \<times> 'h) list \<Rightarrow> string list \<Rightarrow> response" where
  "no_route mx xs = (if \<exists>e\<in>set mx. path_match (snd (fst e)) xs then HStatus 405 None else HStatus 404 None)"

section \<open>Routes\<close>

datatype route =
    RNodes | RAdminInstances | RAdminCreate | RAdminDelete | RRecharge | RAdminBalance
  | RTicket | RAgentAuth
  | RRegister | RLogin | RLogout
  | RMe | RInstances | RCreate | RGet | RDelete | RUserNodes | RKeys | RKeyAdd | RKeyDelete | RBalance
  | RUsers | RSlots

text \<open>Which handler groups are wired in; false is nil.\<close>

record router_cfg =
  rc_handlers :: InstanceHandlers
  rc_instances :: bool
  rc_credits :: bool
  rc_admin_token :: string
  rc_internal :: bool
  rc_agent_auth :: bool
  rc_internal_token :: string
  rc_signer :: Signer
  rc_ssh_keys :: bool
  rc_aa_ttl :: int
  rc_auth :: AuthConfig
  uh_auth :: bool
  uh_instances :: bool
  uh_nodes :: bool
  uh_ssh_keys :: bool
  uh_credits :: bool
  uh_admin :: bool
  uh_admin_instances :: bool
  uh_admin_credits :: bool
  uh_admin_nodes :: bool

abbreviation api_path :: "seg list \<Rightarrow> seg list" where
  "api_path xs \<equiv> Lit ''api'' # Lit ''v1'' # xs"

definition admin_mux :: "router_cfg \<Rightarrow> (pattern \<times> route) list" where
  "admin_mux c = [((''GET'', [Lit ''admin'', Lit ''nodes'']), RNodes)] @
     (if rc_instances c then
       [((''GET'', [Lit ''admin'', Lit ''instances'']), RAdminInstances),
        ((''POST'', [Lit ''admin'', Lit ''instances'']), RAdminCreate),
        ((''DELETE'', [Lit ''admin'', Lit ''instances'', Wild]), RAdminDelete)] else []) @
     (if rc_credits c then
       [((''POST'', [Lit ''admin'', Lit ''users'', Wild, Lit ''credits'']), RRecharge),
        ((''GET'', [Lit ''admin'', Lit ''users'', Wild, Lit ''credits'']), RAdminBalance)] else [])"

definition internal_mux :: "router_cfg \<Rightarrow> (pattern \<times> route) list" where
  "internal_mux c = [((''POST'', [Lit ''internal'', Lit ''ssh-ticket'']), RTicket)] @
     (if rc_agent_auth c then [((''POST'', [Lit ''internal'', Lit ''agent-auth'']), RAgentAuth)] else [])"

definition open_mux :: "router_cfg \<Rightarrow> (pattern \<times> route) list" where
  "open_mux c = (if uh_auth c then
     [((''POST'', api_path [Lit ''auth'', Lit ''register'']), RRegister),
      ((''POST'', api_path [Lit ''auth'', Lit ''login'']), RLogin),
      ((''POST'', api_path [Lit ''auth'', Lit ''logout'']), RLogout)] else [])"

definition authed_mux :: "router_cfg \<Rightarrow> (pattern \<times> route) list" where
  "authed_mux c =
     (if uh_auth c then [((''GET'', api_path [Lit ''auth'', Lit ''me'']), RMe)] else []) @
     (if uh_instances c then
       [((''GET'', api_path [Lit ''instances'']), RInstances),
        ((''POST'', api_path [Lit ''instances'']), RCreate),
        ((''GET'', api_path [Lit ''instances'', Wild]), RGet),
        ((''DELETE'', api_path [Lit ''instances'', Wild]), RDelete)] else []) @
     (if uh_nodes c then [((''GET'', api_path [Lit ''nodes'']), RUserNodes)] else []) @
     (if uh_ssh_keys c then
       [((''GET'', api_path [Lit ''ssh-keys'']), RKeys),
        ((''POST'', api_path [Lit ''ssh-keys'']), RKeyAdd),
        ((''DELETE'', api_path [Lit ''ssh-keys'', Wild]), RKeyDelete)] else []) @
     (if uh_credits c then [((''GET'', api_path [Lit ''credits'']), RBalance)] else [])"

definition session_admin_mux :: "router_cfg \<Rightarrow> (pattern \<times> route) list" where
  "session_admin_mux c =
     (if uh_admin_nodes c then [((''GET'', api_path [Lit ''admin'', Lit ''nodes'']), RNodes)] else []) @
     (if uh_admin_instances c then
       [((''GET'', api_path [Lit ''admin'', Lit ''instances'']), RAdminInstances),
        ((''DELETE'', api_path [Lit ''admin'', Lit ''instances'', Wild]), RAdminDelete)] else []) @
     (if uh_admin c then
       [((''GET'', api_path [Lit ''admin'', Lit ''users'']), RUsers),
        ((''GET'', api_path [Lit ''admin'', Lit ''slots'']), RSlots)] else []) @
     (if uh_admin_credits c then
       [((''POST'', api_path [Lit ''admin'', Lit ''users'', Wild, Lit ''credits'']), RRecharge),
        ((''GET'', api_path [Lit ''admin'', Lit ''users'', Wild, Lit ''credits'']), RAdminBalance)] else [])"

section \<open>Requests and handlers\<close>

record decoders =
  dec_create :: "string \<Rightarrow> createInstanceRequest body_in"
  dec_recharge :: "string \<Rightarrow> adminRechargeRequest body_in"
  dec_credentials :: "string \<Rightarrow> credentials body_in"
  dec_key :: "string \<Rightarrow> addSSHKeyRequest body_in"
  dec_ticket :: "string \<Rightarrow> sshTicketRequest body_in"
  dec_agent_auth :: "string \<Rightarrow> aa_request body_in"

record api_libs =
  al_ext :: ext
  al_auth :: auth_lib
  al_ssh :: ssh_lib
  al_ticket :: ticket_lib
  al_json :: decoders

record request =
  rq_method :: string
  rq_path :: "string list"
  rq_cookie :: "string option"
  rq_authorization :: string
  rq_xff :: string
  rq_remote :: string
  rq_body :: string
  rq_now :: time
  rq_done :: time \<comment> \<open>the clock when the handler reads it again\<close>
  rq_random :: "err + string" \<comment> \<open>what \<open>crypto/rand\<close> yields for a session token\<close>
  rq_fresh :: string \<comment> \<open>the UUID drawn for a session id\<close>

text \<open>The state behind the HTTP surface: database, registry, login limiter, agent-auth cache.\<close>

record api_state = world +
  api_limiter :: "RateLimiter option"
  api_cache :: aa_cache

definition serve_login :: "api_libs \<Rightarrow> router_cfg \<Rightarrow> request \<Rightarrow> api_state \<Rightarrow> response \<times> api_state" where
  "serve_login E c rq s =
     (case Auth_Login (al_auth E) (rc_auth c) (rq_random rq) (rq_now rq) (rq_xff rq) (rq_remote rq)
             (dec_credentials (al_json E) (rq_body rq)) (api_limiter s, s) of
        (r, lim, s') \<Rightarrow> (r, s'\<lparr>api_limiter := lim\<rparr>))"

definition aa_reply :: "aa_response \<Rightarrow> response" where
  "aa_reply r = (case r of AAError st k m \<Rightarrow> writeError st k m
     | AAOk nd p tm v \<Rightarrow> writeJSON 200 (JAgentAuth nd p tm v))"

definition serve_agent_auth :: "api_libs \<Rightarrow> router_cfg \<Rightarrow> request \<Rightarrow> api_state \<Rightarrow> response \<times> api_state" where
  "serve_agent_auth E c rq s =
     (case AgentAuth_ServeHTTP (al_auth E) (al_ext E) (rc_aa_ttl c) (rq_now rq) (rq_done rq) (rq_method rq = ''POST'')
             (dec_agent_auth (al_json E) (rq_body rq)) \<lparr>aa_cache = api_cache s, aa_db = s\<rparr> of
        (r, st) \<Rightarrow> (aa_reply r, (aa_db st)\<lparr>api_cache := aa_cache st\<rparr>))"

text \<open>Handlers that need no user.\<close>

definition serve_plain :: "api_libs \<Rightarrow> router_cfg \<Rightarrow> request \<Rightarrow> route \<Rightarrow> string \<Rightarrow> api_state \<Rightarrow> response \<times> api_state" where
  "serve_plain E c rq r i = (let X = al_ext E; J = al_json E; b = rq_body rq in case r of
       RNodes \<Rightarrow> Admin_ListNodes X
     | RAdminInstances \<Rightarrow> Admin_List
     | RAdminCreate \<Rightarrow> Admin_Create (rc_handlers c) X (dec_create J b)
     | RAdminDelete \<Rightarrow> Admin_Delete (rc_handlers c) X i
     | RRecharge \<Rightarrow> Recharge X i (dec_recharge J b)
     | RAdminBalance \<Rightarrow> Admin_Balance X i
     | RTicket \<Rightarrow> SSHTicketHandler (al_ticket E) (rc_signer c) (rc_ssh_keys c) (rq_fresh rq) (rq_now rq) (dec_ticket J b)
     | RAgentAuth \<Rightarrow> serve_agent_auth E c rq
     | RRegister \<Rightarrow> Auth_Register (al_auth E) (rc_auth c) (rq_random rq) (rq_now rq) (dec_credentials J b)
     | RLogin \<Rightarrow> serve_login E c rq
     | RLogout \<Rightarrow> Auth_Logout (al_auth E) (rq_cookie rq)
     | RUsers \<Rightarrow> Session_ListUsers
     | RSlots \<Rightarrow> Session_ListSlots
     | _ \<Rightarrow> reply (HStatus 404 None))"

text \<open>Handlers behind \<open>RequireUser\<close>.\<close>

definition serve_user :: "api_libs \<Rightarrow> router_cfg \<Rightarrow> request \<Rightarrow> User \<Rightarrow> route \<Rightarrow> string \<Rightarrow> api_state \<Rightarrow> response \<times> api_state" where
  "serve_user E c rq user r i = (let X = al_ext E; J = al_json E; b = rq_body rq in case r of
       RMe \<Rightarrow> Auth_Me (Some user)
     | RInstances \<Rightarrow> User_List user
     | RCreate \<Rightarrow> User_Create (rc_handlers c) X user (dec_create J b)
     | RGet \<Rightarrow> User_Get X user i
     | RDelete \<Rightarrow> User_Delete (rc_handlers c) X user i
     | RUserNodes \<Rightarrow> User_ListNodes X (Some user)
     | RKeys \<Rightarrow> SSHKeys_List user
     | RKeyAdd \<Rightarrow> SSHKeys_Add (al_ssh E) user (dec_key J b)
     | RKeyDelete \<Rightarrow> SSHKeys_Delete X user i
     | RBalance \<Rightarrow> User_Balance user
     | _ \<Rightarrow> reply (HStatus 404 None))"

section \<open>The routers\<close>

definition mux_serve :: "(pattern \<times> route) list \<Rightarrow> request \<Rightarrow> (route \<Rightarrow> string \<Rightarrow> 's \<Rightarrow> response \<times> 's) \<Rightarrow> 's \<Rightarrow> response \<times> 's" where
  "mux_serve mx rq f = (case mux_handler mx (rq_method rq) (rq_path rq) of
       None \<Rightarrow> reply (no_route mx (rq_path rq))
     | Some (p, r) \<Rightarrow> f r (path_value (snd p) (rq_path rq)))"

definition NewAdminRouter :: "api_libs \<Rightarrow> router_cfg \<Rightarrow> request \<Rightarrow> api_state \<Rightarrow> response \<times> api_state" where
  "NewAdminRouter E c rq = RequireAdminToken (rc_admin_token c) (rq_authorization rq)
     (mux_serve (admin_mux c) rq (serve_plain E c rq))"

definition NewInternalRouter :: "api_libs \<Rightarrow> router_cfg \<Rightarrow> request \<Rightarrow> api_state \<Rightarrow> response \<times> api_state" where
  "NewInternalRouter E c rq = RequireInternalToken (rc_internal_token c) (rq_authorization rq)
     (mux_serve (internal_mux c) rq (serve_plain E c rq))"

definition NewUserRouter :: "api_libs \<Rightarrow> router_cfg \<Rightarrow> request \<Rightarrow> api_state \<Rightarrow> response \<times> api_state" where
  "NewUserRouter E c rq = attempt (LoadSession (al_auth E) (rq_cookie rq)) (\<lambda>u.
     if mux_handler (open_mux c) (rq_method rq) (rq_path rq) \<noteq> None
     then mux_serve (open_mux c) rq (serve_plain E c rq)
     else if mux_handler (session_admin_mux c) (rq_method rq) (rq_path rq) \<noteq> None
     then RequireAdmin u (\<lambda>_. mux_serve (session_admin_mux c) rq (serve_plain E c rq))
     else RequireUser u (\<lambda>user. mux_serve (authed_mux c) rq (serve_user E c rq user)))"

text \<open>\<open>NewRouter\<close>: the subtrees \<open>/admin/\<close>, \<open>/internal/\<close> and \<open>/api/\<close>; the bare prefix is redirected.\<close>

definition NewRouter :: "api_libs \<Rightarrow> router_cfg \<Rightarrow> request \<Rightarrow> api_state \<Rightarrow> response \<times> api_state" where
  "NewRouter E c rq = (case rq_path rq of
       [] \<Rightarrow> reply (HStatus 404 None)
     | p # rest \<Rightarrow>
         if p = ''admin'' then (if rest = [] then reply (HStatus 301 None) else NewAdminRouter E c rq)
         else if p = ''internal'' \<and> rc_internal c then
           (if rest = [] then reply (HStatus 301 None) else NewInternalRouter E c rq)
         else if p = ''api'' then (if rest = [] then reply (HStatus 301 None) else NewUserRouter E c rq)
         else reply (HStatus 404 None))"

section \<open>Every request moves along the database relation\<close>

lemma keeps_authority [keeps_rules]: "keeps (tinv I) (authority A nd token)"
  unfolding authority_def PgRepo_ListActiveNodeTokens_def NodeAuthView_def by (intro keeps_rules)

lemma keeps_serve_agent_auth [keeps_rules]: "keeps (tinv I) (serve_agent_auth E c rq)"
proof (rule keepsI)
  fix s :: api_state assume i: "tinv I s"
  have l: "tinv I (aa_db (snd (lookup_token A ttl nd tok now fin \<lparr>aa_cache = api_cache s, aa_db = s\<rparr>)))" for A ttl nd tok now fin
    using keepsD [OF keeps_authority i, of A nd tok] i
    by (auto simp: lookup_token_def split: option.split prod.split)
  then show "tinv I (snd (serve_agent_auth E c rq s))"
    using i by (auto simp: serve_agent_auth_def AgentAuth_ServeHTTP_def tinv_def split: body_in.split sum.split
        prod.split option.split) (metis prod.sel(2))+
qed

lemma keeps_Authenticate [keeps_rules]: "keeps (tinv I) (Authenticate A em pw)"
  unfolding Authenticate_def by (intro keeps_rules)

lemma keeps_issueSessionCookie [db_rules]: "keeps (tinv (db_reach G T0)) (issueSessionCookie A cfg buf now u)"
  unfolding issueSessionCookie_def CreateSession_def by (intro keeps_rules db_rules)

lemma keeps_serve_login [db_rules]: "keeps (tinv (db_reach G T0)) (serve_login E c rq)"
proof (rule keepsI)
  fix s :: api_state assume i: "tinv (db_reach G T0) s"
  have inner: "keeps (tinv (db_reach G T0)) (case body_err body of
       Inl e \<Rightarrow> reply (writeError 400 ''bad_json'' (err_text e))
     | Inr req \<Rightarrow> attempt (Authenticate A (cd_email req) (cd_password req)) (\<lambda>r. case r of
         Inl e \<Rightarrow> reply (writeError 401 ''invalid_credentials'' ''invalid email or password'')
       | Inr user \<Rightarrow> attempt (issueSessionCookie A cfg buf now (u_id user)) (\<lambda>c. case c of
           Inl e \<Rightarrow> reply (writeError 500 ''session_failed'' (err_text e))
         | Inr ck \<Rightarrow> reply (HJson 200 (Some ck) (JUser (toUserView user))))))" for body :: "credentials body_in" and A cfg buf now
    by (intro keeps_rules db_rules)
  have "tinv (db_reach G T0) (snd (snd (Auth_Login A cfg buf now xff remote body (lim, s))))" for A cfg buf now xff remote body lim
    unfolding Auth_Login_def
    using keepsD [OF inner [of A cfg buf now body] i] i by (auto simp: map_prod_def split: prod.split bool.split)
  then show "tinv (db_reach G T0) (snd (serve_login E c rq s))"
    by (auto simp: serve_login_def tinv_def split: prod.split) (metis prod.sel(2))
qed

lemma keeps_serve_plain [db_rules]: "keeps (tinv (db_reach G T0)) (serve_plain E c rq r i)"
  unfolding serve_plain_def Let_def by (cases r) (simp_all add: keeps_rules db_rules)

lemma keeps_serve_user [db_rules]: "keeps (tinv (db_reach G T0)) (serve_user E c rq user r i)"
  unfolding serve_user_def Let_def Auth_Me_def by (cases r) (simp_all add: keeps_rules db_rules)

lemma keeps_mux_serve [keeps_rules]: "(\<And>r i. keeps I (f r i)) \<Longrightarrow> keeps I (mux_serve mx rq f)"
  unfolding mux_serve_def by (intro keeps_rules)

lemma keeps_guards [keeps_rules]:
  "keeps I m \<Longrightarrow> keeps I (RequireAdminToken t a m)" "keeps I m \<Longrightarrow> keeps I (RequireInternalToken t a m)"
  "(\<And>u. keeps I (f u)) \<Longrightarrow> keeps I (RequireUser v f)" "(\<And>u. keeps I (f u)) \<Longrightarrow> keeps I (RequireAdmin v f)"
  unfolding RequireAdminToken_def RequireInternalToken_def RequireUser_def RequireAdmin_def
  by (intro keeps_rules; assumption)+

lemma keeps_NewRouter [db_rules]: "keeps (tinv (db_reach G T0)) (NewRouter E c rq)"
proof -
  have "keeps (tinv (db_reach G T0)) (NewAdminRouter E c rq)" "keeps (tinv (db_reach G T0)) (NewInternalRouter E c rq)"
      "keeps (tinv (db_reach G T0)) (NewUserRouter E c rq)"
    unfolding NewAdminRouter_def NewInternalRouter_def NewUserRouter_def by (intro keeps_rules db_rules)+
  then show ?thesis unfolding NewRouter_def by (cases "rq_path rq") (simp_all add: keeps_rules)
qed

end
