(* ===== verification/GoFlags.thy ===== *)
theory GoFlags
  imports GoStrings
begin

text \<open>
  Package \<open>flag\<close>, as the commands use it: flags up to the first argument that is none, or up to \<open>--\<close>. A boolean
  flag takes a value only after an equals sign; \<open>okay\<close> says which values the type of a flag accepts. The defaults are the
  initial values. With \<open>flag.ExitOnError\<close> an error ends the process with code 2, a request for help with 0.
\<close>

definition flag_name :: "string \<Rightarrow> string" where
  "flag_name s = (if List.drop 1 s \<noteq> [] \<and> s ! 1 = CHR ''-'' then List.drop 2 s else List.drop 1 s)"

definition ErrHelp :: err where
  "ErrHelp = Err ''flag: help requested''"

definition flag_set :: "(string \<Rightarrow> string \<Rightarrow> bool) \<Rightarrow> string \<Rightarrow> string \<Rightarrow> (string \<Rightarrow> string) \<Rightarrow> err + (string \<Rightarrow> string)" where
  "flag_set okay nm v vals = (if okay nm v then Inr (vals(nm := v))
     else Inl (Err (''invalid value '' @ quoted v @ '' for flag -'' @ nm)))"

text \<open>What one argument that begins with a dash says: its name, and its value when one is attached.\<close>

definition flag_split :: "string \<Rightarrow> string \<times> string option" where
  "flag_split nm = (case IndexChar nm (CHR ''='') of
       Some i \<Rightarrow> (take i nm, Some (List.drop (i + 1) nm))
     | None \<Rightarrow> (nm, None))"

definition flag_unknown :: "string \<Rightarrow> err" where
  "flag_unknown nm = (if nm = ''help'' \<or> nm = ''h'' then ErrHelp
     else Err (''flag provided but not defined: -'' @ nm))"

fun flag_parse ::
  "string list \<Rightarrow> string list \<Rightarrow> (string \<Rightarrow> string \<Rightarrow> bool) \<Rightarrow> string list \<Rightarrow> (string \<Rightarrow> string) \<Rightarrow> err + (string \<Rightarrow> string)" where
  "flag_parse names bools okay [] vals = Inr vals"
| "flag_parse names bools okay (s # args) vals =
     (if length s < 2 \<or> s ! 0 \<noteq> CHR ''-'' then Inr vals
      else if s = ''--'' then Inr vals
      else let raw = flag_name s in
        if raw = [] \<or> raw ! 0 = CHR ''-'' \<or> raw ! 0 = CHR ''='' then Inl (Err (''bad flag syntax: '' @ s))
        else (case flag_split raw of (nm, given) \<Rightarrow>
          if nm \<notin> set names \<and> nm \<notin> set bools then Inl (flag_unknown nm)
          else if nm \<in> set bools then
            (case flag_set okay nm (case given of None \<Rightarrow> ''true'' | Some v \<Rightarrow> v) vals of
               Inl e \<Rightarrow> Inl e
             | Inr vs \<Rightarrow> flag_parse names bools okay args vs)
          else (case given of
              Some v \<Rightarrow> (case flag_set okay nm v vals of
                  Inl e \<Rightarrow> Inl e
                | Inr vs \<Rightarrow> flag_parse names bools okay args vs)
            | None \<Rightarrow> (case args of
                [] \<Rightarrow> Inl (Err (''flag needs an argument: -'' @ nm))
              | v # rest \<Rightarrow> (case flag_set okay nm v vals of
                  Inl e \<Rightarrow> Inl e
                | Inr vs \<Rightarrow> flag_parse names bools okay rest vs)))))"

definition flag_exit :: "err \<Rightarrow> nat" where
  "flag_exit e = (if e = ErrHelp then 0 else 2)"

lemma flag_set_Inr: "flag_set okay nm v vals = Inr vs \<longleftrightarrow> okay nm v \<and> vs = vals(nm := v)"
  by (auto simp: flag_set_def)

text \<open>Every value a parse leaves is the initial one or was accepted.\<close>

lemma flag_parse_okay:
  assumes "flag_parse names bools okay args vals = Inr vs" and "\<forall>n. okay n (vals n)"
  shows "okay n (vs n)"
  using assms
proof (induction args arbitrary: vals rule: length_induct)
  case (1 args)
  have later: "okay n (vs n)"
    if "flag_parse names bools okay ys us = Inr vs" and "flag_set okay m v vals = Inr us" and "length ys < length args" for ys us m v
    using 1 that by (auto simp: flag_set_Inr)
  show ?case
  proof (cases args)
    case Nil
    with 1 show ?thesis by simp
  next
    case (Cons s rest)
    with 1(2,3) show ?thesis
      by (auto simp: Let_def split: if_splits prod.splits option.splits sum.splits list.splits intro: later)
  qed
qed

end
