(* ===== verification/AdminCli.thy ===== *)
theory AdminCli
  imports AgentAuth GoFlags
begin

text \<open>
  The operator CLI (\<open>cmd/admin\<close>): dispatch, the string flags of its commands, and the
  commands that issue, list and revoke node tokens and manage teams. What a command prints is a
  value of \<open>cli_out\<close>; the layout of the text is not modelled.
\<close>

section \<open>Flags\<close>

definition parse_flags :: "string list \<Rightarrow> string list \<Rightarrow> err + (string \<Rightarrow> string)" where
  "parse_flags names args = flag_parse names [] (\<lambda>_ _. True) args (\<lambda>_. [])"

section \<open>Commands\<close>

datatype cli_out =
    OUsage
  | OTokenCreated string string uuid string uuid string uuid
      \<comment> \<open>plaintext, mux endpoint, token id, node name and id, team name and id\<close>
  | OTokens "(uuid \<times> time \<times> time option) list" \<comment> \<open>id, creation, revocation\<close>
  | ORevoked uuid
  | OTeam uuid string
  | OAdded string uuid uuid
  | OMembers "(uuid \<times> string \<times> time) list"

text \<open>\<open>update nodes set access_policy = 'owner_team', owner_team_id = $1 where id = $2\<close>; the team is
  a soft reference.\<close>

definition pin_node_acl :: "uuid \<Rightarrow> uuid \<Rightarrow> ('z pg_scheme, unit) action" where
  "pin_node_acl team nd = dml (\<lambda>_ _ _ T. Inr ((), T\<lparr>nodes :=
     set_where (\<lambda>n. n_id n = nd) (\<lambda>n. n\<lparr>n_policy := ''owner_team'', n_team := Some team\<rparr>) (nodes T)\<rparr>))"

definition generateTokenPlaintext :: "auth_lib \<Rightarrow> err + string \<Rightarrow> err + string" where
  "generateTokenPlaintext A buf = (case buf of Inl e \<Rightarrow> Inl e | Inr b \<Rightarrow> Inr (b64url A b))"

definition issue_token ::
  "auth_lib \<Rightarrow> err + string \<Rightarrow> string \<Rightarrow> Node \<Rightarrow> Team \<Rightarrow> ('z pg_scheme, cli_out) action" where
  "issue_token A buf endpoint node team = (case generateTokenPlaintext A buf of
       Inl e \<Rightarrow> fail (WrapErr ''generate token: '' e [])
     | Inr plaintext \<Rightarrow> (case bcrypt_Generate A plaintext of
         Inl e \<Rightarrow> fail (WrapErr ''hash token: '' e [])
       | Inr hash \<Rightarrow>
           bnd (wrap_err (\<lambda>e. WrapErr ''insert token: '' e []) (NodeTokenInsert (n_id node) hash)) (\<lambda>row.
           bnd (wrap_err (\<lambda>e. WrapErr ''pin node ACL: '' e []) (pin_node_acl (tm_id team) (n_id node))) (\<lambda>_.
           ret (OTokenCreated plaintext endpoint (t_id row) (n_name node) (n_id node) (tm_name team) (tm_id team))))))"

definition nodeTokenCreate ::
  "auth_lib \<Rightarrow> err + string \<Rightarrow> string \<Rightarrow> string list \<Rightarrow> ('z pg_scheme, cli_out) action" where
  "nodeTokenCreate A buf endpoint args = (case parse_flags [''node-name'', ''owner-team''] args of
       Inl e \<Rightarrow> fail e
     | Inr v \<Rightarrow>
         if v ''node-name'' = [] \<or> v ''owner-team'' = []
         then fail (Err ''--node-name and --owner-team are required'')
         else bnd (wrap_err (\<lambda>e. WrapErr (''look up node '' @ quoted (v ''node-name'') @ '': '') e [])
                     (GetNodeByName (v ''node-name''))) (\<lambda>node.
              bnd (wrap_err (\<lambda>e. WrapErr (''look up team '' @ quoted (v ''owner-team'') @ '': '') e [])
                     (TeamGetByName (v ''owner-team''))) (\<lambda>team.
              issue_token A buf endpoint node team)))"

definition nodeTokenList :: "string list \<Rightarrow> ('z pg_scheme, cli_out) action" where
  "nodeTokenList args = (case parse_flags [''node-name''] args of
       Inl e \<Rightarrow> fail e
     | Inr v \<Rightarrow>
         if v ''node-name'' = [] then fail (Err ''--node-name is required'')
         else bnd (wrap_err (\<lambda>e. WrapErr ''look up node: '' e []) (GetNodeByName (v ''node-name''))) (\<lambda>node.
              bnd (wrap_err (\<lambda>e. WrapErr ''list tokens: '' e []) (ListNodeTokens (n_id node))) (\<lambda>rows.
              ret (OTokens (map (\<lambda>r. (t_id r, t_created r, t_revoked r)) rows)))))"

definition nodeTokenRevoke :: "ext \<Rightarrow> string list \<Rightarrow> ('z pg_scheme, cli_out) action" where
  "nodeTokenRevoke X args = (case parse_flags [''token-id''] args of
       Inl e \<Rightarrow> fail e
     | Inr v \<Rightarrow>
         if v ''token-id'' = [] then fail (Err ''--token-id is required'')
         else (case uuid_Parse X (v ''token-id'') of
           Inl e \<Rightarrow> fail (WrapErr ''--token-id must be a UUID: '' e [])
         | Inr i \<Rightarrow> bnd (wrap_err (\<lambda>e. WrapErr ''revoke: '' e []) (NodeTokenRevoke i)) (\<lambda>_. ret (ORevoked i))))"

definition runNodeToken :: "auth_lib \<Rightarrow> ext \<Rightarrow> err + string \<Rightarrow> string \<Rightarrow> string list \<Rightarrow> ('z pg_scheme, cli_out) action" where
  "runNodeToken A X buf endpoint args = (case args of
       [] \<Rightarrow> fail (Err ''node-token: subcommand required (\"create\" | \"list\" | \"revoke\")'')
     | sub # rest \<Rightarrow>
         if sub = ''create'' then nodeTokenCreate A buf endpoint rest
         else if sub = ''list'' then nodeTokenList rest
         else if sub = ''revoke'' then nodeTokenRevoke X rest
         else fail (Err (''node-token: unknown subcommand '' @ quoted sub)))"

definition teamCreate :: "string list \<Rightarrow> ('z pg_scheme, cli_out) action" where
  "teamCreate args = (case parse_flags [''name'', ''description''] args of
       Inl e \<Rightarrow> fail e
     | Inr v \<Rightarrow>
         if v ''name'' = [] then fail (Err ''--name is required'')
         else bnd (wrap_err (\<lambda>e. WrapErr ''team create: '' e []) (TeamCreate (v ''name'') (v ''description''))) (\<lambda>t.
              ret (OTeam (tm_id t) (tm_name t))))"

definition member_team :: "ext \<Rightarrow> string \<Rightarrow> string \<Rightarrow> ('z pg_scheme, uuid) action" where
  "member_team X idStr nm =
     (if idStr \<noteq> [] then (case uuid_Parse X idStr of
          Inl e \<Rightarrow> fail (WrapErr ''--team-id must be a UUID: '' e [])
        | Inr i \<Rightarrow> ret i)
      else bnd (wrap_err (\<lambda>e. WrapErr (''look up team '' @ quoted nm @ '': '') e []) (TeamGetByName nm)) (\<lambda>t. ret (tm_id t)))"

definition teamAddMember :: "ext \<Rightarrow> string list \<Rightarrow> ('z pg_scheme, cli_out) action" where
  "teamAddMember X args = (case parse_flags [''team-id'', ''team-name'', ''user-email''] args of
       Inl e \<Rightarrow> fail e
     | Inr v \<Rightarrow>
         let em = v ''user-email'' in
         if em = [] then fail (Err ''--user-email is required'')
         else if v ''team-id'' = [] \<and> v ''team-name'' = [] then fail (Err ''--team-id or --team-name is required'')
         else bnd (member_team X (v ''team-id'') (v ''team-name'')) (\<lambda>team.
              bnd (wrap_err (\<lambda>e. if err_is e ErrNoRows then Err (''no user with email '' @ quoted em)
                             else WrapErr ''look up user: '' e []) (GetUserByEmail em)) (\<lambda>u.
              bnd (wrap_err (\<lambda>e. WrapErr ''add member: '' e []) (TeamMemberAdd team (u_id u))) (\<lambda>_.
              ret (OAdded em (u_id u) team)))))"

definition teamListMembers :: "ext \<Rightarrow> string list \<Rightarrow> ('z pg_scheme, cli_out) action" where
  "teamListMembers X args = (case parse_flags [''team-id''] args of
       Inl e \<Rightarrow> fail e
     | Inr v \<Rightarrow>
         if v ''team-id'' = [] then fail (Err ''--team-id is required'')
         else (case uuid_Parse X (v ''team-id'') of
           Inl e \<Rightarrow> fail (WrapErr ''--team-id must be a UUID: '' e [])
         | Inr i \<Rightarrow> bnd (wrap_err (\<lambda>e. WrapErr ''list members: '' e []) (TeamMembersForTeam i)) (\<lambda>rows.
             ret (OMembers (map (\<lambda>(u, t, em). (u, em, t)) rows)))))"

definition runTeam :: "ext \<Rightarrow> string list \<Rightarrow> ('z pg_scheme, cli_out) action" where
  "runTeam X args = (case args of
       [] \<Rightarrow> fail (Err ''team: subcommand required (\"create\" | \"add-member\" | \"list-members\")'')
     | sub # rest \<Rightarrow>
         if sub = ''create'' then teamCreate rest
         else if sub = ''add-member'' then teamAddMember X rest
         else if sub = ''list-members'' then teamListMembers X rest
         else fail (Err (''team: unknown subcommand '' @ quoted sub)))"

definition dispatch_cli ::
  "auth_lib \<Rightarrow> ext \<Rightarrow> err + string \<Rightarrow> string \<Rightarrow> string \<Rightarrow> string list \<Rightarrow> ('z pg_scheme, cli_out) action" where
  "dispatch_cli A X buf endpoint sub rest =
     (if sub = ''node-token'' then runNodeToken A X buf endpoint rest
      else if sub = ''team'' then runTeam X rest
      else if sub \<in> {''help'', ''-h'', ''--help''} then ret OUsage
      else fail (Err (''unknown subcommand '' @ quoted sub)))"

text \<open>\<open>run\<close>: the arguments after the program name, \<open>DATABASE_URL\<close> and the outcome of connecting.\<close>

definition run_cli ::
  "auth_lib \<Rightarrow> ext \<Rightarrow> err + string \<Rightarrow> string \<Rightarrow> string \<Rightarrow> err option \<Rightarrow> string list \<Rightarrow> ('z pg_scheme, cli_out) action" where
  "run_cli A X buf endpoint url conn args = (case args of
       [] \<Rightarrow> fail (Err ''a subcommand is required'')
     | sub # rest \<Rightarrow>
         if url = [] then fail (Err ''DATABASE_URL is required'')
         else (case conn of
             Some e \<Rightarrow> fail (WrapErr ''connect db: '' e [])
           | None \<Rightarrow> dispatch_cli A X buf endpoint sub rest))"

section \<open>Database relation\<close>

lemma keeps_case_list [keeps_rules]:
  "keeps I m \<Longrightarrow> (\<And>x xs. keeps I (f x xs)) \<Longrightarrow> keeps I (case v of [] \<Rightarrow> m | x # xs \<Rightarrow> f x xs)"
  by (cases v) simp_all

lemma keeps_pin_node_acl [db_rules]: "keeps (tinv (db_reach G T0)) (pin_node_acl team nd)"
  unfolding pin_node_acl_def by (rule keeps_reach_dml) (auto simp: same_core_def n_id_set_where)

lemma keeps_run_cli [db_rules]: "keeps (tinv (db_reach G T0)) (run_cli A X buf endpoint url conn args)"
  unfolding run_cli_def dispatch_cli_def runNodeToken_def runTeam_def nodeTokenCreate_def issue_token_def
    nodeTokenList_def nodeTokenRevoke_def teamCreate_def teamAddMember_def member_team_def teamListMembers_def
  by (intro keeps_rules db_rules)

end
