(* ===== verification/Config.thy ===== *)
theory Config
  imports GoStrings
begin

text \<open>
  Package \<open>config\<close> of main-api: the configuration read from the environment, with the checks that
  decide whether the service starts. The environment is a function from names to values, empty
  when a variable is not set; \<open>conv\<close> holds the conversions of \<open>strconv\<close> and \<open>time\<close>.
\<close>

record env_conv =
  ParseBool :: "string \<Rightarrow> err + bool"
  Atoi :: "string \<Rightarrow> err + int"
  ParseDuration :: "string \<Rightarrow> err + int" \<comment> \<open>nanoseconds\<close>

record Config =
  cf_http_addr :: string
  cf_grpc_addr :: string
  cf_database_url :: string
  cf_admin_token :: string
  cf_agent_token :: string
  cf_internal_token :: string
  cf_tunnel_secret :: string
  cf_ticket_ttl :: int
  cf_heartbeat_ttl :: int
  cf_sweep_interval :: int
  cf_session_ttl :: int
  cf_cookie_secure :: bool
  cf_cookie_domain :: string
  cf_hops :: int
  cf_billing_tick :: int
  cf_rates_path :: string

definition env_or :: "(string \<Rightarrow> string) \<Rightarrow> string \<Rightarrow> string \<Rightarrow> string" where
  "env_or ev k fallback = (if ev k \<noteq> [] then ev k else fallback)"

definition boolEnv :: "env_conv \<Rightarrow> (string \<Rightarrow> string) \<Rightarrow> string \<Rightarrow> bool \<Rightarrow> bool" where
  "boolEnv cv ev k fallback = (if ev k = [] then fallback
     else case ParseBool cv (ev k) of Inr b \<Rightarrow> b | Inl _ \<Rightarrow> fallback)"

definition intEnv :: "env_conv \<Rightarrow> (string \<Rightarrow> string) \<Rightarrow> string \<Rightarrow> int \<Rightarrow> int" where
  "intEnv cv ev k fallback = (if ev k = [] then fallback
     else case Atoi cv (ev k) of Inl _ \<Rightarrow> fallback | Inr n \<Rightarrow> n)"

text \<open>\<open>time.Duration(secs) * time.Second\<close> is 64-bit multiplication.\<close>

definition durationEnv :: "env_conv \<Rightarrow> (string \<Rightarrow> string) \<Rightarrow> string \<Rightarrow> int \<Rightarrow> int" where
  "durationEnv cv ev k fallback = (if ev k = [] then fallback
     else case ParseDuration cv (ev k) of
       Inr d \<Rightarrow> d
     | Inl _ \<Rightarrow> (case Atoi cv (ev k) of Inr secs \<Rightarrow> int64 (secs * 1000000000) | Inl _ \<Rightarrow> fallback))"

definition read_config :: "env_conv \<Rightarrow> (string \<Rightarrow> string) \<Rightarrow> Config" where
  "read_config cv ev = \<lparr>
     cf_http_addr = env_or ev ''MAIN_API_HTTP_ADDR'' '':8080'',
     cf_grpc_addr = env_or ev ''MAIN_API_GRPC_ADDR'' '':8081'',
     cf_database_url = ev ''DATABASE_URL'',
     cf_admin_token = ev ''MAIN_API_ADMIN_TOKEN'',
     cf_agent_token = ev ''MAIN_API_AGENT_TOKEN'',
     cf_internal_token = ev ''MAIN_API_INTERNAL_TOKEN'',
     cf_tunnel_secret = ev ''MAIN_API_TUNNEL_SECRET'',
     cf_ticket_ttl = durationEnv cv ev ''MAIN_API_TICKET_TTL'' (15 * 1000000000),
     cf_heartbeat_ttl = durationEnv cv ev ''MAIN_API_HEARTBEAT_TTL'' (60 * 1000000000),
     cf_sweep_interval = durationEnv cv ev ''MAIN_API_SWEEP_INTERVAL'' (10 * 1000000000),
     cf_session_ttl = durationEnv cv ev ''MAIN_API_SESSION_TTL'' (7 * 24 * 3600 * 1000000000),
     cf_cookie_secure = boolEnv cv ev ''MAIN_API_COOKIE_SECURE'' False,
     cf_cookie_domain = ev ''MAIN_API_COOKIE_DOMAIN'',
     cf_hops = intEnv cv ev ''MAIN_API_TRUSTED_PROXY_HOPS'' 0,
     cf_billing_tick = durationEnv cv ev ''MAIN_API_BILLING_TICK'' (30 * 1000000000),
     cf_rates_path = ev ''MAIN_API_BILLING_RATES_PATH''\<rparr>"

definition FromEnv :: "env_conv \<Rightarrow> (string \<Rightarrow> string) \<Rightarrow> err + Config" where
  "FromEnv cv ev = (let c = read_config cv ev in
     if cf_database_url c = [] then Inl (Err ''DATABASE_URL is required'')
     else if cf_admin_token c = [] then Inl (Err ''MAIN_API_ADMIN_TOKEN is required'')
     else if cf_agent_token c = [] then Inl (Err ''MAIN_API_AGENT_TOKEN is required'')
     else if (cf_internal_token c = []) \<noteq> (cf_tunnel_secret c = [])
       then Inl (Err ''MAIN_API_INTERNAL_TOKEN and MAIN_API_TUNNEL_SECRET must be set together'')
     else if cf_cookie_secure c \<and> cf_internal_token c = []
       then Inl (Err ''MAIN_API_INTERNAL_TOKEN and MAIN_API_TUNNEL_SECRET are required when MAIN_API_COOKIE_SECURE=true (production)'')
     else if cf_tunnel_secret c \<noteq> [] \<and> length (cf_tunnel_secret c) < 16
       then Inl (Err ''MAIN_API_TUNNEL_SECRET must be at least 16 bytes'')
     else if cf_cookie_secure c \<and> length (cf_internal_token c) < 32
       then Inl (Err ''MAIN_API_INTERNAL_TOKEN must be at least 32 bytes in production'')
     else Inr c)"

text \<open>What a configuration that passed the checks guarantees to the rest of the service.\<close>

lemma FromEnv_ok:
  assumes "FromEnv cv ev = Inr c"
  shows "c = read_config cv ev" "cf_admin_token c \<noteq> []" "cf_agent_token c \<noteq> []"
    "cf_internal_token c = [] \<longleftrightarrow> cf_tunnel_secret c = []"
    "cf_internal_token c \<noteq> [] \<Longrightarrow> 16 \<le> length (cf_tunnel_secret c)"
    "cf_cookie_secure c \<Longrightarrow> 32 \<le> length (cf_internal_token c)"
  using assms by (auto simp: FromEnv_def Let_def split: if_splits)

end
