(* ===== verification/MainApi.thy ===== *)
theory MainApi
  imports Router AdminCli Config
begin

text \<open>
  main-api as a whole: everything that happens to its state, as events. An HTTP request reaches the
  router; an agent opens a stream, sends messages on it and goes away; the stale sweeper and the
  billing worker tick; orphaned reservations are recovered at start-up; an operator runs the CLI
  against the same database. The interleaving of statements of concurrent requests is covered by
  the relation \<open>db_step\<close>, along which each of them moves; the events here are whole calls.
\<close>

record api_cfg =
  ap_router :: router_cfg
  ap_stream :: AgentStreamService
  ap_rates :: "RateTable option"
  ap_dispatcher :: bool
  ap_libs :: api_libs

datatype api_event =
    EHttp request
  | EStreamOpen recv "err option"
  | EAgentMessage uuid AgentMessage
  | EStreamEnd stream
  | ESendTurn nat
  | EStaleSweep time int
  | EBillingTick time
  | ERecoverOrphans
  | ESweepSessions
  | ECli "err + string" "string list"

fun api_step :: "api_cfg \<Rightarrow> api_event \<Rightarrow> api_state \<Rightarrow> api_state" where
  "api_step c (EHttp rq) s = snd (NewRouter (ap_libs c) (ap_router c) rq s)"
| "api_step c (EStreamOpen first ack) s = snd (stream_open (ap_stream c) (al_ext (ap_libs c)) first ack s)"
| "api_step c (EAgentMessage nd msg) s = snd (handleAgentMessage (ap_stream c) (al_ext (ap_libs c)) nd msg s)"
| "api_step c (EStreamEnd st) s = snd (attempt (close_chan (str_ch st)) (\<lambda>_. stream_cleanup st) s)"
| "api_step c (ESendTurn ch) s = snd (sendLoop_turn ch s)"
| "api_step c (EStaleSweep now ttl) s = snd (StaleSweeper_tick (ap_stream c) now ttl s)"
| "api_step c (EBillingTick now) s = snd (runOnce (ap_rates c) now (ap_dispatcher c) s)"
| "api_step c ERecoverOrphans s = snd (RecoverOrphanReservations s)"
| "api_step c ESweepSessions s = snd (SweepExpired s)"
| "api_step c (ECli buf args) s =
     snd (run_cli (al_auth (ap_libs c)) (al_ext (ap_libs c)) buf [] ''db'' None args s)"

text \<open>Between two events the clock moves and the database may start to fail; neither touches what
  is stored.\<close>

inductive api_run_of :: "(api_event \<Rightarrow> bool) \<Rightarrow> api_cfg \<Rightarrow> api_state \<Rightarrow> api_state \<Rightarrow> bool" for P c where
  run_refl: "api_run_of P c s s"
| run_event: "api_run_of P c s t \<Longrightarrow> P ev \<Longrightarrow> api_run_of P c s (api_step c ev t)"
| run_env: "api_run_of P c s t \<Longrightarrow> api_run_of P c s (t\<lparr>clk := clk', faults := fs, waits := ws\<rparr>)"

text \<open>Any events at all, or only events of one kind.\<close>

abbreviation api_run :: "api_cfg \<Rightarrow> api_state \<Rightarrow> api_state \<Rightarrow> bool" where
  "api_run \<equiv> api_run_of (\<lambda>_. True)"

inductive_cases api_runE: "api_run_of P c s t"

definition event_admits :: "admission \<Rightarrow> api_event \<Rightarrow> bool" where
  "event_admits G ev \<longleftrightarrow> (case ev of EStreamOpen first ack \<Rightarrow> admits G first | _ \<Rightarrow> True)"

lemma event_admits_all [simp]: "event_admits (\<lambda>_ _. True) ev"
  by (simp add: event_admits_def split: api_event.split)

lemma api_step_reach: "db_reach G T0 (tbl s) \<Longrightarrow> event_admits G ev \<Longrightarrow> db_reach G T0 (tbl (api_step c ev s))"
proof -
  assume r: "db_reach G T0 (tbl s)" and a: "event_admits G ev"
  have k: "db_reach G T0 (tbl (snd (m s)))" if "keeps (tinv (db_reach G T0)) m" for m :: "api_state \<Rightarrow> 'r \<times> api_state"
    using keepsD [OF that, of s] r by (simp add: tinv_def)
  have "keeps (tinv (db_reach G T0)) (attempt (close_chan (str_ch st)) (\<lambda>_. stream_cleanup st) :: api_state \<Rightarrow> _)" for st
    by (intro keeps_rules tbl_make_chan)
  moreover have "keeps (tinv (db_reach G T0)) (SweepExpired :: (api_state, int) action)"
    unfolding SweepExpired_def by (rule db_rules)
  ultimately show ?thesis using a
    by (cases ev) (simp_all add: k db_rules tbl_make_chan event_admits_def)
qed

lemma api_run_of_reach: "api_run_of P c s t \<Longrightarrow> (\<And>ev. P ev \<Longrightarrow> event_admits G ev) \<Longrightarrow> db_reach G (tbl s) (tbl t)"
  by (induction rule: api_run_of.induct) (auto intro: api_step_reach)

lemma api_run_reach: "api_run c s t \<Longrightarrow> db_reach (\<lambda>_ _. True) (tbl s) (tbl t)"
  by (erule api_run_of_reach) simp

text \<open>The loop of the billing worker is a run of tick events, so what holds in every run of the service holds of it.\<close>

lemma Worker_Run_events:
  "Worker_Run (ap_rates c) (ap_dispatcher c) ticks s = fold (api_step c) (map EBillingTick ticks) s"
  by (induction ticks arbitrary: s) simp_all

end
