(* ===== verification/Samples.thy ===== *)
theory Samples
  imports DbSteps AgentRegistry
begin

text \<open>
  Small concrete states: one zone, one node with two GPU slots, two users, one running instance
  of the first user bound to slot 0, its audit trail and a ledger. Witnesses evaluate the model
  on them.
\<close>

definition sample_node :: Node where
  "sample_node = \<lparr>n_id = 1, n_zone = 9, n_name = ''n1'', n_hostname = ''h1'', n_version = ''v1'',
     n_status = Online, n_topology = ''{}'', n_hash = [], n_heartbeat = Some 0, n_registered = 0,
     n_updated = 0, n_policy = ''public'', n_team = None\<rparr>"

definition sample_instance :: Instance where
  "sample_instance = \<lparr>i_id = 5, i_owner = Some 2, i_node = 1, i_name = ''vm'', i_state = Running,
     i_memory = 1024, i_vcpus = 2, i_gpus = 1, i_slots = [0], i_pubkeys = [], i_ip = None,
     i_image = [], i_error = [], i_created = 0, i_updated = 0\<rparr>"

definition sample_event :: "nat \<Rightarrow> InstanceState option \<Rightarrow> InstanceState \<Rightarrow> InstanceEvent" where
  "sample_event n fr to = \<lparr>e_id = n, e_instance = 5, e_from = fr, e_to = to, e_reason = ''agent_report'',
     e_meta = ''{}'', e_created = 0\<rparr>"

definition sample_slot :: "uuid \<Rightarrow> int \<Rightarrow> SlotStatus \<Rightarrow> uuid option \<Rightarrow> GpuSlot" where
  "sample_slot i ix st inst = \<lparr>s_id = i, s_node = 1, s_index = ix, s_gpus = 1, s_gpu_indices = [ix],
     s_nvlink = [], s_status = st, s_instance = inst\<rparr>"

definition sample_user :: "uuid \<Rightarrow> string \<Rightarrow> User" where
  "sample_user i em = \<lparr>u_id = i, u_email = em, u_hash = ''x'', u_admin = False, u_created = 0\<rparr>"

definition sample_entry :: CreditLedger where
  "sample_entry = \<lparr>l_id = 0, l_user = 2, l_delta = 500, l_reason = ''recharge'', l_instance = None,
     l_key = ''k0'', l_meta = ''{}'', l_created = 0\<rparr>"

definition sample_tables :: tables where
  "sample_tables = \<lparr>instances = [sample_instance],
     events = [sample_event 0 None Pending, sample_event 1 (Some Pending) Provisioning,
               sample_event 2 (Some Provisioning) Running],
     slots = [sample_slot 10 0 InUse (Some 5), sample_slot 11 1 Free None],
     nodes = [sample_node],
     credits = [\<lparr>c_user = 2, c_balance = 500, c_updated = 0\<rparr>],
     ledger = [sample_entry],
     users = [sample_user 2 ''a@x'', sample_user 3 ''b@x''],
     sessions = [], ssh_keys = [], node_tokens = [], teams = [], members = [],
     zones = [\<lparr>z_id = 9, z_name = ''z'', z_default = True\<rparr>]\<rparr>"

definition sample_pg :: "fault list \<Rightarrow> pg" where
  "sample_pg fs = \<lparr>tbl = sample_tables, faults = fs, rnd = (\<lambda>n. of_nat (n + 100)), ctr = 0, clk = 60000000000\<rparr>"

definition sample_world :: "fault list \<Rightarrow> world" where
  "sample_world fs = \<lparr>tbl = sample_tables, faults = fs, rnd = (\<lambda>n. of_nat (n + 100)), ctr = 0, clk = 60000000000,
     reg = [1 \<mapsto> \<lparr>en_ptr = 1, en_ch = 0, en_endpoint = ''10.0.0.1:7000''\<rparr>],
     chans = (\<lambda>_. \<lparr>ch_buf = [], ch_cap = 16, ch_closed = False, ch_out = []\<rparr>),
     heap = 2, waits = []\<rparr>"

lemmas sample_defs = sample_node_def sample_instance_def sample_event_def sample_slot_def
  sample_user_def sample_entry_def sample_tables_def sample_pg_def sample_world_def

lemma sample_audit_ok: "audit_ok sample_tables"
  by (simp add: audit_ok_def events_of_def sample_defs sm_defs)

lemma sample_slots_ok: "slots_ok sample_tables"
  by (simp add: slots_ok_def slot_ok_def sample_defs)

lemma sample_ledger_ok: "ledger_ok sample_tables"
  by (simp add: ledger_ok_def cached_balance_def ledger_sum_def sample_defs)

end
