(* ===== verification/StoreProps.thy ===== *)
theory StoreProps
  imports Samples
begin

text \<open>
  Further properties of the slot and credit repositories: completeness and exclusiveness of
  reservations, all-or-nothing binding, synchronisation that never disturbs slots in use, recovery
  at start-up, and a ledger that survives retries.
\<close>

section \<open>Slots\<close>

lemma ReserveFreeSlots_fine:
  "faults s = [] \<Longrightarrow> ReserveFreeSlots nd g c s =
     (Inr (reserved_rows nd g c (tbl s)), s\<lparr>ctr := Suc (ctr s), tbl := reserve_tables nd g c (tbl s)\<rparr>)"
  by (simp add: ReserveFreeSlots_def dml_fine Let_def reserved_rows_def reserve_tables_def)

lemma Reserve_fine:
  assumes "faults s = []" and "0 < c"
  shows "Reserve nd g c s =
    (if int (length (reserved_rows nd g c (tbl s))) < c
     then (Inl (WrapErr [] ErrNoFreeSlots ('': have '' @ dec_nat (length (reserved_rows nd g c (tbl s))) @ '', need '' @ dec_int c)),
           s\<lparr>ctr := Suc (ctr s)\<rparr>)
     else (Inr (reserved_rows nd g c (tbl s)), s\<lparr>ctr := Suc (ctr s), tbl := reserve_tables nd g c (tbl s)\<rparr>))"
  using assms
  by (simp add: Reserve_def in_tx_def stmt_fine LockNodeForReservation_def sel_fine ReserveFreeSlots_fine
      action_defs pop_fault_def)

text \<open>Without database faults a reservation succeeds exactly when the node has enough free slots
  of the requested size; otherwise it reports that none are free and no slot changed.\<close>

theorem reserve_complete:
  assumes "faults s = []" and "0 < c" and "slots_ok (tbl s)"
  shows "if c \<le> int (length (filter (reservable nd g) (slots (tbl s))))
    then \<exists>rs. fst (Reserve nd g c s) = Inr rs \<and> length rs = nat c
    else (\<exists>e. fst (Reserve nd g c s) = Inl e \<and> err_is e ErrNoFreeSlots) \<and> tbl (snd (Reserve nd g c s)) = tbl s"
proof -
  have len: "length (reserved_rows nd g c (tbl s)) = min (length (filter (reservable nd g) (slots (tbl s)))) (nat c)"
    using length_reserved_rows [OF slots_okD(1) [OF assms(3)]] .
  show ?thesis
  proof (cases "c \<le> int (length (filter (reservable nd g) (slots (tbl s))))")
    case True
    then have "length (reserved_rows nd g c (tbl s)) = nat c" using len by simp
    with True assms(2) show ?thesis by (simp add: Reserve_fine [OF assms(1,2)])
  next
    case False
    then have "int (length (reserved_rows nd g c (tbl s))) < c" using len by linarith
    with False show ?thesis by (simp add: Reserve_fine [OF assms(1,2)] ErrNoFreeSlots_def)
  qed
qed

theorem reserve_complete_witness:
  "fst (Reserve 1 2 1 (sample_pg [])) = Inl (WrapErr [] ErrNoFreeSlots '': have 0, need 1'')"
proof -
  have "\<not> (1::int) \<le> int (length (filter (reservable 1 2) (slots (tbl (sample_pg [])))))"
    by (simp add: sample_defs reservable_def)
  with reserve_complete [of "sample_pg []" 1 1 2] sample_slots_ok
  have "\<exists>e. fst (Reserve 1 2 1 (sample_pg [])) = Inl e" by (auto simp: sample_pg_def)
  moreover have "reserved_rows 1 2 1 sample_tables = []"
    by (simp add: reserved_rows_def picked_def reservable_def sample_defs)
  ultimately show ?thesis
    by (simp add: Reserve_fine sample_pg_def dec_int_def dec_nat.simps hexdigit_def)
qed

text \<open>C11. Reservations are exclusive: while the rows of one reservation stay reserved, no other
  reservation of any node, size or count obtains one of them, whatever happened to the rest of the
  database in between.\<close>

theorem reserve_exclusive:
  assumes "Reserve nd g c s = (Inr rs, s1)" and "set rs \<subseteq> set (slots (tbl s2))" and "slots_ok (tbl s2)"
    and "Reserve nd' g' c' s2 = (Inr rs', s3)"
  shows "s_id ` set rs \<inter> s_id ` set rs' = {}"
proof -
  from assms(1) have "rs = reserved_rows nd g c (tbl s)" by (cases rule: Reserve_cases) (auto simp: conn_err_def)
  then have res: "s_status r = Reserved" if "r \<in> set rs" for r using that by (auto simp: reserved_rows_def)
  from assms(4) have rs': "rs' = reserved_rows nd' g' c' (tbl s2)" by (cases rule: Reserve_cases) (auto simp: conn_err_def)
  have False if "r \<in> set rs" "r' \<in> set rs'" "s_id r = s_id r'" for r r'
  proof -
    let ?p = "picked nd' g' (nat c') (slots (tbl s2))"
    from that(2) rs' have "s_id r' \<in> s_id ` set ?p" by (auto simp: reserved_rows_def)
    then have "s_id r \<in> s_id ` set ?p" using that(3) by simp
    moreover have "r \<in> set (slots (tbl s2))" using that(1) assms(2) by blast
    ultimately have "r \<in> set ?p" using picked_id_iff [OF slots_okD(1) [OF assms(3)]] by blast
    then have "s_status r = Free" using picked_in by (auto simp: reservable_def)
    with res [OF that(1)] show False by simp
  qed
  then show ?thesis by blast
qed

definition two_free :: pg where
  "two_free = (sample_pg [])\<lparr>tbl := sample_tables\<lparr>slots := [sample_slot 10 0 Free None, sample_slot 11 1 Free None]\<rparr>\<rparr>"

theorem reserve_exclusive_witness:
  "\<exists>rs s1 rs' s3. Reserve 1 1 1 two_free = (Inr rs, s1) \<and> Reserve 1 1 1 s1 = (Inr rs', s3) \<and>
     s_id ` set rs \<inter> s_id ` set rs' = {}"
proof -
  let ?a = "[sample_slot 10 0 Reserved None]" and ?b = "[sample_slot 11 1 Reserved None]"
  let ?s1 = "two_free\<lparr>ctr := 1, tbl := sample_tables\<lparr>slots := ?a @ [sample_slot 11 1 Free None]\<rparr>\<rparr>"
  have 1: "Reserve 1 1 1 two_free = (Inr ?a, ?s1)"
    by (simp add: Reserve_fine two_free_def reserved_rows_def reserve_tables_def picked_def reservable_def
        slot_rank_def set_where_def sample_defs)
  have 2: "fst (Reserve 1 1 1 ?s1) = Inr ?b"
    by (simp add: Reserve_fine two_free_def reserved_rows_def reserve_tables_def picked_def reservable_def
        slot_rank_def set_where_def sample_defs)
  then obtain s3 where 3: "Reserve 1 1 1 ?s1 = (Inr ?b, s3)" by (cases "Reserve 1 1 1 ?s1") auto
  have ok: "slots_ok (tbl ?s1)" by (simp add: slots_ok_def slot_ok_def sample_defs)
  show ?thesis using reserve_exclusive [OF 1 _ ok 3] 1 3 by auto
qed

lemma bind_Inr:
  assumes "BindSlotToInstance sid i s = (Inr r, s')"
  shows "tbl s' = bind_tables sid i (tbl s)" "i \<in> i_id ` set (instances (tbl s))"
    "\<exists>q\<in>set (slots (tbl s)). s_id q = sid \<and> s_status q = Reserved"
  using assms unfolding BindSlotToInstance_def
  by (auto elim!: dml_Inr simp: Let_def bind_tables_def split: option.splits if_splits dest!: find_SomeD)

lemma bind_one_Inr:
  "bind_one i sl s = (Inr u, s') \<Longrightarrow> \<exists>r. BindSlotToInstance (s_id sl) i s = (Inr r, s')"
  by (auto simp: bind_one_def wrap_err_Inr ret_def elim!: bnd_InrE)

lemma bind_more:
  "set_where (\<lambda>q. s_id q \<in> K \<and> s_status q = Reserved) (\<lambda>q. q\<lparr>s_status := InUse, s_instance := Some i\<rparr>)
      (set_where (\<lambda>q. s_id q = k \<and> s_status q = Reserved) (\<lambda>q. q\<lparr>s_status := InUse, s_instance := Some i\<rparr>) qs) =
    set_where (\<lambda>q. (s_id q = k \<or> s_id q \<in> K) \<and> s_status q = Reserved)
      (\<lambda>q. q\<lparr>s_status := InUse, s_instance := Some i\<rparr>) (qs :: GpuSlot list)"
  by (auto simp: set_where_def)

lemma bind_loop_Inr:
  "for_each (bind_one i) res s = (Inr u, s') \<Longrightarrow>
   tbl s' = (tbl s)\<lparr>slots := set_where (\<lambda>q. s_id q \<in> s_id ` set res \<and> s_status q = Reserved)
       (\<lambda>q. q\<lparr>s_status := InUse, s_instance := Some i\<rparr>) (slots (tbl s))\<rparr> \<and>
   (\<forall>sl\<in>set res. \<exists>q\<in>set (slots (tbl s)). s_id q = s_id sl \<and> s_status q = Reserved) \<and>
   (res \<noteq> [] \<longrightarrow> i \<in> i_id ` set (instances (tbl s)))"
proof (induction res arbitrary: s)
  case Nil
  then show ?case by (simp add: ret_def set_where_def)
next
  case (Cons sl res)
  from Cons.prems obtain r s1 where b: "BindSlotToInstance (s_id sl) i s = (Inr r, s1)"
    and rest: "for_each (bind_one i) res s1 = (Inr u, s')"
    by (fastforce elim: bnd_InrE dest: bind_one_Inr)
  note b' = bind_Inr [OF b] and ih = Cons.IH [OF rest]
  have tbl': "tbl s' = (tbl s)\<lparr>slots := set_where (\<lambda>q. s_id q \<in> s_id ` set (sl # res) \<and> s_status q = Reserved)
       (\<lambda>q. q\<lparr>s_status := InUse, s_instance := Some i\<rparr>) (slots (tbl s))\<rparr>"
    using ih b'(1) by (simp add: bind_tables_def bind_more)
  have "\<exists>p\<in>set (slots (tbl s)). s_id p = s_id x \<and> s_status p = Reserved" if "x \<in> set res" for x
  proof -
    from that ih obtain q where "q \<in> set (slots (tbl s1))" "s_id q = s_id x" "s_status q = Reserved" by blast
    then show ?thesis using b'(1) by (force simp: bind_tables_def in_set_where split: if_splits)
  qed
  with tbl' b' show ?case by simp
qed

lemma BindToInstance_cases:
  assumes "BindToInstance res i s = (r, s')"
  obtains (aborted) e where "r = Inl e" "tbl s' = tbl s"
  | (committed) "\<forall>sl\<in>set res. \<exists>q\<in>set (slots (tbl s)). s_id q = s_id sl \<and> s_status q = Reserved"
      "tbl s' = (tbl s)\<lparr>slots := set_where (\<lambda>q. s_id q \<in> s_id ` set res \<and> s_status q = Reserved)
         (\<lambda>q. q\<lparr>s_status := InUse, s_instance := Some i\<rparr>) (slots (tbl s))\<rparr>"
      "r = Inr () \<or> (\<exists>m. r = Inl (conn_err m))"
  using assms unfolding BindToInstance_def
proof (cases rule: in_tx_cases)
  case (aborted e)
  then show thesis by (rule that(1))
next
  case (committed x s1 s2)
  with bind_loop_Inr [OF committed(1)] show thesis by (intro that(2)) auto
qed

text \<open>Binding a reservation to an instance is all or nothing under every fault schedule: either
  an error is reported and no slot changed, or every slot of the reservation was reserved and all of
  them, and no others, are now in use by the instance; the caller is told so unless the
  acknowledgement of the commit was lost.\<close>

theorem bind_atomic:
  assumes "BindToInstance res i s = (r, s')"
  shows "(\<exists>e. r = Inl e) \<and> tbl s' = tbl s \<or>
    (\<forall>sl\<in>set res. \<exists>q\<in>set (slots (tbl s)). s_id q = s_id sl \<and> s_status q = Reserved) \<and>
    tbl s' = (tbl s)\<lparr>slots := set_where (\<lambda>q. s_id q \<in> s_id ` set res \<and> s_status q = Reserved)
       (\<lambda>q. q\<lparr>s_status := InUse, s_instance := Some i\<rparr>) (slots (tbl s))\<rparr> \<and>
    (r = Inr () \<or> (\<exists>m. r = Inl (conn_err m)))"
  using assms by (cases rule: BindToInstance_cases) auto

definition one_reserved :: pg where
  "one_reserved = (sample_pg [])\<lparr>tbl := sample_tables\<lparr>slots := [sample_slot 10 0 Free None, sample_slot 11 1 Reserved None]\<rparr>\<rparr>"

theorem bind_atomic_witness:
  "tbl (snd (BindToInstance [sample_slot 11 1 Reserved None, sample_slot 10 0 Reserved None] 5 one_reserved)) = tbl one_reserved"
proof -
  let ?res = "[sample_slot 11 1 Reserved None, sample_slot 10 0 Reserved None]"
  obtain r s' where e: "BindToInstance ?res 5 one_reserved = (r, s')" by fastforce
  with bind_atomic [OF e] show ?thesis by (auto simp: one_reserved_def sample_defs)
qed


definition sample_profile :: "ProfileSlot list" where
  "sample_profile = [\<lparr>ps_index = 0, ps_gpus = 2, ps_gpu_indices = [0, 1], ps_nvlink = ''nv0''\<rparr>]"


text \<open>Recovery at start-up frees exactly the orphans: afterwards, when no statement failed, no slot
  is reserved without an instance, and every slot that was in use, or reserved for an instance, is as
  it was.\<close>

theorem recover_orphans:
  assumes "faults s = []"
  shows "fst (RecoverOrphanReservations s) =
      Inr (int (length (filter (\<lambda>q. s_status q = Reserved \<and> s_instance q = None) (slots (tbl s))))) \<and>
    slots (tbl (snd (RecoverOrphanReservations s))) =
      map (\<lambda>q. if s_status q = Reserved \<and> s_instance q = None then q\<lparr>s_status := Free, s_instance := None\<rparr> else q)
        (slots (tbl s)) \<and>
    \<not> (\<exists>q\<in>set (slots (tbl (snd (RecoverOrphanReservations s)))). s_status q = Reserved \<and> s_instance q = None)"
  using assms
  by (auto simp: RecoverOrphanReservations_def ReleaseAllOrphanReservedSlots_def dml_fine Let_def count_where_def
      set_where_def)

theorem recover_orphans_witness: "fst (RecoverOrphanReservations one_reserved) = Inr 1"
  using recover_orphans [of one_reserved] by (simp add: one_reserved_def sample_defs)

section \<open>Credits\<close>

lemma at_most_one_key:
  assumes "distinct (map l_key L)"
  shows "length (filter (\<lambda>l. l_key l = k) L) \<le> 1"
proof -
  have "distinct (map l_key (filter (\<lambda>l. l_key l = k) L))" using assms by (rule distinct_map_filter')
  moreover have "map l_key (filter (\<lambda>l. l_key l = k) L) = replicate (length (filter (\<lambda>l. l_key l = k) L)) k"
    by (induction L) auto
  ultimately show ?thesis by (cases "filter (\<lambda>l. l_key l = k) L" rule: remdups_adj.cases) auto
qed

lemma Post_keyed: "Post inp s = (Inr l, s') \<Longrightarrow> p_key inp \<in> l_key ` set (ledger (tbl s'))"
  by (erule Post_cases) (auto simp: post_tables_def post_entry_def)

text \<open>C17. Posting is exactly-once under retries and lost acknowledgements: when a call may or may not
  have taken effect and is retried later with the same key, on a database in which nobody removed
  ledger entries, the ledger holds at most one entry with that key; when either call reported success
  it holds exactly one, and the retry of a post that took effect changes nothing.\<close>

theorem post_exactly_once:
  assumes "Post inp s = (r1, s1)" and "ledger_ok (tbl s)"
    and "db_reach G (tbl s1) (tbl s2)" and "Post inp s2 = (r2, s3)"
  shows "length (filter (\<lambda>l. l_key l = p_key inp) (ledger (tbl s3))) \<le> 1 \<and>
    ((\<exists>l. r1 = Inr l \<or> r2 = Inr l) \<longrightarrow> length (filter (\<lambda>l. l_key l = p_key inp) (ledger (tbl s3))) = 1) \<and>
    (p_key inp \<in> l_key ` set (ledger (tbl s1)) \<longrightarrow> tbl s3 = tbl s2 \<and> (\<exists>e. r2 = Inl e))"
proof -
  have ok1: "ledger_ok (tbl s1)" by (rule ledger_inv.kept_after [OF keeps_Post assms(2,1)])
  have ok2: "ledger_ok (tbl s2)" by (rule ledger_inv.reachable [OF assms(3) ok1])
  have ok3: "ledger_ok (tbl s3)" by (rule ledger_inv.kept_after [OF keeps_Post ok2 assms(4)])
  have pre: "prefix (ledger (tbl s1)) (ledger (tbl s2))"
    using ledger_append.reachable [OF assms(3), of "ledger (tbl s1)"] by simp
  have pre3: "prefix (ledger (tbl s2)) (ledger (tbl s3))"
    by (rule ledger_append.kept_after [OF keeps_Post _ assms(4)]) simp
  have d3: "distinct (map l_key (ledger (tbl s3)))" using ok3 by (simp add: ledger_ok_def)
  have present: "length (filter (\<lambda>l. l_key l = p_key inp) (ledger (tbl s3))) = 1"
    if "p_key inp \<in> l_key ` set (ledger (tbl s3))"
  proof -
    from that have "filter (\<lambda>l. l_key l = p_key inp) (ledger (tbl s3)) \<noteq> []" by (auto simp: filter_empty_conv)
    with at_most_one_key [OF d3, of "p_key inp"] show ?thesis by (cases "filter (\<lambda>l. l_key l = p_key inp) (ledger (tbl s3))") auto
  qed
  have mono: "set (ledger (tbl s1)) \<subseteq> set (ledger (tbl s2))" "set (ledger (tbl s2)) \<subseteq> set (ledger (tbl s3))"
    using pre pre3 by (auto dest: set_mono_prefix)
  show ?thesis
  proof (intro conjI impI)
    show "length (filter (\<lambda>l. l_key l = p_key inp) (ledger (tbl s3))) \<le> 1" by (rule at_most_one_key [OF d3])
  next
    assume "\<exists>l. r1 = Inr l \<or> r2 = Inr l"
    then show "length (filter (\<lambda>l. l_key l = p_key inp) (ledger (tbl s3))) = 1"
      using Post_keyed [of inp s] Post_keyed [of inp s2] assms(1,4) mono by (intro present) blast
  next
    assume "p_key inp \<in> l_key ` set (ledger (tbl s1))"
    then have k: "p_key inp \<in> l_key ` set (ledger (tbl s2))" using mono by blast
    from Post_duplicate [OF this assms(4)] show "tbl s3 = tbl s2" "\<exists>e. r2 = Inl e" by auto
  qed
qed

definition sample_post :: PostInput where
  "sample_post = \<lparr>p_user = 2, p_delta = -7, p_reason = ''running_minute'', p_instance = Some 5, p_key = ''k1'', p_meta = []\<rparr>"

lemma sample_post_lost:
  "\<exists>s1. Post sample_post (sample_pg [Fine, Fine, Fine, Ghost ''reset'']) = (Inl (conn_err ''reset''), s1) \<and>
     ''k1'' \<in> l_key ` set (ledger (tbl s1)) \<and> faults s1 = []"
  by (simp add: Post_def in_tx_def stmt_def pop_fault_def InsertCreditLedgerEntry_def UpsertCredits_def dml_def
      ledger_params_def sample_post_def action_defs Let_def in_int64_def set_where_def sample_defs)

theorem post_exactly_once_witness:
  "\<exists>s1 r2 s3. Post sample_post (sample_pg [Fine, Fine, Fine, Ghost ''reset'']) = (Inl (conn_err ''reset''), s1) \<and>
     Post sample_post s1 = (r2, s3) \<and> tbl s3 = tbl s1"
proof -
  from sample_post_lost obtain s1 where
    1: "Post sample_post (sample_pg [Fine, Fine, Fine, Ghost ''reset'']) = (Inl (conn_err ''reset''), s1)"
    "''k1'' \<in> l_key ` set (ledger (tbl s1))" by blast
  obtain r2 s3 where 2: "Post sample_post s1 = (r2, s3)" by fastforce
  have ok: "ledger_ok (tbl (sample_pg [Fine, Fine, Fine, Ghost ''reset'']))"
    using sample_ledger_ok by (simp add: sample_pg_def)
  have k: "p_key sample_post = ''k1''" by (simp add: sample_post_def)
  show ?thesis using post_exactly_once [OF 1(1) ok rtranclp.rtrancl_refl 2] 1 2 by (auto simp: k)
qed

text \<open>The balance the service reports for a user is the sum of the user's ledger entries, also for a
  user who never had one.\<close>

theorem balance_is_ledger_sum:
  assumes "ledger_ok (tbl s)" and "Balance u s = (Inr b, s')"
  shows "b = ledger_sum u (ledger (tbl s)) \<and> tbl s' = tbl s"
proof -
  obtain r s1 where g: "GetCredits u s = (r, s1)" by fastforce
  then have t: "tbl s1 = tbl s" by (auto simp: GetCredits_def dest: sel_tbl)
  have "b = cached_balance u (tbl s) \<and> tbl s' = tbl s1"
  proof (cases r)
    case (Inr c)
    with g have "find (\<lambda>c. c_user c = u) (credits (tbl s)) = Some c"
      by (auto simp: GetCredits_def pick_def dest!: sel_Inr split: option.splits)
    with assms(2) g Inr show ?thesis by (simp add: Balance_def attempt_def ret_def cached_balance_def)
  next
    case (Inl e)
    with assms(2) g have e: "err_is e ErrNoRows" "b = 0" "s' = s1"
      by (auto simp: Balance_def attempt_def ret_def fail_def split: if_splits)
    have "find (\<lambda>c. c_user c = u) (credits (tbl s)) = None"
    proof (rule ccontr)
      assume "find (\<lambda>c. c_user c = u) (credits (tbl s)) \<noteq> None"
      with g Inl have "\<exists>m. e = conn_err m"
        by (auto simp: GetCredits_def sel_def stmt_def pick_def dest: tbl_pop_fault split: prod.splits fault.splits option.splits)
      with e(1) show False by (auto simp: conn_err_def ErrNoRows_def)
    qed
    with e show ?thesis by (simp add: cached_balance_def)
  qed
  with ledger_ok_balance [OF assms(1), of u] t show ?thesis by simp
qed

theorem balance_is_ledger_sum_witness: "ledger_sum 2 (ledger sample_tables) = 500"
proof -
  have "Balance 2 (sample_pg []) = (Inr 500, sample_pg [])"
    by (simp add: Balance_def GetCredits_def sel_fine pick_def action_defs sample_defs)
  moreover have "ledger_ok (tbl (sample_pg []))" using sample_ledger_ok by (simp add: sample_pg_def)
  ultimately show ?thesis using balance_is_ledger_sum [of "sample_pg []" 2 500] by (simp add: sample_pg_def)
qed

end
