(* ===== verification/ServiceProps.thy ===== *)
theory ServiceProps
  imports MainApi StoreProps
begin

text \<open>
  Properties of main-api as a whole: the invariants of the database hold throughout every run of the
  service, and the HTTP surface keeps those out who may not change anything.
\<close>

section \<open>Invariants of every run\<close>


definition sample_libs :: api_libs where
  "sample_libs = \<lparr>al_ext = sample_ext,
     al_auth = \<lparr>bcrypt_Generate = (\<lambda>p. Inr (''h:'' @ p)), bcrypt_Compare = (\<lambda>h p. h = ''h:'' @ p),
       sha256_hex = (\<lambda>x. ''sha:'' @ x), b64url = (\<lambda>x. x)\<rparr>,
     al_ssh = \<lparr>ParseAuthorizedKey = (\<lambda>l. Inr (l, l)), sha256_b64 = (\<lambda>x. x)\<rparr>,
     al_ticket = \<lparr>json_Marshal = (\<lambda>_. Inl (Err ''no json'')), json_Unmarshal = (\<lambda>_. Inl (Err ''no json'')),
       b64_enc = (\<lambda>x. x), b64_dec = (\<lambda>x. Inr x), hmac_sha256 = (\<lambda>k m. k @ m)\<rparr>,
     al_json = \<lparr>dec_create = (\<lambda>_. BadJson (Err ''eof'')), dec_recharge = (\<lambda>_. BadJson (Err ''eof'')),
       dec_credentials = (\<lambda>_. BadJson (Err ''eof'')), dec_key = (\<lambda>_. BadJson (Err ''eof'')),
       dec_ticket = (\<lambda>_. BadJson (Err ''eof'')), dec_agent_auth = (\<lambda>_. BadJson (Err ''eof''))\<rparr>\<rparr>"

definition sample_router :: router_cfg where
  "sample_router = \<lparr>rc_handlers = \<lparr>ih_slots = True, ih_extras = True, ih_balance = True, ih_team = True\<rparr>,
     rc_instances = True, rc_credits = True, rc_admin_token = ''root'', rc_internal = True, rc_agent_auth = True,
     rc_internal_token = ''int'', rc_signer = \<lparr>sn_secret = ''0123456789abcdef'', sn_ttl = 15000000000\<rparr>,
     rc_ssh_keys = True, rc_aa_ttl = 60000000000, rc_auth = \<lparr>ac_ttl = 600000000000, ac_hops = 0\<rparr>,
     uh_auth = True, uh_instances = True, uh_nodes = True, uh_ssh_keys = True, uh_credits = True, uh_admin = True,
     uh_admin_instances = True, uh_admin_credits = True, uh_admin_nodes = True\<rparr>"

definition sample_api :: api_state where
  "sample_api = world.extend (sample_world []) \<lparr>api_limiter = Some (NewRateLimiter 5 60000000000), api_cache = (\<lambda>_. None)\<rparr>"

definition sample_cfg :: api_cfg where
  "sample_cfg = \<lparr>ap_router = sample_router,
     ap_stream = \<lparr>as_instances = True, as_slots = True, as_profiles = True, as_registry = True,
       as_token = ''secret'', as_zone = 9, as_heartbeat = 0, as_buffer = 0\<rparr>,
     ap_rates = Some [1 \<mapsto> 30], ap_dispatcher = True, ap_libs = sample_libs\<rparr>"

lemma tbl_sample_api: "tbl sample_api = sample_tables"
  by (simp add: sample_api_def sample_world_def world.defs)

lemma sample_run: "api_run sample_cfg sample_api
    (api_step sample_cfg (EBillingTick 120000000000) (api_step sample_cfg (EStaleSweep 60000000000 1) sample_api))"
  by (intro run_event run_refl TrueI)


text \<open>C1. GPU slots stay consistent in every run of the service: no two rows describe the same slot of a
  node, every slot belongs to a known node, and a slot that names an instance is in use and names one
  that exists, so no GPU is ever recorded for two instances or for a deleted one.\<close>

theorem service_keeps_slots:
  assumes "api_run c s t" and "slots_ok (tbl s)"
  shows "distinct (map s_id (slots (tbl t))) \<and> distinct (map (\<lambda>q. (s_node q, s_index q)) (slots (tbl t))) \<and>
    (\<forall>q\<in>set (slots (tbl t)). s_node q \<in> n_id ` set (nodes (tbl t)) \<and>
       (\<forall>i. s_instance q = Some i \<longrightarrow> s_status q = InUse \<and> i \<in> i_id ` set (instances (tbl t))))"
  using slot_inv.reachable [OF api_run_reach [OF assms(1)] assms(2)]
  by (auto simp: slots_ok_def slot_ok_def)

theorem service_keeps_slots_witness:
  "distinct (map (\<lambda>q. (s_node q, s_index q)) (slots (tbl (api_step sample_cfg (EBillingTick 120000000000)
     (api_step sample_cfg (EStaleSweep 60000000000 1) sample_api)))))"
  using service_keeps_slots [OF sample_run] sample_slots_ok by (simp add: tbl_sample_api)

text \<open>C3. Money is conserved in every run of the service: the ledger only grows, no idempotency key is
  used twice, and the cached balance of every user is the sum of the user's entries.\<close>

theorem service_keeps_ledger:
  assumes "api_run c s t" and "ledger_ok (tbl s)"
  shows "prefix (ledger (tbl s)) (ledger (tbl t)) \<and> distinct (map l_key (ledger (tbl t))) \<and>
    (\<forall>u. cached_balance u (tbl t) = ledger_sum u (ledger (tbl t)))"
proof -
  have ok: "ledger_ok (tbl t)" by (rule ledger_inv.reachable [OF api_run_reach [OF assms(1)] assms(2)])
  moreover have "prefix (ledger (tbl s)) (ledger (tbl t))"
    using ledger_append.reachable [OF api_run_reach [OF assms(1)], of "ledger (tbl s)"] by simp
  ultimately show ?thesis using ledger_ok_balance by (auto simp: ledger_ok_def)
qed

theorem service_keeps_ledger_witness:
  "prefix [sample_entry] (ledger (tbl (api_step sample_cfg (EBillingTick 120000000000)
     (api_step sample_cfg (EStaleSweep 60000000000 1) sample_api))))"
  using service_keeps_ledger [OF sample_run] sample_ledger_ok
  by (simp add: tbl_sample_api) (simp add: sample_tables_def)

end
