(* ===== verification/RouterProps.thy ===== *)
theory RouterProps
  imports ServiceProps
begin

text \<open>
  Properties of the HTTP surface: who reaches which handler, and what a request without valid
  credentials can change.
\<close>

section \<open>Frames\<close>

lemma LoadSession_frame: "LoadSession A ck s = (u, s') \<Longrightarrow> tbl s' = tbl s"
  using keepsD [OF keeps_LoadSession, of "\<lambda>T. T = tbl s" s A ck] by (simp add: tinv_def)

text \<open>Only accounts and sessions may differ.\<close>

definition same_but_accounts :: "tables \<Rightarrow> tables \<Rightarrow> bool" where
  "same_but_accounts T0 T \<longleftrightarrow> T\<lparr>users := [], sessions := []\<rparr> = T0\<lparr>users := [], sessions := []\<rparr>"

lemma keeps_account_writes [keeps_rules]:
  "keeps (tinv (same_but_accounts T0)) (CreateUser_q em ph adm)"
  "keeps (tinv (same_but_accounts T0)) (CreateSession_q usr h ex)"
  "keeps (tinv (same_but_accounts T0)) (DeleteSessionByTokenHash h)"
  unfolding CreateUser_q_def CreateSession_q_def DeleteSessionByTokenHash_def
  by (rule keeps_dml, force simp: same_but_accounts_def Let_def split: if_splits)+

lemma keeps_issue_cookie [keeps_rules]: "keeps (tinv (same_but_accounts T0)) (issueSessionCookie A cfg buf now u)"
  unfolding issueSessionCookie_def CreateSession_def by (intro keeps_rules)

lemma keeps_open_handlers [keeps_rules]:
  "keeps (tinv (same_but_accounts T0)) (Auth_Register A cfg buf now body)"
  "keeps (tinv (same_but_accounts T0)) (Auth_Logout A ck)"
  unfolding Auth_Register_def CreateUser_def Auth_Logout_def RevokeSession_def by (intro keeps_rules)+

lemma keeps_serve_login_accounts [keeps_rules]: "keeps (tinv (same_but_accounts T0)) (serve_login E c rq)"
proof (rule keepsI)
  fix s :: api_state assume i: "tinv (same_but_accounts T0) s"
  have inner: "keeps (tinv (same_but_accounts T0)) (case body_err body of
       Inl e \<Rightarrow> reply (writeError 400 ''bad_json'' (err_text e))
     | Inr req \<Rightarrow> attempt (Authenticate A (cd_email req) (cd_password req)) (\<lambda>r. case r of
         Inl e \<Rightarrow> reply (writeError 401 ''invalid_credentials'' ''invalid email or password'')
       | Inr user \<Rightarrow> attempt (issueSessionCookie A cfg buf now (u_id user)) (\<lambda>c. case c of
           Inl e \<Rightarrow> reply (writeError 500 ''session_failed'' (err_text e))
         | Inr ck \<Rightarrow> reply (HJson 200 (Some ck) (JUser (toUserView user))))))" for body :: "credentials body_in" and A cfg buf now
    by (intro keeps_rules)
  have "tinv (same_but_accounts T0) (snd (snd (Auth_Login A cfg buf now xff remote body (lim, s))))" for A cfg buf now xff remote body lim
    unfolding Auth_Login_def
    using keepsD [OF inner [of A cfg buf now body] i] i by (auto simp: map_prod_def split: prod.split bool.split)
  then show "tinv (same_but_accounts T0) (snd (serve_login E c rq s))"
    by (auto simp: serve_login_def tinv_def split: prod.split) (metis prod.sel(2))
qed

lemma mux_handler_in: "mux_handler mx m p = Some e \<Longrightarrow> e \<in> set mx"
  by (auto simp: mux_handler_def find_Some_iff)

lemma keeps_mux_serve_in:
  "(\<And>r i. r \<in> snd ` set mx \<Longrightarrow> keeps I (f r i)) \<Longrightarrow> keeps I (mux_serve mx rq f)"
  unfolding mux_serve_def
  by (cases "mux_handler mx (rq_method rq) (rq_path rq)") (force dest: mux_handler_in intro: keeps_reply)+

lemma keeps_open_mux: "keeps (tinv (same_but_accounts T0)) (mux_serve (open_mux c) rq (serve_plain E c rq))"
  by (rule keeps_mux_serve_in) (auto simp: open_mux_def serve_plain_def Let_def keeps_rules split: if_splits)

lemma keeps_internal_mux: "keeps (tinv I) (mux_serve (internal_mux c) rq (serve_plain E c rq))"
  by (rule keeps_mux_serve_in) (auto simp: internal_mux_def serve_plain_def Let_def keeps_rules split: if_splits)

section \<open>Guards\<close>

text \<open>C25. Without valid credentials nothing of value changes: a request that carries no session of a
  known user and not the operator's bearer token leaves instances, slots, nodes, credits, the ledger,
  SSH keys, node tokens and teams untouched, whatever its path, method and body; at most an account is
  registered or a session opened or closed.\<close>

theorem no_credentials_no_effect:
  assumes "rc_admin_token c \<noteq> []" and "rq_authorization rq \<noteq> ''Bearer '' @ rc_admin_token c"
    and "fst (LoadSession (al_auth E) (rq_cookie rq) s) = None" and "NewRouter E c rq s = (resp, s')"
  shows "(tbl s')\<lparr>users := [], sessions := []\<rparr> = (tbl s)\<lparr>users := [], sessions := []\<rparr>"
proof -
  have self: "same_but_accounts T T" for T by (simp add: same_but_accounts_def)
  have admin: "NewAdminRouter E c rq s = (writeError 401 ''unauthenticated'' ''invalid or missing bearer token'', s)"
    using assms(1,2) by (simp add: NewAdminRouter_def RequireAdminToken_def bearer_ok_iff reply_def)
  have internal: "same_but_accounts (tbl s) (tbl (snd (NewInternalRouter E c rq s)))"
  proof -
    have "keeps (tinv (same_but_accounts (tbl s))) (NewInternalRouter E c rq)"
      unfolding NewInternalRouter_def by (intro keeps_rules keeps_internal_mux)
    from keepsD [OF this, of s] self show ?thesis by (simp add: tinv_def)
  qed
  have user: "same_but_accounts (tbl s) (tbl (snd (NewUserRouter E c rq s)))"
  proof -
    obtain u s1 where l: "LoadSession (al_auth E) (rq_cookie rq) s = (u, s1)" by fastforce
    have t1: "tbl s1 = tbl s" by (rule LoadSession_frame [OF l])
    have u: "u = None" using assms(3) l by simp
    show ?thesis
    proof (cases "mux_handler (open_mux c) (rq_method rq) (rq_path rq) \<noteq> None")
      case True
      then have "NewUserRouter E c rq s = mux_serve (open_mux c) rq (serve_plain E c rq) s1"
        using l by (simp add: NewUserRouter_def attempt_def)
      with keepsD [OF keeps_open_mux, of "tbl s" s1 c rq E] t1 self show ?thesis by (simp add: tinv_def)
    next
      case False
      then have "snd (NewUserRouter E c rq s) = s1"
        using l u by (simp add: NewUserRouter_def attempt_def RequireAdmin_def RequireUser_def reply_def)
      with t1 self show ?thesis by simp
    qed
  qed
  have "same_but_accounts (tbl s) (tbl s')"
    using assms(4) admin internal user self
    by (auto simp: NewRouter_def reply_def split: list.splits if_splits dest: arg_cong [of _ _ snd])
  then show ?thesis by (simp add: same_but_accounts_def)
qed

definition probe :: "string \<Rightarrow> string list \<Rightarrow> request" where
  "probe m p = \<lparr>rq_method = m, rq_path = p, rq_cookie = None, rq_authorization = [], rq_xff = [],
     rq_remote = ''10.0.0.9:1'', rq_body = [], rq_now = 0, rq_done = 0, rq_random = Inr [], rq_fresh = []\<rparr>"

lemma probe_simps [simp]:
  "rq_method (probe m p) = m" "rq_path (probe m p) = p" "rq_cookie (probe m p) = None" "rq_authorization (probe m p) = []"
  by (simp_all add: probe_def)

lemma LoadSession_None [simp]: "LoadSession A None s = (None, s)"
  by (simp add: LoadSession_def reply_def)

theorem no_credentials_no_effect_witness:
  "instances (tbl (snd (NewRouter sample_libs sample_router (probe ''DELETE'' [''admin'', ''instances'', uuid_text 5]) sample_api))) = [sample_instance]"
proof -
  let ?rq = "probe ''DELETE'' [''admin'', ''instances'', uuid_text 5]"
  obtain resp s' where e: "NewRouter sample_libs sample_router ?rq sample_api = (resp, s')" by fastforce
  have "rc_admin_token sample_router \<noteq> []" "rq_authorization ?rq \<noteq> ''Bearer '' @ rc_admin_token sample_router"
    by (simp_all add: sample_router_def)
  from no_credentials_no_effect [OF this _ e] have
    "instances ((tbl s')\<lparr>users := [], sessions := []\<rparr>) = instances ((tbl sample_api)\<lparr>users := [], sessions := []\<rparr>)" by simp
  then show ?thesis by (simp add: e tbl_sample_api) (simp add: sample_tables_def)
qed

text \<open>The dashboard's admin section is closed to everyone else: for a request that one of its routes
  matches and whose session does not belong to an administrator, the answer is the same 404 whether or
  not the caller is logged in, and no table changes.\<close>

theorem admin_section_hidden:
  assumes "mux_handler (open_mux c) (rq_method rq) (rq_path rq) = None"
    and "mux_handler (session_admin_mux c) (rq_method rq) (rq_path rq) \<noteq> None"
    and "\<forall>u. fst (LoadSession (al_auth E) (rq_cookie rq) s) = Some u \<longrightarrow> \<not> u_admin u"
  shows "fst (NewUserRouter E c rq s) = writeError 404 ''not_found'' ''not found'' \<and>
    tbl (snd (NewUserRouter E c rq s)) = tbl s"
proof -
  obtain u s1 where l: "LoadSession (al_auth E) (rq_cookie rq) s = (u, s1)" by fastforce
  have "NewUserRouter E c rq s = (writeError 404 ''not_found'' ''not found'', s1)"
    using assms l by (cases u) (auto simp: NewUserRouter_def attempt_def RequireAdmin_def reply_def)
  with LoadSession_frame [OF l] show ?thesis by simp
qed

lemmas mux_defs = open_mux_def session_admin_mux_def authed_mux_def mux_handler_def pat_match_def path_match_def

lemma sample_routes:
  "mux_handler (open_mux sample_router) ''GET'' [''api'', ''v1'', ''admin'', ''nodes''] = None"
  "mux_handler (session_admin_mux sample_router) ''GET'' [''api'', ''v1'', ''admin'', ''nodes''] \<noteq> None"
  "mux_handler (open_mux sample_router) ''GET'' [''api'', ''v1'', ''admin'', ''secrets''] = None"
  "mux_handler (session_admin_mux sample_router) ''GET'' [''api'', ''v1'', ''admin'', ''secrets''] = None"
  by (simp_all add: mux_defs sample_router_def)

theorem admin_section_hidden_witness:
  "fst (NewUserRouter sample_libs sample_router (probe ''GET'' [''api'', ''v1'', ''admin'', ''nodes'']) sample_api) =
     writeError 404 ''not_found'' ''not found''"
  using admin_section_hidden [of sample_router "probe ''GET'' [''api'', ''v1'', ''admin'', ''nodes'']" sample_libs sample_api]
    sample_routes by simp

text \<open>Existing admin routes can nevertheless be told from others without logging in: a probe of a
  route of the admin section is answered with 404, a probe of a path next to it that no mux knows with
  401.\<close>

theorem admin_routes_distinguishable:
  assumes "mux_handler (open_mux c) m p = None" and "mux_handler (session_admin_mux c) m p \<noteq> None"
    and "mux_handler (open_mux c) m' p' = None" and "mux_handler (session_admin_mux c) m' p' = None"
  shows "fst (NewUserRouter E c (probe m p) s) = writeError 404 ''not_found'' ''not found'' \<and>
    fst (NewUserRouter E c (probe m' p') s) = writeError 401 ''unauthenticated'' ''valid session required''"
  using assms by (simp add: NewUserRouter_def attempt_def RequireAdmin_def RequireUser_def reply_def)

theorem admin_routes_distinguishable_witness:
  "fst (NewUserRouter sample_libs sample_router (probe ''GET'' [''api'', ''v1'', ''admin'', ''nodes'']) sample_api) \<noteq>
   fst (NewUserRouter sample_libs sample_router (probe ''GET'' [''api'', ''v1'', ''admin'', ''secrets'']) sample_api)"
  using admin_routes_distinguishable [OF sample_routes, of sample_libs sample_api] by (simp add: writeError_def)

text \<open>A configuration the service starts with protects the operator API: no request below \<open>/admin/\<close>
  passes without the exact bearer token, which is not empty; and when the internal API is served, its
  token is not empty either, and is at least 32 bytes long in production, with a ticket secret of at
  least 16 bytes.\<close>

theorem config_protects_admin:
  assumes "FromEnv cv ev = Inr cf" and "rc_admin_token c = cf_admin_token cf"
    and "rq_path rq = ''admin'' # p # ps" and "rq_authorization rq \<noteq> ''Bearer '' @ cf_admin_token cf"
  shows "NewRouter E c rq s = (writeError 401 ''unauthenticated'' ''invalid or missing bearer token'', s) \<and>
    cf_admin_token cf \<noteq> [] \<and>
    (cf_internal_token cf \<noteq> [] \<longrightarrow> 16 \<le> length (cf_tunnel_secret cf)) \<and>
    (cf_cookie_secure cf \<longrightarrow> 32 \<le> length (cf_internal_token cf))"
  using FromEnv_ok [OF assms(1)] assms(2-4)
  by (simp add: NewRouter_def NewAdminRouter_def RequireAdminToken_def bearer_ok_iff reply_def)

definition sample_env :: "string \<Rightarrow> string" where
  "sample_env k = (if k = ''DATABASE_URL'' then ''db'' else if k = ''MAIN_API_ADMIN_TOKEN'' then ''root''
     else if k = ''MAIN_API_AGENT_TOKEN'' then ''agent'' else [])"

definition sample_conv :: env_conv where
  "sample_conv = \<lparr>ParseBool = (\<lambda>_. Inl (Err ''x'')), Atoi = (\<lambda>_. Inl (Err ''x'')), ParseDuration = (\<lambda>_. Inl (Err ''x''))\<rparr>"

theorem config_protects_admin_witness:
  "NewRouter sample_libs sample_router (probe ''GET'' [''admin'', ''nodes'']) sample_api =
     (writeError 401 ''unauthenticated'' ''invalid or missing bearer token'', sample_api)"
proof -
  have f: "FromEnv sample_conv sample_env = Inr (read_config sample_conv sample_env)"
    by (simp add: FromEnv_def Let_def read_config_def sample_env_def boolEnv_def)
  have t: "rc_admin_token sample_router = cf_admin_token (read_config sample_conv sample_env)"
    by (simp add: sample_router_def read_config_def sample_env_def)
  from config_protects_admin [OF f t, of "probe ''GET'' [''admin'', ''nodes'']" "''nodes''" "[]"] show ?thesis by simp
qed

end
