(* ===== verification/MuxRegistry.thy ===== *)
theory MuxRegistry
  imports Prelude GuardedMap
begin

text \<open>
  Package \<open>muxregistry\<close> of ssh-proxy: the live mux session of every node. A session and an entry
  are pointers, here natural numbers; which sessions are closed, which health checkers were
  cancelled and which nodes were reported degraded is the rest of the state. Health checking is
  one step per tick, with the outcome of the ping as an argument.
\<close>

record mux_entry =
  me_ptr :: nat
  me_sess :: nat
  me_version :: string

record mux =
  mx_sessions :: "string \<Rightarrow> mux_entry option"
  mx_closed :: bool
  mx_next :: nat \<comment> \<open>the next entry pointer\<close>
  mx_dead :: "nat \<Rightarrow> bool" \<comment> \<open>sessions that are closed\<close>
  mx_cancelled :: "nat \<Rightarrow> bool" \<comment> \<open>entries whose health checker was cancelled\<close>
  mx_reports :: "string list"

definition ErrUnknownNode :: err where
  "ErrUnknownNode = Err ''muxregistry: no session for node''"

record mux_config =
  mc_reporter :: bool
  mc_interval :: int
  mc_timeout :: int

definition mux_New :: "mux_config \<Rightarrow> mux_config \<times> mux" where
  "mux_New cfg = (cfg\<lparr>mc_interval := (if mc_interval cfg \<le> 0 then 30 * 1000000000 else mc_interval cfg),
     mc_timeout := (if mc_timeout cfg \<le> 0 then 5 * 1000000000 else mc_timeout cfg)\<rparr>,
     \<lparr>mx_sessions = (\<lambda>_. None), mx_closed = False, mx_next = 0, mx_dead = (\<lambda>_. False),
      mx_cancelled = (\<lambda>_. False), mx_reports = []\<rparr>)"

definition close_sess :: "nat \<Rightarrow> mux \<Rightarrow> mux" where
  "close_sess x s = s\<lparr>mx_dead := (mx_dead s)(x := True)\<rparr>"

definition cancel_entry :: "mux_entry \<Rightarrow> mux \<Rightarrow> mux" where
  "cancel_entry e s = s\<lparr>mx_cancelled := (mx_cancelled s)(me_ptr e := True)\<rparr>"

definition put_session :: "string \<Rightarrow> mux_entry \<Rightarrow> mux \<Rightarrow> mux" where
  "put_session nd e s = s\<lparr>mx_sessions := (mx_sessions s)(nd \<mapsto> e)\<rparr>"

definition mux_Register :: "string \<Rightarrow> nat \<Rightarrow> string \<Rightarrow> mux \<Rightarrow> nat option \<times> mux" where
  "mux_Register nd sess version s =
     (if mx_closed s then (None, close_sess sess s)
      else
        let prev = mx_sessions s nd;
            e = \<lparr>me_ptr = mx_next s, me_sess = sess, me_version = version\<rparr>;
            s1 = put_session nd e (s\<lparr>mx_next := Suc (mx_next s)\<rparr>)
        in (case prev of
              None \<Rightarrow> (None, s1)
            | Some p \<Rightarrow> (Some (me_sess p), close_sess (me_sess p) (cancel_entry p s1))))"

text \<open>\<open>opened\<close> is what \<open>sess.OpenStream()\<close> returns.\<close>

definition OpenStream :: "string \<Rightarrow> err + nat \<Rightarrow> mux \<Rightarrow> err + nat" where
  "OpenStream nd opened s = (case mx_sessions s nd of
       None \<Rightarrow> Inl ErrUnknownNode
     | Some e \<Rightarrow>
         if mx_dead s (me_sess e) then Inl (WrapErr [] ErrUnknownNode '': session is closed'')
         else (case opened of
             Inl er \<Rightarrow> Inl (WrapErr (''muxregistry: open stream for '' @ nd @ '': '') er [])
           | Inr st \<Rightarrow> Inr st))"

definition Deregister :: "string \<Rightarrow> mux \<Rightarrow> mux" where
  "Deregister nd s = (case mx_sessions s nd of
       None \<Rightarrow> s
     | Some e \<Rightarrow> close_sess (me_sess e) (cancel_entry e (s\<lparr>mx_sessions := (mx_sessions s)(nd := None)\<rparr>)))"

definition mux_Close :: "string list \<Rightarrow> mux \<Rightarrow> mux" where
  "mux_Close nds s =
     (let es = List.map_filter (mx_sessions s) nds;
          s1 = s\<lparr>mx_closed := True, mx_sessions := (\<lambda>_. None)\<rparr>
      in fold (\<lambda>e s. close_sess (me_sess e) (cancel_entry e s)) es s1)"

definition handleDeath :: "bool \<Rightarrow> string \<Rightarrow> mux_entry \<Rightarrow> mux \<Rightarrow> mux" where
  "handleDeath reporter nd e s =
     (let s1 = (case mx_sessions s nd of
                  None \<Rightarrow> s
                | Some cur \<Rightarrow> if cur = e then s\<lparr>mx_sessions := (mx_sessions s)(nd := None)\<rparr> else s);
          s2 = close_sess (me_sess e) s1
      in if reporter then s2\<lparr>mx_reports := mx_reports s2 @ [nd]\<rparr> else s2)"

datatype ping = PingOk | PingErr err | PingTimeout | PingCancelled

text \<open>One round of \<open>watchHealth\<close>; the result says whether the checker goes on.\<close>

definition watchHealth_round :: "bool \<Rightarrow> string \<Rightarrow> mux_entry \<Rightarrow> ping \<Rightarrow> mux \<Rightarrow> bool \<times> mux" where
  "watchHealth_round reporter nd e p s =
     (if mx_cancelled s (me_ptr e) then (False, s)
      else if mx_dead s (me_sess e) then (False, handleDeath reporter nd e s)
      else (case p of
          PingOk \<Rightarrow> (True, s)
        | PingErr _ \<Rightarrow> (False, handleDeath reporter nd e s)
        | PingTimeout \<Rightarrow> (False, handleDeath reporter nd e s)
        | PingCancelled \<Rightarrow> (False, s)))"

section \<open>The registry as a guarded map\<close>

interpretation mux_map: guarded_map mx_sessions put_session "handleDeath reporter" for reporter
  by unfold_locales
    (auto simp: put_session_def handleDeath_def close_sess_def Let_def split: option.split)

section \<open>One live session per node\<close>

text \<open>
  The operations ssh-proxy performs, as a step relation. The second component of a configuration
  records, for every session that was registered, its node and the entry made for it: an accepted
  session is registered once, and the checker of an entry only ever runs for that entry.
\<close>

type_synonym owners = "nat \<Rightarrow> (string \<times> mux_entry) option"

definition new_entry :: "nat \<Rightarrow> string \<Rightarrow> mux \<Rightarrow> mux_entry" where
  "new_entry sess version s = \<lparr>me_ptr = mx_next s, me_sess = sess, me_version = version\<rparr>"

inductive mux_step :: "mux \<times> owners \<Rightarrow> mux \<times> owners \<Rightarrow> bool" where
  step_register: "own x = None \<Longrightarrow> \<not> mx_closed s \<Longrightarrow>
    mux_step (s, own) (snd (mux_Register nd x v s), own(x \<mapsto> (nd, new_entry x v s)))"
| step_refused: "own x = None \<Longrightarrow> mx_closed s \<Longrightarrow> mux_step (s, own) (snd (mux_Register nd x v s), own)"
| step_deregister: "mux_step (s, own) (Deregister nd s, own)"
| step_round: "own x = Some (nd, e) \<Longrightarrow> mux_step (s, own) (snd (watchHealth_round rep nd e p s), own)"
| step_close: "dom (mx_sessions s) \<subseteq> set nds \<Longrightarrow> mux_step (s, own) (mux_Close nds s, own)"

inductive_cases mux_stepE: "mux_step c d"

inductive mux_reach :: "mux \<times> owners \<Rightarrow> bool" where
  mux_init: "mux_reach (snd (mux_New cfg), \<lambda>_. None)"
| mux_more: "mux_reach c \<Longrightarrow> mux_step c d \<Longrightarrow> mux_reach d"

definition mux_ok :: "mux \<times> owners \<Rightarrow> bool" where
  "mux_ok = (\<lambda>(s, own).
     (\<forall>nd e. mx_sessions s nd = Some e \<longrightarrow> own (me_sess e) = Some (nd, e)) \<and>
     (\<forall>x nd e. own x = Some (nd, e) \<longrightarrow> me_sess e = x \<and> (mx_dead s x \<or> mx_sessions s nd = Some e)))"

lemmas mux_defs = mux_Register_def put_session_def close_sess_def cancel_entry_def new_entry_def
  Deregister_def handleDeath_def Let_def

lemma mux_okI:
  assumes "\<And>nd e. mx_sessions s nd = Some e \<Longrightarrow> own (me_sess e) = Some (nd, e)"
    and "\<And>x nd e. own x = Some (nd, e) \<Longrightarrow> me_sess e = x \<and> (mx_dead s x \<or> mx_sessions s nd = Some e)"
  shows "mux_ok (s, own)"
  using assms by (simp add: mux_ok_def)

lemma mux_okD:
  assumes "mux_ok (s, own)"
  shows "mx_sessions s nd = Some e \<Longrightarrow> own (me_sess e) = Some (nd, e)"
    and "own x = Some (nd, e) \<Longrightarrow> me_sess e = x \<and> (mx_dead s x \<or> mx_sessions s nd = Some e)"
  using assms by (simp_all add: mux_ok_def)

lemma mux_ok_handleDeath:
  assumes "mux_ok (s, own)" "own x = Some (nd, e)"
  shows "mux_ok (handleDeath rep nd e s, own)"
  using assms unfolding mux_ok_def
  by (clarsimp simp: handleDeath_def close_sess_def Let_def split: option.splits if_splits)
    (metis option.inject option.distinct(1) prod.inject)+

lemma mux_ok_deregister:
  assumes "mux_ok (s, own)"
  shows "mux_ok (Deregister nd s, own)"
  using assms unfolding mux_ok_def
  by (clarsimp simp: Deregister_def close_sess_def cancel_entry_def split: option.splits)
    (metis option.inject option.distinct(1) prod.inject)

lemma mux_ok_register:
  assumes ok: "mux_ok (s, own)" and new: "own x = None" "\<not> mx_closed s"
  shows "mux_ok (snd (mux_Register nd x v s), own(x \<mapsto> (nd, new_entry x v s)))"
proof (rule mux_okI, goal_cases)
  case (1 n e)
  with mux_okD(1)[OF ok, of n e] new show ?case
    by (cases "mx_sessions s nd") (auto simp: mux_defs split: if_splits)
next
  case (2 y n e)
  show ?case
  proof (cases "y = x")
    case True
    with 2 new show ?thesis by (auto simp: mux_defs split: option.split)
  next
    case False
    with 2 have "own y = Some (n, e)" by simp
    with mux_okD(2)[OF ok this] new show ?thesis
      by (cases "mx_sessions s nd") (auto simp: mux_defs)
  qed
qed

lemma closing:
  "mx_sessions (fold (\<lambda>e s. close_sess (me_sess e) (cancel_entry e s)) es s) = mx_sessions s \<and>
   mx_dead (fold (\<lambda>e s. close_sess (me_sess e) (cancel_entry e s)) es s) =
     (\<lambda>x. x \<in> me_sess ` set es \<or> mx_dead s x)"
  by (induction es arbitrary: s) (auto simp: close_sess_def cancel_entry_def fun_eq_iff)

lemma mux_Close_shape:
  "mx_sessions (mux_Close nds s) = (\<lambda>_. None)"
  "mx_dead (mux_Close nds s) x \<longleftrightarrow> (\<exists>nd \<in> set nds. \<exists>e. mx_sessions s nd = Some e \<and> me_sess e = x) \<or> mx_dead s x"
  by (fastforce simp: mux_Close_def Let_def closing map_filter_def image_iff)+

lemma mux_ok_close:
  assumes "mux_ok (s, own)" "dom (mx_sessions s) \<subseteq> set nds"
  shows "mux_ok (mux_Close nds s, own)"
  using assms unfolding mux_ok_def by (fastforce simp: mux_Close_shape)

lemma mux_ok_step: "mux_step c d \<Longrightarrow> mux_ok c \<Longrightarrow> mux_ok d"
proof (induction rule: mux_step.induct)
  case (step_round own x nd e s rep p)
  then show ?case by (auto simp: watchHealth_round_def mux_ok_handleDeath split: ping.split)
next
  case (step_refused own x s nd v)
  then show ?case by (auto simp: mux_ok_def mux_defs)
qed (simp_all add: mux_ok_register mux_ok_deregister mux_ok_close)

lemma mux_reach_ok: "mux_reach c \<Longrightarrow> mux_ok c"
proof (induction rule: mux_reach.induct)
  case (mux_init cfg)
  then show ?case by (simp add: mux_ok_def mux_New_def)
qed (rule mux_ok_step)

end
