(* ===== verification/AccessProps.thy ===== *)
theory AccessProps
  imports SshTicket AgentAuth MuxRegistry StoreProps
begin

text \<open>
  Properties of the login limiter: it admits exactly what a sliding window over the attempts of a key admits.
\<close>

section \<open>The login limiter\<close>

text \<open>A sequence of calls, with the answers in order.\<close>

fun run_limiter :: "RateLimiter \<Rightarrow> (string \<times> time) list \<Rightarrow> (string \<times> time \<times> bool) list \<times> RateLimiter" where
  "run_limiter r [] = ([], r)"
| "run_limiter r ((k, t) # calls) = (case Allow k t r of (ok, r1) \<Rightarrow>
     (case run_limiter r1 calls of (res, r2) \<Rightarrow> ((k, t, ok) # res, r2)))"

definition allowed_times :: "string \<Rightarrow> (string \<times> time \<times> bool) list \<Rightarrow> time list" where
  "allowed_times k h = map (\<lambda>e. fst (snd e)) (filter (\<lambda>e. fst e = k \<and> snd (snd e)) h)"

definition limiter_hits :: "string \<Rightarrow> RateLimiter \<Rightarrow> time list" where
  "limiter_hits k r = (case hits r k of None \<Rightarrow> [] | Some ts \<Rightarrow> ts)"

definition limiter_inv :: "nat \<Rightarrow> int \<Rightarrow> time \<Rightarrow> (string \<times> time \<times> bool) list \<Rightarrow> RateLimiter \<Rightarrow> bool" where
  "limiter_inv lim w t0 h r \<longleftrightarrow> rl_limit r = lim \<and> rl_window r = w \<and>
     (\<forall>k. \<forall>c\<ge>t0 - w. filter (\<lambda>t. t > c) (limiter_hits k r) = filter (\<lambda>t. t > c) (allowed_times k h)) \<and>
     (\<forall>k. \<forall>t\<in>set (allowed_times k h). t \<le> t0) \<and>
     (\<forall>k t. length (filter (\<lambda>t'. t - w < t' \<and> t' \<le> t) (allowed_times k h)) \<le> lim)"

lemma length_filter_mono:
  "(\<And>x. x \<in> set xs \<Longrightarrow> P x \<Longrightarrow> Q x) \<Longrightarrow> length (filter P xs) \<le> length (filter Q xs)"
  by (induction xs) (auto simp: le_SucI)

lemma allowed_times_snoc:
  "allowed_times k (h @ [(k', t, ok)]) = allowed_times k h @ (if k' = k \<and> ok then [t] else [])"
  by (simp add: allowed_times_def)

lemma sweepLocked_hits:
  "c \<ge> cutoff \<Longrightarrow> filter (\<lambda>t. t > c) (limiter_hits k (sweepLocked cutoff r)) = filter (\<lambda>t. t > c) (limiter_hits k r)"
  by (force simp: limiter_hits_def sweepLocked_def filter_empty_conv split: option.splits
      intro!: filter_False [symmetric])

lemma Allow_hits:
  assumes "Allow key now r = (ok, r')" and "c \<ge> now - rl_window r"
  shows "filter (\<lambda>t. t > c) (limiter_hits k r') =
    filter (\<lambda>t. t > c) (limiter_hits k r @ (if k = key \<and> ok then [now] else []))"
proof -
  let ?cut = "now - rl_window r"
  let ?fresh = "filter (\<lambda>t. t > ?cut) (limiter_hits key r) @ (if ok then [now] else [])"
  let ?r1 = "r\<lparr>hits := (hits r)(key := (if ?fresh = [] then None else Some ?fresh))\<rparr>"
  have fresh: "(if b then xs @ [now] else xs) = xs @ (if b then [now] else [])" for b and xs by simp
  have r': "r' = (if now - rl_last r \<ge> rl_window r then (sweepLocked ?cut ?r1)\<lparr>rl_last := now\<rparr> else ?r1)"
    using assms(1) unfolding Allow_def Let_def limiter_hits_def [symmetric] fresh prod.inject by (elim conjE) (simp only:)
  have "filter (\<lambda>t. t > c) (limiter_hits k r') = filter (\<lambda>t. t > c) (limiter_hits k ?r1)"
    unfolding r' using sweepLocked_hits [OF assms(2), of k ?r1] by (auto simp: limiter_hits_def)
  also have "limiter_hits k ?r1 = (if k = key then ?fresh else limiter_hits k r)" by (simp add: limiter_hits_def)
  also have "filter (\<lambda>t. t > c) (if k = key then ?fresh else limiter_hits k r) =
      filter (\<lambda>t. t > c) (limiter_hits k r @ (if k = key \<and> ok then [now] else []))"
    using assms(2) by (auto intro: filter_cong)
  finally show ?thesis .
qed

lemma Allow_inv:
  assumes inv: "limiter_inv lim w t0 h r" and mono: "t0 \<le> now" and run: "Allow key now r = (ok, r')"
  shows "limiter_inv lim w now (h @ [(key, now, ok)]) r'"
    and "ok \<longleftrightarrow> length (filter (\<lambda>t'. now - w < t') (allowed_times key h)) < lim"
proof -
  have cfg: "rl_limit r = lim" "rl_window r = w" using inv by (auto simp: limiter_inv_def)
  have same: "filter (\<lambda>t. t > c) (limiter_hits k r) = filter (\<lambda>t. t > c) (allowed_times k h)" if "c \<ge> now - w" for k c
    using inv that mono by (auto simp: limiter_inv_def)
  have "ok \<longleftrightarrow> length (filter (\<lambda>t. t > now - w) (limiter_hits key r)) < lim"
    using run cfg by (auto simp: Allow_def Let_def limiter_hits_def split: option.splits)
  then show ok: "ok \<longleftrightarrow> length (filter (\<lambda>t'. now - w < t') (allowed_times key h)) < lim" by (simp add: same)
  have hits': "filter (\<lambda>t. t > c) (limiter_hits k r') = filter (\<lambda>t. t > c) (allowed_times k (h @ [(key, now, ok)]))"
    if "c \<ge> now - w" for k c
    using Allow_hits [OF run, of c k] same [OF that, of k] that cfg by (auto simp: allowed_times_snoc)
  have bound: "length (filter (\<lambda>t'. t - w < t' \<and> t' \<le> t) (allowed_times k (h @ [(key, now, ok)]))) \<le> lim" for k t
  proof (cases "key = k \<and> ok \<and> t - w < now \<and> now \<le> t")
    case True
    have "length (filter (\<lambda>t'. t - w < t' \<and> t' \<le> t) (allowed_times k h)) \<le> length (filter (\<lambda>t'. now - w < t') (allowed_times k h))"
      using True by (intro length_filter_mono) auto
    moreover have "length (filter (\<lambda>t'. now - w < t') (allowed_times k h)) < lim" using True ok by blast
    ultimately show ?thesis using True by (simp add: allowed_times_snoc)
  next
    case False
    then show ?thesis using inv by (auto simp: limiter_inv_def allowed_times_snoc)
  qed
  have "rl_limit r' = lim" "rl_window r' = w"
    using run cfg by (auto simp: Allow_def Let_def sweepLocked_def split: if_splits)
  moreover have "t \<le> now" if "t \<in> set (allowed_times k (h @ [(key, now, ok)]))" for k t
  proof -
    have "t \<in> set (allowed_times k h) \<Longrightarrow> t \<le> t0" using inv unfolding limiter_inv_def by blast
    with that mono show ?thesis by (fastforce simp: allowed_times_snoc split: if_splits)
  qed
  ultimately show "limiter_inv lim w now (h @ [(key, now, ok)]) r'"
    using hits' bound by (auto simp: limiter_inv_def)
qed

lemma run_limiter_inv:
  assumes "limiter_inv lim w t0 h r" and "sorted (map snd calls)" and "\<And>c. c \<in> set calls \<Longrightarrow> t0 \<le> snd c"
    and "run_limiter r calls = (res, r')"
  shows "limiter_inv lim w (if calls = [] then t0 else snd (List.last calls)) (h @ res) r'"
  using assms
proof (induction r calls arbitrary: t0 h res rule: run_limiter.induct)
  case (1 r)
  then show ?case by simp
next
  case (2 r k t calls)
  obtain ok r1 where a: "Allow k t r = (ok, r1)" by fastforce
  from 2(5) a obtain res1 where b: "run_limiter r1 calls = (res1, r')" and res: "res = (k, t, ok) # res1"
    by (auto split: prod.splits)
  have "t0 \<le> t" using 2(4) [of "(k, t)"] by simp
  from Allow_inv(1) [OF 2(2) this a] have "limiter_inv lim w t (h @ [(k, t, ok)]) r1" .
  from 2(1) [OF a [symmetric] this _ _ b] 2(3)
  have "limiter_inv lim w (if calls = [] then t else snd (List.last calls)) ((h @ [(k, t, ok)]) @ res1) r'" by auto
  then show ?case by (simp add: res split: if_splits)
qed

text \<open>C30. The login limiter is exactly a sliding window: after any sequence of calls at times that do
  not decrease, no key was allowed more than \<open>lim\<close> times within any window of length \<open>w\<close>, and the
  next call is allowed if and only if fewer than \<open>lim\<close> calls of its key were allowed within the
  last \<open>w\<close>. Neither the pruning of old hits nor the sweep of idle keys changes an answer.\<close>

theorem limiter_sliding_window:
  assumes "sorted (map snd calls @ [now])"
    and "run_limiter (NewRateLimiter lim w) calls = (res, r)"
  shows "length (filter (\<lambda>t'. t - w < t' \<and> t' \<le> t) (allowed_times k res)) \<le> lim \<and>
    (fst (Allow key now r) \<longleftrightarrow> length (filter (\<lambda>t'. now - w < t') (allowed_times key res)) < lim)"
proof -
  let ?t0 = "snd (hd calls)" and ?tn = "if calls = [] then snd (hd calls) else snd (List.last calls)"
  have "limiter_inv lim w ?t0 [] (NewRateLimiter lim w)"
    by (simp add: limiter_inv_def NewRateLimiter_def limiter_hits_def allowed_times_def)
  moreover have "sorted (map snd calls)" using assms(1) by (simp add: sorted_append)
  moreover have "snd (hd calls) \<le> snd c" if "c \<in> set calls" for c
    using that calculation(2) by (cases calls) auto
  ultimately have inv: "limiter_inv lim w ?tn res r"
    using run_limiter_inv [of lim w ?t0 "[]" "NewRateLimiter lim w" calls res r] assms(2) by auto
  have le: "calls \<noteq> [] \<Longrightarrow> ?tn \<le> now" using assms(1) by (auto simp: sorted_append)
  obtain ok r' where a: "Allow key now r = (ok, r')" by fastforce
  have "ok \<longleftrightarrow> length (filter (\<lambda>t'. now - w < t') (allowed_times key res)) < lim"
  proof (cases "calls = []")
    case True
    with assms(2) have "limiter_inv lim w now res r"
      by (auto simp: limiter_inv_def NewRateLimiter_def limiter_hits_def allowed_times_def)
    from Allow_inv(2) [OF this order_refl a] show ?thesis .
  next
    case False
    from Allow_inv(2) [OF inv le [OF False] a] show ?thesis .
  qed
  with inv a show ?thesis by (simp add: limiter_inv_def)
qed

theorem limiter_sliding_window_witness:
  "length (filter (\<lambda>t'. 13 - 10 < t' \<and> t' \<le> 13) (allowed_times ''a'' (fst (run_limiter (NewRateLimiter 1 10)
       [(''a'', 1), (''a'', 4), (''a'', 12)])))) \<le> 1 \<and>
   \<not> fst (Allow ''a'' 13 (snd (run_limiter (NewRateLimiter 1 10) [(''a'', 1), (''a'', 4), (''a'', 12)])))"
proof -
  let ?calls = "[(''a'', 1), (''a'', 4), (''a'', 12)] :: (string \<times> time) list"
  obtain res r where run: "run_limiter (NewRateLimiter 1 10) ?calls = (res, r)" by fastforce
  have "fst (run_limiter (NewRateLimiter 1 10) ?calls) = [(''a'', 1, True), (''a'', 4, False), (''a'', 12, True)]" by code_simp
  with run have res: "res = [(''a'', 1, True), (''a'', 4, False), (''a'', 12, True)]" by simp
  have "sorted (map snd ?calls @ [13])" by simp
  from limiter_sliding_window [OF this run, of 13 "''a''" "''a''"] show ?thesis
    unfolding run fst_conv snd_conv res by (simp add: allowed_times_def)
qed

end
