(* ===== verification/RepoProps.thy ===== *)
theory RepoProps
  imports Samples
begin

text \<open>
  The properties of the three repositories of main-api: the instance state machine and its
  transactional transitions, GPU slot reservation, and the credit ledger. They hold for every
  fault schedule unless a statement says otherwise.
\<close>

section \<open>Instances\<close>

text \<open>C22. A state transition is atomic whatever fails: either the call reports an error and no
  table changed, or the row existed, the edge from its state was allowed, exactly the row's state
  fields were updated and exactly one audit event was appended; the caller is told so unless the
  acknowledgement of the commit was lost.\<close>

theorem transition_atomic:
  assumes "Transition i to op s = (r, s')"
  shows "(\<exists>e. r = Inl e \<and> tbl s' = tbl s) \<or>
    (\<exists>row n. find (\<lambda>r. i_id r = i) (instances (tbl s)) = Some row \<and>
       to \<in> set AllStates \<and> CanTransition (i_state row) to \<and>
       tbl s' = (tbl s)\<lparr>
         instances := set_where (\<lambda>r. i_id r = i) (apply_transition i to op (clk s)) (instances (tbl s)),
         events := events (tbl s) @ [transition_event i n (i_state row) to op (clk s)]\<rparr> \<and>
       (r = Inr (apply_transition i to op (clk s) row) \<or> (\<exists>m. r = Inl (conn_err m))))"
  using assms by (cases rule: Transition_cases) (auto simp: transition_tables_def)

lemma sample_transition:
  "Transition 5 Stopping (opts ''admin_delete'' []) (sample_pg []) =
     (Inr (sample_instance\<lparr>i_state := Stopping, i_updated := 60000000000\<rparr>),
      (sample_pg [])\<lparr>ctr := 2, tbl := sample_tables\<lparr>
        instances := [sample_instance\<lparr>i_state := Stopping, i_updated := 60000000000\<rparr>],
        events := events sample_tables @ [\<lparr>e_id = 1, e_instance = 5, e_from = Some Running, e_to = Stopping,
          e_reason = ''admin_delete'', e_meta = ''{}'', e_created = 60000000000\<rparr>]\<rparr>\<rparr>)"
  by (simp add: Transition_def Validate_state_def AllStates_def in_tx_def stmt_fine sel_fine dml_fine
      action_defs GetInstance_def pick_def UpdateInstanceState_def InsertInstanceEvent_def Let_def sm_defs
      valid_state_def pop_fault_def sample_defs)

theorem transition_atomic_witness:
  "\<exists>r s'. Transition 5 Stopping (opts ''admin_delete'' []) (sample_pg []) = (r, s') \<and>
     (\<exists>row. find (\<lambda>r. i_id r = 5) (instances sample_tables) = Some row \<and> CanTransition (i_state row) Stopping)"
  using transition_atomic [OF sample_transition]
  by (auto simp: sample_transition) (auto simp: sample_defs)

text \<open>Without database faults the transition call returns exactly what the state machine
  prescribes, on every branch: unknown target state, missing row, rejected idempotent update,
  forbidden edge, and success with the updated row.\<close>

theorem transition_result:
  assumes "faults s = []"
  shows "fst (Transition i to op s) =
    (if to \<notin> set AllStates then Inl (Err (''instance: unknown state '' @ quoted (state_text to)))
     else case find (\<lambda>r. i_id r = i) (instances (tbl s)) of
       None \<Rightarrow> Inl (WrapErr ''load instance: '' ErrNoRows [])
     | Some row \<Rightarrow>
         if i_state row = to \<and> o_skip op
         then Inl (WrapErr [] ErrInvalidTransition ('': idempotent '' @ state_text (i_state row) @ ''->'' @ state_text to @ '' rejected''))
         else if \<not> CanTransition (i_state row) to
         then Inl (WrapErr [] ErrInvalidTransition ('': '' @ state_text (i_state row) @ ''->'' @ state_text to))
         else Inr (apply_transition i to op (clk s) row))"
proof (cases "to \<in> set AllStates")
  case False
  then show ?thesis by (simp add: Transition_def Validate_state_def fail_def)
next
  case True
  show ?thesis
  proof (cases "find (\<lambda>r. i_id r = i) (instances (tbl s))")
    case None
    with True assms show ?thesis
      by (simp add: Transition_def Validate_state_def in_tx_def stmt_fine sel_fine action_defs GetInstance_def pick_def)
  next
    case (Some row)
    show ?thesis
    proof (cases "CanTransition (i_state row) to \<and> \<not> (i_state row = to \<and> o_skip op)")
      case False
      with True Some assms show ?thesis
        by (auto simp: Transition_def Validate_state_def in_tx_def stmt_fine sel_fine action_defs GetInstance_def
            pick_def Let_def)
    next
      case ok: True
      with Transition_fine [OF assms True Some] True Some show ?thesis by simp
    qed
  qed
qed

theorem transition_result_witness:
  "fst (Transition 5 Provisioning (opts ''agent_report'' []) (sample_pg [])) =
     Inl (WrapErr [] ErrInvalidTransition '': running->provisioning'')"
  using transition_result [of "sample_pg []" 5 Provisioning "opts ''agent_report'' []"]
  by (simp add: sample_defs AllStates_def sm_defs)

text \<open>Stopped and failed are absorbing: over any committed effect of any repository operation,
  an instance in a terminal state that still exists keeps that state.\<close>

theorem terminal_absorbing:
  assumes "db_step G T T'" and "audit_ok T" and "r \<in> set (instances T)" and "IsTerminal (i_state r)"
    and "r' \<in> set (instances T')" and "i_id r' = i_id r"
  shows "i_state r' = i_state r"
proof -
  have d: "distinct (map i_id (instances T))" using assms(2) by (simp add: audit_ok_def)
  have same: "q = r" if "q \<in> set (instances T)" "i_id q = i_id r" for q
    using distinct_key_eq [OF d that(1) assms(3) that(2)] .
  from assms(1) show ?thesis
  proof (cases rule: db_step.cases)
    case (transition i row to n op t)
    from transition(2) have row: "row \<in> set (instances T)" "i_id row = i" by (auto dest: find_SomeD)
    from assms(5) transition(1) obtain q where q: "q \<in> set (instances T)"
      "r' = (if i_id q = i then apply_transition i to op t q else q)"
      by (auto simp: transition_tables_def in_set_where)
    then have "q = r" using assms(6) by (intro same) (auto simp: apply_transition_def split: if_splits)
    with q row transition(3) assms(4) same [OF row(1)] show ?thesis
      by (auto simp: apply_transition_def terminal_no_exit split: if_splits)
  qed (use assms(5,6) same in \<open>auto simp: create_tables_def delete_tables_def reserve_tables_def bind_tables_def
      release_tables_def sync_tables_def post_tables_def same_core_def new_instance_def assms(3)\<close>)
qed

lemma sample_terminal: "audit_ok (sample_tables\<lparr>instances := [sample_instance\<lparr>i_state := Failed\<rparr>],
     events := events sample_tables @ [sample_event 3 (Some Running) Failed]\<rparr>)" (is "audit_ok ?T")
  by (simp add: audit_ok_def events_of_def sample_defs sm_defs)

theorem terminal_absorbing_witness:
  "i_state (hd (instances (release_tables (\<lambda>q. s_instance q = Some 5) (sample_tables\<lparr>instances := [sample_instance\<lparr>i_state := Failed\<rparr>],
     events := events sample_tables @ [sample_event 3 (Some Running) Failed]\<rparr>)))) = Failed"
  using terminal_absorbing [OF db_step.released sample_terminal, of "sample_instance\<lparr>i_state := Failed\<rparr>"]
  by (auto simp: IsTerminal_def sample_instance_def release_tables_def)

lemma proper_events_bound:
  "event_path (Some a) es (Some b) \<Longrightarrow>
     length (filter (\<lambda>e. e_from e \<noteq> Some (e_to e)) es) + state_rank b \<le> state_rank a"
proof (induction es arbitrary: a)
  case Nil
  then show ?case by simp
next
  case (Cons e es)
  then have p: "event_path (Some (e_to e)) es (Some b)" "e_from e = Some a" "CanTransition a (e_to e)" by auto
  from Cons.IH [OF p(1)] p(2,3) transition_decreases_rank [of a "e_to e"] show ?case by auto
qed

text \<open>The life of an instance is finite: its audit trail, whatever the order in which reports,
  deletions and sweeps arrive, holds at most five events that change the state (the creation and
  four transitions), the rest being idempotent repeats.\<close>

theorem lifecycle_bounded:
  assumes "audit_ok T" and "r \<in> set (instances T)"
  shows "length (filter (\<lambda>e. e_from e \<noteq> Some (e_to e)) (events_of (i_id r) T)) \<le> 5"
proof -
  from assms have p: "event_path None (events_of (i_id r) T) (Some (i_state r))" by (simp add: audit_ok_def)
  then obtain e es where e: "events_of (i_id r) T = e # es" by (cases "events_of (i_id r) T") auto
  with p have "event_path (Some Pending) es (Some (i_state r))" by auto
  from proper_events_bound [OF this] show ?thesis by (simp add: e)
qed

theorem lifecycle_bounded_witness:
  "length (filter (\<lambda>e. e_from e \<noteq> Some (e_to e)) (events_of 5 sample_tables)) \<le> 5"
  using lifecycle_bounded [OF sample_audit_ok, of sample_instance] by (simp add: sample_defs)

section \<open>Slots\<close>

text \<open>A successful reservation is exact: it returns as many rows as asked for, all distinct,
  each a slot of that node and size that was free, marks exactly these rows reserved, touches
  nothing else, and prefers NVLink slots: no free slot left behind ranks before one that was
  taken.\<close>

theorem reserve_exact:
  assumes "Reserve nd g c s = (Inr rs, s')" and "slots_ok (tbl s)"
  shows "length rs = nat c \<and> distinct (map s_id rs) \<and>
    (\<forall>r\<in>set rs. \<exists>q\<in>set (slots (tbl s)). reservable nd g q \<and> r = q\<lparr>s_status := Reserved\<rparr>) \<and>
    tbl s' = (tbl s)\<lparr>slots := set_where (\<lambda>q. s_id q \<in> s_id ` set rs) (\<lambda>q. q\<lparr>s_status := Reserved\<rparr>) (slots (tbl s))\<rparr> \<and>
    (\<forall>q\<in>set (slots (tbl s)). reservable nd g q \<and> s_id q \<notin> s_id ` set rs \<longrightarrow>
       (\<forall>r\<in>set rs. slot_rank r \<le> slot_rank q))"
proof -
  let ?T = "tbl s" and ?p = "picked nd g (nat c) (slots (tbl s))"
  from assms(1) have rs: "rs = reserved_rows nd g c ?T" and t: "tbl s' = reserve_tables nd g c ?T"
    and c: "0 < c" "c \<le> int (length rs)"
    by (cases rule: Reserve_cases, auto simp: conn_err_def)+
  have d: "distinct (map s_id (slots ?T))" using slots_okD(1) [OF assms(2)] .
  have sub: "set ?p \<subseteq> set (filter (reservable nd g) (slots ?T))" by (rule picked_subset)
  have mem: "r \<in> set rs \<longleftrightarrow> (\<exists>q\<in>set ?p. r = q\<lparr>s_status := Reserved\<rparr>)" for r
  proof -
    have "q \<in> set (slots ?T) \<and> s_id q \<in> s_id ` set ?p \<longleftrightarrow> q \<in> set ?p" for q
      using picked_id_iff [OF d, of q nd g "nat c"] picked_in by blast
    then have "set (filter (\<lambda>q. s_id q \<in> s_id ` set ?p) (slots ?T)) = set ?p" by auto
    then show ?thesis unfolding rs reserved_rows_def set_map by auto
  qed
  have ids: "s_id ` set rs = s_id ` set ?p"
  proof -
    have "set rs = (\<lambda>q. q\<lparr>s_status := Reserved\<rparr>) ` set ?p" using mem by blast
    then show ?thesis by (simp add: image_image)
  qed
  have rank: "slot_rank (q\<lparr>s_status := Reserved\<rparr>) = slot_rank q" for q by (simp add: slot_rank_def)
  show ?thesis
  proof (intro conjI ballI impI)
    show "length rs = nat c" using c length_reserved_rows [OF d, of nd g c] rs by simp
    show "distinct (map s_id rs)"
      unfolding rs reserved_rows_def by (simp add: comp_def distinct_map_filter' [OF d])
    show "\<exists>q\<in>set (slots ?T). reservable nd g q \<and> r = q\<lparr>s_status := Reserved\<rparr>" if "r \<in> set rs" for r
      using that mem sub by auto
    show "tbl s' = ?T\<lparr>slots := set_where (\<lambda>q. s_id q \<in> s_id ` set rs) (\<lambda>q. q\<lparr>s_status := Reserved\<rparr>) (slots ?T)\<rparr>"
      using t ids by (simp add: reserve_tables_def)
    show "slot_rank r \<le> slot_rank q"
      if qr: "q \<in> set (slots ?T)" "reservable nd g q \<and> s_id q \<notin> s_id ` set rs" "r \<in> set rs" for q r
    proof -
      have "q \<notin> set ?p" using qr(2) ids by auto
      moreover obtain p where "p \<in> set ?p" "r = p\<lparr>s_status := Reserved\<rparr>" using qr(3) mem by auto
      ultimately show ?thesis
        using qr(1,2) picked_minimal [of p nd g "nat c" "slots ?T" q] by (simp add: rank)
    qed
  qed
qed

lemma sample_reserve:
  "fst (Reserve 1 1 1 (sample_pg [])) = Inr [sample_slot 11 1 Reserved None]"
  by (simp add: Reserve_def in_tx_def stmt_fine sel_fine dml_fine action_defs LockNodeForReservation_def
      ReserveFreeSlots_def picked_def reservable_def slot_rank_def Let_def pop_fault_def sample_defs)

theorem reserve_exact_witness:
  "\<exists>rs s'. Reserve 1 1 1 (sample_pg []) = (Inr rs, s') \<and> length rs = 1 \<and>
     (\<forall>r\<in>set rs. \<exists>q\<in>set (slots sample_tables). reservable 1 1 q \<and> r = q\<lparr>s_status := Reserved\<rparr>)"
proof -
  have t: "tbl (sample_pg []) = sample_tables" by (simp add: sample_pg_def)
  obtain s' where e: "Reserve 1 1 1 (sample_pg []) = (Inr [sample_slot 11 1 Reserved None], s')"
    using sample_reserve by (cases "Reserve 1 1 1 (sample_pg [])") auto
  show ?thesis using reserve_exact [OF e] sample_slots_ok e by (auto simp: t)
qed

end
