(* ===== verification/InstanceProps.thy ===== *)
theory InstanceProps
  imports InstanceApi StoreProps External
begin

text \<open>
  Properties of the instance endpoints: creation either hands the caller an instance whose slots are
  bound, or gives every slot back; access control; deletion; and the helpers that assemble what is
  sent to an agent.
\<close>

section \<open>Runs without database faults\<close>

lemmas statement_defs = CreateInstance_def InsertInstanceEvent_def GetInstance_def UpdateInstanceState_def
  BindSlotToInstance_def ReleaseReservedSlots_def ReleaseSlotsForInstance_def LockNodeForReservation_def
  ReserveFreeSlots_def DeleteInstance_def

lemma calm_statements [keeps_rules]:
  "keeps (calm t) (CreateInstance a)" "keeps (calm t) (InsertInstanceEvent i fr to reason meta)"
  "keeps (calm t) (GetInstance i)" "keeps (calm t) (UpdateInstanceState i to er ip)"
  "keeps (calm t) (BindSlotToInstance sid i)" "keeps (calm t) (ReleaseReservedSlots ids)"
  "keeps (calm t) (ReleaseSlotsForInstance i)" "keeps (calm t) (LockNodeForReservation nd)"
  "keeps (calm t) (ReserveFreeSlots nd g c)" "keeps (calm t) (DeleteInstance i)"
  unfolding statement_defs by (rule keeps_rules)+

lemma calm_repo [keeps_rules]:
  "keeps (calm t) (Repo_Create a)" "keeps (calm t) (BindToInstance res i)" "keeps (calm t) (ReleaseReserved res)"
  "keeps (calm t) (ReleaseForInstance i)" "keeps (calm t) (Reserve nd g c)" "keeps (calm t) (Transition i to op)"
  unfolding Repo_Create_def BindToInstance_def bind_one_def ReleaseReserved_def ReleaseForInstance_def Reserve_def
    Transition_def
  by (intro keeps_rules)+

lemma Repo_Create_calm:
  assumes c: "calm t s" and run: "Repo_Create a s = (r, s')"
  shows "calm t s'"
    and "(\<exists>e. r = Inl e) \<and> tbl s' = tbl s \<or>
     (\<exists>u n. (\<forall>q\<in>set (instances (tbl s)). i_id q \<noteq> u) \<and> r = Inr (new_instance u t a) \<and>
        tbl s' = create_tables u n a t (tbl s))"
proof -
  show "calm t s'" by (rule keepsD_eq [OF calm_repo(1) c run])
  have inl: "tbl s' = tbl s" if "r = Inl e" for e
    by (rule in_tx_calm_Inl [OF c _ run [unfolded Repo_Create_def that]]) (intro keeps_rules)
  from run show "(\<exists>e. r = Inl e) \<and> tbl s' = tbl s \<or>
     (\<exists>u n. (\<forall>q\<in>set (instances (tbl s)). i_id q \<noteq> u) \<and> r = Inr (new_instance u t a) \<and>
        tbl s' = create_tables u n a t (tbl s))"
  proof (cases rule: Repo_Create_cases)
    case (committed u n)
    with inl c show ?thesis by (cases r) (auto simp: calm_def create_tables_def)
  qed (use inl in blast)
qed

lemma BindToInstance_calm:
  assumes c: "calm t s" and run: "BindToInstance res i s = (r, s')"
  shows "calm t s'"
    and "(\<exists>e. r = Inl e) \<and> tbl s' = tbl s \<or> r = Inr () \<and>
      tbl s' = (tbl s)\<lparr>slots := set_where (\<lambda>q. s_id q \<in> s_id ` set res \<and> s_status q = Reserved)
         (\<lambda>q. q\<lparr>s_status := InUse, s_instance := Some i\<rparr>) (slots (tbl s))\<rparr>"
proof -
  show "calm t s'" by (rule keepsD_eq [OF calm_repo(2) c run])
  have inl: "tbl s' = tbl s" if "r = Inl e" for e
    by (rule in_tx_calm_Inl [OF c _ run [unfolded BindToInstance_def bind_one_def that]]) (intro keeps_rules)
  from run show "(\<exists>e. r = Inl e) \<and> tbl s' = tbl s \<or> r = Inr () \<and>
      tbl s' = (tbl s)\<lparr>slots := set_where (\<lambda>q. s_id q \<in> s_id ` set res \<and> s_status q = Reserved)
         (\<lambda>q. q\<lparr>s_status := InUse, s_instance := Some i\<rparr>) (slots (tbl s))\<rparr>"
    by (cases rule: BindToInstance_cases) (use inl in auto)
qed

lemma release_calm:
  assumes "calm t s"
  shows "tbl (snd (ReleaseForInstance i s)) = release_tables (\<lambda>q. s_instance q = Some i) (tbl s)"
    and "tbl (snd (ReleaseReserved res s)) =
      release_tables (\<lambda>q. s_id q \<in> s_id ` set res \<and> s_status q = Reserved) (tbl s)"
  using assms
  by (auto simp: calm_def ReleaseForInstance_def ReleaseSlotsForInstance_def ReleaseReserved_def
      ReleaseReservedSlots_def dml_fine release_tables_def IDs_def bnd_def ret_def Let_def set_where_def)

section \<open>Slots that are reserved and given back\<close>

lemma picked_free:
  assumes "slots_ok T" and "q \<in> set (slots T)" and "s_id q \<in> s_id ` set (picked nd g n (slots T))"
  shows "s_status q = Free \<and> s_instance q = None"
proof -
  have "q \<in> set (picked nd g n (slots T))" using picked_id_iff [OF slots_okD(1) [OF assms(1)] assms(2)] assms(3) by simp
  then have "s_status q = Free" using picked_in by (auto simp: reservable_def)
  with slots_okD(3) [OF assms(1,2)] show ?thesis by (auto simp: slot_ok_def split: option.splits)
qed

lemma reserved_ids: "s_id ` set (reserved_rows nd g c T) = s_id ` set (picked nd g (nat c) (slots T))"
proof -
  have "set (picked nd g (nat c) (slots T)) \<subseteq> set (slots T)" using picked_in by blast
  then show ?thesis by (auto simp: reserved_rows_def image_image)
qed

lemma give_back:
  assumes "slots_ok T"
  shows "set_where (\<lambda>q. s_id q \<in> s_id ` set (reserved_rows nd g c T) \<and> s_status q = Reserved)
      (\<lambda>q. q\<lparr>s_status := Free, s_instance := None\<rparr>) (slots (reserve_tables nd g c T)) = slots T"
  unfolding reserve_tables_def reserved_ids set_where_def
  using picked_free [OF assms] by (auto intro!: map_idI)

lemma bound_rows:
  "set_where (\<lambda>q. s_id q \<in> s_id ` set (reserved_rows nd g c T) \<and> s_status q = Reserved)
      (\<lambda>q. q\<lparr>s_status := InUse, s_instance := Some u\<rparr>) (slots (reserve_tables nd g c T)) =
   set_where (\<lambda>q. s_id q \<in> s_id ` set (reserved_rows nd g c T))
      (\<lambda>q. q\<lparr>s_status := InUse, s_instance := Some u\<rparr>) (slots T)"
  unfolding reserve_tables_def reserved_ids set_where_def by auto

lemma take_back:
  assumes "slots_ok T" and "\<forall>q\<in>set (instances T). i_id q \<noteq> u"
  shows "set_where (\<lambda>q. s_instance q = Some u) (\<lambda>q. q\<lparr>s_status := Free, s_instance := None\<rparr>)
     (set_where (\<lambda>q. s_id q \<in> s_id ` set (reserved_rows nd g c T))
      (\<lambda>q. q\<lparr>s_status := InUse, s_instance := Some u\<rparr>) (slots T)) = slots T"
proof -
  have "s_instance q \<noteq> Some u" if "q \<in> set (slots T)" for q
    using slots_okD(3) [OF assms(1) that] assms(2) by (auto simp: slot_ok_def)
  then show ?thesis
    unfolding reserved_ids set_where_def using picked_free [OF assms(1)] by (auto intro!: map_idI)
qed

section \<open>Creation\<close>

text \<open>What \<open>reserveIfNeeded\<close> leaves behind when it goes on: the reservation the request asked for.\<close>

definition holds_slots :: "createInstanceRequest \<Rightarrow> Node \<Rightarrow> tables \<Rightarrow> Reservation \<Rightarrow> tables \<Rightarrow> bool" where
  "holds_slots req node T res T' \<longleftrightarrow>
     (if cr_gpus req = 0 then res = [] \<and> T' = T
      else res = reserved_rows (n_id node) (cr_gpus req) 1 T \<and> length res = 1 \<and>
        T' = reserve_tables (n_id node) (cr_gpus req) 1 T)"

definition refused :: "response \<Rightarrow> bool" where
  "refused resp \<longleftrightarrow> (\<exists>st k m. resp = HError st k m)"

lemma length_reserved_1: "slots_ok T \<Longrightarrow> length (reserved_rows nd g 1 T) \<le> 1"
  using length_reserved_rows [OF slots_okD(1)] by fastforce

lemma reserveIfNeeded_calm:
  assumes c: "calm t s" and ok: "slots_ok (tbl s)" and run: "reserveIfNeeded h X req node s = (v, s1)"
  shows "calm t s1"
    and "(\<exists>resp. v = Inl resp \<and> refused resp \<and> tbl s1 = tbl s) \<or>
      (\<exists>res pci. v = Inr (res, pci) \<and> holds_slots req node (tbl s) res (tbl s1))"
proof -
  have "keeps (calm t) (reserveIfNeeded h X req node)" unfolding reserveIfNeeded_def by (intro keeps_rules)
  from keepsD_eq [OF this c run] show "calm t s1" .
  have f: "faults s = []" using c by (simp add: calm_def)
  let ?rs = "reserved_rows (n_id node) (cr_gpus req) 1 (tbl s)"
  let ?s = "s\<lparr>ctr := Suc (ctr s), tbl := reserve_tables (n_id node) (cr_gpus req) 1 (tbl s)\<rparr>"
  show "(\<exists>resp. v = Inl resp \<and> refused resp \<and> tbl s1 = tbl s) \<or>
      (\<exists>res pci. v = Inr (res, pci) \<and> holds_slots req node (tbl s) res (tbl s1))"
  proof (cases "cr_gpus req = 0 \<or> \<not> ih_slots h \<or> int (length ?rs) < 1")
    case True
    with run show ?thesis
      by (auto simp: reserveIfNeeded_def reply_def attempt_def Reserve_fine [OF f] holds_slots_def refused_def
          writeError_def split: if_splits)
  next
    case False
    then have R: "Reserve (n_id node) (cr_gpus req) 1 s = (Inr ?rs, ?s)" by (simp add: Reserve_fine [OF f])
    have len: "length ?rs = 1"
      using False length_reserved_1 [OF ok, of "n_id node" "cr_gpus req"] by (cases "?rs") auto
    have c': "calm t ?s" using c by (simp add: calm_def)
    have undone: "tbl (snd (ReleaseReserved ?rs ?s)) = tbl s"
      using release_calm(2) [OF c', of ?rs] give_back [OF ok, of "n_id node" "cr_gpus req" 1]
      by (simp add: release_tables_def) (simp add: reserve_tables_def)
    show ?thesis
    proof (cases "resolvePassthroughPCI X (n_topology node) ?rs")
      case (Inl e)
      with run False R undone show ?thesis
        by (auto simp: reserveIfNeeded_def attempt_def reply_def refused_def writeError_def split: prod.splits)
    next
      case (Inr pci)
      with run False R len show ?thesis
        by (auto simp: reserveIfNeeded_def attempt_def reply_def holds_slots_def)
    qed
  qed
qed

text \<open>The devices that go with a reservation.\<close>

lemma reserveIfNeeded_pci:
  "reserveIfNeeded h X req node s = (Inr (res, pci), s1) \<Longrightarrow>
     cr_gpus req = 0 \<and> pci = [] \<or> resolvePassthroughPCI X (n_topology node) res = Inr pci"
  by (auto simp: reserveIfNeeded_def attempt_def reply_def split: if_splits sum.splits prod.splits)

lemma keeps_calm_Send [keeps_rules]: "keeps (calm t) (Send n m)"
  by (auto simp: keeps_def calm_def Send_def Let_def set_chan_def pop_wait_def split: option.split list.split wait.split)

text \<open>The database does not touch the registry or the channels.\<close>

definition same_agents :: "'z world_scheme \<Rightarrow> 'z world_scheme \<Rightarrow> bool" where
  "same_agents s0 s \<longleftrightarrow> reg s = reg s0 \<and> chans s = chans s0"

lemma same_agents_refl [simp]: "same_agents s s"
  by (simp add: same_agents_def)

lemma agents_after: "keeps (same_agents s) m \<Longrightarrow> m s = (r, s') \<Longrightarrow> same_agents s s'"
  by (drule keepsD_eq [where I = "same_agents s" and m = m, rotated 2]) simp_all

lemma same_agents_trans: "same_agents s0 s1 \<Longrightarrow> same_agents s1 s \<Longrightarrow> same_agents s0 s"
  by (simp add: same_agents_def)

lemma keeps_agents_stmt [keeps_rules]: "keeps (same_agents s0) q \<Longrightarrow> keeps (same_agents s0) (stmt q)"
  by (auto simp: keeps_def same_agents_def stmt_def pop_fault_def conn_err_def Let_def split: list.split fault.split prod.split)

lemma keeps_agents_sel [keeps_rules]: "keeps (same_agents s0) (sel q)" "keeps (same_agents s0) (dml p)"
  unfolding sel_def dml_def
  by (intro keeps_agents_stmt; auto simp: keeps_def same_agents_def Let_def split: sum.split)+

lemma keeps_agents_in_tx [keeps_rules]:
  assumes "keeps (same_agents s0) f"
  shows "keeps (same_agents s0) (in_tx f)"
proof (rule keepsI)
  fix s :: "'a world_scheme" assume s: "same_agents s0 s"
  obtain b s1 where b: "stmt (ret ()) s = (b, s1)" by fastforce
  have s1: "same_agents s0 s1" by (rule keepsD_eq [OF keeps_agents_stmt [OF keeps_ret] s b])
  obtain r s2 where r: "f s1 = (r, s2)" by fastforce
  have "same_agents s0 s2" by (rule keepsD_eq [OF assms s1 r])
  with b r s1 show "same_agents s0 (snd (in_tx f s))"
    by (auto simp: in_tx_def same_agents_def pop_fault_def split: sum.split list.split fault.split)
qed

lemma keeps_agents_creation [keeps_rules]:
  "keeps (same_agents s0) (Repo_Create a)" "keeps (same_agents s0) (BindToInstance res i)"
  "keeps (same_agents s0) (reserveIfNeeded h X req node)"
  unfolding Repo_Create_def BindToInstance_def bind_one_def reserveIfNeeded_def Reserve_def ReleaseReserved_def statement_defs
  by (intro keeps_rules)+

lemma markFailed_slots: "slots (tbl (snd (markFailed i reason msg s))) = slots (tbl s)"
proof -
  obtain r s' where r: "Transition i Failed (opts reason msg) s = (r, s')" by fastforce
  then have "slots (tbl s') = slots (tbl s)"
    by (cases rule: Transition_cases) (auto simp: transition_tables_def)
  with r show ?thesis by (simp add: markFailed_def attempt_def reply_def)
qed

text \<open>From the inserted row on: the slots of the reservation are bound and the agent is told, or they
  are given back.\<close>

definition bound_slots :: "Reservation \<Rightarrow> uuid \<Rightarrow> GpuSlot list \<Rightarrow> GpuSlot list" where
  "bound_slots res u = set_where (\<lambda>q. s_id q \<in> s_id ` set res) (\<lambda>q. q\<lparr>s_status := InUse, s_instance := Some u\<rparr>)"

lemma bind_stage:
  assumes c: "calm t s" and ok: "slots_ok T" and g: "0 \<le> cr_gpus req"
    and held: "holds_slots req node T res T1" and slots: "slots (tbl s) = slots T1"
    and run: "(if cr_gpus req > 0 then BindToInstance res u else ret ()) s = (b, s')"
  shows "calm t s'"
    and "(\<exists>e. b = Inl e) \<and> 0 < cr_gpus req \<and> tbl s' = tbl s \<or>
         b = Inr () \<and> tbl s' = (tbl s)\<lparr>slots := bound_slots res u (slots T)\<rparr>"
proof -
  have "keeps (calm t) (if cr_gpus req > 0 then BindToInstance res u else ret ())" by (intro keeps_rules)
  from keepsD_eq [OF this c run] show "calm t s'" .
  show "(\<exists>e. b = Inl e) \<and> 0 < cr_gpus req \<and> tbl s' = tbl s \<or>
         b = Inr () \<and> tbl s' = (tbl s)\<lparr>slots := bound_slots res u (slots T)\<rparr>"
  proof (cases "cr_gpus req > 0")
    case True
    with run have "BindToInstance res u s = (b, s')" by simp
    from BindToInstance_calm(2) [OF c this] True held slots show ?thesis
      by (auto simp: holds_slots_def bound_slots_def bound_rows)
  next
    case False
    with g have "cr_gpus req = 0" by simp
    with run held slots show ?thesis
      by (auto simp: ret_def holds_slots_def bound_slots_def set_where_def)
  qed
qed

text \<open>The steps of \<open>runCreate\<close> after the row is inserted.\<close>

lemma give_back_create:
  assumes c: "calm t s" and ok: "slots_ok T" and g: "0 \<le> cr_gpus req"
    and held: "holds_slots req node T res T1" and slots: "slots (tbl s) = slots T1"
  shows "slots (tbl (snd (ReleaseReserved res s))) = slots T"
proof -
  have "slots (tbl (snd (ReleaseReserved res s))) = set_where (\<lambda>q. s_id q \<in> s_id ` set res \<and> s_status q = Reserved)
      (\<lambda>q. q\<lparr>s_status := Free, s_instance := None\<rparr>) (slots T1)"
    using release_calm(2) [OF c] slots by (simp add: release_tables_def)
  with held give_back [OF ok] show ?thesis
    by (auto simp: holds_slots_def set_where_def split: if_splits)
qed

lemma take_back_create:
  assumes c: "calm t s" and ok: "slots_ok T" and new: "\<forall>q\<in>set (instances T). i_id q \<noteq> u"
    and held: "holds_slots req node T res T1" and slots: "slots (tbl s) = bound_slots res u (slots T)"
  shows "slots (tbl (snd (ReleaseForInstance u s))) = slots T"
proof -
  have "slots (tbl (snd (ReleaseForInstance u s))) = set_where (\<lambda>q. s_instance q = Some u)
      (\<lambda>q. q\<lparr>s_status := Free, s_instance := None\<rparr>) (bound_slots res u (slots T))"
    using release_calm(1) [OF c] slots by (simp add: release_tables_def)
  moreover have "s_instance q \<noteq> Some u" if "q \<in> set (slots T)" for q
    using slots_okD(3) [OF ok that] new by (auto simp: slot_ok_def)
  ultimately show ?thesis
    using held take_back [OF ok new]
    by (auto simp: holds_slots_def bound_slots_def set_where_def intro!: map_idI split: if_splits)
qed

lemma snd_attempt_reply: "snd (attempt m (\<lambda>_. reply x) s) = snd (m s)"
  by (simp add: attempt_def reply_def split: prod.split)

lemma attempt_fst_reply: "attempt m (\<lambda>_. reply x) s = (x, snd (m s))"
  by (simp add: attempt_def reply_def split: prod.split)

lemma when_gpu_slots:
  assumes "0 < cr_gpus req \<Longrightarrow> slots (tbl (snd (m s))) = S" and "\<not> 0 < cr_gpus req \<Longrightarrow> slots (tbl s) = S"
  shows "slots (tbl (snd (when_gpu req (attempt m (\<lambda>_. reply ())) s))) = S"
  using assms by (simp add: when_gpu_def snd_attempt_reply reply_def)

definition created_with :: "createInstanceRequest \<Rightarrow> Node \<Rightarrow> uuid option \<Rightarrow> tables \<Rightarrow> uuid \<Rightarrow> Reservation \<Rightarrow> time \<Rightarrow> tables \<Rightarrow> bool" where
  "created_with req node owner T u res t T' \<longleftrightarrow>
     (\<forall>q\<in>set (instances T). i_id q \<noteq> u) \<and>
     instances T' = instances T @ [new_instance u t (create_params req node owner res)] \<and>
     slots T' = bound_slots res u (slots T) \<and>
     (if cr_gpus req = 0 then res = [] else res = reserved_rows (n_id node) (cr_gpus req) 1 T \<and> length res = 1)"

lemma dispatch_stage:
  assumes c: "calm t s" and ok: "slots_ok T" and g: "0 \<le> cr_gpus req" and new: "\<forall>q\<in>set (instances T). i_id q \<noteq> i_id inst"
    and held: "holds_slots req node T res T1" and slots: "slots (tbl s) = bound_slots res (i_id inst) (slots T)"
    and run: "attempt (dispatchCreate nd inst res pci) (\<lambda>d. case d of
        Inl e \<Rightarrow> if is_panic e then reply (HPanic (err_text e))
          else attempt (when_gpu req (attempt (ReleaseForInstance (i_id inst)) (\<lambda>_. reply ()))) (\<lambda>_.
               attempt (markFailed (i_id inst) ''dispatch_failed'' (err_text e)) (\<lambda>_.
               reply (writeError 502 ''dispatch_failed'' (err_text e))))
      | Inr _ \<Rightarrow> reply (writeJSON 201 (JInstance (toInstanceView inst)))) s = (resp, s')"
  shows "refused resp \<and> slots (tbl s') = slots T \<or>
    resp = writeJSON 201 (JInstance (toInstanceView inst)) \<and> tbl s' = tbl s \<and>
      Send nd (create_message inst res pci) s = (Inr (), s') \<or>
    (\<exists>m. resp = HPanic m) \<and> tbl s' = tbl s"
proof -
  obtain d s1 where d: "Send nd (create_message inst res pci) s = (d, s1)" by fastforce
  have t1: "tbl s1 = tbl s" and c1: "calm t s1"
    using Send_frame [OF d] keepsD_eq [OF keeps_calm_Send c d] by auto
  show ?thesis
  proof (cases d)
    case (Inr x)
    with run d t1 show ?thesis by (auto simp: attempt_def dispatchCreate_def reply_def)
  next
    case (Inl e)
    show ?thesis
    proof (cases "is_panic e")
      case True
      with run d t1 Inl show ?thesis by (auto simp: attempt_def dispatchCreate_def reply_def)
    next
      case False
      let ?s2 = "snd (when_gpu req (attempt (ReleaseForInstance (i_id inst)) (\<lambda>_. reply ())) s1)"
      have "slots (tbl s1) = slots T" if "\<not> 0 < cr_gpus req"
        using that g held slots t1 by (auto simp: holds_slots_def bound_slots_def set_where_def)
      moreover have "slots (tbl (snd (ReleaseForInstance (i_id inst) s1))) = slots T"
        using take_back_create [OF c1 ok new held] slots t1 by simp
      ultimately have "slots (tbl ?s2) = slots T" by (rule when_gpu_slots [rotated]) auto
      moreover from run d Inl False have "s' = snd (markFailed (i_id inst) ''dispatch_failed'' (err_text e) ?s2)"
          and "refused resp"
        by (auto simp: attempt_def dispatchCreate_def reply_def refused_def writeError_def split: prod.splits)
      ultimately show ?thesis by (simp add: markFailed_slots)
    qed
  qed
qed

text \<open>What \<open>runCreate\<close> does once the row is inserted, and what each way to end leaves.\<close>

definition after_create ::
  "createInstanceRequest \<Rightarrow> uuid \<Rightarrow> Instance \<Rightarrow> Reservation \<Rightarrow> string list \<Rightarrow> 'z world_scheme \<Rightarrow> response \<times> 'z world_scheme" where
  "after_create req nd inst res pci =
     attempt (if cr_gpus req > 0 then BindToInstance res (i_id inst) else ret ()) (\<lambda>b. case b of
       Inl e \<Rightarrow>
         attempt (ReleaseReserved res) (\<lambda>_.
         attempt (markFailed (i_id inst) ''bind_failed'' (err_text e)) (\<lambda>_.
         reply (writeError 500 ''bind_failed'' (err_text e))))
     | Inr _ \<Rightarrow> attempt (dispatchCreate nd inst res pci) (\<lambda>d. case d of
           Inl e \<Rightarrow> if is_panic e then reply (HPanic (err_text e))
             else attempt (when_gpu req (attempt (ReleaseForInstance (i_id inst)) (\<lambda>_. reply ()))) (\<lambda>_.
                  attempt (markFailed (i_id inst) ''dispatch_failed'' (err_text e)) (\<lambda>_.
                  reply (writeError 502 ''dispatch_failed'' (err_text e))))
         | Inr _ \<Rightarrow> reply (writeJSON 201 (JInstance (toInstanceView inst)))))"

lemma made_stage:
  assumes c: "calm t s2" and ok: "slots_ok T" and g: "0 \<le> cr_gpus req" and held: "holds_slots req node T res T1"
    and new: "\<forall>q\<in>set (instances T). i_id q \<noteq> u" and inst: "inst = new_instance u t (create_params req node owner res)"
    and made: "tbl s2 = create_tables u n (create_params req node owner res) t T1"
    and run: "after_create req (n_id node) inst res pci s2 = (resp, s')"
  shows "refused resp \<and> slots (tbl s') = slots T \<or>
    (\<exists>s1. created_with req node owner T u res t (tbl s') \<and> resp = writeJSON 201 (JInstance (toInstanceView inst)) \<and>
       same_agents s2 s1 \<and> Send (n_id node) (create_message inst res pci) s1 = (Inr (), s')) \<or>
    (\<exists>m. resp = HPanic m \<and> created_with req node owner T u res t (tbl s'))"
proof -
  have id: "i_id inst = u" by (simp add: inst new_instance_def)
  obtain b s3 where b': "(if cr_gpus req > 0 then BindToInstance res (i_id inst) else ret ()) s2 = (b, s3)" by fastforce
  then have b: "(if cr_gpus req > 0 then BindToInstance res u else ret ()) s2 = (b, s3)" by (simp only: id)
  have sl: "slots (tbl s2) = slots T1" using made by (simp add: create_tables_def)
  note c3 = bind_stage(1) [OF c ok g held sl b]
  have "keeps (same_agents s2) (if cr_gpus req > 0 then BindToInstance res u else ret ())" by (intro keeps_rules)
  then have a3: "same_agents s2 s3" using b by (rule agents_after)
  from bind_stage(2) [OF c ok g held sl b] consider
    (unbound) e where "b = Inl e" "tbl s3 = tbl s2"
    | (bound) "b = Inr ()" "tbl s3 = (tbl s2)\<lparr>slots := bound_slots res u (slots T)\<rparr>" by auto
  then show ?thesis
  proof cases
    case unbound
    have "slots (tbl (snd (ReleaseReserved res s3))) = slots T"
      using give_back_create [OF c3 ok g held] unbound(2) sl by simp
    moreover have "s' = snd (markFailed u ''bind_failed'' (err_text e) (snd (ReleaseReserved res s3)))" "refused resp"
      using run b' unbound(1)
      by (auto simp: id after_create_def attempt_def reply_def refused_def writeError_def split: prod.splits)
    ultimately show ?thesis by (simp add: markFailed_slots)
  next
    case bound
    have cw: "created_with req node owner T u res t (tbl s3)"
      using bound(2) new made held inst
      by (auto simp: created_with_def create_tables_def holds_slots_def reserve_tables_def split: if_splits)
    from run b' bound(1) have "attempt (dispatchCreate (n_id node) inst res pci) (\<lambda>d. case d of
        Inl e \<Rightarrow> if is_panic e then reply (HPanic (err_text e))
          else attempt (when_gpu req (attempt (ReleaseForInstance (i_id inst)) (\<lambda>_. reply ()))) (\<lambda>_.
               attempt (markFailed (i_id inst) ''dispatch_failed'' (err_text e)) (\<lambda>_.
               reply (writeError 502 ''dispatch_failed'' (err_text e))))
      | Inr _ \<Rightarrow> reply (writeJSON 201 (JInstance (toInstanceView inst)))) s3 = (resp, s')"
      by (simp add: id after_create_def attempt_def)
    from dispatch_stage [OF c3 ok g _ held _ this] new id bound(2) cw a3 show ?thesis by auto
  qed
qed

lemma create_outcomes:
  assumes "calm t s" and "slots_ok (tbl s)" and "0 \<le> cr_gpus req"
    and "runCreate h X req node owner s = (resp, s')"
  shows "refused resp \<and> slots (tbl s') = slots (tbl s) \<or>
    (\<exists>u res pci s1. created_with req node owner (tbl s) u res t (tbl s') \<and>
       resp = writeJSON 201 (JInstance (toInstanceView (new_instance u t (create_params req node owner res)))) \<and>
       same_agents s s1 \<and> (cr_gpus req = 0 \<and> pci = [] \<or> resolvePassthroughPCI X (n_topology node) res = Inr pci) \<and>
       Send (n_id node) (create_message (new_instance u t (create_params req node owner res)) res pci) s1 = (Inr (), s')) \<or>
    (\<exists>m u res. resp = HPanic m \<and> created_with req node owner (tbl s) u res t (tbl s'))"
proof -
  obtain v s1 where v: "reserveIfNeeded h X req node s = (v, s1)" by fastforce
  note c1 = reserveIfNeeded_calm(1) [OF assms(1,2) v]
  from reserveIfNeeded_calm(2) [OF assms(1,2) v] consider
    (refused) r where "v = Inl r" "refused r" "tbl s1 = tbl s"
    | (held) res pci where "v = Inr (res, pci)" "holds_slots req node (tbl s) res (tbl s1)" by blast
  then show ?thesis
  proof cases
    case refused
    with assms(4) v show ?thesis by (auto simp: runCreate_def attempt_def reply_def)
  next
    case (held res pci)
    let ?a = "create_params req node owner res"
    obtain cr s2 where cr: "Repo_Create ?a s1 = (cr, s2)" by fastforce
    note c2 = Repo_Create_calm(1) [OF c1 cr]
    have a2: "same_agents s s2"
      by (rule same_agents_trans [OF agents_after [OF keeps_agents_creation(3) v] agents_after [OF keeps_agents_creation(1) cr]])
    have inst1: "instances (tbl s1) = instances (tbl s)"
      using held(2) by (auto simp: holds_slots_def reserve_tables_def split: if_splits)
    from Repo_Create_calm(2) [OF c1 cr] consider
      (failed) e where "cr = Inl e" "tbl s2 = tbl s1"
      | (made) u n where "\<forall>q\<in>set (instances (tbl s)). i_id q \<noteq> u" "cr = Inr (new_instance u t ?a)"
          "tbl s2 = create_tables u n ?a t (tbl s1)"
      using inst1 by auto
    then show ?thesis
    proof cases
      case failed
      have "slots (tbl (snd (when_gpu req (attempt (ReleaseReserved res) (\<lambda>_. reply ())) s2))) = slots (tbl s)"
        using give_back_create [OF c2 assms(2,3) held(2)] failed(2) held(2) assms(3)
        by (intro when_gpu_slots) (auto simp: holds_slots_def)
      with assms(4) v held(1) cr failed(1) show ?thesis
        by (auto simp: runCreate_def attempt_def reply_def refused_def writeError_def split: prod.splits)
    next
      case made
      have "after_create req (n_id node) (new_instance u t ?a) res pci s2 = (resp, s')"
        using assms(4) v held(1) cr made(2) by (simp add: runCreate_def after_create_def attempt_def)
      from made_stage [OF c2 assms(2,3) held(2) made(1) refl made(3) this] same_agents_trans [OF a2] reserveIfNeeded_pci [of h X req node s res pci s1] v held(1)
      show ?thesis by (simp only: simp_thms) blast
    qed
  qed
qed


definition sample_handlers :: InstanceHandlers where
  "sample_handlers = \<lparr>ih_slots = True, ih_extras = True, ih_balance = True, ih_team = True\<rparr>"

definition sample_request :: createInstanceRequest where
  "sample_request = \<lparr>cr_node = uuid_text 1, cr_name = ''vm2'', cr_memory = 512, cr_vcpus = 1, cr_gpus = 1,
     cr_pubkeys = [], cr_image = []\<rparr>"

lemma sample_world_slots_ok: "slots_ok (tbl (sample_world fs))"
  using sample_slots_ok by (simp add: sample_world_def)

lemma sample_create:
  "fst (runCreate sample_handlers sample_ext sample_request sample_node (Some 2) (sample_world [])) =
     writeError 500 ''resolve_pci'' ''node has no stored topology''"
proof -
  have f: "faults (sample_world []) = []" by (simp add: sample_world_def)
  have r: "\<not> int (length (reserved_rows 1 1 1 (tbl (sample_world [])))) < 1"
    by (simp add: reserved_rows_def picked_def reservable_def slot_rank_def sample_defs)
  have t: "n_topology sample_node = ''{}''" "n_id sample_node = 1" "cr_gpus sample_request = 1" "ih_slots sample_handlers"
    by (simp_all add: sample_node_def sample_request_def sample_handlers_def)
  show ?thesis
    using r by (simp add: runCreate_def reserveIfNeeded_def attempt_def reply_def t Reserve_fine [OF f]
        resolvePassthroughPCI_def split: prod.split)
qed


section \<open>Gates\<close>

text \<open>What \<open>validateCreate\<close> passes on is the row of the requested node, and it writes nothing.\<close>

lemma validateCreate_frame: "tbl (snd (validateCreate X body s)) = tbl s"
  using keepsD [OF keeps_validateCreate, of "\<lambda>T. T = tbl s" s X body] by (simp add: tinv_def)

lemma validateCreate_refused: "validateCreate X body s = (Inl resp, s') \<Longrightarrow> refused resp"
  by (auto simp: validateCreate_def reply_def attempt_def refused_def writeError_def
      split: body_in.splits sum.splits if_splits prod.splits)

lemma validateCreate_node:
  assumes "validateCreate X body s = (Inr (req, node), s')"
  obtains nd where "body = Decoded req" "uuid_Parse X (cr_node req) = Inr nd"
    "find (\<lambda>n. n_id n = nd) (nodes (tbl s)) = Some node"
proof -
  from assms obtain nd s1 where "body = Decoded req" "uuid_Parse X (cr_node req) = Inr nd" "NodeRepo_Get nd s = (Inr node, s1)"
    by (auto simp: validateCreate_def reply_def attempt_def split: body_in.splits sum.splits if_splits prod.splits)
  then show thesis
    by (intro that) (auto simp: NodeRepo_Get_def GetNode_def pick_def dest!: sel_Inr split: option.splits)
qed

lemma gates_frame:
  "tbl (snd (acl_gate h node owner s)) = tbl s" "tbl (snd (balance_gate h owner s)) = tbl s"
  using keepsD [OF keeps_gates(1), of "\<lambda>T. T = tbl s" s h node owner]
    keepsD [OF keeps_gates(2), of "\<lambda>T. T = tbl s" s h owner] by (simp_all add: tinv_def)

text \<open>Whether a user may place instances on a node.\<close>

definition may_use_node :: "uuid \<Rightarrow> Node \<Rightarrow> tables \<Rightarrow> bool" where
  "may_use_node owner node T \<longleftrightarrow> n_policy node \<noteq> ''owner_team'' \<or>
     (\<exists>team. n_team node = Some team \<and> (\<exists>m\<in>set (members T). mb_user m = owner \<and> mb_team m = team))"

lemma acl_gate_refuses:
  assumes "ih_team h" and "\<not> may_use_node owner node (tbl s)"
  shows "\<exists>resp. fst (acl_gate h node owner s) = Some resp \<and> refused resp"
proof (cases "n_team node")
  case None
  with assms show ?thesis by (auto simp: acl_gate_def may_use_node_def reply_def refused_def writeError_def)
next
  case (Some team)
  obtain r s1 where r: "IsUserInTeam owner team s = (r, s1)" by fastforce
  then have "r \<noteq> Inr True" using assms(2) Some
    by (auto simp: may_use_node_def IsUserInTeam_def dest!: sel_Inr)
  with r Some assms show ?thesis
    by (cases r) (auto simp: acl_gate_def may_use_node_def attempt_def reply_def refused_def writeError_def)
qed

lemma balance_gate_refuses:
  assumes "ih_balance h" and "cached_balance owner (tbl s) \<le> 0"
  shows "\<exists>resp. fst (balance_gate h owner s) = Some resp \<and> refused resp"
proof -
  obtain r s1 where r: "Balance owner s = (r, s1)" by fastforce
  have "b \<le> 0" if "r = Inr b" for b
  proof -
    obtain q s2 where q: "GetCredits owner s = (q, s2)" by fastforce
    show ?thesis
    proof (cases q)
      case (Inr c)
      with q have "find (\<lambda>c. c_user c = owner) (credits (tbl s)) = Some c"
        by (auto simp: GetCredits_def pick_def dest!: sel_Inr split: option.splits)
      with assms(2) r q Inr that show ?thesis by (simp add: Balance_def attempt_def ret_def cached_balance_def)
    next
      case (Inl e)
      with r q that show ?thesis by (auto simp: Balance_def attempt_def ret_def fail_def split: if_splits)
    qed
  qed
  with r assms(1) show ?thesis
    by (cases r) (auto simp: balance_gate_def attempt_def reply_def refused_def writeError_def)
qed

text \<open>C26. Access control on creation: whatever fails in between, a request of a user for a node that
  is reserved to a team the user does not belong to creates nothing and reserves nothing: it is
  refused and no table changed.\<close>

theorem create_respects_acl:
  assumes "ih_team h" and "uuid_Parse X (cr_node req) = Inr nd"
    and "find (\<lambda>n. n_id n = nd) (nodes (tbl s)) = Some node" and "\<not> may_use_node owner node (tbl s)"
    and "CreateForOwner h X (Decoded req) owner s = (resp, s')"
  shows "refused resp \<and> tbl s' = tbl s"
proof -
  obtain v s1 where v: "validateCreate X (Decoded req) s = (v, s1)" by fastforce
  have t1: "tbl s1 = tbl s" using validateCreate_frame [of X "Decoded req" s] v by simp
  show ?thesis
  proof (cases v)
    case (Inl r)
    with assms(5) v t1 validateCreate_refused show ?thesis by (auto simp: CreateForOwner_def attempt_def reply_def)
  next
    case (Inr p)
    obtain req' node' where p: "p = (req', node')" by fastforce
    from v Inr p have "validateCreate X (Decoded req) s = (Inr (req', node'), s1)" by simp
    then obtain nd' where "req' = req" "uuid_Parse X (cr_node req') = Inr nd'"
      "find (\<lambda>n. n_id n = nd') (nodes (tbl s)) = Some node'" by (elim validateCreate_node) auto
    with assms(2,3) have node: "node' = node" "req' = req" by auto
    obtain g s2 where g: "acl_gate h node owner s1 = (g, s2)" by fastforce
    from acl_gate_refuses [OF assms(1)] assms(4) t1 g obtain r where "g = Some r" "refused r"
      by (metis fst_conv)
    moreover have "tbl s2 = tbl s" using gates_frame(1) [of h node owner s1] g t1 by simp
    ultimately show ?thesis using assms(5) v Inr p node g
      by (auto simp: CreateForOwner_def attempt_def reply_def)
  qed
qed

definition team_world :: world where
  "team_world = (sample_world [])\<lparr>tbl := sample_tables\<lparr>nodes := [sample_node\<lparr>n_policy := ''owner_team'', n_team := Some 7\<rparr>]\<rparr>\<rparr>"

lemma sample_parse_1: "uuid_Parse sample_ext (cr_node sample_request) = Inr 1"
  by (simp add: sample_request_def sample_uuid_Parse upt_rec)

theorem create_respects_acl_witness:
  "tbl (snd (CreateForOwner sample_handlers sample_ext (Decoded sample_request) 2 team_world)) = tbl team_world"
proof -
  obtain resp s' where e: "CreateForOwner sample_handlers sample_ext (Decoded sample_request) 2 team_world = (resp, s')" by fastforce
  let ?n = "sample_node\<lparr>n_policy := ''owner_team'', n_team := Some 7\<rparr>"
  have f: "find (\<lambda>n. n_id n = 1) (nodes (tbl team_world)) = Some ?n" by (simp add: team_world_def sample_node_def)
  have m: "\<not> may_use_node 2 ?n (tbl team_world)" by (simp add: may_use_node_def team_world_def sample_defs)
  have h: "ih_team sample_handlers" by (simp add: sample_handlers_def)
  from create_respects_acl [OF h sample_parse_1 f m e] show ?thesis by (simp add: e)
qed

text \<open>Credit gate: whatever fails in between, a user whose balance is not positive cannot create an
  instance: the request is refused and no table changed.\<close>

theorem create_needs_credit:
  assumes "ih_balance h" and "cached_balance owner (tbl s) \<le> 0"
    and "CreateForOwner h X body owner s = (resp, s')"
  shows "refused resp \<and> tbl s' = tbl s"
proof -
  obtain v s1 where v: "validateCreate X body s = (v, s1)" by fastforce
  have t1: "tbl s1 = tbl s" using validateCreate_frame [of X body s] v by simp
  show ?thesis
  proof (cases v)
    case (Inl r)
    with assms(3) v t1 validateCreate_refused show ?thesis by (auto simp: CreateForOwner_def attempt_def reply_def)
  next
    case (Inr p)
    obtain req node where p: "p = (req, node)" by fastforce
    obtain g s2 where g: "acl_gate h node owner s1 = (g, s2)" by fastforce
    have t2: "tbl s2 = tbl s" using gates_frame(1) [of h node owner s1] g t1 by simp
    obtain b s3 where b: "balance_gate h owner s2 = (b, s3)" by fastforce
    have t3: "tbl s3 = tbl s" using gates_frame(2) [of h owner s2] b t2 by simp
    have gr: "refused r" if "g = Some r" for r
      using g that by (auto simp: acl_gate_def attempt_def reply_def refused_def writeError_def
          split: if_splits option.splits sum.splits prod.splits)
    from balance_gate_refuses [OF assms(1), of owner s2] assms(2) t2 b obtain r where "b = Some r" "refused r"
      by (metis fst_conv)
    then show ?thesis using assms(3) v Inr p g b t2 t3 gr
      by (cases g) (auto simp: CreateForOwner_def attempt_def reply_def)
  qed
qed

theorem create_needs_credit_witness:
  "tbl (snd (CreateForOwner sample_handlers sample_ext (Decoded sample_request) 3 (sample_world []))) = sample_tables"
proof -
  obtain resp s' where e: "CreateForOwner sample_handlers sample_ext (Decoded sample_request) 3 (sample_world []) = (resp, s')" by fastforce
  have h: "ih_balance sample_handlers" by (simp add: sample_handlers_def)
  have b: "cached_balance 3 (tbl (sample_world [])) \<le> 0" by (simp add: cached_balance_def sample_defs)
  from create_needs_credit [OF h b e] show ?thesis by (simp add: e) (simp add: sample_world_def)
qed

section \<open>Ownership and deletion\<close>

text \<open>A user cannot tell another user's instance from one that does not exist, and cannot delete
  it: both read and delete answer with the same 404 and change nothing.\<close>

theorem foreign_instance_hidden:
  assumes "faults s = []" and "uuid_Parse X idStr = Inr i"
    and "\<forall>inst. find (\<lambda>r. i_id r = i) (instances (tbl s)) = Some inst \<longrightarrow> i_owner inst \<noteq> Some (u_id user)"
  shows "User_Get X user idStr s = (writeError 404 ''not_found'' ''instance not found'', s) \<and>
    User_Delete h X user idStr s = (writeError 404 ''not_found'' ''instance not found'', s)"
proof -
  have "load_owned X user idStr s = (Inl (writeError 404 ''not_found'' ''instance not found''), s)"
    using assms by (cases "find (\<lambda>r. i_id r = i) (instances (tbl s))")
      (auto simp: load_owned_def Repo_Get_def GetInstance_def sel_fine pick_def attempt_def reply_def
        ErrNoRows_def ownsInstance_def)
  then show ?thesis by (simp add: User_Get_def User_Delete_def attempt_def reply_def)
qed

lemma sample_parse: "u \<in> set (map of_nat [0..<16]) \<Longrightarrow> uuid_Parse sample_ext (uuid_text u) = Inr u"
  by (simp add: sample_uuid_Parse)

theorem foreign_instance_hidden_witness:
  "User_Delete sample_handlers sample_ext (sample_user 3 ''b@x'') (uuid_text 5) (sample_world []) =
     (writeError 404 ''not_found'' ''instance not found'', sample_world [])"
proof -
  have p: "uuid_Parse sample_ext (uuid_text 5) = Inr 5" by (rule sample_parse) (simp add: upt_rec)
  show ?thesis
    using foreign_instance_hidden [of "sample_world []" sample_ext "uuid_text 5" 5 "sample_user 3 ''b@x''" sample_handlers] p
    by (simp add: sample_defs)
qed

lemma Repo_Delete_calm:
  "calm t s \<Longrightarrow> Repo_Delete i s = (Inr (), s\<lparr>ctr := Suc (ctr s), tbl := delete_tables i (tbl s)\<rparr>)"
  by (simp add: calm_def Repo_Delete_def DeleteInstance_def dml_fine delete_tables_def)

text \<open>Deleting a finished instance removes its row and its audit trail and frees all of its slots,
  and touches no other instance and no other slot.\<close>

theorem delete_finished:
  assumes "calm t s" and "ih_slots h" and "IsTerminal (i_state inst)"
    and "delete_loaded h inst i reason s = (resp, s')"
  shows "resp = HStatus 204 None \<and>
    instances (tbl s') = filter (\<lambda>r. i_id r \<noteq> i) (instances (tbl s)) \<and>
    events (tbl s') = filter (\<lambda>e. e_instance e \<noteq> i) (events (tbl s)) \<and>
    slots (tbl s') = map (\<lambda>q. if s_instance q = Some i then q\<lparr>s_status := Free, s_instance := None\<rparr> else q) (slots (tbl s))"
proof -
  have fin: "i_state inst = Stopped \<or> i_state inst = Failed"
    using assms(3) by (cases "i_state inst") (auto simp: IsTerminal_def)
  obtain r s1 where r: "ReleaseForInstance i s = (r, s1)" by fastforce
  have t1: "tbl s1 = release_tables (\<lambda>q. s_instance q = Some i) (tbl s)"
    using release_calm(1) [OF assms(1), of i] r by simp
  have c1: "calm t s1" by (rule keepsD_eq [OF calm_repo(4) assms(1) r])
  have "resp = HStatus 204 None" "tbl s' = delete_tables i (tbl s1)"
    using assms(2,4) r fin by (auto simp: delete_loaded_def attempt_def reply_def Repo_Delete_calm [OF c1])
  then show ?thesis using t1
    by (auto simp: delete_tables_def release_tables_def set_where_def)
qed

definition done_world :: world where
  "done_world = (sample_world [])\<lparr>tbl := sample_tables\<lparr>instances := [sample_instance\<lparr>i_state := Failed\<rparr>]\<rparr>\<rparr>"

theorem delete_finished_witness:
  "instances (tbl (snd (delete_loaded sample_handlers (sample_instance\<lparr>i_state := Failed\<rparr>) 5 ''admin_delete'' done_world))) = []"
proof -
  obtain resp s' where e: "delete_loaded sample_handlers (sample_instance\<lparr>i_state := Failed\<rparr>) 5 ''admin_delete'' done_world = (resp, s')"
    by fastforce
  have c: "calm 60000000000 done_world" by (simp add: calm_def done_world_def sample_world_def)
  from delete_finished [OF c _ _ e] show ?thesis
    by (simp add: e) (simp add: sample_handlers_def IsTerminal_def done_world_def sample_instance_def)
qed

text \<open>No stream of the node is registered, or its channel is full.\<close>

definition agent_unreachable :: "uuid \<Rightarrow> 'z world_scheme \<Rightarrow> bool" where
  "agent_unreachable nd s \<longleftrightarrow> (case reg s nd of None \<Rightarrow> True
     | Some e \<Rightarrow> ch_cap (chans s (en_ch e)) \<le> length (ch_buf (chans s (en_ch e))))"

text \<open>Deleting a live instance starts its shutdown: when its row is in a state from which it may
  stop, the row is in state stopping afterwards with one more audit event, and the destroy order is the
  last message the agent's channel took in, or the agent is not connected or does not drain its
  channel; the answer is 202 in all cases. When the agent's stream is just closing, the handler panics after the state change.\<close>

theorem delete_live:
  assumes "calm t s" and "find (\<lambda>r. i_id r = i) (instances (tbl s)) = Some inst"
    and "\<not> IsTerminal (i_state inst)" and "CanTransition (i_state inst) Stopping"
    and "delete_loaded h inst i reason s = (resp, s')"
  shows "(\<exists>n. tbl s' = transition_tables i n (i_state inst) Stopping (opts reason []) t (tbl s)) \<and>
    (resp = HStatus 202 None \<and> (agent_unreachable (i_node inst) s \<or>
        (\<exists>e. reg s (i_node inst) = Some e \<and> chan_log (chans s' (en_ch e)) =
           chan_log (chans s (en_ch e)) @ [CDestroyInstance (uuid_text i)])) \<or>
     resp = HPanic ''send on closed channel'')"
proof -
  let ?s1 = "s\<lparr>ctr := Suc (Suc (ctr s)), tbl := transition_tables i (Suc (ctr s)) (i_state inst) Stopping (opts reason []) (clk s) (tbl s)\<rparr>"
  have f: "faults s = []" "clk s = t" using assms(1) by (auto simp: calm_def)
  have id: "i_id inst = i" using find_SomeD [OF assms(2)] by simp
  have nt: "\<not> (i_state inst = Stopped \<or> i_state inst = Failed)" using assms(3) by (auto simp: IsTerminal_def)
  have tr: "Transition i Stopping (opts reason []) s = (Inr (apply_transition i Stopping (opts reason []) (clk s) inst), ?s1)"
    by (rule Transition_fine [OF f(1) _ assms(2,4)]) (simp_all add: AllStates_def)
  obtain d s2 where d: "Send (i_node inst) (CDestroyInstance (uuid_text i)) ?s1 = (d, s2)" by fastforce
  have t2: "tbl s2 = tbl ?s1" using Send_frame [OF d] by simp
  have run: "attempt (Send (i_node inst) (CDestroyInstance (uuid_text i))) (\<lambda>d. case d of
            Inl e \<Rightarrow> if is_panic e then reply (HPanic (err_text e))
                     else if \<not> err_is e ErrAgentNotConnected then reply (writeError 502 ''dispatch_failed'' (err_text e))
                     else reply (HStatus 202 None)
          | Inr _ \<Rightarrow> reply (HStatus 202 None)) ?s1 = (resp, s')"
    using assms(5) nt tr id by (simp add: delete_loaded_def attempt_def)
  have s': "s' = s2" using run d by (auto simp: attempt_def reply_def split: sum.splits if_splits)
  have tabs: "\<exists>n. tbl s' = transition_tables i n (i_state inst) Stopping (opts reason []) t (tbl s)"
    using s' t2 f(2) by auto
  show ?thesis
  proof (cases d)
    case (Inr x)
    with d have "Send (i_node inst) (CDestroyInstance (uuid_text i)) ?s1 = (Inr (), s2)" by simp
    then obtain e where "reg ?s1 (i_node inst) = Some e"
      "chan_log (chans s2 (en_ch e)) = chan_log (chans ?s1 (en_ch e)) @ [CDestroyInstance (uuid_text i)]"
      by (rule Send_ok)
    moreover have "resp = HStatus 202 None" using run d Inr by (simp add: attempt_def reply_def)
    ultimately show ?thesis using tabs s' by auto
  next
    case (Inl e)
    then have "e = closed_panic \<or> e = ErrAgentNotConnected \<and> agent_unreachable (i_node inst) s"
      using d by (auto simp: agent_unreachable_def Send_def Let_def split: option.splits if_splits prod.splits wait.splits)
    with run d Inl tabs s' show ?thesis
      by (auto simp: attempt_def reply_def closed_panic_def ErrAgentNotConnected_def is_panic_def)
  qed
qed

theorem delete_live_witness:
  "chan_log (chans (snd (delete_loaded sample_handlers sample_instance 5 ''admin_delete'' (sample_world []))) 0) =
     [CDestroyInstance (uuid_text 5)] \<and>
   map i_state (instances (tbl (snd (delete_loaded sample_handlers sample_instance 5 ''admin_delete'' (sample_world []))))) = [Stopping]"
proof -
  obtain resp s' where e: "delete_loaded sample_handlers sample_instance 5 ''admin_delete'' (sample_world []) = (resp, s')"
    by fastforce
  have c: "calm 60000000000 (sample_world [])" by (simp add: calm_def sample_world_def)
  have f: "find (\<lambda>r. i_id r = 5) (instances (tbl (sample_world []))) = Some sample_instance" by (simp add: sample_defs)
  have st: "i_state sample_instance = Running" "i_node sample_instance = 1" by (simp_all add: sample_instance_def)
  note res = delete_live [OF c f _ _ e]
  have open': "\<not> agent_unreachable 1 (sample_world [])" by (simp add: agent_unreachable_def sample_world_def)
  have np: "resp \<noteq> HPanic ''send on closed channel''"
  proof
    assume "resp = HPanic ''send on closed channel''"
    moreover have "\<exists>s1. Transition 5 Stopping (opts ''admin_delete'' []) (sample_world []) = (Inr (apply_transition 5 Stopping (opts ''admin_delete'' []) 60000000000 sample_instance), s1)
        \<and> reg s1 = reg (sample_world []) \<and> chans s1 = chans (sample_world [])"
      using Transition_fine [of "sample_world []" Stopping 5 sample_instance "opts ''admin_delete'' []"] f
      by (simp add: AllStates_def st sm_defs) (simp add: sample_world_def)
    ultimately show False using e
      by (auto simp: delete_loaded_def attempt_def reply_def st Send_def sample_world_def Let_def split: if_splits)
  qed
  show ?thesis using res open' np
    by (auto simp: e st IsTerminal_def sm_defs) (auto simp: sample_defs chan_log_def transition_tables_def apply_transition_def)
qed

section \<open>What an agent is told\<close>

lemma merge_loop_spec:
  "merge_loop ks (set out, out) = (set (out @ filter (\<lambda>k. k \<notin> set out) ks), out @ rev (remdups (rev (filter (\<lambda>k. k \<notin> set out) ks))))"
proof (induction ks arbitrary: out)
  case Nil
  then show ?case by simp
next
  case (Cons k ks)
  show ?case
  proof (cases "k \<in> set out")
    case True
    with Cons.IH [of out] show ?thesis by simp
  next
    case False
    have f: "filter (\<lambda>x. x \<notin> set (out @ [k])) ks = filter (\<lambda>x. x \<noteq> k) (filter (\<lambda>x. x \<notin> set out) ks)"
      by (simp add: conj_commute)
    have r: "remdups (xs @ [k]) = remdups (filter (\<lambda>x. x \<noteq> k) xs) @ [k]" for xs
      by (induction xs) auto
    from Cons.IH [of "out @ [k]"] False show ?thesis
      by (auto simp: r conj_commute rev_filter [symmetric])
  qed
qed

text \<open>The keys an instance is created with are the ones of the request followed by the user's
  stored ones, each once, at the place of its first occurrence.\<close>

theorem merged_pubkeys:
  "mergeSSHPubkeys a b = rev (remdups (rev (a @ b))) \<and> distinct (mergeSSHPubkeys a b) \<and>
   set (mergeSSHPubkeys a b) = set a \<union> set b \<and> prefix (mergeSSHPubkeys a []) (mergeSSHPubkeys a b)"
proof -
  have one: "merge_loop ks ({}, []) = (set ks, rev (remdups (rev ks)))" for ks
    using merge_loop_spec [of ks "[]"] by simp
  have "set (rev (remdups (rev a))) = set a" by simp
  then have two: "mergeSSHPubkeys a b =
      rev (remdups (rev a)) @ rev (remdups (rev (filter (\<lambda>k. k \<notin> set a) b)))" for b
    unfolding mergeSSHPubkeys_def one using merge_loop_spec [of b "rev (remdups (rev a))"] by simp
  have app: "remdups (xs @ ys) = remdups (filter (\<lambda>k. k \<notin> set ys) xs) @ remdups ys" for xs ys :: "string list"
    by (induction xs) auto
  have eq: "mergeSSHPubkeys a b = rev (remdups (rev (a @ b)))"
    by (simp add: two app rev_filter)
  moreover have "prefix (mergeSSHPubkeys a []) (mergeSSHPubkeys a b)" unfolding two by simp
  ultimately show ?thesis by auto
qed

lemma by_index_last: "by_index gs ix = find (\<lambda>g. g_index g = ix) (rev gs)"
  unfolding by_index_def by (induction gs rule: rev_induct) auto

lemma collect_pci_spec:
  "collect_pci m ixs = (if \<forall>ix\<in>set ixs. m ix \<noteq> None
     then Inr (concat (map (\<lambda>ix. g_pci (the (m ix)) # g_companions (the (m ix))) ixs))
     else Inl (Err (''gpu index '' @ dec_int (hd (dropWhile (\<lambda>ix. m ix \<noteq> None) ixs)) @ '' not in topology'')))"
  by (induction m ixs rule: collect_pci.induct) (auto split: option.split)

text \<open>The PCI devices handed to libvirt are, slot by slot and GPU by GPU, the address of the GPU
  the stored topology gives for that index followed by its companions; the call fails exactly when the
  topology is missing, does not parse, or lacks one of the indices.\<close>

theorem passthrough_pci:
  "resolvePassthroughPCI X js ss = Inr pcis \<longleftrightarrow> js \<noteq> [] \<and> js \<noteq> ''{}'' \<and>
     (\<exists>topo. protojson_Unmarshal X js = Inr topo \<and>
        (\<forall>q\<in>set ss. \<forall>ix\<in>set (s_gpu_indices q). \<exists>g\<in>set (tp_gpus topo). g_index g = ix) \<and>
        pcis = concat (map (\<lambda>ix. let g = the (find (\<lambda>g. g_index g = ix) (rev (tp_gpus topo))) in g_pci g # g_companions g)
          (concat (map s_gpu_indices ss))))"
proof -
  have known: "(\<forall>ix\<in>set (concat (map s_gpu_indices ss)). by_index gs ix \<noteq> None) \<longleftrightarrow>
      (\<forall>q\<in>set ss. \<forall>ix\<in>set (s_gpu_indices q). \<exists>g\<in>set gs. g_index g = ix)" for gs
    by (auto simp: by_index_last find_None_iff)
  show ?thesis
    by (auto simp: resolvePassthroughPCI_def collect_pci_spec known [symmetric] Let_def by_index_last [symmetric]
        split: sum.splits)
qed

theorem passthrough_pci_witness:
  "resolvePassthroughPCI sample_ext ''{gpus}'' [sample_slot 10 0 Reserved None, sample_slot 11 1 Reserved None] =
     Inr [''0000:16:00.0'', ''0000:16:00.1'', ''0000:27:00.0'']"
  by (simp add: passthrough_pci) (simp add: sample_ext_def sample_topology_def sample_gpu_def sample_slot_def Let_def)

end
