(* ===== verification/StreamProps.thy ===== *)
theory StreamProps
  imports InstanceProps Billing
begin

text \<open>
  Properties of the agent stream: what a status report does to an instance and its slots, what the
  sweeper does to the instances of a node that went silent, and the registry through which orders
  reach an agent.
\<close>

section \<open>Status reports\<close>

lemma Transition_refused:
  assumes "calm t s" and "to \<in> set AllStates" and "find (\<lambda>r. i_id r = i) (instances (tbl s)) = Some row"
    and "\<not> CanTransition (i_state row) to"
  shows "\<exists>e s'. Transition i to op s = (Inl e, s') \<and> err_is e ErrInvalidTransition \<and> tbl s' = tbl s \<and> calm t s'"
  using assms
  by (auto simp: Transition_def Validate_state_def in_tx_def stmt_fine sel_fine action_defs GetInstance_def pick_def
      Let_def calm_def ErrInvalidTransition_def)

lemma mapInstanceState_valid: "mapInstanceState ps = Inr to \<Longrightarrow> to \<in> set AllStates"
  by (auto simp: mapInstanceState_def AllStates_def split: PbInstanceState.splits)

lemma Transition_calm:
  assumes "calm t s" and "to \<in> set AllStates" and "find (\<lambda>r. i_id r = i) (instances (tbl s)) = Some row"
    and "CanTransition (i_state row) to" and "\<not> o_skip op"
  shows "\<exists>n s'. Transition i to op s = (Inr (apply_transition i to op t row), s') \<and> calm t s' \<and>
    tbl s' = transition_tables i n (i_state row) to op t (tbl s)"
proof -
  have f: "faults s = []" "clk s = t" using assms(1) by (auto simp: calm_def)
  from Transition_fine [OF f(1) assms(2,3,4), of op] assms(5) f show ?thesis by (auto simp: calm_def)
qed

text \<open>A final report of the agent ends the instance in one go: when the reported terminal state may
  follow the current one, the row takes it over with one audit event, and all GPU slots of the instance,
  and no others, are free again.\<close>

theorem terminal_report_frees_slots:
  assumes "calm t s" and "as_instances svc" and "as_slots svc" and "uuid_Parse X (st_instance st) = Inr i"
    and "mapInstanceState (st_state st) = Inr to" and "IsTerminal to"
    and "find (\<lambda>r. i_id r = i) (instances (tbl s)) = Some row" and "CanTransition (i_state row) to"
  shows "\<exists>n s'. applyInstanceStatus svc X st s = (Inr (), s') \<and>
    tbl s' = release_tables (\<lambda>q. s_instance q = Some i)
      (transition_tables i n (i_state row) to (status_options X st) t (tbl s))"
proof -
  have "\<not> o_skip (status_options X st)" by (simp add: status_options_def)
  from Transition_calm [OF assms(1) mapInstanceState_valid [OF assms(5)] assms(7,8) this] obtain n s1 where
    1: "Transition i to (status_options X st) s = (Inr (apply_transition i to (status_options X st) t row), s1)" "calm t s1"
    "tbl s1 = transition_tables i n (i_state row) to (status_options X st) t (tbl s)" by blast
  from release_calm(1) [OF 1(2), of i] 1(3) have
    "tbl (snd (ReleaseForInstance i s1)) = release_tables (\<lambda>q. s_instance q = Some i)
      (transition_tables i n (i_state row) to (status_options X st) t (tbl s))" by simp
  then show ?thesis using assms(2-6) 1(1)
    by (auto simp: applyInstanceStatus_def release_if_terminal_def attempt_def ret_def split: prod.split)
qed

definition sample_service :: AgentStreamService where
  "sample_service = \<lparr>as_instances = True, as_slots = True, as_profiles = True, as_registry = True,
     as_token = ''secret'', as_zone = 9, as_heartbeat = 0, as_buffer = 0\<rparr>"

definition sample_report :: "PbInstanceState \<Rightarrow> InstanceStatus" where
  "sample_report ps = \<lparr>st_instance = uuid_text 5, st_state = ps, st_ip = [], st_error = ''boom''\<rparr>"

lemma sample_report_simps:
  "uuid_Parse sample_ext (st_instance (sample_report ps)) = Inr 5"
  "as_instances sample_service" "as_slots sample_service"
  "st_state (sample_report ps) = ps"
  by (simp_all add: sample_report_def sample_service_def sample_uuid_Parse upt_rec)

lemma sample_calm: "calm 60000000000 (sample_pg [])"
  by (simp add: calm_def sample_pg_def)

lemma sample_row: "find (\<lambda>r. i_id r = 5) (instances (tbl (sample_pg fs))) = Some sample_instance"
  by (simp add: sample_defs)

theorem terminal_report_frees_slots_witness:
  "map s_status (slots (tbl (snd (applyInstanceStatus sample_service sample_ext (sample_report INSTANCE_STATE_FAILED) (sample_pg []))))) = [Free, Free]"
proof -
  have m: "mapInstanceState (st_state (sample_report INSTANCE_STATE_FAILED)) = Inr Failed"
    by (simp add: sample_report_simps mapInstanceState_def)
  have ct: "CanTransition (i_state sample_instance) Failed" by (simp add: sample_instance_def sm_defs)
  from terminal_report_frees_slots [OF sample_calm sample_report_simps(2,3,1) m _ sample_row ct] show ?thesis
    by (auto simp: IsTerminal_def) (simp add: release_tables_def transition_tables_def sample_defs)
qed

text \<open>A terminal report that the state machine does not allow is swallowed, yet the slots are
  freed: the row of a running instance that is reported stopped stays running while the GPUs it runs
  on become free for the next reservation.\<close>

theorem stale_report_frees_running:
  assumes "calm t s" and "as_instances svc" and "as_slots svc" and "uuid_Parse X (st_instance st) = Inr i"
    and "mapInstanceState (st_state st) = Inr to" and "IsTerminal to"
    and "find (\<lambda>r. i_id r = i) (instances (tbl s)) = Some row" and "\<not> CanTransition (i_state row) to"
  shows "\<exists>s'. applyInstanceStatus svc X st s = (Inr (), s') \<and>
    tbl s' = release_tables (\<lambda>q. s_instance q = Some i) (tbl s)"
proof -
  from Transition_refused [OF assms(1) mapInstanceState_valid [OF assms(5)] assms(7,8), of "status_options X st"]
  obtain e s1 where 1: "Transition i to (status_options X st) s = (Inl e, s1)" "err_is e ErrInvalidTransition"
    "tbl s1 = tbl s" "calm t s1" by blast
  from release_calm(1) [OF 1(4), of i] 1(3) have
    "tbl (snd (ReleaseForInstance i s1)) = release_tables (\<lambda>q. s_instance q = Some i) (tbl s)" by simp
  then show ?thesis using assms(2-6) 1(1,2)
    by (auto simp: applyInstanceStatus_def release_if_terminal_def attempt_def ret_def split: prod.split)
qed

theorem stale_report_frees_running_witness:
  "map i_state (instances (tbl (snd (applyInstanceStatus sample_service sample_ext (sample_report INSTANCE_STATE_STOPPED) (sample_pg []))))) = [Running] \<and>
   map s_status (slots (tbl (snd (applyInstanceStatus sample_service sample_ext (sample_report INSTANCE_STATE_STOPPED) (sample_pg []))))) = [Free, Free]"
proof -
  have m: "mapInstanceState (st_state (sample_report INSTANCE_STATE_STOPPED)) = Inr Stopped"
    by (simp add: sample_report_simps mapInstanceState_def)
  have ct: "\<not> CanTransition (i_state sample_instance) Stopped" by (simp add: sample_instance_def sm_defs)
  from stale_report_frees_running [OF sample_calm sample_report_simps(2,3,1) m _ sample_row ct] show ?thesis
    by (auto simp: IsTerminal_def) (simp_all add: release_tables_def sample_defs)
qed

section \<open>The sweeper\<close>

abbreviation reap_opts :: TransitionOptions where
  "reap_opts \<equiv> opts ''node_offline'' ''agent heartbeat timed out; node marked offline''"

definition live :: "Instance \<Rightarrow> bool" where
  "live r \<longleftrightarrow> i_state r \<in> {Pending, Provisioning, Running}"

definition fail_row :: "time \<Rightarrow> Instance \<Rightarrow> Instance" where
  "fail_row t r = r\<lparr>i_state := Failed, i_error := ''agent heartbeat timed out; node marked offline'', i_updated := t\<rparr>"

definition free_slot :: "GpuSlot \<Rightarrow> GpuSlot" where
  "free_slot q = q\<lparr>s_status := Free, s_instance := None\<rparr>"

lemma apply_reap: "apply_transition i Failed reap_opts t = fail_row t"
  by (simp add: apply_transition_def fail_row_def fun_eq_iff)

lemma live_can_fail: "live r \<Longrightarrow> CanTransition (i_state r) Failed"
  by (auto simp: live_def sm_defs)

lemma reap_one_calm:
  assumes c: "calm t s" and sl: "as_slots svc" and row: "find (\<lambda>r. i_id r = i) (instances (tbl s)) = Some r"
    and l: "live r" and run: "reap_one svc (i, st) s = (x, s')"
  shows "calm t s' \<and> instances (tbl s') = set_where (\<lambda>r. i_id r = i) (fail_row t) (instances (tbl s)) \<and>
    slots (tbl s') = set_where (\<lambda>q. s_instance q = Some i) free_slot (slots (tbl s)) \<and> nodes (tbl s') = nodes (tbl s)"
proof -
  from Transition_calm [OF c _ row live_can_fail [OF l], of reap_opts] obtain n s1 where
    1: "Transition i Failed reap_opts s = (Inr (apply_transition i Failed reap_opts t r), s1)" "calm t s1"
    "tbl s1 = transition_tables i n (i_state r) Failed reap_opts t (tbl s)" by (auto simp: AllStates_def)
  obtain y s2 where 2: "ReleaseForInstance i s1 = (y, s2)" by fastforce
  have c2: "calm t s2" by (rule keepsD_eq [OF calm_repo(4) 1(2) 2])
  have "s' = s2" using run 1(1) 2 sl by (simp add: reap_one_def attempt_def ret_def)
  moreover have "tbl s2 = release_tables (\<lambda>q. s_instance q = Some i) (tbl s1)"
    using release_calm(1) [OF 1(2), of i] 2 by simp
  ultimately show ?thesis using c2 1(3)
    by (simp add: release_tables_def transition_tables_def apply_reap free_slot_def [abs_def])
qed

text \<open>The loop over the listed instances of one node.\<close>

lemma reap_rows_calm:
  assumes "calm t s" and "as_slots svc" and "distinct (map i_id (instances (tbl s)))" and "distinct (map fst rows)"
    and "\<forall>p\<in>set rows. \<exists>r\<in>set (instances (tbl s)). i_id r = fst p \<and> live r"
  shows "calm t (snd (for_go (reap_one svc) rows s)) \<and>
    instances (tbl (snd (for_go (reap_one svc) rows s))) =
      set_where (\<lambda>r. i_id r \<in> fst ` set rows) (fail_row t) (instances (tbl s)) \<and>
    slots (tbl (snd (for_go (reap_one svc) rows s))) =
      set_where (\<lambda>q. \<exists>i\<in>fst ` set rows. s_instance q = Some i) free_slot (slots (tbl s)) \<and>
    nodes (tbl (snd (for_go (reap_one svc) rows s))) = nodes (tbl s)"
  using assms
proof (induction rows arbitrary: s)
  case Nil
  then show ?case by (simp add: reply_def set_where_def)
next
  case (Cons p rows)
  obtain i st where p: "p = (i, st)" by fastforce
  from Cons.prems(5) p obtain r where r: "r \<in> set (instances (tbl s))" "i_id r = i" "live r" by auto
  have row: "find (\<lambda>r. i_id r = i) (instances (tbl s)) = Some r"
    using find_by_key [OF Cons.prems(3) r(1)] r(2) by simp
  obtain x s1 where run: "reap_one svc p s = (x, s1)" by fastforce
  from reap_one_calm [OF Cons.prems(1,2) row r(3) run [unfolded p]] have
    s1: "calm t s1" "instances (tbl s1) = set_where (\<lambda>r. i_id r = i) (fail_row t) (instances (tbl s))"
    "slots (tbl s1) = set_where (\<lambda>q. s_instance q = Some i) free_slot (slots (tbl s))" "nodes (tbl s1) = nodes (tbl s)" by auto
  have ids: "map i_id (instances (tbl s1)) = map i_id (instances (tbl s))"
    unfolding s1(2) by (rule map_set_where) (simp add: fail_row_def)
  have rest: "\<exists>r\<in>set (instances (tbl s1)). i_id r = fst q \<and> live r" if "q \<in> set rows" for q
  proof -
    from that Cons.prems(4,5) p obtain r' where "r' \<in> set (instances (tbl s))" "i_id r' = fst q" "live r'" "fst q \<noteq> i"
      by force
    then show ?thesis unfolding s1(2) by (auto simp: set_where_def intro!: bexI [of _ r'] image_eqI [of _ _ r'])
  qed
  have d1: "distinct (map i_id (instances (tbl s1)))" "distinct (map fst rows)"
    using Cons.prems(3,4) by (simp_all add: ids)
  from Cons.IH [OF s1(1) Cons.prems(2) d1] rest have ih:
    "calm t (snd (for_go (reap_one svc) rows s1))"
    "instances (tbl (snd (for_go (reap_one svc) rows s1))) =
      set_where (\<lambda>r. i_id r \<in> fst ` set rows) (fail_row t) (instances (tbl s1))"
    "slots (tbl (snd (for_go (reap_one svc) rows s1))) =
      set_where (\<lambda>q. \<exists>i\<in>fst ` set rows. s_instance q = Some i) free_slot (slots (tbl s1))"
    "nodes (tbl (snd (for_go (reap_one svc) rows s1))) = nodes (tbl s1)" by auto
  have "snd (for_go (reap_one svc) (p # rows) s) = snd (for_go (reap_one svc) rows s1)"
    using run by (simp add: attempt_def)
  moreover have "set_where (\<lambda>r. i_id r \<in> fst ` set rows) (fail_row t) (instances (tbl s1)) =
      set_where (\<lambda>r. i_id r \<in> fst ` set (p # rows)) (fail_row t) (instances (tbl s))"
    unfolding s1(2) set_where_def by (auto simp: fail_row_def p)
  moreover have "set_where (\<lambda>q. \<exists>i\<in>fst ` set rows. s_instance q = Some i) free_slot (slots (tbl s1)) =
      set_where (\<lambda>q. \<exists>i\<in>fst ` set (p # rows). s_instance q = Some i) free_slot (slots (tbl s))"
    unfolding s1(3) set_where_def by (auto simp: free_slot_def p)
  ultimately show ?case using ih s1(4) by simp
qed

lemma reap_node_calm:
  fixes s :: "'z pg_scheme" and nd
  assumes c: "calm t s" and sl: "as_slots svc" and d: "distinct (map i_id (instances (tbl s)))"
  defines "s' \<equiv> snd (reapInstancesForOfflineNode svc nd s)"
  shows "calm t s' \<and>
    instances (tbl s') = set_where (\<lambda>r. i_node r = nd \<and> live r) (fail_row t) (instances (tbl s)) \<and>
    slots (tbl s') = set_where (\<lambda>q. \<exists>r\<in>set (instances (tbl s)). i_node r = nd \<and> live r \<and> s_instance q = Some (i_id r))
      free_slot (slots (tbl s)) \<and>
    nodes (tbl s') = nodes (tbl s)"
proof -
  let ?rows = "map (\<lambda>r. (i_id r, i_state r)) (filter (\<lambda>r. i_node r = nd \<and> live r) (instances (tbl s)))"
  have "ListNonTerminalInstancesForNode nd s = (Inr ?rows, s)"
    using c by (simp add: ListNonTerminalInstancesForNode_def calm_def sel_fine live_def)
  then have s': "s' = snd (for_go (reap_one svc) ?rows s)"
    by (simp add: s'_def reapInstancesForOfflineNode_def NonTerminalInstancesForNode_def attempt_def)
  have ids: "i_id r \<in> fst ` set ?rows \<longleftrightarrow> i_node r = nd \<and> live r" if "r \<in> set (instances (tbl s))" for r
    using that distinct_key_eq [OF d] by (force simp: image_iff)
  have "distinct (map fst ?rows)" using distinct_map_filter' [OF d] by (simp add: comp_def)
  from reap_rows_calm [OF c sl d this] have r: "calm t s'"
    "instances (tbl s') = set_where (\<lambda>r. i_id r \<in> fst ` set ?rows) (fail_row t) (instances (tbl s))"
    "slots (tbl s') = set_where (\<lambda>q. \<exists>i\<in>fst ` set ?rows. s_instance q = Some i) free_slot (slots (tbl s))"
    "nodes (tbl s') = nodes (tbl s)" unfolding s' by auto
  have rows: "set_where (\<lambda>r. i_id r \<in> fst ` set ?rows) (fail_row t) (instances (tbl s)) =
      set_where (\<lambda>r. i_node r = nd \<and> live r) (fail_row t) (instances (tbl s))"
    unfolding set_where_def using ids by (intro map_cong) auto
  have held: "(\<lambda>q. \<exists>i\<in>fst ` set ?rows. s_instance q = Some i) =
      (\<lambda>q. \<exists>r\<in>set (instances (tbl s)). i_node r = nd \<and> live r \<and> s_instance q = Some (i_id r))"
    by (auto simp: fun_eq_iff)
  show ?thesis using r unfolding rows held by blast
qed

lemma not_live_failed [simp]: "\<not> live (fail_row t r)"
  by (simp add: live_def fail_row_def)

text \<open>The loop over the nodes that just went offline.\<close>

lemma reap_nodes_calm:
  assumes "calm t s" and "as_slots svc" and "distinct (map i_id (instances (tbl s)))"
  shows "instances (tbl (snd (for_go (reapInstancesForOfflineNode svc) nds s))) =
      set_where (\<lambda>r. i_node r \<in> set nds \<and> live r) (fail_row t) (instances (tbl s)) \<and>
    slots (tbl (snd (for_go (reapInstancesForOfflineNode svc) nds s))) =
      set_where (\<lambda>q. \<exists>r\<in>set (instances (tbl s)). i_node r \<in> set nds \<and> live r \<and> s_instance q = Some (i_id r))
        free_slot (slots (tbl s)) \<and>
    nodes (tbl (snd (for_go (reapInstancesForOfflineNode svc) nds s))) = nodes (tbl s)"
  using assms
proof (induction nds arbitrary: s)
  case Nil
  then show ?case by (simp add: reply_def set_where_def)
next
  case (Cons nd nds)
  let ?s1 = "snd (reapInstancesForOfflineNode svc nd s)"
  from reap_node_calm [OF Cons.prems, of nd] have s1: "calm t ?s1"
    "instances (tbl ?s1) = set_where (\<lambda>r. i_node r = nd \<and> live r) (fail_row t) (instances (tbl s))"
    "slots (tbl ?s1) = set_where (\<lambda>q. \<exists>r\<in>set (instances (tbl s)). i_node r = nd \<and> live r \<and> s_instance q = Some (i_id r))
      free_slot (slots (tbl s))"
    "nodes (tbl ?s1) = nodes (tbl s)" by auto
  have f: "i_id (fail_row t r) = i_id r" "i_node (fail_row t r) = i_node r" for r by (simp_all add: fail_row_def)
  have d1: "distinct (map i_id (instances (tbl ?s1)))"
    using Cons.prems(3) unfolding s1(2) by (simp add: map_set_where f)
  note ih = Cons.IH [OF s1(1) Cons.prems(2) d1]
  have "(\<exists>r\<in>set (instances (tbl ?s1)). i_node r \<in> set nds \<and> live r \<and> s_instance q = Some (i_id r)) \<longleftrightarrow>
      (\<exists>r\<in>set (instances (tbl s)). i_node r \<noteq> nd \<and> i_node r \<in> set nds \<and> live r \<and> s_instance q = Some (i_id r))" for q
  proof -
    have "r \<in> set (instances (tbl ?s1)) \<and> live r \<longleftrightarrow> r \<in> set (instances (tbl s)) \<and> live r \<and> i_node r \<noteq> nd" for r
      unfolding s1(2) set_where_def by (auto split: if_splits)
    then show ?thesis by blast
  qed
  then have "slots (tbl (snd (for_go (reapInstancesForOfflineNode svc) (nd # nds) s))) =
      set_where (\<lambda>q. \<exists>r\<in>set (instances (tbl s)). i_node r \<in> set (nd # nds) \<and> live r \<and> s_instance q = Some (i_id r))
        free_slot (slots (tbl s))"
    using ih unfolding for_go_Cons s1(3) set_where_def by (auto simp: free_slot_def)
  moreover have "instances (tbl (snd (for_go (reapInstancesForOfflineNode svc) (nd # nds) s))) =
      set_where (\<lambda>r. i_node r \<in> set (nd # nds) \<and> live r) (fail_row t) (instances (tbl s))"
    using ih unfolding for_go_Cons s1(2) set_where_def by (auto simp: f)
  ultimately show ?case using ih s1(4) by (simp add: for_go_Cons del: for_go.simps)
qed

text \<open>The nodes a sweep takes offline.\<close>

definition went_silent :: "time \<Rightarrow> tables \<Rightarrow> uuid \<Rightarrow> bool" where
  "went_silent cutoff T nd \<longleftrightarrow> (\<exists>n\<in>set (nodes T). n_id n = nd \<and> node_is_stale cutoff n)"

text \<open>C23. One pass of the stale sweeper, when the database answers, does exactly what it is for: the
  nodes whose last heartbeat is older than the limit go offline; every pending, provisioning or running
  instance on them is failed, every slot such an instance held is free, and all other nodes, instances
  and slots are as before. (Instances in state stopping keep their slots.)\<close>

theorem sweep_reaps:
  assumes "calm t s" and "as_slots svc" and "audit_ok (tbl s)"
    and "StaleSweeper_tick svc now ttl s = (u, s')"
  shows "nodes (tbl s') = map (\<lambda>n. if node_is_stale (now - ttl) n then n\<lparr>n_status := Offline, n_updated := t\<rparr> else n) (nodes (tbl s)) \<and>
    instances (tbl s') = map (\<lambda>r. if went_silent (now - ttl) (tbl s) (i_node r) \<and> live r then fail_row t r else r) (instances (tbl s)) \<and>
    slots (tbl s') = map (\<lambda>q. if \<exists>r\<in>set (instances (tbl s)). went_silent (now - ttl) (tbl s) (i_node r) \<and> live r \<and> s_instance q = Some (i_id r)
        then free_slot q else q) (slots (tbl s))"
proof -
  let ?ids = "map n_id (filter (node_is_stale (now - ttl)) (nodes (tbl s)))"
  let ?s1 = "s\<lparr>ctr := Suc (ctr s), tbl := (tbl s)\<lparr>nodes := set_where (node_is_stale (now - ttl))
      (\<lambda>n. n\<lparr>n_status := Offline, n_updated := t\<rparr>) (nodes (tbl s))\<rparr>\<rparr>"
  have c1: "calm t ?s1" and d: "distinct (map i_id (instances (tbl ?s1)))"
    using assms(1,3) by (simp_all add: calm_def audit_ok_def)
  have "MarkStaleNodesOfflineReturning (now - ttl) s = (Inr ?ids, ?s1)"
    using assms(1) by (simp add: MarkStaleNodesOfflineReturning_def calm_def dml_fine)
  then have s': "s' = snd (for_go (reapInstancesForOfflineNode svc) ?ids ?s1)"
    using assms(4) by (simp add: StaleSweeper_tick_def MarkStaleOffline_def attempt_def)
  have g: "nd \<in> set ?ids \<longleftrightarrow> went_silent (now - ttl) (tbl s) nd" for nd by (auto simp: went_silent_def)
  from reap_nodes_calm [OF c1 assms(2) d, of ?ids] show ?thesis
    unfolding s' g by (simp add: set_where_def)
qed

theorem sweep_reaps_witness:
  "map i_state (instances (tbl (snd (StaleSweeper_tick sample_service 60000000000 30000000000 (sample_pg []))))) = [Failed]"
proof -
  have a: "audit_ok (tbl (sample_pg []))" using sample_audit_ok by (simp add: sample_pg_def)
  obtain u s' where e: "StaleSweeper_tick sample_service 60000000000 30000000000 (sample_pg []) = (u, s')"
    by (cases "StaleSweeper_tick sample_service 60000000000 30000000000 (sample_pg [])") auto
  from sweep_reaps [OF sample_calm sample_report_simps(3) a e] show ?thesis
    by (simp add: e) (simp add: went_silent_def sample_defs live_def node_is_stale_def fail_row_def)
qed

section \<open>The registry\<close>

text \<open>A reconnecting agent stays reachable: once a new stream of a node is registered, the
  clean-ups of all streams that were registered before it, of that node or of others and in any order,
  leave its entry in place.\<close>

theorem registration_survives_old_cleanups:
  assumes "Register nd ch ep s = (e, s')" and "\<forall>p\<in>set olds. en_ptr (snd p) < heap s"
  shows "reg (fold (\<lambda>(n, old). cleanup n old) olds s') nd = Some (e :: registryEntry) \<and>
    en_ch e = ch \<and> Connected nd (fold (\<lambda>(n, old). cleanup n old) olds (s' :: world))"
proof -
  have e: "en_ptr e = heap s" "en_ch e = ch" "reg s' nd = Some e"
    using assms(1) by (auto simp: Register_def Let_def)
  have f: "fold (\<lambda>(n, old). cleanup n old) olds s' = agents.run_ops (map (\<lambda>p. Drop (fst p) (snd p)) olds) s'"
  proof -
    have "(\<lambda>(n, old). cleanup n old) = agents.apply_op \<circ> (\<lambda>p. Drop (fst p) (snd p))" by (auto simp: fun_eq_iff)
    then show ?thesis by (simp add: agents.run_ops_def fold_map)
  qed
  have "reg (agents.run_ops (map (\<lambda>p. Drop (fst p) (snd p)) olds) s') nd = Some e"
    using assms(2) e by (intro agents.stays_until_replaced) auto
  with f e show ?thesis by (simp add: Connected_def)
qed

theorem registration_survives_old_cleanups_witness:
  "Connected 1 (cleanup 1 \<lparr>en_ptr = 1, en_ch = 0, en_endpoint = ''10.0.0.1:7000''\<rparr> (snd (Register 1 7 ''x'' (sample_world []))))"
proof -
  obtain e s' where r: "Register 1 7 ''x'' (sample_world []) = (e, s')" by fastforce
  from registration_survives_old_cleanups [OF r, of "[(1, \<lparr>en_ptr = 1, en_ch = 0, en_endpoint = ''10.0.0.1:7000''\<rparr>)]"]
  show ?thesis using r by (simp add: sample_world_def)
qed

text \<open>C37. The end of a stream is not safe for senders: between the closing of its channel and the
  deferred clean-up of its registry entry, an order for that node panics. The delete handler panics
  after it has committed the state change, and a tick of the billing worker that dispatches to the node
  panics in its own goroutine.\<close>

theorem closing_stream_panics:
  assumes "calm t s" and "find (\<lambda>r. i_id r = i) (instances (tbl s)) = Some inst"
    and "i_state inst = Running" and "reg s (i_node inst) = Some e" and "close_chan (en_ch e) s = (u, s1)"
  shows "fst (delete_loaded h inst i reason s1) = HPanic ''send on closed channel'' \<and>
    (\<exists>n. tbl (snd (delete_loaded h inst i reason s1)) =
       transition_tables i n Running Stopping (opts reason []) t (tbl s)) \<and>
    sweep_instance inst s1 = (Inl closed_panic, s1)"
proof -
  have s1: "tbl s1 = tbl s" "reg s1 = reg s" "ch_closed (chans s1 (en_ch e))" "calm t s1"
    using assms(1,5) by (auto simp: close_chan_def set_chan_def calm_def)
  have row: "find (\<lambda>r. i_id r = i) (instances (tbl s1)) = Some inst" using assms(2) s1(1) by simp
  have send: "Send (i_node inst) m x = (Inl closed_panic, x)" if "reg x = reg s1" "chans x = chans s1" for m and x :: "'a world_scheme"
    using that s1(2,3) assms(4) by (simp add: Send_def)
  let ?s2 = "s1\<lparr>ctr := Suc (Suc (ctr s1)), tbl := transition_tables i (Suc (ctr s1)) (i_state inst) Stopping (opts reason []) (clk s1) (tbl s1)\<rparr>"
  have ct: "CanTransition (i_state inst) Stopping" using assms(3) by (simp add: sm_defs)
  have tr: "Transition i Stopping (opts reason []) s1 =
      (Inr (apply_transition i Stopping (opts reason []) (clk s1) inst), ?s2)"
    using s1(4) by (intro Transition_fine [OF _ _ row ct]) (simp_all add: calm_def AllStates_def)
  have "delete_loaded h inst i reason s1 = (HPanic ''send on closed channel'', ?s2)"
    using assms(3) by (simp add: delete_loaded_def attempt_def tr send reply_def is_panic_def closed_panic_def)
  moreover have "clk s1 = t" using s1(4) by (simp add: calm_def)
  moreover have "sweep_instance inst s1 = (Inl closed_panic, s1)"
    using assms(3) by (simp add: sweep_instance_def attempt_def send fail_def is_panic_def closed_panic_def)
  ultimately show ?thesis using s1(1) assms(3) by auto
qed

theorem closing_stream_panics_witness:
  "sweep_instance sample_instance (snd (close_chan 0 (sample_world []))) = (Inl closed_panic, snd (close_chan 0 (sample_world [])))"
proof -
  have c: "calm 60000000000 (sample_world [])" by (simp add: calm_def sample_world_def)
  have f: "find (\<lambda>r. i_id r = 5) (instances (tbl (sample_world []))) = Some sample_instance" by (simp add: sample_defs)
  have g: "i_state sample_instance = Running" "reg (sample_world []) (i_node sample_instance) = Some \<lparr>en_ptr = 1, en_ch = 0, en_endpoint = ''10.0.0.1:7000''\<rparr>"
    by (simp_all add: sample_defs)
  have k: "close_chan (en_ch \<lparr>en_ptr = 1, en_ch = 0, en_endpoint = ''10.0.0.1:7000''\<rparr>) (sample_world []) =
      ((), snd (close_chan 0 (sample_world [])))" by (simp add: close_chan_def)
  from closing_stream_panics [OF c f g k] show ?thesis by simp
qed

end
