(* ===== verification/BillingProps.thy ===== *)
theory BillingProps
  imports InstanceProps Billing
begin

text \<open>
  Properties of the billing worker: an instance pays at most once per minute whatever fails and
  however often the worker runs, and a tick orders the destruction of exactly the instances of users
  whose credit is used up.
\<close>

section \<open>Charging\<close>

text \<open>The ledger entry that charges an instance for a minute.\<close>

definition charges_instance :: "RateTable option \<Rightarrow> int \<Rightarrow> Instance \<Rightarrow> CreditLedger \<Rightarrow> bool" where
  "charges_instance rates bucket inst l \<longleftrightarrow> i_state inst = Running \<and> i_owner inst = Some (l_user l) \<and>
     l_instance l = Some (i_id inst) \<and> l_delta l = - MilliPerMinute rates (i_gpus inst) \<and> l_delta l \<noteq> 0 \<and>
     l_key l = billing_key (i_id inst) bucket \<and> l_reason l = ''running_minute''"

lemma charge_one_ledger:
  assumes "charge_one rates b (i_id inst, i_owner inst, i_gpus inst) s = (r, s')" and "i_state inst = Running"
  shows "\<exists>es. ledger (tbl s') = ledger (tbl s) @ es \<and> (\<forall>l\<in>set es. charges_instance rates b inst l)"
proof (cases "i_owner inst = None \<or> MilliPerMinute rates (i_gpus inst) = 0")
  case True
  with assms show ?thesis by (auto simp: charge_one_def ret_def Let_def split: option.splits)
next
  case False
  then obtain u where u: "i_owner inst = Some u" by auto
  let ?inp = "charge_input (i_id inst) u (MilliPerMinute rates (i_gpus inst)) b"
  obtain p s1 where p: "Post ?inp s = (p, s1)" by fastforce
  with assms(1) False u have s': "s' = s1" by (simp add: charge_one_def attempt_def ret_def Let_def)
  from p show ?thesis
  proof (cases rule: Post_cases)
    case (committed n)
    with s' u False assms(2) show ?thesis
      by (auto simp: post_tables_def post_entry_def charge_input_def charges_instance_def)
  qed (auto simp: s')
qed

lemma charge_loop_ledger:
  assumes "\<forall>inst\<in>set insts. i_state inst = Running"
  shows "\<exists>es. ledger (tbl (snd (for_go (charge_one rates b) (map (\<lambda>r. (i_id r, i_owner r, i_gpus r)) insts) s))) =
      ledger (tbl s) @ es \<and> (\<forall>l\<in>set es. \<exists>inst\<in>set insts. charges_instance rates b inst l)"
  using assms
proof (induction insts arbitrary: s)
  case Nil
  then show ?case by (simp add: reply_def)
next
  case (Cons inst insts)
  obtain r s1 where c: "charge_one rates b (i_id inst, i_owner inst, i_gpus inst) s = (r, s1)" by fastforce
  from charge_one_ledger [OF c] Cons.prems obtain es where es: "ledger (tbl s1) = ledger (tbl s) @ es"
    "\<forall>l\<in>set es. charges_instance rates b inst l" by auto
  from Cons.IH [of s1] Cons.prems obtain fs where
    "ledger (tbl (snd (for_go (charge_one rates b) (map (\<lambda>r. (i_id r, i_owner r, i_gpus r)) insts) s1))) = ledger (tbl s1) @ fs"
    "\<forall>l\<in>set fs. \<exists>inst\<in>set insts. charges_instance rates b inst l" by auto
  with es c show ?case by (intro exI [of _ "es @ fs"]) (auto simp: attempt_def)
qed

text \<open>C10. An instance pays at most once per minute. Whatever fails, a tick of the worker only appends
  entries, each of which debits the owner of an instance that was running by the rate of its size, under
  the key of that instance and minute; and after any further activity of the service, including more
  ticks in the same minute, the ledger holds at most one entry for the instance and the minute, with
  balances still equal to ledger sums.\<close>

theorem charged_once_per_minute:
  assumes "ledger_ok (tbl s)" and "charge rates now s = (r, s')" and "db_reach G (tbl s') T"
  shows "(\<exists>es. ledger (tbl s') = ledger (tbl s) @ es \<and>
      (\<forall>l\<in>set es. \<exists>inst\<in>set (instances (tbl s)). charges_instance rates (minute_bucket now) inst l)) \<and>
    ledger_ok T \<and> (\<forall>i. length (filter (\<lambda>l. l_key l = billing_key i (minute_bucket now)) (ledger T)) \<le> 1)"
proof -
  have ok: "ledger_ok T"
    using ledger_inv.reachable [OF assms(3)] ledger_inv.kept_after [OF keeps_charge assms(1,2)] by blast
  obtain q s1 where q: "ListBillableRunningInstances s = (q, s1)" by fastforce
  have t1: "tbl s1 = tbl s" using q by (auto simp: ListBillableRunningInstances_def dest: sel_tbl)
  have new: "\<exists>es. ledger (tbl s') = ledger (tbl s) @ es \<and>
      (\<forall>l\<in>set es. \<exists>inst\<in>set (instances (tbl s)). charges_instance rates (minute_bucket now) inst l)"
  proof (cases q)
    case (Inl e)
    with assms(2) q t1 show ?thesis by (auto simp: charge_def bnd_def)
  next
    case (Inr rows)
    let ?insts = "filter (\<lambda>r. i_state r = Running \<and> i_owner r \<noteq> None) (instances (tbl s))"
    have rows: "rows = map (\<lambda>r. (i_id r, i_owner r, i_gpus r)) ?insts"
      using q Inr by (auto simp: ListBillableRunningInstances_def dest!: sel_Inr)
    have "s' = snd (for_go (charge_one rates (minute_bucket now)) rows s1)"
      using assms(2) q Inr by (auto simp: charge_def bnd_def attempt_def ret_def split: prod.splits)
    moreover obtain es where "ledger (tbl (snd (for_go (charge_one rates (minute_bucket now)) rows s1))) = ledger (tbl s1) @ es"
      "\<forall>l\<in>set es. \<exists>inst\<in>set ?insts. charges_instance rates (minute_bucket now) inst l"
      using charge_loop_ledger [of ?insts rates "minute_bucket now" s1] rows by auto
    ultimately show ?thesis using t1 by (intro exI [of _ es]) fastforce
  qed
  have "length (filter (\<lambda>l. l_key l = k) (ledger T)) \<le> 1" for k
    by (rule at_most_one_key) (use ok in \<open>simp add: ledger_ok_def\<close>)
  with new ok show ?thesis by blast
qed

definition sample_rates :: "RateTable option" where
  "sample_rates = Some [1 \<mapsto> 30]"

theorem charged_once_per_minute_witness:
  "length (filter (\<lambda>l. l_key l = billing_key 5 1)
     (ledger (tbl (snd (charge sample_rates 60000000000 (snd (charge sample_rates 60000000000 (sample_pg [])))))))) \<le> 1"
proof -
  obtain r s' where c: "charge sample_rates 60000000000 (sample_pg []) = (r, s')" by fastforce
  have ok: "ledger_ok (tbl (sample_pg []))" using sample_ledger_ok by (simp add: sample_pg_def)
  have "tinv (db_reach G (tbl s')) (snd (charge sample_rates 60000000000 s'))"
    by (rule keepsD [OF keeps_charge]) (simp add: tinv_def)
  then have reach: "db_reach G (tbl s') (tbl (snd (charge sample_rates 60000000000 s')))" by (simp add: tinv_def)
  have "minute_bucket 60000000000 = 1" by (simp add: minute_bucket_def go_quot_def)
  with charged_once_per_minute [OF ok c reach] c show ?thesis by simp
qed

section \<open>Users without credit\<close>

definition is_swept :: "Instance \<Rightarrow> bool" where
  "is_swept r \<longleftrightarrow> i_state r = Running \<or> i_state r = Provisioning"

text \<open>The instances a tick looks at: user by user, newest first.\<close>

definition bankrupt_instances :: "tables \<Rightarrow> Instance list" where
  "bankrupt_instances T = concat (map (\<lambda>u. sort_key (\<lambda>r. - i_created r) (filter (\<lambda>r. i_owner r = Some u) (instances T)))
     (map c_user (filter (\<lambda>c. c_balance c \<le> 0) (credits T))))"

text \<open>Every registered channel is open and has room for \<open>k\<close> more messages.\<close>

definition room :: "nat \<Rightarrow> 'z world_scheme \<Rightarrow> bool" where
  "room k s \<longleftrightarrow> (\<forall>n e. reg s n = Some e \<longrightarrow> \<not> ch_closed (chans s (en_ch e)) \<and>
     length (ch_buf (chans s (en_ch e))) + k \<le> ch_cap (chans s (en_ch e)))"

definition orders_for :: "(uuid \<Rightarrow> registryEntry option) \<Rightarrow> nat \<Rightarrow> Instance list \<Rightarrow> ControlMessage list" where
  "orders_for rg c insts = map (\<lambda>r. CDestroyInstance (uuid_text (i_id r)))
     (filter (\<lambda>r. is_swept r \<and> (\<exists>e. rg (i_node r) = Some e \<and> en_ch e = c)) insts)"

lemma sweep_instance_room:
  assumes "room (Suc k) s" and "sweep_instance inst s = (r, s')"
  shows "r = Inr () \<and> room k s' \<and> reg s' = reg s \<and> tbl s' = tbl s \<and> faults s' = faults s \<and>
    (\<forall>c. chan_log (chans s' c) = chan_log (chans s c) @ orders_for (reg s) c [inst])"
proof (cases "is_swept inst \<and> reg s (i_node inst) \<noteq> None")
  case False
  with assms show ?thesis
    by (auto simp: sweep_instance_def is_swept_def orders_for_def ret_def attempt_def Send_def room_def
        is_panic_def ErrAgentNotConnected_def split: if_splits) (meson add_Suc_right le_eq_less_or_eq Suc_le_lessD)+
next
  case True
  then obtain e where e: "reg s (i_node inst) = Some e" by auto
  let ?v = "chans s (en_ch e)"
  have v: "\<not> ch_closed ?v" "length (ch_buf ?v) + Suc k \<le> ch_cap ?v" using assms(1) e by (auto simp: room_def)
  have s': "r = Inr ()" "s' = set_chan (en_ch e) (?v\<lparr>ch_buf := ch_buf ?v @ [CDestroyInstance (uuid_text (i_id inst))]\<rparr>) s"
    using assms(2) True e v by (auto simp: sweep_instance_def is_swept_def attempt_def Send_def Let_def ret_def)
  have "room k s'" unfolding room_def
  proof (intro allI impI)
    fix n e' assume "reg s' n = Some e'"
    then have "reg s n = Some e'" by (simp add: s'(2))
    with assms(1) have "\<not> ch_closed (chans s (en_ch e'))"
      "length (ch_buf (chans s (en_ch e'))) + Suc k \<le> ch_cap (chans s (en_ch e'))" by (auto simp: room_def)
    then show "\<not> ch_closed (chans s' (en_ch e')) \<and> length (ch_buf (chans s' (en_ch e'))) + k \<le> ch_cap (chans s' (en_ch e'))"
      by (auto simp: s'(2) set_chan_def)
  qed
  with s' True e show ?thesis by (auto simp: set_chan_def chan_log_def orders_for_def)
qed

lemma sweep_loop_room:
  assumes "room (length insts + k) s" and "for_each sweep_instance insts s = (r, s')"
  shows "r = Inr () \<and> room k s' \<and> reg s' = reg s \<and> tbl s' = tbl s \<and> faults s' = faults s \<and>
    (\<forall>c. chan_log (chans s' c) = chan_log (chans s c) @ orders_for (reg s) c insts)"
  using assms
proof (induction insts arbitrary: s)
  case Nil
  then show ?case by (auto simp: ret_def orders_for_def)
next
  case (Cons inst insts)
  obtain x s1 where x: "sweep_instance inst s = (x, s1)" by fastforce
  from sweep_instance_room [OF _ x, of "length insts + k"] Cons.prems(1) have
    1: "x = Inr ()" "room (length insts + k) s1" "reg s1 = reg s" "tbl s1 = tbl s" "faults s1 = faults s"
    "\<forall>c. chan_log (chans s1 c) = chan_log (chans s c) @ orders_for (reg s) c [inst]" by auto
  from Cons.prems(2) x 1(1) have "for_each sweep_instance insts s1 = (r, s')" by (simp add: bnd_def)
  from Cons.IH [OF 1(2) this] 1 show ?case by (auto simp: orders_for_def)
qed

abbreviation user_instances :: "tables \<Rightarrow> uuid \<Rightarrow> Instance list" where
  "user_instances T u \<equiv> sort_key (\<lambda>r. - i_created r) (filter (\<lambda>r. i_owner r = Some u) (instances T))"

lemma sweep_users_room:
  assumes "room (length (concat (map (user_instances (tbl s)) us)) + k) s" and "faults s = []"
    and "for_each sweep_user us s = (r, s')"
  shows "r = Inr () \<and> tbl s' = tbl s \<and>
    (\<forall>c. chan_log (chans s' c) = chan_log (chans s c) @ orders_for (reg s) c (concat (map (user_instances (tbl s)) us)))"
  using assms
proof (induction us arbitrary: s)
  case Nil
  then show ?case by (auto simp: ret_def orders_for_def)
next
  case (Cons u us)
  let ?is = "user_instances (tbl s) u"
  have l: "ListInstances (Some u) s = (Inr ?is, s)"
    using Cons.prems(2) by (simp add: ListInstances_def sel_fine)
  obtain x s1 where x: "for_each sweep_instance ?is s = (x, s1)" by fastforce
  from sweep_loop_room [OF _ x, of "length (concat (map (user_instances (tbl s)) us)) + k"] Cons.prems(1) have
    1: "x = Inr ()" "room (length (concat (map (user_instances (tbl s)) us)) + k) s1" "reg s1 = reg s" "tbl s1 = tbl s"
    "faults s1 = []" "\<forall>c. chan_log (chans s1 c) = chan_log (chans s c) @ orders_for (reg s) c ?is"
    using Cons.prems(2) by (auto simp: add.assoc)
  have "sweep_user u s = (Inr (), s1)" using l x 1(1) by (simp add: sweep_user_def attempt_def)
  with Cons.prems(3) have "for_each sweep_user us s1 = (r, s')" by (simp add: bnd_def)
  from Cons.IH [of s1, OF _ 1(5) this] 1 show ?case by (auto simp: orders_for_def)
qed

text \<open>A tick orders exactly the destructions it should: when the database answers and the agents'
  channels have room, the channel of each connected node takes in, in this order, one destroy order for
  every running or provisioning instance on that node whose owner's balance is zero or negative, and
  nothing else; no table changes.\<close>

theorem bankrupt_sweep_exact:
  assumes "faults s = []" and "room (length (bankrupt_instances (tbl s))) s" and "sweepBankrupt True s = (r, s')"
  shows "r = Inr () \<and> tbl s' = tbl s \<and>
    (\<forall>c. chan_log (chans s' c) = chan_log (chans s c) @ orders_for (reg s) c (bankrupt_instances (tbl s)))"
proof -
  let ?us = "map c_user (filter (\<lambda>c. c_balance c \<le> 0) (credits (tbl s)))"
  have "for_each sweep_user ?us s = (r, s')"
    using assms(1,3) by (simp add: sweepBankrupt_def UsersWithNegativeBalance_def ListUsersWithNegativeBalance_def
        sel_fine bnd_def)
  from sweep_users_room [of s ?us 0, OF _ assms(1) this] assms(2) show ?thesis
    by (simp add: bankrupt_instances_def comp_def)
qed

definition bankrupt_world :: world where
  "bankrupt_world = (sample_world [])\<lparr>tbl := sample_tables\<lparr>credits := [\<lparr>c_user = 2, c_balance = 0, c_updated = 0\<rparr>]\<rparr>\<rparr>"

theorem bankrupt_sweep_exact_witness:
  "chan_log (chans (snd (sweepBankrupt True bankrupt_world)) 0) = [CDestroyInstance (uuid_text 5)]"
proof -
  obtain r s' where e: "sweepBankrupt True bankrupt_world = (r, s')" by fastforce
  have b: "bankrupt_instances (tbl bankrupt_world) = [sample_instance]"
    by (simp add: bankrupt_instances_def bankrupt_world_def sample_tables_def) (simp add: sample_instance_def)
  have "room (length (bankrupt_instances (tbl bankrupt_world))) bankrupt_world"
    unfolding b by (auto simp: room_def bankrupt_world_def sample_world_def)
  from bankrupt_sweep_exact [OF _ this e] b show ?thesis
    by (simp add: e) (simp add: bankrupt_world_def orders_for_def is_swept_def chan_log_def sample_world_def sample_instance_def)
qed

end
