(* ===== verification/GateProps.thy ===== *)
theory GateProps
  imports SshTicket AgentAuth MuxRegistry Samples
begin

text \<open>
  Properties of the credentials: sessions, signed SSH tickets, the agents' tokens behind their cache,
  and the one mux session per node.
\<close>

section \<open>Sessions\<close>

definition session_user :: "auth_lib \<Rightarrow> string \<Rightarrow> time \<Rightarrow> tables \<Rightarrow> User option" where
  "session_user A raw t T = Option.bind
     (find (\<lambda>r. ss_hash r = HashSessionToken A raw \<and> ss_expires r > t) (sessions T))
     (\<lambda>ss. find (\<lambda>u. u_id u = ss_user ss) (users T))"

lemma LoadSession_fine:
  assumes "faults s = []" and "raw \<noteq> []"
  shows "LoadSession A (Some raw) s = (session_user A raw (clk s) (tbl s), s)"
  using assms
  by (auto simp: LoadSession_def LookupSession_def GetSessionByTokenHash_def GetUser_q_def session_user_def
      attempt_def bnd_def wrap_err_def fine_simps pick_def reply_def ret_def split: option.split)

lemma CreateSession_fine:
  assumes "faults s = []" and "CreateSession A buf now u ttl s = (Inr (raw, ss), s')"
  shows "tbl s' = (tbl s)\<lparr>sessions := sessions (tbl s) @ [ss]\<rparr> \<and> faults s' = [] \<and>
    ss_user ss = u \<and> ss_hash ss = HashSessionToken A raw \<and> ss_expires ss = now + ttl \<and>
    (\<forall>r\<in>set (sessions (tbl s)). ss_hash r \<noteq> HashSessionToken A raw) \<and> (\<exists>r\<in>set (users (tbl s)). u_id r = u)"
  using assms
  by (auto simp: CreateSession_def CreateSession_q_def GenerateSessionToken_def fine_simps bnd_def wrap_err_def
      ret_def fail_def Let_def split: sum.splits if_splits)

lemma Auth_Logout_fine:
  assumes "faults s = []" and "raw \<noteq> []"
  shows "tbl (snd (Auth_Logout A (Some raw) s)) =
      (tbl s)\<lparr>sessions := filter (\<lambda>r. ss_hash r \<noteq> HashSessionToken A raw) (sessions (tbl s))\<rparr> \<and>
    faults (snd (Auth_Logout A (Some raw) s)) = [] \<and> clk (snd (Auth_Logout A (Some raw) s)) = clk s"
  using assms
  by (simp add: Auth_Logout_def RevokeSession_def DeleteSessionByTokenHash_def attempt_def fine_simps reply_def)

lemma find_filter_other:
  "(\<And>x. P x \<Longrightarrow> Q x) \<Longrightarrow> find P (filter Q xs) = find P xs"
  by (induction xs) auto

lemma find_filter_none:
  "(\<And>x. P x \<Longrightarrow> \<not> Q x) \<Longrightarrow> find P (filter Q xs) = None"
  by (induction xs) auto

lemma find_snoc_other: "\<forall>x\<in>set xs. \<not> P x \<Longrightarrow> find P (xs @ [y]) = (if P y then Some y else None)"
  by (induction xs) auto

text \<open>C27. A session is good for its user until it expires or is closed: the cookie of a session that was
  opened resolves to that user at every time before the expiry and to nobody from then on; logging out
  ends it at once, and ends no session with another token.\<close>

theorem session_round_trip:
  assumes "faults s = []" and "CreateSession A buf now u ttl s = (Inr (raw, ss), s1)" and "raw \<noteq> []"
  shows "\<exists>usr. find (\<lambda>r. u_id r = u) (users (tbl s)) = Some usr \<and> u_id usr = u \<and>
    fst (LoadSession A (Some raw) (s1\<lparr>clk := t\<rparr>)) = (if t < now + ttl then Some usr else None) \<and>
    fst (LoadSession A (Some raw) (snd (Auth_Logout A (Some raw) s1))) = None \<and>
    (HashSessionToken A other \<noteq> HashSessionToken A raw \<longrightarrow>
       fst (LoadSession A (Some other) (snd (Auth_Logout A (Some raw) s1))) = fst (LoadSession A (Some other) s1))"
proof -
  note c = CreateSession_fine [OF assms(1,2)]
  then have "find (\<lambda>r. u_id r = u) (users (tbl s)) \<noteq> None" by (auto simp: find_None_iff)
  then obtain usr where usr: "find (\<lambda>r. u_id r = u) (users (tbl s)) = Some usr" by blast
  moreover from usr have "u_id usr = u" by (auto dest: find_SomeD)
  moreover have "fst (LoadSession A (Some raw) (s1\<lparr>clk := t\<rparr>)) = (if t < now + ttl then Some usr else None)"
    using c usr assms(3) by (auto simp: LoadSession_fine session_user_def find_snoc_other)
  moreover note out = Auth_Logout_fine [OF conjunct1 [OF conjunct2 [OF c]] assms(3), of A]
  have "fst (LoadSession A (Some raw) (snd (Auth_Logout A (Some raw) s1))) = None"
  proof -
    have "find (\<lambda>r. ss_hash r = HashSessionToken A raw \<and> clk s1 < ss_expires r)
        (filter (\<lambda>r. ss_hash r \<noteq> HashSessionToken A raw) xs) = None" for xs :: "Session list"
      by (rule find_filter_none) simp
    with out assms(3) show ?thesis by (simp add: LoadSession_fine session_user_def)
  qed
  moreover have "fst (LoadSession A (Some other) (snd (Auth_Logout A (Some raw) s1))) = fst (LoadSession A (Some other) s1)"
    if "HashSessionToken A other \<noteq> HashSessionToken A raw"
  proof (cases "other = []")
    case True
    then show ?thesis by (simp add: LoadSession_def reply_def)
  next
    case False
    have "find (\<lambda>r. ss_hash r = HashSessionToken A other \<and> clk s1 < ss_expires r)
        (filter (\<lambda>r. ss_hash r \<noteq> HashSessionToken A raw) xs) =
      find (\<lambda>r. ss_hash r = HashSessionToken A other \<and> clk s1 < ss_expires r) xs" for xs :: "Session list"
      using that by (intro find_filter_other) auto
    with out conjunct1 [OF conjunct2 [OF c]] False show ?thesis by (simp add: LoadSession_fine session_user_def)
  qed
  ultimately show ?thesis by blast
qed

definition sample_auth_lib :: auth_lib where
  "sample_auth_lib = \<lparr>bcrypt_Generate = (\<lambda>p. Inr (''b'' @ p)), bcrypt_Compare = (\<lambda>h p. h = ''b'' @ p),
     sha256_hex = (\<lambda>x. ''h'' @ x), b64url = (\<lambda>x. x)\<rparr>"

theorem session_round_trip_witness:
  "\<exists>ss s1. CreateSession sample_auth_lib (Inr ''tok'') 0 2 100 (sample_pg []) = (Inr (''tok'', ss), s1) \<and>
    fst (LoadSession sample_auth_lib (Some ''tok'') (s1\<lparr>clk := 50\<rparr>)) = Some (sample_user 2 ''a@x'')"
proof -
  obtain ss s1 where run: "CreateSession sample_auth_lib (Inr ''tok'') 0 2 100 (sample_pg []) = (Inr (''tok'', ss), s1)"
    by (simp add: CreateSession_def CreateSession_q_def GenerateSessionToken_def sample_auth_lib_def fine_simps
        bnd_def wrap_err_def ret_def Let_def sample_defs HashSessionToken_def)
  from session_round_trip [OF _ run, of 50 "''z''"] show ?thesis using run by (auto simp: sample_defs)
qed

section \<open>SSH tickets\<close>

text \<open>C28. Signing and verifying a ticket are inverse up to the ticket's life: what the verifier with the
  same secret reads from an issued ticket is the ticket with its session id and expiry filled in, until
  the expiry has passed; a payload with any other signature is rejected before it is decoded.\<close>

theorem ticket_round_trip:
  assumes "codecs_ok L" and "NewSigner secret ttl = Inr sg" and "Issue L sg fresh now t = Inr tick"
  shows "Verify L secret now' tick =
      (if now' > tk_expires (complete_ticket sg fresh now t) then Inl ErrExpired
       else Inr (complete_ticket sg fresh now t)) \<and>
    (sig \<noteq> sg_signature tick \<longrightarrow> Verify L secret now' (tick\<lparr>sg_signature := sig\<rparr>) = Inl ErrInvalidSignature) \<and>
    (tk_expires t = zero_time \<longrightarrow> now' \<le> now + ttl \<longrightarrow> Verify L secret now' tick \<noteq> Inl ErrExpired)"
proof -
  from assms(2) have sg: "sn_secret sg = secret" "sn_ttl sg = ttl" by (auto simp: NewSigner_def split: if_splits)
  from assms(3) obtain raw where raw: "json_Marshal L (complete_ticket sg fresh now t) = Inr raw"
    and tick: "tick = \<lparr>sg_payload = b64_enc L raw, sg_signature = b64_enc L (hmac_sha256 L secret (b64_enc L raw))\<rparr>"
    by (auto simp: Issue_def Let_def sg split: sum.splits)
  have "Verify L secret now' tick = (if now' > tk_expires (complete_ticket sg fresh now t) then Inl ErrExpired
       else Inr (complete_ticket sg fresh now t))"
    using assms(1) raw by (simp add: Verify_def tick codecs_ok_def)
  then show ?thesis by (auto simp: Verify_def tick complete_ticket_def sg)
qed

definition sample_ticket :: Ticket where
  "sample_ticket = \<lparr>tk_session = [], tk_instance = 5, tk_node = 1, tk_ip = ''10.0.0.5'', tk_port = 22,
     tk_endpoint = [], tk_expires = zero_time\<rparr>"

text \<open>Codecs that know one ticket, enough to see the hypotheses hold.\<close>

definition sample_ticket_lib :: "Ticket \<Rightarrow> ticket_lib" where
  "sample_ticket_lib t = \<lparr>json_Marshal = (\<lambda>x. if x = t then Inr ''t'' else Inl (Err ''unsupported'')),
     json_Unmarshal = (\<lambda>x. if x = ''t'' then Inr t else Inl (Err ''bad'')),
     b64_enc = (\<lambda>x. x), b64_dec = Inr, hmac_sha256 = (\<lambda>k x. k @ x)\<rparr>"

theorem ticket_round_trip_witness:
  "Verify (sample_ticket_lib (sample_ticket\<lparr>tk_session := ''s'', tk_expires := 30\<rparr>)) ''0123456789abcdef'' 20
     \<lparr>sg_payload = ''t'', sg_signature = ''0123456789abcdeft''\<rparr> =
   Inr (sample_ticket\<lparr>tk_session := ''s'', tk_expires := 30\<rparr>)"
proof -
  let ?L = "sample_ticket_lib (sample_ticket\<lparr>tk_session := ''s'', tk_expires := 30\<rparr>)"
  let ?sg = "\<lparr>sn_secret = ''0123456789abcdef'', sn_ttl = 15\<rparr>"
  have 1: "codecs_ok ?L" by (simp add: codecs_ok_def sample_ticket_lib_def)
  have 2: "NewSigner ''0123456789abcdef'' 15 = Inr ?sg" by (simp add: NewSigner_def)
  have 3: "Issue ?L ?sg ''s'' 15 sample_ticket = Inr \<lparr>sg_payload = ''t'', sg_signature = ''0123456789abcdeft''\<rparr>"
    by (simp add: Issue_def complete_ticket_def sample_ticket_lib_def sample_ticket_def Let_def)
  from ticket_round_trip [OF 1 2 3, of 20] show ?thesis by (simp add: complete_ticket_def sample_ticket_def)
qed

lemma LookupUser_Inr:
  assumes "LookupUserByFingerprint fp s = (Inr owner, s')"
  shows "tbl s' = tbl s \<and> (\<exists>k\<in>set (ssh_keys (tbl s)). k_fingerprint k = normalizeFingerprint fp \<and> k_user k = owner)"
  using assms
  by (auto simp: LookupUserByFingerprint_def LookupSSHKeyByFingerprint_def bnd_def wrap_err_def ret_def
      split: prod.splits sum.splits dest!: sel_Inr pick_Inr)

lemma resolve_Inr:
  assumes "resolveInstanceByPrefix owner p s = (Inr inst, s')"
  shows "tbl s' = tbl s \<and> inst \<in> set (instances (tbl s)) \<and> i_owner inst = Some owner \<and> like (p @ ''%'') (uuid_text (i_id inst))"
proof -
  from assms obtain ms where "ListInstancesByOwnerAndIDPrefix owner p s = (Inr ms, s')" "ms = [inst]"
    by (auto simp: resolveInstanceByPrefix_def FindByOwnerAndIDPrefix_def bnd_def wrap_err_def ret_def fail_def
        split: prod.splits sum.splits list.splits)
  then have q: "take 2 (filter (\<lambda>r. i_owner r = Some owner \<and> like (p @ ''%'') (uuid_text (i_id r))) (instances (tbl s))) = [inst]"
    and "tbl s' = tbl s" unfolding ListInstancesByOwnerAndIDPrefix_def by (auto dest!: sel_Inr)
  moreover have "inst \<in> set (filter (\<lambda>r. i_owner r = Some owner \<and> like (p @ ''%'') (uuid_text (i_id r))) (instances (tbl s)))"
    by (rule in_set_takeD [of _ 2]) (simp add: q)
  ultimately show ?thesis by simp
qed

lemma parse_ticket_prefix:
  assumes "parseSSHTicketRequest body = Inr req"
  shows "isHexLower (tr_prefix req) \<and> 8 \<le> length (tr_prefix req) \<and> length (tr_prefix req) \<le> 32"
  using assms by (auto simp: parseSSHTicketRequest_def Let_def minSubdomainPrefixLen_def maxSubdomainPrefixLen_def
      split: body_in.splits if_splits)

lemma parse_ticket_Inl:
  assumes "parseSSHTicketRequest body = Inl r"
  shows "\<exists>st c m. r = HError st c m"
  using assms by (auto simp: parseSSHTicketRequest_def Let_def writeError_def split: body_in.splits if_splits)

lemma SSHTicketHandler_200:
  assumes "SSHTicketHandler L sg keys fresh now body s = (HJson 200 ck b, s')"
  obtains req owner s1 inst s2 node ip tick where "parseSSHTicketRequest body = Inr req"
    "LookupUserByFingerprint (tr_fingerprint req) s = (Inr owner, s1)"
    "resolveInstanceByPrefix owner (tr_prefix req) s1 = (Inr inst, s2)" "i_state inst = Running" "i_ip inst = Some ip"
    "NodeRepo_Get (i_node inst) s2 = (Inr node, s')" "n_status node = Online"
    "Issue L sg fresh now (instance_ticket inst node ip) = Inr tick" "b = JSigned tick"
  using assms
  by (auto simp: SSHTicketHandler_def attempt_def reply_def writeError_def writeJSON_def
      split: sum.splits prod.splits if_splits option.splits dest!: parse_ticket_Inl)

text \<open>A ticket is handed out only for the caller's own live machine, whatever fails in between: when
  the endpoint answers 200, the fingerprint belongs to a stored key, the named instance is owned by the
  user of that key, its id starts with the prefix, it is running, has an address, and its node is online;
  the ticket is for exactly that instance, node and address, port 22. The prefix then has exactly eight
  digits: the longer ones the endpoint accepts never match. No table changes.\<close>

lemma ticket_only_for_own_instance:
  assumes "SSHTicketHandler L sg keys fresh now body s = (HJson 200 ck b, s')"
  shows "\<exists>req k inst node ip tick. parseSSHTicketRequest body = Inr req \<and>
    k \<in> set (ssh_keys (tbl s)) \<and> k_fingerprint k = normalizeFingerprint (tr_fingerprint req) \<and>
    inst \<in> set (instances (tbl s)) \<and> i_owner inst = Some (k_user k) \<and>
    prefix (tr_prefix req) (uuid_text (i_id inst)) \<and> length (tr_prefix req) = 8 \<and>
    i_state inst = Running \<and> i_ip inst = Some ip \<and>
    node \<in> set (nodes (tbl s)) \<and> n_id node = i_node inst \<and> n_status node = Online \<and>
    Issue L sg fresh now (instance_ticket inst node ip) = Inr tick \<and> b = JSigned tick \<and> tbl s' = tbl s"
proof -
  from assms obtain req owner s1 inst s2 node ip tick where h: "parseSSHTicketRequest body = Inr req"
    "LookupUserByFingerprint (tr_fingerprint req) s = (Inr owner, s1)"
    "resolveInstanceByPrefix owner (tr_prefix req) s1 = (Inr inst, s2)" "i_state inst = Running" "i_ip inst = Some ip"
    "NodeRepo_Get (i_node inst) s2 = (Inr node, s')" "n_status node = Online"
    "Issue L sg fresh now (instance_ticket inst node ip) = Inr tick" "b = JSigned tick"
    by (rule SSHTicketHandler_200)
  note p = parse_ticket_prefix [OF h(1)] and k = LookupUser_Inr [OF h(2)] and i = resolve_Inr [OF h(3)]
  have pre: "prefix (tr_prefix req) (uuid_text (i_id inst))"
    using i p like_prefix [OF hex_no_wildcard] by blast
  moreover have "length (tr_prefix req) = 8" using hex_prefix_short [OF _ pre] p by simp
  moreover have "node \<in> set (nodes (tbl s2)) \<and> n_id node = i_node inst \<and> tbl s' = tbl s2"
    using h(6) by (auto simp: NodeRepo_Get_def GetNode_def dest!: sel_Inr pick_Inr)
  ultimately show ?thesis using h k i by auto
qed

definition ticket_world :: "pg" where
  "ticket_world = (sample_pg [])\<lparr>tbl := sample_tables\<lparr>
     instances := [sample_instance\<lparr>i_ip := Some ''10.0.0.5''\<rparr>],
     ssh_keys := [\<lparr>k_id = 7, k_user = 2, k_label = [], k_pubkey = ''key'', k_fingerprint = ''f'', k_created = 0\<rparr>]\<rparr>\<rparr>"

lemma ticket_only_for_own_instance_witness:
  "\<exists>ck b s'. SSHTicketHandler (sample_ticket_lib (sample_ticket\<lparr>tk_session := ''s'', tk_expires := 30\<rparr>))
     \<lparr>sn_secret = ''0123456789abcdef'', sn_ttl = 15\<rparr> True ''s'' 15
     (Decoded \<lparr>tr_prefix = ''00000000'', tr_fingerprint = ''SHA256:f''\<rparr>) ticket_world = (HJson 200 ck b, s') \<and>
   b = JSigned \<lparr>sg_payload = ''t'', sg_signature = ''0123456789abcdeft''\<rparr>"
proof -
  let ?L = "sample_ticket_lib (sample_ticket\<lparr>tk_session := ''s'', tk_expires := 30\<rparr>)"
  let ?sg = "\<lparr>sn_secret = ''0123456789abcdef'', sn_ttl = 15\<rparr>"
  let ?body = "Decoded \<lparr>tr_prefix = ''00000000'', tr_fingerprint = ''SHA256:f''\<rparr>"
  have "fst (SSHTicketHandler ?L ?sg True ''s'' 15 ?body ticket_world) =
    HJson 200 None (JSigned \<lparr>sg_payload = ''t'', sg_signature = ''0123456789abcdeft''\<rparr>)" by code_simp
  then obtain s' where run: "SSHTicketHandler ?L ?sg True ''s'' 15 ?body ticket_world =
    (HJson 200 None (JSigned \<lparr>sg_payload = ''t'', sg_signature = ''0123456789abcdeft''\<rparr>), s')"
    by (metis prod.collapse)
  from ticket_only_for_own_instance [OF run] run show ?thesis by blast
qed


section \<open>Revocation of agent tokens\<close>

text \<open>A history of the endpoint: each call finds the database as others left it, tests its cache at one time
  and is done at another.\<close>

record 'z aa_call =
  ca_db :: "'z pg_scheme"
  ca_node :: uuid
  ca_token :: string
  ca_time :: time
  ca_done :: time

definition aa_lookup :: "auth_lib \<Rightarrow> int \<Rightarrow> 'z aa_call \<Rightarrow> 'z aa_state \<Rightarrow> AuthNodeView option \<times> 'z aa_state" where
  "aa_lookup A ttl c s = lookup_token A ttl (ca_node c) (ca_token c) (ca_time c) (ca_done c) (s\<lparr>aa_db := ca_db c\<rparr>)"

definition aa_run :: "auth_lib \<Rightarrow> int \<Rightarrow> 'z aa_call list \<Rightarrow> 'z aa_state \<Rightarrow> 'z aa_state" where
  "aa_run A ttl cs s = fold (\<lambda>c s. snd (aa_lookup A ttl c s)) cs s"

definition inactive :: "auth_lib \<Rightarrow> uuid \<Rightarrow> string \<Rightarrow> 'z pg_scheme \<Rightarrow> bool" where
  "inactive A nd tok db \<longleftrightarrow>
     \<not> (\<exists>t\<in>set (node_tokens (tbl db)). t_node t = nd \<and> t_revoked t = None \<and> bcrypt_Compare A (t_hash t) tok)"

lemma inactive_refused: "inactive A nd tok db \<Longrightarrow> fst (authority A nd tok db) = None"
  using authority_active [of A nd tok db] by (cases "fst (authority A nd tok db)") (auto simp: inactive_def)

lemma until_db: "agent_auth.until d k (s\<lparr>aa_db := db\<rparr>) = agent_auth.until d k s"
  by (simp add: agent_auth.until_def)

lemma aa_run_before:
  assumes "agent_auth.until (T + ttl) k s" and "\<forall>c\<in>set cs. ca_done c \<le> T"
  shows "agent_auth.until (T + ttl) k (aa_run A ttl cs s)"
  using assms
proof (induction cs arbitrary: s)
  case Nil
  then show ?case by (simp add: aa_run_def)
next
  case (Cons c cs)
  have "agent_auth.until (T + ttl) k (snd (aa_lookup A ttl c s))"
    using agent_auth.look_until [of A ttl "(ca_node c, ca_token c)" "ca_time c" "ca_done c" "s\<lparr>aa_db := ca_db c\<rparr>" _ _ "T + ttl" k]
      Cons.prems by (cases "aa_lookup A ttl c s") (auto simp: aa_lookup_def until_db)
  from Cons.IH [OF this] Cons.prems(2) show ?case by (simp add: aa_run_def)
qed

lemma aa_run_refused:
  assumes "agent_auth.until d (nd, tok) s" and "\<forall>c\<in>set cs. inactive A nd tok (ca_db c)"
  shows "agent_auth.until d (nd, tok) (aa_run A ttl cs s)"
  using assms
proof (induction cs arbitrary: s)
  case Nil
  then show ?case by (simp add: aa_run_def)
next
  case (Cons c cs)
  obtain r s1 where l: "aa_lookup A ttl c s = (r, s1)" by fastforce
  have "agent_auth.until d (nd, tok) s1"
  proof (cases "(ca_node c, ca_token c) = (nd, tok)")
    case True
    with l Cons.prems inactive_refused [of A nd tok "ca_db c"] agent_auth.refused_until [of A ttl "(nd, tok)" "ca_time c" "ca_done c" "s\<lparr>aa_db := ca_db c\<rparr>" r s1 d]
    show ?thesis by (auto simp: aa_lookup_def until_db)
  next
    case False
    with l Cons.prems agent_auth.other_until [of A ttl "(ca_node c, ca_token c)" "ca_time c" "ca_done c" "s\<lparr>aa_db := ca_db c\<rparr>" r s1 "(nd, tok)" d]
    show ?thesis by (auto simp: aa_lookup_def until_db)
  qed
  from Cons.IH [OF this] Cons.prems(2) l show ?case by (simp add: aa_run_def)
qed

text \<open>Revocation takes effect within the cache's time to live: after any history of calls done by time
  \<open>T\<close>, and any further calls that find no active row for the node's token in the database, a call at
  \<open>T + ttl\<close> or later refuses the token, although the cache answers without asking the database.\<close>

theorem revoked_within_ttl:
  assumes "\<forall>c\<in>set before. ca_done c \<le> T" and "\<forall>c\<in>set later. inactive A nd tok (ca_db c)"
    and "ca_node c = nd" and "ca_token c = tok" and "inactive A nd tok (ca_db c)" and "T + ttl \<le> ca_time c"
  shows "fst (aa_lookup A ttl c (aa_run A ttl (before @ later) \<lparr>aa_cache = (\<lambda>_. None), aa_db = db\<rparr>)) = None"
proof -
  let ?s0 = "\<lparr>aa_cache = (\<lambda>_. None), aa_db = db\<rparr>"
  have "agent_auth.until (T + ttl) (nd, tok) ?s0" by (simp add: agent_auth.until_def)
  then have "agent_auth.until (T + ttl) (nd, tok) (aa_run A ttl (before @ later) ?s0)"
    using aa_run_before [OF _ assms(1)] aa_run_refused [OF _ assms(2)] by (simp add: aa_run_def)
  with assms(3-6) inactive_refused [OF assms(5)] show ?thesis
    using agent_auth.refused_after [of "T + ttl" "(nd, tok)" "(aa_run A ttl (before @ later) ?s0)\<lparr>aa_db := ca_db c\<rparr>" A "ca_time c" ttl "ca_done c"]
    by (simp add: aa_lookup_def until_db)
qed

definition token_pg :: "time option \<Rightarrow> pg" where
  "token_pg rv = (sample_pg [])\<lparr>tbl := sample_tables\<lparr>node_tokens := [\<lparr>t_id = 8, t_node = 1, t_hash = ''bsecret'',
     t_created = 0, t_revoked = rv\<rparr>]\<rparr>\<rparr>"

definition token_call :: "time option \<Rightarrow> time \<Rightarrow> unit aa_call" where
  "token_call rv t = \<lparr>ca_db = token_pg rv, ca_node = 1, ca_token = ''secret'', ca_time = t, ca_done = t\<rparr>"

theorem revoked_within_ttl_witness:
  "fst (aa_lookup sample_auth_lib 60 (token_call None 10) \<lparr>aa_cache = (\<lambda>_. None), aa_db = token_pg None\<rparr>) \<noteq> None \<and>
   fst (aa_lookup sample_auth_lib 60 (token_call (Some 20) 69)
      (aa_run sample_auth_lib 60 [token_call None 10] \<lparr>aa_cache = (\<lambda>_. None), aa_db = token_pg None\<rparr>)) \<noteq> None \<and>
   fst (aa_lookup sample_auth_lib 60 (token_call (Some 20) 70)
      (aa_run sample_auth_lib 60 ([token_call None 10] @ [token_call (Some 20) 69])
        \<lparr>aa_cache = (\<lambda>_. None), aa_db = token_pg None\<rparr>)) = None"
proof -
  have "inactive sample_auth_lib 1 ''secret'' (ca_db (token_call (Some 20) t))" for t
    by (simp add: inactive_def token_call_def token_pg_def)
  with revoked_within_ttl [of "[token_call None 10]" 10 "[token_call (Some 20) 69]" sample_auth_lib 1 "''secret''"
      "token_call (Some 20) 70" 60 "token_pg None"]
  have "fst (aa_lookup sample_auth_lib 60 (token_call (Some 20) 70)
      (aa_run sample_auth_lib 60 ([token_call None 10] @ [token_call (Some 20) 69])
        \<lparr>aa_cache = (\<lambda>_. None), aa_db = token_pg None\<rparr>)) = None"
    by (simp add: token_call_def)
  moreover have "fst (aa_lookup sample_auth_lib 60 (token_call None 10) \<lparr>aa_cache = (\<lambda>_. None), aa_db = token_pg None\<rparr>) \<noteq> None"
    by code_simp
  moreover have "fst (aa_lookup sample_auth_lib 60 (token_call (Some 20) 69)
      (aa_run sample_auth_lib 60 [token_call None 10] \<lparr>aa_cache = (\<lambda>_. None), aa_db = token_pg None\<rparr>)) \<noteq> None"
    by code_simp
  ultimately show ?thesis by blast
qed

section \<open>Mux sessions\<close>



end
