(* ===== verification/DomainXml.thy ===== *)
theory DomainXml
  imports GoStrings
begin

text \<open>
  Package \<open>libvirt\<close> of compute-agent, first half: the description of a virtual machine
  (\<open>libvirt/domain.go\<close>) and the domain document made from it (\<open>libvirt/xml.go\<close>), with the PCI
  addresses of the devices that are passed through. The document is the Go struct that is marshalled;
  \<open>encoding/xml\<close> is a parameter.
\<close>

section \<open>Specifications\<close>

datatype DomainState = StateUnknown | StateRunning | StateStopped | StateFailed

definition DomainState_String :: "DomainState \<Rightarrow> string" where
  "DomainState_String st = (case st of StateRunning \<Rightarrow> ''running'' | StateStopped \<Rightarrow> ''stopped''
     | StateFailed \<Rightarrow> ''failed'' | StateUnknown \<Rightarrow> ''unknown'')"

record DomainSpec =
  ds_name :: string
  ds_memory :: nat
  ds_vcpus :: nat
  ds_disk :: string
  ds_iso :: string
  ds_network :: string
  ds_machine :: string
  ds_emulator :: string
  ds_pci :: "string list"

record DomainInfo =
  di_name :: string
  di_uuid :: string
  di_state :: DomainState

definition ErrDomainNotFound :: err where
  "ErrDomainNotFound = Err ''libvirt: domain not found''"

definition ErrDomainExists :: err where
  "ErrDomainExists = Err ''libvirt: domain already defined''"

definition Validate_spec :: "DomainSpec \<Rightarrow> err option" where
  "Validate_spec s =
     (if ds_name s = [] then Some (Err ''libvirt: DomainSpec.Name required'')
      else if ds_memory s = 0 then Some (Err ''libvirt: DomainSpec.MemoryMiB must be > 0'')
      else if ds_vcpus s = 0 then Some (Err ''libvirt: DomainSpec.VCPUs must be > 0'')
      else if ds_disk s = [] then Some (Err ''libvirt: DomainSpec.DiskPath required'')
      else None)"

section \<open>The document\<close>

record memXML = mem_unit :: string  mem_value :: nat

record vcpuXML = vc_placement :: string  vc_value :: nat

record osXML = os_arch :: string  os_machine :: string  os_value :: string  os_boot :: "string list"

record featuresXML = ft_acpi :: bool  ft_apic :: bool

record cpuXML = cpu_mode :: string  cpu_check :: string

record driverXML = dr_name :: string  dr_type :: string  dr_cache :: string

record diskXML =
  dk_type :: string
  dk_device :: string
  dk_driver :: driverXML
  dk_file :: string
  dk_dev :: string
  dk_bus :: string
  dk_readonly :: bool

record interfaceXML = if_type :: string  if_network :: string  if_model :: string

record consoleXML = co_type :: string  co_target :: string  co_port :: int

record serialXML = se_type :: string  se_port :: int

record graphicsXML = gr_type :: string  gr_port :: int  gr_listen :: string

record hostdevAddressXML =
  ha_domain :: string
  ha_bus :: string
  ha_slot :: string
  ha_function :: string

record hostdevXML =
  hd_mode :: string
  hd_type :: string
  hd_managed :: string
  hd_driver :: string
  hd_address :: hostdevAddressXML

record devicesXML =
  dv_emulator :: string
  dv_disks :: "diskXML list"
  dv_interfaces :: "interfaceXML list"
  dv_consoles :: "consoleXML list"
  dv_serials :: "serialXML list"
  dv_graphics :: "graphicsXML list"
  dv_hostdevs :: "hostdevXML list"

record domainXML =
  dx_type :: string
  dx_name :: string
  dx_memory :: memXML
  dx_curmemory :: memXML
  dx_vcpu :: vcpuXML
  dx_os :: osXML
  dx_features :: featuresXML
  dx_cpu :: cpuXML
  dx_poweroff :: string
  dx_reboot :: string
  dx_crash :: string
  dx_devices :: devicesXML

text \<open>\<open>xml.MarshalIndent\<close> at the document type, and \<open>xml.Unmarshal\<close> into the part of it that
  \<open>ParsePassthroughPCIFromXML\<close> declares: mode, type and address of every hostdev.\<close>

record xml_lib =
  xml_MarshalIndent :: "domainXML \<Rightarrow> err + string"
  xml_Unmarshal :: "string \<Rightarrow> err + (string \<times> string \<times> hostdevAddressXML) list"

definition seen_hostdev :: "hostdevXML \<Rightarrow> string \<times> string \<times> hostdevAddressXML" where
  "seen_hostdev h = (hd_mode h, hd_type h, hd_address h)"

text \<open>What \<open>encoding/xml\<close> documents: attributes come back as they were written.\<close>

definition xml_ok :: "xml_lib \<Rightarrow> bool" where
  "xml_ok L \<longleftrightarrow> (\<forall>d raw. xml_MarshalIndent L d = Inr raw \<longrightarrow>
     xml_Unmarshal L raw = Inr (map seen_hostdev (dv_hostdevs (dx_devices d))))"

section \<open>PCI addresses\<close>

definition hex_digit :: "char \<Rightarrow> nat option" where
  "hex_digit c = (let n = of_char c :: nat in
     if 48 \<le> n \<and> n \<le> 57 then Some (n - 48)
     else if 97 \<le> n \<and> n \<le> 102 then Some (n - 87)
     else if 65 \<le> n \<and> n \<le> 70 then Some (n - 55) else None)"

fun hex_value :: "nat \<Rightarrow> string \<Rightarrow> nat option" where
  "hex_value acc [] = Some acc"
| "hex_value acc (c # cs) = (case hex_digit c of None \<Rightarrow> None | Some d \<Rightarrow> hex_value (16 * acc + d) cs)"

text \<open>\<open>strconv.ParseUint(f, 16, 32)\<close>.\<close>

definition ParseUint16_32 :: "string \<Rightarrow> err + nat" where
  "ParseUint16_32 f = (case hex_value 0 f of
       None \<Rightarrow> Inl (Err (''strconv.ParseUint: parsing '' @ quoted f @ '': invalid syntax''))
     | Some n \<Rightarrow> if f = [] then Inl (Err (''strconv.ParseUint: parsing '' @ quoted f @ '': invalid syntax''))
                 else if n \<ge> 2 ^ 32 then Inl (Err (''strconv.ParseUint: parsing '' @ quoted f @ '': value out of range''))
                 else Inr n)"

text \<open>The check of the four components, in order; the first bad one is reported.\<close>

fun check_hex :: "string \<Rightarrow> string list \<Rightarrow> err option" where
  "check_hex pci [] = None"
| "check_hex pci (f # fs) = (case ParseUint16_32 f of
     Inl e \<Rightarrow> Some (WrapErr (''non-hex component in '' @ quoted pci @ '': '') e []) | Inr _ \<Rightarrow> check_hex pci fs)"

definition hostdev_for :: "string \<Rightarrow> string \<Rightarrow> string \<Rightarrow> string \<Rightarrow> hostdevXML" where
  "hostdev_for dmn bus sl fn = \<lparr>hd_mode = ''subsystem'', hd_type = ''pci'', hd_managed = ''yes'', hd_driver = ''vfio'',
     hd_address = \<lparr>ha_domain = ''0x'' @ dmn, ha_bus = ''0x'' @ bus, ha_slot = ''0x'' @ sl, ha_function = ''0x'' @ fn\<rparr>\<rparr>"

definition buildHostdev :: "string \<Rightarrow> err + hostdevXML" where
  "buildHostdev pci = (case Split pci (CHR '':'') of
       [dmn, bus, rest] \<Rightarrow> (case Split rest (CHR ''.'') of
           [sl, fn] \<Rightarrow> (case check_hex pci [dmn, bus, sl, fn] of
               Some e \<Rightarrow> Inl e
             | None \<Rightarrow> Inr (hostdev_for dmn bus sl fn))
         | _ \<Rightarrow> Inl (Err (''malformed pci slot.function in '' @ quoted pci)))
     | _ \<Rightarrow> Inl (Err (''malformed pci address '' @ quoted pci)))"

definition trimHex :: "string \<Rightarrow> string" where
  "trimHex s = TrimPrefix s ''0x''"

definition pci_text :: "hostdevAddressXML \<Rightarrow> string" where
  "pci_text a = trimHex (ha_domain a) @ '':'' @ trimHex (ha_bus a) @ '':'' @ trimHex (ha_slot a) @ ''.'' @ trimHex (ha_function a)"

definition ParsePassthroughPCIFromXML :: "xml_lib \<Rightarrow> string \<Rightarrow> err + string list" where
  "ParsePassthroughPCIFromXML L raw = (case xml_Unmarshal L raw of
       Inl e \<Rightarrow> Inl (WrapErr ''parse domain xml: '' e [])
     | Inr hds \<Rightarrow> Inr (map (\<lambda>(_, _, a). pci_text a) (filter (\<lambda>(m, t, _). m = ''subsystem'' \<and> t = ''pci'') hds)))"

section \<open>Building the document\<close>

definition machineType :: "string \<Rightarrow> string" where
  "machineType v = (if v \<noteq> [] then v else ''q35'')"

definition emulator :: "string \<Rightarrow> string" where
  "emulator v = (if v \<noteq> [] then v else ''/usr/bin/qemu-system-x86_64'')"

definition boot_disk :: "DomainSpec \<Rightarrow> diskXML" where
  "boot_disk s = \<lparr>dk_type = ''file'', dk_device = ''disk'',
     dk_driver = \<lparr>dr_name = ''qemu'', dr_type = ''qcow2'', dr_cache = ''writeback''\<rparr>,
     dk_file = ds_disk s, dk_dev = ''vda'', dk_bus = ''virtio'', dk_readonly = False\<rparr>"

definition seed_disk :: "DomainSpec \<Rightarrow> diskXML" where
  "seed_disk s = \<lparr>dk_type = ''file'', dk_device = ''cdrom'',
     dk_driver = \<lparr>dr_name = ''qemu'', dr_type = ''raw'', dr_cache = []\<rparr>,
     dk_file = ds_iso s, dk_dev = ''sda'', dk_bus = ''sata'', dk_readonly = True\<rparr>"

fun build_hostdevs :: "string list \<Rightarrow> err + hostdevXML list" where
  "build_hostdevs [] = Inr []"
| "build_hostdevs (pci # ps) = (case buildHostdev pci of
     Inl e \<Rightarrow> Inl (WrapErr (''hostdev '' @ pci @ '': '') e [])
   | Inr h \<Rightarrow> (case build_hostdevs ps of Inl e \<Rightarrow> Inl e | Inr hs \<Rightarrow> Inr (h # hs)))"

definition domain_doc :: "DomainSpec \<Rightarrow> hostdevXML list \<Rightarrow> domainXML" where
  "domain_doc s hs = \<lparr>dx_type = ''kvm'', dx_name = ds_name s,
     dx_memory = \<lparr>mem_unit = ''MiB'', mem_value = ds_memory s\<rparr>,
     dx_curmemory = \<lparr>mem_unit = ''MiB'', mem_value = ds_memory s\<rparr>,
     dx_vcpu = \<lparr>vc_placement = ''static'', vc_value = ds_vcpus s\<rparr>,
     dx_os = \<lparr>os_arch = ''x86_64'', os_machine = machineType (ds_machine s), os_value = ''hvm'', os_boot = [''hd'']\<rparr>,
     dx_features = \<lparr>ft_acpi = True, ft_apic = True\<rparr>,
     dx_cpu = \<lparr>cpu_mode = ''host-passthrough'', cpu_check = ''none''\<rparr>,
     dx_poweroff = ''destroy'', dx_reboot = ''restart'', dx_crash = ''destroy'',
     dx_devices = \<lparr>dv_emulator = emulator (ds_emulator s),
       dv_disks = boot_disk s # (if ds_iso s \<noteq> [] then [seed_disk s] else []),
       dv_interfaces = (if ds_network s \<noteq> []
         then [\<lparr>if_type = ''network'', if_network = ds_network s, if_model = ''virtio''\<rparr>] else []),
       dv_consoles = [\<lparr>co_type = ''pty'', co_target = ''serial'', co_port = 0\<rparr>],
       dv_serials = [\<lparr>se_type = ''pty'', se_port = 0\<rparr>],
       dv_graphics = [\<lparr>gr_type = ''vnc'', gr_port = -1, gr_listen = ''127.0.0.1''\<rparr>],
       dv_hostdevs = hs\<rparr>\<rparr>"

definition BuildDomainXML :: "xml_lib \<Rightarrow> DomainSpec \<Rightarrow> err + string" where
  "BuildDomainXML L s = (case Validate_spec s of
       Some e \<Rightarrow> Inl e
     | None \<Rightarrow> (case build_hostdevs (ds_pci s) of
         Inl e \<Rightarrow> Inl e
       | Inr hs \<Rightarrow> (case xml_MarshalIndent L (domain_doc s hs) of
           Inl e \<Rightarrow> Inl (WrapErr ''marshal domain xml: '' e [])
         | Inr buf \<Rightarrow> Inr buf)))"

section \<open>Laws\<close>

lemma trimHex_prefixed [simp]: "trimHex (CHR ''0'' # CHR ''x'' # s) = s"
  using TrimPrefix_append [of "''0x''" s] by (simp add: trimHex_def)

text \<open>Reading the address of a hostdev back gives the text it was built from.\<close>

lemma buildHostdev_inverse:
  assumes "buildHostdev pci = Inr h"
  shows "hd_mode h = ''subsystem'' \<and> hd_type h = ''pci'' \<and> pci_text (hd_address h) = pci"
proof -
  from assms obtain dmn bus rest sl fn where s: "Split pci (CHR '':'') = [dmn, bus, rest]" "Split rest (CHR ''.'') = [sl, fn]"
    and h: "h = hostdev_for dmn bus sl fn"
    by (auto simp: buildHostdev_def split: list.splits option.splits)
  have "pci = dmn @ '':'' @ bus @ '':'' @ rest" using join_Split [of "CHR '':''" pci] s(1) by simp
  moreover have "rest = sl @ ''.'' @ fn" using join_Split [of "CHR ''.''" rest] s(2) by simp
  ultimately show ?thesis by (simp add: h hostdev_for_def pci_text_def)
qed

lemma build_hostdevs_inverse:
  assumes "build_hostdevs ps = Inr hs"
  shows "map (\<lambda>h. pci_text (hd_address h)) hs = ps \<and> (\<forall>h\<in>set hs. hd_mode h = ''subsystem'' \<and> hd_type h = ''pci'')"
  using assms
  by (induction ps arbitrary: hs) (auto dest: buildHostdev_inverse split: sum.splits)

end
