(* ===== verification/Libvirt.thy ===== *)
theory Libvirt
  imports DomainXml
begin

text \<open>
  Package \<open>libvirt\<close> of compute-agent, second half: the manager of domains (\<open>libvirt/manager.go\<close>).
  libvirtd is behind the interface \<open>Connector\<close>, a record of calls on an unknown state; what the code
  relies on of it is the predicate \<open>libvirtd_ok\<close>.
\<close>

section \<open>The connection\<close>

record vir_domain =
  vd_name :: string
  vd_uuid :: "8 word list"

text \<open>An address of an interface: its type (0 is IPv4) and text.\<close>

type_synonym vir_addr = "int \<times> string"

record 'd connector =
  DomainDefineXML :: "string \<Rightarrow> ('d, vir_domain) action"
  DomainCreate :: "vir_domain \<Rightarrow> ('d, unit) action"
  DomainDestroy :: "vir_domain \<Rightarrow> ('d, unit) action"
  DomainUndefineFlags :: "vir_domain \<Rightarrow> ('d, unit) action"
  DomainLookupByName :: "string \<Rightarrow> ('d, vir_domain) action"
  DomainGetState :: "vir_domain \<Rightarrow> ('d, int) action"
  DomainGetXMLDesc :: "vir_domain \<Rightarrow> ('d, string) action"
  DomainInterfaceAddresses :: "vir_domain \<Rightarrow> ('d, vir_addr list list) action"

section \<open>Helpers\<close>

definition mapLibvirtState :: "int \<Rightarrow> DomainState" where
  "mapLibvirtState raw = (if raw = 1 \<or> raw = 2 then StateRunning else if raw = 4 \<or> raw = 5 then StateStopped
     else if raw = 6 then StateFailed else StateUnknown)"

text \<open>\<open>hasSub\<close>: the scan over all starting positions.\<close>

fun hasSub_from :: "nat \<Rightarrow> nat \<Rightarrow> string \<Rightarrow> string \<Rightarrow> bool" where
  "hasSub_from 0 i s sub = False"
| "hasSub_from (Suc f) i s sub = (i + length sub \<le> length s \<and>
     (take (length sub) (drop i s) = sub \<or> hasSub_from f (Suc i) s sub))"

definition hasSub :: "string \<Rightarrow> string \<Rightarrow> bool" where
  "hasSub s sub = hasSub_from (Suc (length s)) 0 s sub"

definition errContains :: "err \<Rightarrow> string \<Rightarrow> bool" where
  "errContains e sub \<longleftrightarrow> length sub \<le> length (err_text e) \<and> hasSub (err_text e) sub"

definition isLibvirtDomainNotRunning :: "err \<Rightarrow> bool" where
  "isLibvirtDomainNotRunning e \<longleftrightarrow> errContains e ''domain is not running''"

definition hex_char :: "nat \<Rightarrow> char" where
  "hex_char n = ''0123456789abcdef'' ! n"

fun uuid_bytes :: "nat \<Rightarrow> 8 word list \<Rightarrow> string" where
  "uuid_bytes i [] = []"
| "uuid_bytes i (b # bs) = (if i = 4 \<or> i = 6 \<or> i = 8 \<or> i = 10 then ''-'' else []) @
     [hex_char (unat b div 16), hex_char (unat b mod 16)] @ uuid_bytes (Suc i) bs"

definition uuidString :: "8 word list \<Rightarrow> string" where
  "uuidString bs = uuid_bytes 0 bs"

section \<open>Operations\<close>

text \<open>\<open>ctx\<close> is what \<open>ctx.Err()\<close> returns, \<open>None\<close> for a live or a nil context.\<close>

definition lookup_domain :: "'d connector \<Rightarrow> string \<Rightarrow> ('d, vir_domain) action" where
  "lookup_domain C nm = wrap_err (\<lambda>_. WrapErr [] ErrDomainNotFound ('': '' @ nm)) (DomainLookupByName C nm)"

definition DomainState_of :: "'d connector \<Rightarrow> err option \<Rightarrow> string \<Rightarrow> ('d, DomainState) action" where
  "DomainState_of C ctx nm = (case ctx of Some e \<Rightarrow> fail e
     | None \<Rightarrow> bnd (lookup_domain C nm) (\<lambda>d.
               bnd (wrap_err (\<lambda>e. WrapErr ''get state: '' e []) (DomainGetState C d)) (\<lambda>raw.
               ret (mapLibvirtState raw))))"

text \<open>Define and start, with the definition rolled back when the start fails.\<close>

definition define_and_start :: "'d connector \<Rightarrow> string \<Rightarrow> ('d, vir_domain) action" where
  "define_and_start C xml =
     bnd (wrap_err (\<lambda>e. WrapErr ''define domain: '' e []) (DomainDefineXML C xml)) (\<lambda>d.
     attempt (DomainCreate C d) (\<lambda>r. case r of
         Inl e \<Rightarrow> attempt (DomainUndefineFlags C d) (\<lambda>_. fail (WrapErr ''start domain: '' e []))
       | Inr _ \<Rightarrow> ret d))"

definition CreateDomain :: "'d connector \<Rightarrow> xml_lib \<Rightarrow> err option \<Rightarrow> DomainSpec \<Rightarrow> ('d, DomainInfo) action" where
  "CreateDomain C L ctx spec = (case ctx of Some e \<Rightarrow> fail e
     | None \<Rightarrow> (case BuildDomainXML L spec of
         Inl e \<Rightarrow> fail e
       | Inr xml \<Rightarrow> attempt (DomainLookupByName C (ds_name spec)) (\<lambda>ex.
           if (case ex of Inl _ \<Rightarrow> False | Inr d \<Rightarrow> vd_name d \<noteq> [])
           then fail (WrapErr [] ErrDomainExists ('': '' @ ds_name spec))
           else bnd (define_and_start C xml) (\<lambda>d.
                attempt (DomainState_of C None (ds_name spec)) (\<lambda>st.
                ret \<lparr>di_name = ds_name spec, di_uuid = uuidString (vd_uuid d),
                     di_state = (case st of Inl _ \<Rightarrow> StateUnknown | Inr x \<Rightarrow> x)\<rparr>)))))"

definition DestroyDomain :: "'d connector \<Rightarrow> err option \<Rightarrow> string \<Rightarrow> ('d, unit) action" where
  "DestroyDomain C ctx nm = (case ctx of Some e \<Rightarrow> fail e
     | None \<Rightarrow> bnd (lookup_domain C nm) (\<lambda>d.
         attempt (DomainDestroy C d) (\<lambda>r. case r of
             Inl e \<Rightarrow> if \<not> isLibvirtDomainNotRunning e then fail (WrapErr ''destroy: '' e [])
                      else wrap_err (\<lambda>e. WrapErr ''undefine: '' e []) (DomainUndefineFlags C d)
           | Inr _ \<Rightarrow> wrap_err (\<lambda>e. WrapErr ''undefine: '' e []) (DomainUndefineFlags C d))))"

definition DomainPassthroughPCI :: "'d connector \<Rightarrow> xml_lib \<Rightarrow> err option \<Rightarrow> string \<Rightarrow> ('d, string list) action" where
  "DomainPassthroughPCI C L ctx nm = (case ctx of Some e \<Rightarrow> fail e
     | None \<Rightarrow> bnd (lookup_domain C nm) (\<lambda>d.
         bnd (wrap_err (\<lambda>e. WrapErr ''get xml: '' e []) (DomainGetXMLDesc C d)) (\<lambda>raw.
         (\<lambda>s. (ParsePassthroughPCIFromXML L raw, s)))))"

definition first_ipv4 :: "vir_addr list list \<Rightarrow> string" where
  "first_ipv4 ifs = (case find (\<lambda>a. fst a = 0 \<and> snd a \<noteq> []) (concat ifs) of None \<Rightarrow> [] | Some a \<Rightarrow> snd a)"

definition DomainIPv4 :: "'d connector \<Rightarrow> err option \<Rightarrow> string \<Rightarrow> ('d, string) action" where
  "DomainIPv4 C ctx nm = (case ctx of Some e \<Rightarrow> fail e
     | None \<Rightarrow> bnd (lookup_domain C nm) (\<lambda>d.
         bnd (wrap_err (\<lambda>e. WrapErr ''interface addresses: '' e []) (DomainInterfaceAddresses C d)) (\<lambda>ifs.
         ret (first_ipv4 ifs))))"

section \<open>What libvirtd promises\<close>

text \<open>
  \<open>view\<close> reads off the state of libvirtd which domains are defined, whether each runs, and its
  document. Reads change nothing; a call that fails changes nothing; a lookup finds exactly the
  defined domains; defining, starting, powering off and undefining do what their names say to the
  domain they are called for and to no other. Its errors are not the sentinel of this package.
\<close>

type_synonym 'd vir_view = "'d \<Rightarrow> string \<Rightarrow> (bool \<times> string) option"

definition quiet :: "'d vir_view \<Rightarrow> ('d, 'a) action \<Rightarrow> bool" where
  "quiet view m \<longleftrightarrow> (\<forall>s r s'. m s = (r, s') \<longrightarrow> view s' = view s)"

definition fails_quietly :: "'d vir_view \<Rightarrow> ('d, 'a) action \<Rightarrow> bool" where
  "fails_quietly view m \<longleftrightarrow> (\<forall>s e s'. m s = (Inl e, s') \<longrightarrow> view s' = view s)"

definition libvirtd_ok :: "'d connector \<Rightarrow> xml_lib \<Rightarrow> 'd vir_view \<Rightarrow> bool" where
  "libvirtd_ok C L view \<longleftrightarrow>
     (\<forall>nm. quiet view (DomainLookupByName C nm)) \<and>
     (\<forall>nm s d s'. DomainLookupByName C nm s = (Inr d, s') \<longrightarrow> vd_name d = nm \<and> view s nm \<noteq> None) \<and>
     (\<forall>nm s e s'. DomainLookupByName C nm s = (Inl e, s') \<longrightarrow> view s nm = None) \<and>
     (\<forall>d. quiet view (DomainGetState C d) \<and> quiet view (DomainGetXMLDesc C d) \<and> quiet view (DomainInterfaceAddresses C d)) \<and>
     (\<forall>x. fails_quietly view (DomainDefineXML C x)) \<and>
     (\<forall>d. fails_quietly view (DomainCreate C d) \<and> fails_quietly view (DomainDestroy C d) \<and>
        fails_quietly view (DomainUndefineFlags C d)) \<and>
     (\<forall>doc x s d s'. xml_MarshalIndent L doc = Inr x \<longrightarrow> DomainDefineXML C x s = (Inr d, s') \<longrightarrow>
        vd_name d = dx_name doc \<and> view s' = (view s)(dx_name doc \<mapsto> (False, x))) \<and>
     (\<forall>d s s'. DomainCreate C d s = (Inr (), s') \<longrightarrow>
        view s' = (view s)(vd_name d := map_option (\<lambda>(_, x). (True, x)) (view s (vd_name d)))) \<and>
     (\<forall>d s s'. DomainDestroy C d s = (Inr (), s') \<longrightarrow>
        view s' = (view s)(vd_name d := map_option (\<lambda>(_, x). (False, x)) (view s (vd_name d)))) \<and>
     (\<forall>d s s'. DomainUndefineFlags C d s = (Inr (), s') \<longrightarrow> view s' = (view s)(vd_name d := None)) \<and>
     (\<forall>d s e s'. DomainDestroy C d s = (Inl e, s') \<longrightarrow> \<not> err_is e ErrDomainNotFound) \<and>
     (\<forall>d s e s'. DomainUndefineFlags C d s = (Inl e, s') \<longrightarrow> \<not> err_is e ErrDomainNotFound)"

lemma libvirtd_okD:
  assumes "libvirtd_ok C L view"
  shows "DomainLookupByName C nm s = (r, s') \<Longrightarrow> view s' = view s"
    and "DomainLookupByName C nm s = (Inr d, s') \<Longrightarrow> vd_name d = nm \<and> view s nm \<noteq> None"
    and "DomainLookupByName C nm s = (Inl e, s') \<Longrightarrow> view s nm = None"
    and "DomainGetState C d s = (r1, s') \<Longrightarrow> view s' = view s"
    and "DomainGetXMLDesc C d s = (r2, s') \<Longrightarrow> view s' = view s"
    and "DomainInterfaceAddresses C d s = (r3, s') \<Longrightarrow> view s' = view s"
    and "DomainDefineXML C x s = (Inl e, s') \<Longrightarrow> view s' = view s"
    and "DomainCreate C d s = (Inl e, s') \<Longrightarrow> view s' = view s"
    and "DomainDestroy C d s = (Inl e, s') \<Longrightarrow> view s' = view s"
    and "DomainUndefineFlags C d s = (Inl e, s') \<Longrightarrow> view s' = view s"
    and "xml_MarshalIndent L doc = Inr x \<Longrightarrow> DomainDefineXML C x s = (Inr d, s') \<Longrightarrow>
        vd_name d = dx_name doc \<and> view s' = (view s)(dx_name doc \<mapsto> (False, x))"
    and "DomainCreate C d s = (Inr (), s') \<Longrightarrow>
        view s' = (view s)(vd_name d := map_option (\<lambda>(_, x). (True, x)) (view s (vd_name d)))"
    and "DomainDestroy C d s = (Inr (), s') \<Longrightarrow>
        view s' = (view s)(vd_name d := map_option (\<lambda>(_, x). (False, x)) (view s (vd_name d)))"
    and "DomainUndefineFlags C d s = (Inr (), s') \<Longrightarrow> view s' = (view s)(vd_name d := None)"
    and "DomainDestroy C d s = (Inl e, s') \<Longrightarrow> \<not> err_is e ErrDomainNotFound"
    and "DomainUndefineFlags C d s = (Inl e, s') \<Longrightarrow> \<not> err_is e ErrDomainNotFound"
  using assms unfolding libvirtd_ok_def quiet_def fails_quietly_def by (elim conjE; metis)+

section \<open>The manager on such a host\<close>

lemma lookup_domain_cases:
  assumes "libvirtd_ok C L view" and "lookup_domain C nm s = (r, s')"
  shows "view s' = view s \<and> (if view s nm = None then r = Inl (WrapErr [] ErrDomainNotFound ('': '' @ nm))
    else \<exists>d. r = Inr d \<and> vd_name d = nm)"
  using assms(2) libvirtd_okD(1-3) [OF assms(1)]
  by (auto simp: lookup_domain_def wrap_err_def split: prod.splits sum.splits) (metis option.distinct(1))+

lemma DomainState_quiet:
  assumes "libvirtd_ok C L view" and "DomainState_of C ctx nm s = (r, s')"
  shows "view s' = view s"
  using assms(2) lookup_domain_cases [OF assms(1)] libvirtd_okD(4) [OF assms(1)]
  by (fastforce simp: DomainState_of_def action_defs split: option.splits prod.splits sum.splits)

lemma DomainPassthroughPCI_quiet:
  assumes "libvirtd_ok C L view" and "DomainPassthroughPCI C L ctx nm s = (r, s')"
  shows "view s' = view s"
  using assms(2) lookup_domain_cases [OF assms(1)] libvirtd_okD(5) [OF assms(1)]
  by (fastforce simp: DomainPassthroughPCI_def action_defs split: option.splits prod.splits sum.splits)

lemma DomainIPv4_quiet:
  assumes "libvirtd_ok C L view" and "DomainIPv4 C ctx nm s = (r, s')"
  shows "view s' = view s"
  using assms(2) lookup_domain_cases [OF assms(1)] libvirtd_okD(6) [OF assms(1)]
  by (fastforce simp: DomainIPv4_def action_defs split: option.splits prod.splits sum.splits)

lemma BuildDomainXML_Inr:
  assumes "BuildDomainXML L spec = Inr xml"
  shows "ds_name spec \<noteq> [] \<and> (\<exists>hs. build_hostdevs (ds_pci spec) = Inr hs \<and> xml_MarshalIndent L (domain_doc spec hs) = Inr xml)"
  using assms by (auto simp: BuildDomainXML_def Validate_spec_def split: option.splits sum.splits if_splits)

lemma define_and_start_cases:
  assumes ok: "libvirtd_ok C L view" and xml: "BuildDomainXML L spec = Inr xml"
    and run: "define_and_start C xml s = (r, s')"
  obtains (started) d where "r = Inr d" "view s' = (view s)(ds_name spec \<mapsto> (True, xml))"
  | (failed) e where "r = Inl e" "view s' = view s \<or> view s' = (view s)(ds_name spec := None) \<or> view s' = (view s)(ds_name spec \<mapsto> (False, xml))"
proof -
  from BuildDomainXML_Inr [OF xml] obtain hs where m: "xml_MarshalIndent L (domain_doc spec hs) = Inr xml" by auto
  obtain r1 s1 where def: "DomainDefineXML C xml s = (r1, s1)" by fastforce
  show thesis
  proof (cases r1)
    case (Inl e)
    with run def libvirtd_okD(7) [OF ok] show ?thesis
      by (intro failed) (auto simp: define_and_start_def action_defs)
  next
    case (Inr d)
    with libvirtd_okD(11) [OF ok m] def have v1: "vd_name d = ds_name spec" "view s1 = (view s)(ds_name spec \<mapsto> (False, xml))"
      by (auto simp: domain_doc_def)
    obtain r2 s2 where cr: "DomainCreate C d s1 = (r2, s2)" by fastforce
    show ?thesis
    proof (cases r2)
      case (Inr u)
      with cr libvirtd_okD(12) [OF ok, of d s1 s2] v1 have "view s2 = (view s)(ds_name spec \<mapsto> (True, xml))" by simp
      with run def \<open>r1 = Inr d\<close> cr Inr show ?thesis by (intro started) (auto simp: define_and_start_def action_defs)
    next
      case (Inl e)
      with cr libvirtd_okD(8) [OF ok] v1 have v2: "view s2 = (view s)(ds_name spec \<mapsto> (False, xml))" by metis
      obtain r3 s3 where un: "DomainUndefineFlags C d s2 = (r3, s3)" by fastforce
      have "view s3 = (view s)(ds_name spec := None) \<or> view s3 = (view s)(ds_name spec \<mapsto> (False, xml))"
        using un v1 v2 libvirtd_okD(10) [OF ok, of d s2 _ s3] libvirtd_okD(14) [OF ok, of d s2 s3] by (cases r3) auto
      with run def \<open>r1 = Inr d\<close> cr Inl un show ?thesis by (intro failed) (auto simp: define_and_start_def action_defs)
    qed
  qed
qed

lemma CreateDomain_cases:
  assumes ok: "libvirtd_ok C L view" and run: "CreateDomain C L ctx spec s = (r, s')"
  obtains (created) info xml where "r = Inr info" "ctx = None" "BuildDomainXML L spec = Inr xml"
      "view s (ds_name spec) = None" "view s' = (view s)(ds_name spec \<mapsto> (True, xml))"
  | (exists) xml where "r = Inl (WrapErr [] ErrDomainExists ('': '' @ ds_name spec))" "ctx = None"
      "BuildDomainXML L spec = Inr xml" "view s (ds_name spec) \<noteq> None" "view s' = view s"
  | (refused) e where "r = Inl e" "ctx \<noteq> None \<or> (\<exists>e. BuildDomainXML L spec = Inl e)" "view s' = view s"
  | (failed) e xml where "r = Inl e" "ctx = None" "BuildDomainXML L spec = Inr xml" "view s (ds_name spec) = None"
      "view s' = view s \<or> view s' = (view s)(ds_name spec \<mapsto> (False, xml))"
proof (cases ctx)
  case (Some e)
  with run show ?thesis by (intro refused) (auto simp: CreateDomain_def action_defs)
next
  case None
  show ?thesis
  proof (cases "BuildDomainXML L spec")
    case (Inl e)
    with run None show ?thesis by (intro refused) (auto simp: CreateDomain_def action_defs)
  next
    case (Inr xml)
    obtain l s1 where l: "DomainLookupByName C (ds_name spec) s = (l, s1)" by fastforce
    note v1 = libvirtd_okD(1) [OF ok l]
    show ?thesis
    proof (cases l)
      case (Inr d)
      with l libvirtd_okD(2) [OF ok] have d: "vd_name d = ds_name spec" "view s (ds_name spec) \<noteq> None" by auto
      with BuildDomainXML_Inr [OF \<open>BuildDomainXML L spec = Inr xml\<close>] have "vd_name d \<noteq> []" by simp
      with run None \<open>BuildDomainXML L spec = Inr xml\<close> l Inr d v1 show ?thesis
        by (intro exists) (auto simp: CreateDomain_def action_defs)
    next
      case (Inl e)
      with l libvirtd_okD(3) [OF ok] have none: "view s (ds_name spec) = None" by auto
      obtain q s2 where q: "define_and_start C xml s1 = (q, s2)" by fastforce
      from ok Inr q show ?thesis
      proof (cases rule: define_and_start_cases)
        case (started d)
        obtain st s3 where st: "DomainState_of C None (ds_name spec) s2 = (st, s3)" by fastforce
        from DomainState_quiet [OF ok st] started v1 none run None \<open>BuildDomainXML L spec = Inr xml\<close> l Inl q st show ?thesis
          by (intro created) (auto simp: CreateDomain_def action_defs)
      next
        case (failed e')
        moreover from none v1 have "(view s1)(ds_name spec := None) = view s" by auto
        ultimately show ?thesis using v1 none run None \<open>BuildDomainXML L spec = Inr xml\<close> l Inl q
          by (intro that(4)) (auto simp: CreateDomain_def action_defs)
      qed
    qed
  qed
qed

lemma DestroyDomain_cases:
  assumes ok: "libvirtd_ok C L view" and run: "DestroyDomain C ctx nm s = (r, s')"
  obtains (gone) "r = Inr ()" "ctx = None" "view s nm \<noteq> None" "view s' = (view s)(nm := None)"
  | (missing) e where "r = Inl e" "ctx = None" "err_is e ErrDomainNotFound" "view s nm = None" "view s' = view s"
  | (cancelled) e where "r = Inl e" "ctx = Some e" "view s' = view s"
  | (failed) e where "r = Inl e" "ctx = None" "\<not> err_is e ErrDomainNotFound" "view s nm \<noteq> None"
      "\<And>n. n \<noteq> nm \<Longrightarrow> view s' n = view s n" "map_option snd (view s' nm) = map_option snd (view s nm)"
proof (cases ctx)
  case (Some e)
  with run show ?thesis by (intro cancelled) (auto simp: DestroyDomain_def action_defs)
next
  case None
  obtain l s1 where l: "lookup_domain C nm s = (l, s1)" by fastforce
  note lc = lookup_domain_cases [OF ok l]
  show ?thesis
  proof (cases "view s nm = None")
    case True
    with lc run None l show ?thesis by (intro missing) (auto simp: DestroyDomain_def action_defs ErrDomainNotFound_def)
  next
    case False
    with lc obtain d where d: "l = Inr d" "vd_name d = nm" by auto
    obtain r2 s2 where de: "DomainDestroy C d s1 = (r2, s2)" by fastforce
    have v2: "view s2 = view s \<or> view s2 = (view s)(nm := map_option (\<lambda>(_, x). (False, x)) (view s nm))"
      using de d lc libvirtd_okD(9) [OF ok, of d s1 _ s2] libvirtd_okD(13) [OF ok, of d s1 s2] by (cases r2) auto
    then have keep: "n \<noteq> nm \<Longrightarrow> view s2 n = view s n" "map_option snd (view s2 nm) = map_option snd (view s nm)" for n
      by (auto simp: option.map_comp comp_def case_prod_beta)
    obtain r3 s3 where un: "DomainUndefineFlags C d s2 = (r3, s3)" by fastforce
    show ?thesis
    proof (cases "\<exists>e. r2 = Inl e \<and> \<not> isLibvirtDomainNotRunning e")
      case True
      then obtain e where e: "r2 = Inl e" "\<not> isLibvirtDomainNotRunning e" by blast
      have "\<not> err_is e ErrDomainNotFound" using libvirtd_okD(15) [OF ok] de e by blast
      moreover have "r = Inl (WrapErr ''destroy: '' e [])" "s' = s2"
        using e run None l d de by (auto simp: DestroyDomain_def action_defs)
      ultimately show ?thesis using None False keep
        by (intro failed [of "WrapErr ''destroy: '' e []"]) (simp_all add: ErrDomainNotFound_def)
    next
      case go: False
      then have res: "DestroyDomain C ctx nm s = wrap_err (\<lambda>e. WrapErr ''undefine: '' e []) (DomainUndefineFlags C d) s2"
        using None l d de by (cases r2) (auto simp: DestroyDomain_def action_defs)
      show ?thesis
      proof (cases r3)
        case (Inr u)
        from v2 have "(view s2)(nm := None) = (view s)(nm := None)" by auto
        with libvirtd_okD(14) [OF ok, of d s2 s3] un Inr d run res None False show ?thesis
          by (intro gone) (auto simp: wrap_err_def)
      next
        case (Inl e)
        with un libvirtd_okD(10,16) [OF ok] have "view s3 = view s2" "\<not> err_is e ErrDomainNotFound" by blast+
        moreover have "r = Inl (WrapErr ''undefine: '' e [])" "s' = s3" using run res un Inl by (auto simp: wrap_err_def)
        ultimately show ?thesis using None False keep
          by (intro failed [of "WrapErr ''undefine: '' e []"]) (simp_all add: ErrDomainNotFound_def)
      qed
    qed
  qed
qed

end
