(* ===== verification/Gpu.thy ===== *)
theory Gpu
  imports GoStrings "HOL-Library.Char_ord" "HOL-Library.List_Lexorder"
begin

text \<open>
  Package \<open>gpu\<close> of compute-agent: what sysfs says about the PCI devices of the host, and the reset of
  a device between two tenants. The file system below \<open>/sys\<close> is a parameter; a path is the list of the
  arguments of \<open>filepath.Join\<close>. A reset is a write to sysfs; the model keeps the devices it was
  requested for.
\<close>

record sysfs =
  sf_root :: string
  sf_Readlink :: "string list \<Rightarrow> err + string"
  sf_ReadDir :: "string list \<Rightarrow> err + string list"
  sf_ReadFile :: "string list \<Rightarrow> err + string"
  sf_Stat :: "string list \<Rightarrow> err option"
  sf_WriteFile :: "string list \<Rightarrow> string \<Rightarrow> err option"
  sf_IsNotExist :: "err \<Rightarrow> bool"

definition ErrDeviceNotFound :: err where
  "ErrDeviceNotFound = Err ''gpu: pci device not found in sysfs''"

definition root :: "sysfs \<Rightarrow> string" where
  "root s = (if sf_root s = [] then ''/sys'' else sf_root s)"

definition device_file :: "sysfs \<Rightarrow> string \<Rightarrow> string \<Rightarrow> string list" where
  "device_file s pci f = [root s, ''bus/pci/devices'', pci, f]"

text \<open>\<open>filepath.Base\<close>.\<close>

definition Base :: "string \<Rightarrow> string" where
  "Base p = (if p = [] then ''.''
     else let q = rev (dropWhile (\<lambda>c. c = CHR ''/'') (rev p)) in
       if q = [] then ''/'' else rev (takeWhile (\<lambda>c. c \<noteq> CHR ''/'') (rev q)))"

definition IOMMUEnabled :: "sysfs \<Rightarrow> bool" where
  "IOMMUEnabled s = (case sf_ReadDir s [root s, ''kernel/iommu_groups''] of Inl _ \<Rightarrow> False | Inr es \<Rightarrow> es \<noteq> [])"

definition IOMMUGroup :: "sysfs \<Rightarrow> string \<Rightarrow> err + string" where
  "IOMMUGroup s pci = (case sf_Readlink s (device_file s pci ''iommu_group'') of
       Inl e \<Rightarrow> if sf_IsNotExist s e then Inl (WrapErr [] ErrDeviceNotFound ('': '' @ pci)) else Inl e
     | Inr link \<Rightarrow> Inr (Base link))"

definition GroupMembers :: "sysfs \<Rightarrow> string \<Rightarrow> err + string list" where
  "GroupMembers s pci = (case IOMMUGroup s pci of
       Inl e \<Rightarrow> Inl e
     | Inr g \<Rightarrow> (case sf_ReadDir s [root s, ''kernel/iommu_groups'', g, ''devices''] of
         Inl e \<Rightarrow> Inl (WrapErr (''read iommu group '' @ g @ '': '') e [])
       | Inr es \<Rightarrow> Inr (sort es)))"

definition Companions :: "sysfs \<Rightarrow> string \<Rightarrow> err + string list" where
  "Companions s pci = (case GroupMembers s pci of
       Inl e \<Rightarrow> Inl e
     | Inr ms \<Rightarrow> Inr (filter (\<lambda>m. m \<noteq> pci) ms))"

definition CurrentDriver :: "sysfs \<Rightarrow> string \<Rightarrow> err + string" where
  "CurrentDriver s pci = (case sf_Readlink s (device_file s pci ''driver'') of
       Inl e \<Rightarrow> if sf_IsNotExist s e then
           (case sf_Stat s [root s, ''bus/pci/devices'', pci] of
              None \<Rightarrow> Inr []
            | Some _ \<Rightarrow> Inl (WrapErr [] ErrDeviceNotFound ('': '' @ pci)))
         else Inl e
     | Inr link \<Rightarrow> Inr (Base link))"

text \<open>The loop of \<open>VFIOReady\<close> over the members of the group.\<close>

fun all_vfio :: "sysfs \<Rightarrow> string list \<Rightarrow> err + bool" where
  "all_vfio s [] = Inr True"
| "all_vfio s (m # ms) = (case CurrentDriver s m of
     Inl e \<Rightarrow> Inl e
   | Inr drv \<Rightarrow> if drv \<noteq> ''vfio-pci'' then Inr False else all_vfio s ms)"

definition VFIOReady :: "sysfs \<Rightarrow> string \<Rightarrow> err + bool" where
  "VFIOReady s pci = (case GroupMembers s pci of Inl e \<Rightarrow> Inl e | Inr ms \<Rightarrow> all_vfio s ms)"

definition deviceClass :: "sysfs \<Rightarrow> string \<Rightarrow> err + string" where
  "deviceClass s pci = (case sf_ReadFile s (device_file s pci ''class'') of Inl e \<Rightarrow> Inl e | Inr b \<Rightarrow> Inr (TrimSpace b))"

definition DeviceVendor :: "sysfs \<Rightarrow> string \<Rightarrow> err + string" where
  "DeviceVendor s pci = (case sf_ReadFile s (device_file s pci ''vendor'') of Inl e \<Rightarrow> Inl e | Inr b \<Rightarrow> Inr (TrimSpace b))"

definition DeviceID :: "sysfs \<Rightarrow> string \<Rightarrow> err + string" where
  "DeviceID s pci = (case sf_ReadFile s (device_file s pci ''device'') of Inl e \<Rightarrow> Inl e | Inr b \<Rightarrow> Inr (TrimSpace b))"

definition ResetMethods :: "sysfs \<Rightarrow> string \<Rightarrow> err + string" where
  "ResetMethods s pci = (case sf_ReadFile s (device_file s pci ''reset_method'') of Inl e \<Rightarrow> Inl e | Inr b \<Rightarrow> Inr (TrimSpace b))"

definition is_gpu_class :: "string \<Rightarrow> bool" where
  "is_gpu_class c \<longleftrightarrow> prefix ''0x030000'' c \<or> prefix ''0x030200'' c"

definition companion_class :: "string \<Rightarrow> bool" where
  "companion_class c \<longleftrightarrow> is_gpu_class c \<or> prefix ''0x040'' c \<or> prefix ''0x0c0330'' c"

text \<open>The loop of \<open>DiagnoseBindability\<close>: the number of devices of other classes and of all devices.\<close>

fun count_classes :: "sysfs \<Rightarrow> string list \<Rightarrow> nat \<Rightarrow> nat \<Rightarrow> err + nat \<times> nat" where
  "count_classes s [] other n = Inr (other, n)"
| "count_classes s (m # ms) other n = (case deviceClass s m of
     Inl e \<Rightarrow> Inl e
   | Inr c \<Rightarrow> count_classes s ms (if companion_class c then other else Suc other) (Suc n))"

definition DiagnoseBindability :: "sysfs \<Rightarrow> string \<Rightarrow> err + bool \<times> string" where
  "DiagnoseBindability s pci =
     (if \<not> IOMMUEnabled s then Inr (False, ''iommu not enabled on host (enable VT-d / intel_iommu=on)'')
      else case GroupMembers s pci of
        Inl e \<Rightarrow> Inl e
      | Inr ms \<Rightarrow> (case count_classes s ms 0 0 of
          Inl e \<Rightarrow> Inl e
        | Inr (other, n) \<Rightarrow>
            if other > 0 then Inr (False, ''iommu group has '' @ dec_nat other @ '' non-GPU/non-audio devices '' @ [CHR 0xE2, CHR 0x80, CHR 0x94] @ '' needs review'')
            else if n = 0 then Inr (False, ''iommu group empty'')
            else Inr (True, [])))"

definition HasResetFile :: "sysfs \<Rightarrow> string \<Rightarrow> bool" where
  "HasResetFile s pci \<longleftrightarrow> sf_Stat s (device_file s pci ''reset'') = None"

text \<open>\<open>ResetDevice\<close>; the log holds the devices whose reset was triggered.\<close>

definition ResetDevice :: "sysfs \<Rightarrow> string \<Rightarrow> string list \<Rightarrow> err option \<times> string list" where
  "ResetDevice s pci lg = (case sf_Stat s (device_file s pci ''reset'') of
       Some e \<Rightarrow> (Some (WrapErr (''reset file missing for '' @ pci @ '': '') e []), lg)
     | None \<Rightarrow> (case sf_WriteFile s (device_file s pci ''reset'') ''1'' of
         Some e \<Rightarrow> (Some e, lg)
       | None \<Rightarrow> (None, lg @ [pci])))"

definition nvidia_gpu :: "sysfs \<Rightarrow> string \<Rightarrow> bool" where
  "nvidia_gpu s pci \<longleftrightarrow> DeviceVendor s pci = Inr ''0x10de'' \<and>
     (case deviceClass s pci of Inl _ \<Rightarrow> False | Inr c \<Rightarrow> is_gpu_class c)"

definition ListNVIDIAGPUs :: "sysfs \<Rightarrow> err + string list" where
  "ListNVIDIAGPUs s = (case sf_ReadDir s [root s, ''bus/pci/devices''] of
       Inl e \<Rightarrow> Inl e
     | Inr es \<Rightarrow> Inr (sort (filter (nvidia_gpu s) es)))"

section \<open>Laws\<close>

lemma all_vfio_True: "all_vfio s ms = Inr True \<longleftrightarrow> (\<forall>m\<in>set ms. CurrentDriver s m = Inr ''vfio-pci'')"
  by (induction ms) (auto split: sum.splits)

lemma count_classes_ok:
  "count_classes s ms other n = Inr (other', n') \<Longrightarrow>
     n' = n + length ms \<and> other \<le> other' \<and>
     (other' = other \<longleftrightarrow> (\<forall>m\<in>set ms. \<exists>c. deviceClass s m = Inr c \<and> companion_class c))"
proof (induction s ms other n rule: count_classes.induct)
  case (2 s m ms other n)
  then obtain c where c: "deviceClass s m = Inr c" by (auto split: sum.splits)
  from 2(1) [OF c] 2(2) c show ?case by (auto split: if_splits)
qed auto

lemma ResetDevice_log: "snd (ResetDevice s pci lg) = lg \<or> snd (ResetDevice s pci lg) = lg @ [pci]"
  by (auto simp: ResetDevice_def split: option.splits)

end
