(* ===== verification/CloudInit.thy ===== *)
theory CloudInit
  imports GoStrings
begin

text \<open>
  Package \<open>cloudinit\<close> of compute-agent: the seed image a virtual machine boots with. YAML encoding of a
  scalar and the writer of ISO images are parameters.
\<close>

record ci_request =
  ci_instance :: string
  ci_hostname :: string
  ci_pubkeys :: "string list"
  ci_runcmds :: "string list"

record iso_lib =
  yaml_Marshal :: "string \<Rightarrow> err + string"
  iso_NewWriter :: "err option"
  iso_AddFile :: "string \<Rightarrow> string \<Rightarrow> err option"
  iso_WriteTo :: "(string \<times> string) list \<Rightarrow> string \<Rightarrow> err + string" \<comment> \<open>files, volume label; the image\<close>

definition ReplaceAll1 :: "char \<Rightarrow> string \<Rightarrow> string \<Rightarrow> string" where
  "ReplaceAll1 c r s = concat (map (\<lambda>x. if x = c then r else [x]) s)"

abbreviation nl :: string where "nl \<equiv> [CHR 0x0A]"

definition TrimRight_nl :: "string \<Rightarrow> string" where
  "TrimRight_nl s = rev (dropWhile (\<lambda>c. c = CHR 0x0A) (rev s))"

definition yamlString :: "iso_lib \<Rightarrow> string \<Rightarrow> string" where
  "yamlString L s = (case yaml_Marshal L s of
       Inl _ \<Rightarrow> [CHR 0x22] @ ReplaceAll1 (CHR 0x22) [CHR 0x5C, CHR 0x22] (ReplaceAll1 (CHR 0x5C) [CHR 0x5C, CHR 0x5C] s) @ [CHR 0x22]
     | Inr out \<Rightarrow> TrimRight_nl out)"

definition validate_request :: "ci_request \<Rightarrow> err option" where
  "validate_request r =
     (if ci_instance r = [] then Some (Err ''cloudinit: InstanceID required'')
      else if ci_hostname r = [] then Some (Err ''cloudinit: Hostname required'')
      else None)"

definition yaml_items :: "iso_lib \<Rightarrow> string \<Rightarrow> string list \<Rightarrow> string" where
  "yaml_items L hdr xs = (if xs = [] then [] else hdr @ nl @ concat (map (\<lambda>x. ''  - '' @ yamlString L x @ nl) xs))"

definition renderUserData :: "iso_lib \<Rightarrow> ci_request \<Rightarrow> string" where
  "renderUserData L r = ''#cloud-config'' @ nl @ ''hostname: '' @ yamlString L (ci_hostname r) @ nl @
     ''preserve_hostname: false'' @ nl @ ''manage_etc_hosts: true'' @ nl @
     yaml_items L ''ssh_authorized_keys:'' (ci_pubkeys r) @
     ''users:'' @ nl @ ''  - default'' @ nl @
     yaml_items L ''runcmd:'' (ci_runcmds r)"

definition renderMetaData :: "iso_lib \<Rightarrow> ci_request \<Rightarrow> string" where
  "renderMetaData L r = ''instance-id: '' @ yamlString L (ci_instance r) @ nl @
     ''local-hostname: '' @ yamlString L (ci_hostname r) @ nl"

definition BuildSeed :: "iso_lib \<Rightarrow> ci_request \<Rightarrow> err + string" where
  "BuildSeed L r = (case validate_request r of
       Some e \<Rightarrow> Inl e
     | None \<Rightarrow> (case iso_NewWriter L of
         Some e \<Rightarrow> Inl (WrapErr ''iso writer: '' e [])
       | None \<Rightarrow> (case iso_AddFile L (renderUserData L r) ''user-data'' of
           Some e \<Rightarrow> Inl (WrapErr ''add user-data: '' e [])
         | None \<Rightarrow> (case iso_AddFile L (renderMetaData L r) ''meta-data'' of
             Some e \<Rightarrow> Inl (WrapErr ''add meta-data: '' e [])
           | None \<Rightarrow> (case iso_WriteTo L [(''user-data'', renderUserData L r), (''meta-data'', renderMetaData L r)] ''CIDATA'' of
               Inl e \<Rightarrow> Inl (WrapErr ''write iso: '' e [])
             | Inr img \<Rightarrow> Inr img)))))"

lemma BuildSeed_ok:
  assumes "BuildSeed L r = Inr img"
  shows "ci_instance r \<noteq> [] \<and> ci_hostname r \<noteq> [] \<and>
    iso_WriteTo L [(''user-data'', renderUserData L r), (''meta-data'', renderMetaData L r)] ''CIDATA'' = Inr img"
  using assms by (auto simp: BuildSeed_def validate_request_def split: option.splits sum.splits if_splits)

end
