(* ===== verification/VmHandler.thy ===== *)
theory VmHandler
  imports Libvirt Gpu CloudInit Proto
begin

text \<open>
  Package \<open>vm\<close> of compute-agent (\<open>vm/handler.go\<close>): what the agent does on the orders to create and to
  destroy an instance. Its state is the host: the files below the image and seed directories, libvirtd,
  the devices that were reset, and the reports sent to main-api. Calls of the operating system and of
  qemu-img are parameters that decide whether each call fails. Which of two concurrent operations on
  one instance may work is the subject of \<open>OpSlots\<close>; here an operation runs once it has its slot.
\<close>

section \<open>Paths\<close>

fun clean_segs :: "bool \<Rightarrow> string list \<Rightarrow> string list \<Rightarrow> string list" where
  "clean_segs rooted acc [] = rev acc"
| "clean_segs rooted acc (x # xs) =
     (if x = [] \<or> x = ''.'' then clean_segs rooted acc xs
      else if x = ''..'' then
        (case acc of
           [] \<Rightarrow> if rooted then clean_segs rooted acc xs else clean_segs rooted (x # acc) xs
         | a # as \<Rightarrow> if a = ''..'' then clean_segs rooted (x # acc) xs else clean_segs rooted as xs)
      else clean_segs rooted (x # acc) xs)"

text \<open>\<open>filepath.Clean\<close> and \<open>filepath.Join\<close> of two elements.\<close>

definition Clean :: "string \<Rightarrow> string" where
  "Clean p = (if p = [] then ''.''
     else let rooted = (hd p = CHR ''/''); out = join_char (CHR ''/'') (clean_segs rooted [] (Split p (CHR ''/''))) in
       if rooted then CHR ''/'' # out else if out = [] then ''.'' else out)"

definition path_Join :: "string \<Rightarrow> string \<Rightarrow> string" where
  "path_Join a b = (if a = [] \<and> b = [] then [] else if a = [] then Clean b else if b = [] then Clean a
     else Clean (a @ ''/'' @ b))"

section \<open>The handler\<close>

record vm_config =
  hc_image_dir :: string
  hc_seed_dir :: string
  hc_base :: string
  hc_network :: string
  hc_disk_gb :: int

text \<open>Each call reports its error; the disk creator also leaves a file or not, also when it fails.\<close>

record vm_os =
  os_MkdirAll :: "string \<Rightarrow> err option"
  os_imgFn :: "string \<Rightarrow> string \<Rightarrow> err option \<times> bool"
  os_Chmod :: "string \<Rightarrow> err option"
  os_resizeFn :: "string \<Rightarrow> int \<Rightarrow> err option"
  os_OpenFile :: "string \<Rightarrow> err option"
  os_Remove :: "string \<Rightarrow> err option"

record 'd vm_host =
  vh_files :: "string \<Rightarrow> bool"
  vh_dom :: 'd
  vh_resets :: "string list"
  vh_sent :: "InstanceStatus list"

text \<open>Everything the handler calls.\<close>

record 'd vm_env =
  ve_os :: vm_os
  ve_conn :: "'d connector"
  ve_xml :: xml_lib
  ve_sysfs :: sysfs
  ve_iso :: iso_lib

definition disk_path :: "vm_config \<Rightarrow> string \<Rightarrow> string" where
  "disk_path cfg i = path_Join (hc_image_dir cfg) (i @ ''.qcow2'')"

definition seed_path :: "vm_config \<Rightarrow> string \<Rightarrow> string" where
  "seed_path cfg i = path_Join (hc_seed_dir cfg) (i @ ''.iso'')"

definition networkName :: "vm_config \<Rightarrow> string" where
  "networkName cfg = (if hc_network cfg \<noteq> [] then hc_network cfg else ''default'')"

definition check :: "string \<Rightarrow> err option \<Rightarrow> ('s, unit) action" where
  "check pre e = (case e of None \<Rightarrow> ret () | Some x \<Rightarrow> fail (WrapErr pre x []))"

definition set_file :: "string \<Rightarrow> bool \<Rightarrow> 'd vm_host \<Rightarrow> 'd vm_host" where
  "set_file p b h = h\<lparr>vh_files := (vh_files h)(p := b)\<rparr>"

definition make_disk :: "vm_os \<Rightarrow> vm_config \<Rightarrow> string \<Rightarrow> ('d vm_host, unit) action" where
  "make_disk E cfg disk = (if hc_base cfg = [] then ret ()
     else bnd (\<lambda>h. check ''create disk: '' (fst (os_imgFn E (hc_base cfg) disk))
                    (set_file disk (snd (os_imgFn E (hc_base cfg) disk)) h)) (\<lambda>_.
          bnd (check ''chmod disk: '' (os_Chmod E disk)) (\<lambda>_.
          if hc_disk_gb cfg > 0 then check ''resize disk: '' (os_resizeFn E disk (hc_disk_gb cfg)) else ret ())))"

definition open_seed :: "vm_os \<Rightarrow> string \<Rightarrow> ('d vm_host, unit) action" where
  "open_seed E seed h = (case os_OpenFile E seed of
       Some e \<Rightarrow> (Inl (WrapErr ''create seed: '' e []), h)
     | None \<Rightarrow> (Inr (), set_file seed True h))"

definition seed_request :: "CreateInstance_pb \<Rightarrow> ci_request" where
  "seed_request req = \<lparr>ci_instance = cm_instance req, ci_hostname = cm_name req, ci_pubkeys = cm_pubkeys req, ci_runcmds = []\<rparr>"

definition prepareFiles ::
  "vm_os \<Rightarrow> iso_lib \<Rightarrow> vm_config \<Rightarrow> CreateInstance_pb \<Rightarrow> ('d vm_host, string \<times> string) action" where
  "prepareFiles E Y cfg req =
     (let disk = disk_path cfg (cm_instance req); seed = seed_path cfg (cm_instance req) in
      bnd (check ''mkdir image dir: '' (os_MkdirAll E (hc_image_dir cfg))) (\<lambda>_.
      bnd (check ''mkdir seed dir: '' (os_MkdirAll E (hc_seed_dir cfg))) (\<lambda>_.
      bnd (make_disk E cfg disk) (\<lambda>_.
      bnd (open_seed E seed) (\<lambda>_.
      bnd (check ''build seed: '' (case BuildSeed Y (seed_request req) of Inl e \<Rightarrow> Some e | Inr _ \<Rightarrow> None)) (\<lambda>_.
      ret (disk, seed)))))))"

definition remove_file :: "vm_os \<Rightarrow> string \<Rightarrow> 'd vm_host \<Rightarrow> 'd vm_host" where
  "remove_file E p h = (case os_Remove E p of None \<Rightarrow> set_file p False h | Some _ \<Rightarrow> h)"

definition cleanupFiles :: "vm_os \<Rightarrow> vm_config \<Rightarrow> string \<Rightarrow> 'd vm_host \<Rightarrow> 'd vm_host" where
  "cleanupFiles E cfg i h = fold (remove_file E) [disk_path cfg i, seed_path cfg i] h"

definition reset_one :: "sysfs \<Rightarrow> string \<Rightarrow> 'd vm_host \<Rightarrow> 'd vm_host" where
  "reset_one S pci h = (if HasResetFile S pci then h\<lparr>vh_resets := snd (ResetDevice S pci (vh_resets h))\<rparr> else h)"

definition reset_all :: "sysfs \<Rightarrow> string list \<Rightarrow> 'd vm_host \<Rightarrow> 'd vm_host" where
  "reset_all S pcis h = fold (reset_one S) pcis h"

definition status_msg :: "string \<Rightarrow> PbInstanceState \<Rightarrow> string \<Rightarrow> string \<Rightarrow> InstanceStatus" where
  "status_msg i st ip er = \<lparr>st_instance = i, st_state = st, st_ip = ip, st_error = er\<rparr>"

definition send_status :: "string \<Rightarrow> PbInstanceState \<Rightarrow> string \<Rightarrow> string \<Rightarrow> 'd vm_host \<Rightarrow> 'd vm_host" where
  "send_status i st ip er h = h\<lparr>vh_sent := vh_sent h @ [status_msg i st ip er]\<rparr>"

definition on_dom :: "('d, 'a) action \<Rightarrow> ('d vm_host, 'a) action" where
  "on_dom m h = (case m (vh_dom h) of (r, d) \<Rightarrow> (r, h\<lparr>vh_dom := d\<rparr>))"

definition vm_spec :: "vm_config \<Rightarrow> CreateInstance_pb \<Rightarrow> string \<Rightarrow> string \<Rightarrow> DomainSpec" where
  "vm_spec cfg req disk seed = \<lparr>ds_name = cm_instance req, ds_memory = cm_memory req, ds_vcpus = cm_vcpus req,
     ds_disk = disk, ds_iso = seed, ds_network = networkName cfg, ds_machine = [], ds_emulator = [],
     ds_pci = cm_pci req\<rparr>"

text \<open>\<open>handleCreate\<close>: \<open>acquired\<close> is whether \<open>acquireOp\<close> gave it the slot, \<open>ctx\<close> the state of its
  context when the domain is about to be created. The result says whether the search for the
  address is started.\<close>

definition handleCreate ::
  "'d vm_env \<Rightarrow> vm_config \<Rightarrow> bool \<Rightarrow> err option \<Rightarrow> CreateInstance_pb \<Rightarrow> 'd vm_host \<Rightarrow> bool \<times> 'd vm_host" where
  "handleCreate V cfg acquired ctx req h0 =
     (if \<not> acquired then (False, h0)
      else let i = cm_instance req; h1 = send_status i INSTANCE_STATE_PROVISIONING [] [] h0 in
        case prepareFiles (ve_os V) (ve_iso V) cfg req h1 of
          (Inl e, h2) \<Rightarrow> (False, send_status i INSTANCE_STATE_FAILED [] (''prepare: '' @ err_text e)
                                  (cleanupFiles (ve_os V) cfg i h2))
        | (Inr (disk, seed), h2) \<Rightarrow>
            (case on_dom (CreateDomain (ve_conn V) (ve_xml V) ctx (vm_spec cfg req disk seed)) h2 of
               (Inl e, h3) \<Rightarrow> (False, send_status i INSTANCE_STATE_FAILED [] (''libvirt-create: '' @ err_text e)
                                  (reset_all (ve_sysfs V) (cm_pci req) (cleanupFiles (ve_os V) cfg i h3)))
             | (Inr info, h3) \<Rightarrow> (True, send_status i INSTANCE_STATE_RUNNING [] [] h3)))"

text \<open>\<open>detectAndPublishIP\<close>: for each round the clock when its condition is tested, what ends the
  wait, and the environment of the lookup.\<close>

datatype wake = WTimer | WCtxDone | WShutdown

fun detectAndPublishIP :: "'d connector \<Rightarrow> string \<Rightarrow> int \<Rightarrow> (int \<times> wake \<times> err option) list \<Rightarrow> 'd vm_host \<Rightarrow> 'd vm_host" where
  "detectAndPublishIP C i deadline [] h = h"
| "detectAndPublishIP C i deadline ((now, w, ctx) # rounds) h =
     (if \<not> now < deadline then h
      else case w of
        WCtxDone \<Rightarrow> h
      | WShutdown \<Rightarrow> h
      | WTimer \<Rightarrow> (case on_dom (DomainIPv4 C ctx i) h of
          (Inl e, h') \<Rightarrow> h'
        | (Inr ip, h') \<Rightarrow> if ip = [] then detectAndPublishIP C i deadline rounds h'
                          else send_status i INSTANCE_STATE_RUNNING ip [] h'))"

definition handleDestroy :: "'d vm_env \<Rightarrow> vm_config \<Rightarrow> bool \<Rightarrow> err option \<Rightarrow> string \<Rightarrow> 'd vm_host \<Rightarrow> 'd vm_host" where
  "handleDestroy V cfg acquired ctx i h0 =
     (if \<not> acquired then h0
      else let h1 = send_status i INSTANCE_STATE_STOPPING [] [] h0 in
        case on_dom (DomainPassthroughPCI (ve_conn V) (ve_xml V) ctx i) h1 of (p, h2) \<Rightarrow>
          let pcis = (case p of Inl _ \<Rightarrow> [] | Inr xs \<Rightarrow> xs) in
          (case on_dom (DestroyDomain (ve_conn V) ctx i) h2 of
             (Inl e, h3) \<Rightarrow>
               if \<not> err_is e ErrDomainNotFound then send_status i INSTANCE_STATE_FAILED [] (err_text e) h3
               else send_status i INSTANCE_STATE_STOPPED [] [] (reset_all (ve_sysfs V) pcis (cleanupFiles (ve_os V) cfg i h3))
           | (Inr _, h3) \<Rightarrow>
               send_status i INSTANCE_STATE_STOPPED [] [] (reset_all (ve_sysfs V) pcis (cleanupFiles (ve_os V) cfg i h3))))"

text \<open>\<open>OnControl\<close> starts one goroutine per order and ignores the other messages.\<close>

datatype vm_task = TaskCreate CreateInstance_pb | TaskDestroy string

definition OnControl :: "ControlMessage \<Rightarrow> vm_task option" where
  "OnControl msg = (case msg of
       CCreateInstance req \<Rightarrow> Some (TaskCreate req)
     | CDestroyInstance i \<Rightarrow> Some (TaskDestroy i)
     | CPing \<Rightarrow> None
     | CRegisterAck _ _ \<Rightarrow> None)"

section \<open>Frames\<close>

lemmas host_simps = set_file_def send_status_def on_dom_def check_def

lemma make_disk_frame:
  "make_disk E cfg disk h = (r, h') \<Longrightarrow> vh_dom h' = vh_dom h \<and> vh_resets h' = vh_resets h \<and> vh_sent h' = vh_sent h \<and>
     (\<forall>p. p \<noteq> disk \<longrightarrow> vh_files h' p = vh_files h p)"
  by (auto simp: make_disk_def host_simps action_defs split: option.splits if_splits prod.splits sum.splits)

lemma prepareFiles_frame:
  assumes "prepareFiles E Y cfg req h = (r, h')"
  shows "vh_dom h' = vh_dom h \<and> vh_resets h' = vh_resets h \<and> vh_sent h' = vh_sent h \<and>
    (\<forall>p. p \<noteq> disk_path cfg (cm_instance req) \<longrightarrow> p \<noteq> seed_path cfg (cm_instance req) \<longrightarrow> vh_files h' p = vh_files h p)"
proof -
  obtain r1 h1 where m: "make_disk E cfg (disk_path cfg (cm_instance req)) h = (r1, h1)" by fastforce
  show ?thesis using assms make_disk_frame [OF m] m
    by (auto simp: prepareFiles_def Let_def open_seed_def host_simps action_defs split: option.splits sum.splits)
qed

lemma prepareFiles_Inr:
  assumes "prepareFiles E Y cfg req h = (Inr (disk, seed), h')"
  shows "disk = disk_path cfg (cm_instance req) \<and> seed = seed_path cfg (cm_instance req) \<and> vh_files h' seed"
  using assms
  by (auto simp: prepareFiles_def Let_def open_seed_def host_simps action_defs split: option.splits sum.splits prod.splits)

lemma cleanupFiles_frame:
  "vh_dom (cleanupFiles E cfg i h) = vh_dom h" "vh_resets (cleanupFiles E cfg i h) = vh_resets h"
  "vh_sent (cleanupFiles E cfg i h) = vh_sent h"
  "p \<noteq> disk_path cfg i \<Longrightarrow> p \<noteq> seed_path cfg i \<Longrightarrow> vh_files (cleanupFiles E cfg i h) p = vh_files h p"
  by (simp_all add: cleanupFiles_def remove_file_def set_file_def split: option.splits)

lemma cleanupFiles_gone:
  assumes "\<forall>p. os_Remove E p = None"
  shows "\<not> vh_files (cleanupFiles E cfg i h) (disk_path cfg i) \<and> \<not> vh_files (cleanupFiles E cfg i h) (seed_path cfg i)"
  using assms by (simp add: cleanupFiles_def remove_file_def set_file_def)

lemma reset_all_frame:
  "vh_dom (reset_all S pcis h) = vh_dom h \<and> vh_files (reset_all S pcis h) = vh_files h \<and> vh_sent (reset_all S pcis h) = vh_sent h"
  by (induction pcis arbitrary: h) (simp_all add: reset_all_def reset_one_def)

lemma send_status_frame [simp]:
  "vh_dom (send_status i st ip er h) = vh_dom h" "vh_files (send_status i st ip er h) = vh_files h"
  "vh_resets (send_status i st ip er h) = vh_resets h" "vh_sent (send_status i st ip er h) = vh_sent h @ [status_msg i st ip er]"
  by (simp_all add: send_status_def)

text \<open>Every device with a reset file is reset, in order, when no write fails.\<close>

lemma reset_all_resets:
  assumes "\<forall>p. sf_WriteFile S p ''1'' = None"
  shows "vh_resets (reset_all S pcis h) = vh_resets h @ filter (HasResetFile S) pcis"
  using assms
  by (induction pcis arbitrary: h) (auto simp: reset_all_def reset_one_def ResetDevice_def HasResetFile_def)

end
