(* ===== verification/OpSlots.thy ===== *)
theory OpSlots
  imports Prelude
begin

text \<open>
  The in-flight slots of compute-agent (\<open>vm/handler.go\<close>, \<open>acquireOp\<close> and \<open>release\<close>): every order runs
  on a goroutine of its own, and the slot of an instance decides which of them works. The step relation
  interleaves the goroutines at the granularity of the code: a critical section of the mutex, the
  cancellation, the wait on the channel of the previous holder, the work, the removal from the map and
  the closing of the channel are separate steps. A slot is a pointer, here a number.
\<close>

datatype opKind = opCreate | opDestroy

datatype op_pc = Trying | Cancelling nat | Awaiting nat | Working nat | Closing nat | Finished | Dropped

record opThread =
  ot_id :: string
  ot_kind :: opKind
  ot_pc :: op_pc

record ops =
  op_inflight :: "string \<Rightarrow> (nat \<times> opKind) option"
  op_done :: "nat \<Rightarrow> bool"
  op_cancelled :: "nat \<Rightarrow> bool"
  op_next :: nat
  op_threads :: "nat \<Rightarrow> opThread option"

section \<open>The code\<close>

datatype acquired = Claimed nat | Refused | Preempt nat

text \<open>The critical section of \<open>acquireOp\<close>.\<close>

definition acquireOp :: "string \<Rightarrow> opKind \<Rightarrow> ops \<Rightarrow> acquired \<times> ops" where
  "acquireOp i k s = (case op_inflight s i of
       None \<Rightarrow> (Claimed (op_next s), s\<lparr>op_inflight := (op_inflight s)(i \<mapsto> (op_next s, k)), op_next := Suc (op_next s)\<rparr>)
     | Some (sl, k') \<Rightarrow>
         if k' = k \<or> k \<noteq> opDestroy \<or> k' \<noteq> opCreate then (Refused, s) else (Preempt sl, s))"

text \<open>The critical section of \<open>release\<close>; \<open>close(slot.done)\<close> follows outside of it.\<close>

definition release_slot :: "string \<Rightarrow> nat \<Rightarrow> ops \<Rightarrow> ops" where
  "release_slot i sl s = (case op_inflight s i of
       Some (sl', _) \<Rightarrow> if sl' = sl then s\<lparr>op_inflight := (op_inflight s)(i := None)\<rparr> else s
     | None \<Rightarrow> s)"

definition goto :: "nat \<Rightarrow> op_pc \<Rightarrow> ops \<Rightarrow> ops" where
  "goto t p s = s\<lparr>op_threads := (op_threads s)(t := map_option (\<lambda>th. th\<lparr>ot_pc := p\<rparr>) (op_threads s t))\<rparr>"

definition after_acquire :: "acquired \<Rightarrow> op_pc" where
  "after_acquire a = (case a of Claimed sl \<Rightarrow> Working sl | Refused \<Rightarrow> Dropped | Preempt sl \<Rightarrow> Cancelling sl)"

definition op_at :: "ops \<Rightarrow> nat \<Rightarrow> string \<Rightarrow> opKind \<Rightarrow> op_pc \<Rightarrow> bool" where
  "op_at s t i k p \<longleftrightarrow> op_threads s t = Some \<lparr>ot_id = i, ot_kind = k, ot_pc = p\<rparr>"

text \<open>A step of goroutine \<open>t\<close>.\<close>

inductive op_step :: "nat \<Rightarrow> ops \<Rightarrow> ops \<Rightarrow> bool" for t where
  step_try: "op_at s t i k Trying \<Longrightarrow> acquireOp i k s = (a, s') \<Longrightarrow> op_step t s (goto t (after_acquire a) s')"
| step_cancel: "op_at s t i k (Cancelling sl) \<Longrightarrow>
    op_step t s (goto t (Awaiting sl) (s\<lparr>op_cancelled := (op_cancelled s)(sl := True)\<rparr>))"
| step_wake: "op_at s t i k (Awaiting sl) \<Longrightarrow> op_done s sl \<Longrightarrow> op_step t s (goto t Trying s)"
| step_release: "op_at s t i k (Working sl) \<Longrightarrow> op_step t s (goto t (Closing sl) (release_slot i sl s))"
| step_close: "op_at s t i k (Closing sl) \<Longrightarrow>
    op_step t s (goto t Finished (s\<lparr>op_done := (op_done s)(sl := True)\<rparr>))"

definition ops_init :: ops where
  "ops_init = \<lparr>op_inflight = (\<lambda>_. None), op_done = (\<lambda>_. False), op_cancelled = (\<lambda>_. False), op_next = 0,
     op_threads = (\<lambda>_. None)\<rparr>"

definition spawn :: "nat \<Rightarrow> string \<Rightarrow> opKind \<Rightarrow> ops \<Rightarrow> ops" where
  "spawn t i k s = s\<lparr>op_threads := (op_threads s)(t \<mapsto> \<lparr>ot_id = i, ot_kind = k, ot_pc = Trying\<rparr>)\<rparr>"

inductive op_reach :: "ops \<Rightarrow> bool" where
  reach_init: "op_reach ops_init"
| reach_order: "op_reach s \<Longrightarrow> op_threads s t = None \<Longrightarrow> op_reach (spawn t i k s)"
| reach_step: "op_reach s \<Longrightarrow> op_step t s s' \<Longrightarrow> op_reach s'"

section \<open>The invariant\<close>

definition holds :: "ops \<Rightarrow> nat \<Rightarrow> nat \<Rightarrow> bool" where
  "holds s t sl \<longleftrightarrow> (\<exists>i k. op_at s t i k (Working sl) \<or> op_at s t i k (Closing sl))"

definition waits_for :: "ops \<Rightarrow> nat \<Rightarrow> nat \<Rightarrow> bool" where
  "waits_for s t sl \<longleftrightarrow> (\<exists>i k. op_at s t i k (Cancelling sl) \<or> op_at s t i k (Awaiting sl))"

definition ops_ok :: "ops \<Rightarrow> bool" where
  "ops_ok s \<longleftrightarrow>
     (\<forall>i sl k. op_inflight s i = Some (sl, k) \<longrightarrow> (\<exists>t. op_at s t i k (Working sl))) \<and>
     (\<forall>t i k sl. op_at s t i k (Working sl) \<longrightarrow> op_inflight s i = Some (sl, k)) \<and>
     (\<forall>t sl. holds s t sl \<longrightarrow> sl < op_next s \<and> \<not> op_done s sl \<and> (\<forall>t'. holds s t' sl \<longrightarrow> t' = t)) \<and>
     (\<forall>t sl. waits_for s t sl \<longrightarrow> op_done s sl \<or> (\<exists>t'. holds s t' sl)) \<and>
     (\<forall>sl. op_done s sl \<longrightarrow> sl < op_next s)"

lemma ops_okD:
  assumes "ops_ok s"
  shows "op_inflight s i = Some (sl, k) \<Longrightarrow> \<exists>t. op_at s t i k (Working sl)"
    and "op_at s t i k (Working sl) \<Longrightarrow> op_inflight s i = Some (sl, k)"
    and "holds s t sl \<Longrightarrow> sl < op_next s" and "holds s t sl \<Longrightarrow> \<not> op_done s sl"
    and "holds s t sl \<Longrightarrow> holds s t' sl \<Longrightarrow> t' = t"
    and "waits_for s t sl \<Longrightarrow> op_done s sl \<or> (\<exists>t'. holds s t' sl)"
    and "op_done s sl \<Longrightarrow> sl < op_next s"
  using assms unfolding ops_ok_def by blast+

lemma op_at_goto:
  "op_at (goto t p s) t' i k q \<longleftrightarrow> (if t' = t then q = p \<and> (\<exists>q'. op_at s t i k q') else op_at s t' i k q)"
proof (cases "op_threads s t")
  case None
  then show ?thesis by (auto simp: op_at_def goto_def)
next
  case (Some th)
  obtain i0 k0 p0 where "th = \<lparr>ot_id = i0, ot_kind = k0, ot_pc = p0\<rparr>" by (cases th)
  with Some show ?thesis by (auto simp: op_at_def goto_def)
qed

lemma op_at_unique: "op_at s t i k p \<Longrightarrow> op_at s t i' k' p' \<Longrightarrow> i' = i \<and> k' = k \<and> p' = p"
  by (simp add: op_at_def)

lemma goto_other [simp]:
  "op_inflight (goto t p s) = op_inflight s" "op_done (goto t p s) = op_done s" "op_next (goto t p s) = op_next s"
  "op_cancelled (goto t p s) = op_cancelled s"
  by (simp_all add: goto_def)

lemma op_at_other [simp]:
  "op_at (s\<lparr>op_inflight := x\<rparr>) = op_at s" "op_at (s\<lparr>op_done := y\<rparr>) = op_at s"
  "op_at (s\<lparr>op_cancelled := z\<rparr>) = op_at s" "op_at (s\<lparr>op_next := n\<rparr>) = op_at s"
  by (simp_all add: op_at_def fun_eq_iff)

lemma holds_goto:
  assumes "op_at s t i k q"
  shows "holds (goto t p s) t' sl \<longleftrightarrow> (if t' = t then p = Working sl \<or> p = Closing sl else holds s t' sl)"
    and "waits_for (goto t p s) t' sl \<longleftrightarrow> (if t' = t then p = Cancelling sl \<or> p = Awaiting sl else waits_for s t' sl)"
  using assms by (auto simp: holds_def waits_for_def op_at_goto)

lemma holds_other [simp]:
  "holds (s\<lparr>op_inflight := x\<rparr>) = holds s" "holds (s\<lparr>op_done := y\<rparr>) = holds s"
  "holds (s\<lparr>op_cancelled := z\<rparr>) = holds s" "holds (s\<lparr>op_next := n\<rparr>) = holds s"
  "waits_for (s\<lparr>op_inflight := x\<rparr>) = waits_for s" "waits_for (s\<lparr>op_done := y\<rparr>) = waits_for s"
  "waits_for (s\<lparr>op_cancelled := z\<rparr>) = waits_for s" "waits_for (s\<lparr>op_next := n\<rparr>) = waits_for s"
  by (simp_all add: holds_def waits_for_def fun_eq_iff)

lemma ops_okI:
  assumes "\<And>i sl k. op_inflight s i = Some (sl, k) \<Longrightarrow> \<exists>t. op_at s t i k (Working sl)"
    and "\<And>t i k sl. op_at s t i k (Working sl) \<Longrightarrow> op_inflight s i = Some (sl, k)"
    and "\<And>t sl. holds s t sl \<Longrightarrow> sl < op_next s \<and> \<not> op_done s sl"
    and "\<And>t t' sl. holds s t sl \<Longrightarrow> holds s t' sl \<Longrightarrow> t' = t"
    and "\<And>t sl. waits_for s t sl \<Longrightarrow> op_done s sl \<or> (\<exists>t'. holds s t' sl)"
    and "\<And>sl. op_done s sl \<Longrightarrow> sl < op_next s"
  shows "ops_ok s"
  using assms unfolding ops_ok_def by blast

text \<open>Moving a goroutine that neither holds a slot nor comes to hold one.\<close>

lemma ops_ok_move:
  assumes ok: "ops_ok s" and at: "op_at s t i k q" and free: "\<And>sl. q \<noteq> Working sl" "\<And>sl. q \<noteq> Closing sl"
    and p: "\<And>sl. p \<noteq> Working sl" "\<And>sl. p \<noteq> Closing sl"
    and w: "\<And>sl. p = Cancelling sl \<or> p = Awaiting sl \<Longrightarrow> op_done s sl \<or> (\<exists>t'. holds s t' sl)"
  shows "ops_ok (goto t p s)"
proof -
  have nh: "\<not> holds s t sl" for sl using at free by (auto simp: holds_def dest: op_at_unique)
  have h: "holds (goto t p s) t' sl = holds s t' sl" for t' sl using nh p by (auto simp: holds_goto [OF at])
  have a: "op_at (goto t p s) t' i' k' (Working sl) = op_at s t' i' k' (Working sl)" for t' i' k' sl
    using p free op_at_unique [OF at, of i' k' "Working sl"] by (auto simp: op_at_goto)
  show ?thesis
  proof (rule ops_okI, goal_cases)
    case (5 t' sl)
    then show ?case using ops_okD(6) [OF ok, of t' sl] w by (auto simp: h holds_goto(2) [OF at] split: if_splits)
  qed (use ops_okD [OF ok] in \<open>auto simp: h a\<close>)
qed

lemma ops_ok_claim:
  assumes ok: "ops_ok s" and at: "op_at s t i k Trying" and none: "op_inflight s i = None"
  shows "ops_ok (goto t (Working (op_next s)) (s\<lparr>op_inflight := (op_inflight s)(i \<mapsto> (op_next s, k)), op_next := Suc (op_next s)\<rparr>))"
    (is "ops_ok (goto t ?p ?s)")
proof -
  have at': "op_at ?s t i k Trying" using at by simp
  have nh: "\<not> holds s t sl" for sl using at by (auto simp: holds_def dest: op_at_unique)
  have h: "holds (goto t ?p ?s) t' sl \<longleftrightarrow> (if t' = t then sl = op_next s else holds s t' sl)" for t' sl
    by (simp add: holds_goto [OF at']) metis
  have a: "op_at (goto t ?p ?s) t' i' k' (Working sl) \<longleftrightarrow>
      (if t' = t then sl = op_next s \<and> i' = i \<and> k' = k else op_at s t' i' k' (Working sl))" for t' i' k' sl
    using at by (auto simp: op_at_goto dest: op_at_unique)
  have other: "t' \<noteq> t" if "op_at s t' i' k' (Working sl)" for t' i' k' sl using that at by (auto dest: op_at_unique)
  show ?thesis
  proof (rule ops_okI, goal_cases)
    case (1 i' sl k')
    show ?case
    proof (cases "i' = i")
      case True
      with 1 have "sl = op_next s" "k' = k" by simp_all
      with True show ?thesis unfolding a by (intro exI [of _ t]) simp
    next
      case False
      with 1 ops_okD(1) [OF ok, of i' sl k'] other show ?thesis by (auto simp: a) metis
    qed
  next
    case (2 t' i' k' sl)
    then show ?case using ops_okD(2) [OF ok, of t' i' k' sl] none by (auto simp: a split: if_splits)
  next
    case (3 t' sl)
    then show ?case using ops_okD(3,4) [OF ok, of t' sl] ops_okD(7) [OF ok, of sl] by (auto simp: h split: if_splits)
  next
    case (4 t1 t2 sl)
    then show ?case using ops_okD(3,5) [OF ok] nh by (auto simp: h split: if_splits)
  next
    case (5 t' sl)
    then have "t' \<noteq> t" "waits_for s t' sl" by (auto simp: holds_goto(2) [OF at'] split: if_splits)
    with ops_okD(6) [OF ok] nh show ?case by (auto simp: h) metis
  next
    case (6 sl)
    then show ?case using ops_okD(7) [OF ok, of sl] by simp
  qed
qed

lemma ops_ok_release:
  assumes ok: "ops_ok s" and at: "op_at s t i k (Working sl)"
  shows "ops_ok (goto t (Closing sl) (release_slot i sl s))"
proof -
  have rel: "release_slot i sl s = s\<lparr>op_inflight := (op_inflight s)(i := None)\<rparr>" (is "_ = ?s")
    using ops_okD(2) [OF ok at] by (simp add: release_slot_def)
  have at': "op_at ?s t i k (Working sl)" using at by simp
  have "holds s t sl' \<longleftrightarrow> sl' = sl" for sl' using at by (auto simp: holds_def op_at_def)
  then have h: "holds (goto t (Closing sl) ?s) t' sl' = holds s t' sl'" for t' sl'
    by (auto simp: holds_goto [OF at'])
  have a: "op_at (goto t (Closing sl) ?s) t' i' k' (Working sl') \<longleftrightarrow> t' \<noteq> t \<and> op_at s t' i' k' (Working sl')" for t' i' k' sl'
    by (auto simp: op_at_goto)
  have w: "waits_for (goto t (Closing sl) ?s) t' sl' = (t' \<noteq> t \<and> waits_for s t' sl')" for t' sl'
    by (auto simp: holds_goto(2) [OF at'])
  have same: "t' = t" if "op_at s t' i k' (Working sl')" for t' k' sl'
  proof -
    from ops_okD(2) [OF ok that] ops_okD(2) [OF ok at] have "sl' = sl" by simp
    then show ?thesis using ops_okD(5) [OF ok, of t sl t'] that at by (auto simp: holds_def)
  qed
  show ?thesis unfolding rel
  proof (rule ops_okI, goal_cases)
    case (1 i' sl' k')
    then have "i' \<noteq> i" "op_inflight s i' = Some (sl', k')" by (auto split: if_splits)
    with ops_okD(1) [OF ok] at show ?case by (auto simp: a dest: op_at_unique) (metis op_at_unique)
  next
    case (2 t' i' k' sl')
    then show ?case using ops_okD(2) [OF ok, of t' i' k' sl'] same by (auto simp: a)
  next
    case (5 t' sl')
    then show ?case using ops_okD(6) [OF ok, of t' sl'] by (auto simp: h w)
  qed (use ops_okD(3-5,7) [OF ok] in \<open>auto simp: h\<close>)
qed

lemma ops_ok_close:
  assumes ok: "ops_ok s" and at: "op_at s t i k (Closing sl)"
  shows "ops_ok (goto t Finished (s\<lparr>op_done := (op_done s)(sl := True)\<rparr>))" (is "ops_ok (goto t Finished ?s)")
proof -
  have at': "op_at ?s t i k (Closing sl)" using at by simp
  have hs: "holds s t sl" using at by (auto simp: holds_def)
  have h: "holds (goto t Finished ?s) t' sl' \<longleftrightarrow> t' \<noteq> t \<and> holds s t' sl'" for t' sl'
    by (auto simp: holds_goto [OF at'])
  have a: "op_at (goto t Finished ?s) t' i' k' (Working sl') = op_at s t' i' k' (Working sl')" for t' i' k' sl'
    using at by (auto simp: op_at_goto dest: op_at_unique)
  show ?thesis
  proof (rule ops_okI, goal_cases)
    case (3 t' sl')
    then have t': "t' \<noteq> t" "holds s t' sl'" by (auto simp: h)
    with ops_okD(5) [OF ok hs, of t'] have "sl' \<noteq> sl" by auto
    with ops_okD(3,4) [OF ok t'(2)] show ?case by simp
  next
    case (5 t' sl')
    then have "waits_for s t' sl'" by (auto simp: holds_goto(2) [OF at'] split: if_splits)
    from ops_okD(6) [OF ok this] show ?case
    proof
      assume "\<exists>t''. holds s t'' sl'"
      then obtain t'' where "holds s t'' sl'" by blast
      moreover have "holds s t sl' \<Longrightarrow> sl' = sl" using at by (auto simp: holds_def op_at_def)
      ultimately show ?case by (cases "t'' = t") (auto simp: h)
    qed simp
  next
    case (6 sl')
    then show ?case using ops_okD(7) [OF ok, of sl'] ops_okD(3) [OF ok hs] by (auto split: if_splits)
  qed (use ops_okD(1,2,5) [OF ok] in \<open>auto simp: a h\<close>)
qed

lemma ops_ok_spawn:
  assumes ok: "ops_ok s" and none: "op_threads s t = None"
  shows "ops_ok (spawn t i k s)"
proof -
  have at: "op_at (spawn t i k s) t' i' k' p \<longleftrightarrow> (if t' = t then i' = i \<and> k' = k \<and> p = Trying else op_at s t' i' k' p)" for t' i' k' p
    by (auto simp: op_at_def spawn_def)
  have "\<not> op_at s t i' k' p" for i' k' p using none by (simp add: op_at_def)
  then have eq: "holds (spawn t i k s) = holds s" "waits_for (spawn t i k s) = waits_for s"
    "op_at (spawn t i k s) t' i' k' (Working sl) = op_at s t' i' k' (Working sl)" for t' i' k' sl
    by (auto simp: holds_def waits_for_def at fun_eq_iff)
  show ?thesis
    using ok unfolding ops_ok_def eq by (simp add: spawn_def)
qed

lemma ops_ok_step: "op_step t s s' \<Longrightarrow> ops_ok s \<Longrightarrow> ops_ok s'"
proof (induction rule: op_step.induct)
  case (step_try s i k a s')
  show ?case
  proof (cases "op_inflight s i")
    case None
    with step_try show ?thesis by (auto simp: acquireOp_def after_acquire_def ops_ok_claim)
  next
    case (Some e)
    obtain sl k' where e: "e = (sl, k')" by fastforce
    from Some e ops_okD(1) [OF step_try(3)] have "\<exists>t'. holds s t' sl" unfolding holds_def by blast
    then have "ops_ok (goto t Dropped s)" "ops_ok (goto t (Cancelling sl) s)"
      by (auto intro!: ops_ok_move [OF step_try(3,1)])
    with step_try(2) Some e show ?thesis by (auto simp: acquireOp_def after_acquire_def split: if_splits)
  qed
next
  case (step_cancel s i k sl)
  let ?s = "s\<lparr>op_cancelled := (op_cancelled s)(sl := True)\<rparr>"
  have ok: "ops_ok ?s" by (rule ops_okI) (use ops_okD [OF step_cancel(2)] in auto)
  have "waits_for s t sl" using step_cancel(1) by (auto simp: waits_for_def)
  from ops_okD(6) [OF step_cancel(2) this] step_cancel(1) ok show ?case
    by (intro ops_ok_move [of ?s t i k "Cancelling sl"]) auto
next
  case (step_wake s i k sl)
  then show ?case by (intro ops_ok_move [of s t i k "Awaiting sl"]) auto
qed (simp_all add: ops_ok_release ops_ok_close)

lemma op_reach_ok: "op_reach s \<Longrightarrow> ops_ok s"
proof (induction rule: op_reach.induct)
  case reach_init
  show ?case by (auto simp: ops_ok_def ops_init_def op_at_def holds_def waits_for_def)
next
  case (reach_order s t i k)
  then show ?case by (simp add: ops_ok_spawn)
next
  case (reach_step s t s')
  then show ?case by (simp add: ops_ok_step)
qed

section \<open>Progress\<close>

text \<open>Without new orders the goroutines come to an end: the sum of their ranks falls with every step.
  A create that may still work can hold up each waiting destroy once.\<close>

definition live_pc :: "op_pc \<Rightarrow> bool" where
  "live_pc p \<longleftrightarrow> p = Trying \<or> (\<exists>sl. p = Working sl)"

lemma live_pc_simps [simp]: "live_pc Trying" "live_pc (Working sl)" "\<not> live_pc (Closing sl)" "\<not> live_pc Dropped"
  "\<not> live_pc Finished" "\<not> live_pc (Cancelling sl)" "\<not> live_pc (Awaiting sl)"
  by (simp_all add: live_pc_def)

definition live_creates :: "ops \<Rightarrow> nat set" where
  "live_creates s = {t. \<exists>i p. op_at s t i opCreate p \<and> live_pc p}"

definition other_creates :: "ops \<Rightarrow> nat \<Rightarrow> nat set" where
  "other_creates s sl = {t \<in> live_creates s. \<not> (\<exists>i k. op_at s t i k (Working sl))}"

definition pc_rank :: "ops \<Rightarrow> op_pc \<Rightarrow> nat" where
  "pc_rank s p = (case p of
       Trying \<Rightarrow> 3 * card (live_creates s) + 4
     | Cancelling sl \<Rightarrow> 3 * card (other_creates s sl) + 6
     | Awaiting sl \<Rightarrow> 3 * card (other_creates s sl) + 5
     | Working _ \<Rightarrow> 2 | Closing _ \<Rightarrow> 1 | Finished \<Rightarrow> 0 | Dropped \<Rightarrow> 0)"

definition op_rank :: "ops \<Rightarrow> nat \<Rightarrow> nat" where
  "op_rank s t = (case op_threads s t of None \<Rightarrow> 0 | Some th \<Rightarrow> pc_rank s (ot_pc th))"

definition op_total :: "ops \<Rightarrow> nat" where
  "op_total s = sum (op_rank s) (dom (op_threads s))"

lemma live_creates_goto:
  assumes "op_at s t i k q" and "live_pc p \<Longrightarrow> live_pc q \<or> k \<noteq> opCreate"
  shows "live_creates (goto t p s) \<subseteq> live_creates s"
    and "(\<And>sl'. q = Working sl' \<Longrightarrow> sl' = sl \<Longrightarrow> \<not> live_pc p \<or> p = q) \<Longrightarrow> other_creates (goto t p s) sl \<subseteq> other_creates s sl"
proof -
  show l: "live_creates (goto t p s) \<subseteq> live_creates s"
  proof
    fix t' assume t': "t' \<in> live_creates (goto t p s)"
    show "t' \<in> live_creates s"
    proof (cases "t' = t")
      case True
      with t' obtain i' q' where "op_at s t i' opCreate q'" "live_pc p" by (auto simp: live_creates_def op_at_goto)
      with assms True show ?thesis by (auto simp: live_creates_def op_at_def)
    next
      case False
      with t' show ?thesis by (simp add: live_creates_def op_at_goto)
    qed
  qed
  show "other_creates (goto t p s) sl \<subseteq> other_creates s sl"
    if "\<And>sl'. q = Working sl' \<Longrightarrow> sl' = sl \<Longrightarrow> \<not> live_pc p \<or> p = q"
  proof
    fix t' assume t': "t' \<in> other_creates (goto t p s) sl"
    then have lv: "t' \<in> live_creates s" using l by (auto simp: other_creates_def)
    moreover have "\<not> op_at s t' i' k' (Working sl)" for i' k'
    proof (cases "t' = t")
      case True
      show ?thesis
      proof
        assume w: "op_at s t' i' k' (Working sl)"
        with True assms(1) have q: "q = Working sl" "k' = k" "i' = i" by (auto simp: op_at_def)
        from t' True have "live_pc p" by (auto simp: other_creates_def live_creates_def op_at_goto)
        with that q(1) have "p = Working sl" by blast
        with t' True assms(1) show False by (auto simp: other_creates_def op_at_goto)
      qed
    next
      case False
      with t' show ?thesis by (auto simp: other_creates_def op_at_goto)
    qed
    ultimately show "t' \<in> other_creates s sl" by (simp add: other_creates_def)
  qed
qed

lemma live_finite: "finite (dom (op_threads s)) \<Longrightarrow> finite (live_creates s) \<and> finite (other_creates s sl)"
  by (rule conjI; rule finite_subset [of _ "dom (op_threads s)"]) (auto simp: live_creates_def other_creates_def op_at_def)

lemma op_total_cong: "op_threads a = op_threads b \<Longrightarrow> op_total a = op_total b"
proof -
  assume eq: "op_threads a = op_threads b"
  then have at: "op_at a = op_at b" by (simp add: op_at_def fun_eq_iff)
  have "live_creates a = live_creates b" "other_creates a = other_creates b"
    by (simp_all add: live_creates_def other_creates_def [abs_def] at)
  then have "pc_rank a = pc_rank b" by (simp add: pc_rank_def [abs_def])
  then have "op_rank a = op_rank b" unfolding op_rank_def [abs_def] by (simp only: eq)
  with eq show ?thesis by (simp add: op_total_def)
qed

lemma op_total_goto:
  assumes fin: "finite (dom (op_threads s))" and at: "op_at s t i k q"
    and live: "live_creates (goto t p s) \<subseteq> live_creates s"
    and others: "\<And>t' sl. t' \<noteq> t \<Longrightarrow> waits_for s t' sl \<Longrightarrow> other_creates (goto t p s) sl \<subseteq> other_creates s sl"
    and dec: "pc_rank (goto t p s) p < pc_rank s q"
    and same: "op_threads s0 = op_threads s"
  shows "op_total (goto t p s0) < op_total s"
proof -
  have "op_threads (goto t p s0) = op_threads (goto t p s)" by (simp add: goto_def same)
  then have eq: "op_total (goto t p s0) = op_total (goto t p s)" by (rule op_total_cong)
  have d: "dom (op_threads (goto t p s)) = dom (op_threads s)" by (auto simp: goto_def)
  have le: "op_rank (goto t p s) t' \<le> op_rank s t'" if t': "t' \<noteq> t" for t'
  proof (cases "op_threads s t'")
    case None
    with t' show ?thesis by (simp add: op_rank_def goto_def)
  next
    case (Some th)
    have th: "op_at s t' (ot_id th) (ot_kind th) (ot_pc th)" using Some by (simp add: op_at_def)
    have card: "card (live_creates (goto t p s)) \<le> card (live_creates s)" using live live_finite [OF fin] by (simp add: card_mono)
    have "card (other_creates (goto t p s) sl) \<le> card (other_creates s sl)" if "ot_pc th = Cancelling sl \<or> ot_pc th = Awaiting sl" for sl
    proof -
      have "waits_for s t' sl" using that th unfolding waits_for_def by metis
      from others [OF t' this] live_finite [OF fin, of sl] show ?thesis by (simp add: card_mono)
    qed
    with Some t' card have "pc_rank (goto t p s) (ot_pc th) \<le> pc_rank s (ot_pc th)"
      by (cases "ot_pc th") (simp_all add: pc_rank_def)
    with Some t' show ?thesis by (simp add: op_rank_def goto_def)
  qed
  have "op_rank (goto t p s) t < op_rank s t" using at dec by (simp add: op_rank_def op_at_def goto_def)
  moreover have "t \<in> dom (op_threads s)" using at by (auto simp: op_at_def)
  ultimately have "sum (op_rank (goto t p s)) (dom (op_threads s)) < sum (op_rank s) (dom (op_threads s))"
    using le by (intro sum_strict_mono_ex1) (auto simp: fin, metis order_le_less)
  then show ?thesis unfolding eq by (simp add: op_total_def d)
qed

text \<open>Only a destroy waits, and there are always finitely many goroutines.\<close>

lemma op_reach_waiter: "op_reach s \<Longrightarrow> op_at s t i k p \<Longrightarrow> p = Cancelling sl \<or> p = Awaiting sl \<Longrightarrow> k = opDestroy"
proof (induction arbitrary: t i k p sl rule: op_reach.induct)
  case reach_init
  then show ?case by (simp add: op_at_def ops_init_def)
next
  case (reach_order s t' i' k')
  then show ?case by (cases "t = t'") (auto simp: op_at_def spawn_def)
next
  case (reach_step s t0 s')
  from reach_step(2,1,3-) show ?case
  proof (induction rule: op_step.induct)
    case (step_try s i0 k0 a s')
    have at: "op_at s' = op_at s" using step_try(2) by (auto simp: acquireOp_def split: option.splits if_splits prod.splits)
    show ?case
    proof (cases "t = t0")
      case True
      with step_try(5) at obtain q where "op_at s t0 i k q" "p = after_acquire a" by (auto simp: op_at_goto)
      with step_try(1) have "k = k0" "p = after_acquire a" by (auto simp: op_at_def)
      with step_try(2,6) show ?thesis
        by (auto simp: acquireOp_def after_acquire_def split: option.splits if_splits prod.splits)
    next
      case False
      with step_try at show ?thesis by (auto simp: op_at_goto)
    qed
  next
    case (step_release s i0 k0 sl0)
    have at: "op_at (release_slot i0 sl0 s) = op_at s" by (auto simp: release_slot_def split: option.splits)
    with step_release show ?case by (auto simp: op_at_goto split: if_splits)
  next
    case (step_cancel s i0 k0 sl0)
    then show ?case by (cases "t = t0") (auto simp: op_at_goto dest: op_at_unique)
  qed (auto simp: op_at_goto split: if_splits)
qed

lemma op_step_threads: "op_step t s s' \<Longrightarrow> dom (op_threads s') = dom (op_threads s)"
  by (induction rule: op_step.induct)
    (auto simp: goto_def acquireOp_def release_slot_def split: option.splits if_splits prod.splits)

lemma op_reach_finite: "op_reach s \<Longrightarrow> finite (dom (op_threads s))"
proof (induction rule: op_reach.induct)
  case (reach_order s t i k)
  have "dom (op_threads (spawn t i k s)) = insert t (dom (op_threads s))" by (auto simp: spawn_def)
  with reach_order show ?case by simp
qed (simp_all add: ops_init_def op_step_threads)

lemma op_step_decreases:
  assumes r: "op_reach s" and st: "op_step t s s'"
  shows "op_total s' < op_total s"
  using st
proof cases
  case (step_try i k a s0)
  note fin = op_reach_finite [OF r] and ok = op_reach_ok [OF r]
  have same: "op_threads s0 = op_threads s" using step_try(3) by (auto simp: acquireOp_def split: option.splits if_splits prod.splits)
  have sub: "live_creates (goto t p s) \<subseteq> live_creates s" "other_creates (goto t p s) sl \<subseteq> other_creates s sl" for p sl
    using live_creates_goto [OF step_try(2), of p] by auto
  have "pc_rank (goto t (after_acquire a) s) (after_acquire a) < pc_rank s Trying"
  proof (cases a)
    case (Preempt sl)
    with step_try(3) have "op_inflight s i = Some (sl, opCreate)"
      by (auto simp: acquireOp_def split: option.splits if_splits prod.splits)
    from ops_okD(1) [OF ok this] obtain h where h: "op_at s h i opCreate (Working sl)" ..
    then have mem: "h \<in> live_creates s" unfolding live_creates_def mem_Collect_eq using live_pc_simps(2) by blast
    have "other_creates (goto t (Cancelling sl) s) sl \<subseteq> live_creates s - {h}"
      using sub(2) [of "Cancelling sl" sl] h by (auto simp: other_creates_def)
    then have "card (other_creates (goto t (Cancelling sl) s) sl) \<le> card (live_creates s - {h})"
      using live_finite [OF fin] by (simp add: card_mono)
    moreover have "card (live_creates s - {h}) < card (live_creates s)"
      using mem live_finite [OF fin] by (blast intro: card_Diff1_less)
    ultimately show ?thesis by (simp add: Preempt after_acquire_def pc_rank_def)
  qed (simp_all add: after_acquire_def pc_rank_def)
  with op_total_goto [OF fin step_try(2) sub(1) sub(2) _ same] show ?thesis by (simp add: step_try(1))
next
  case (step_cancel i k sl)
  have sub: "live_creates (goto t (Awaiting sl) s) \<subseteq> live_creates s" "other_creates (goto t (Awaiting sl) s) sl' \<subseteq> other_creates s sl'" for sl'
    using live_creates_goto [OF step_cancel(2), of "Awaiting sl"] by auto
  have "pc_rank (goto t (Awaiting sl) s) (Awaiting sl) < pc_rank s (Cancelling sl)"
    using card_mono [OF _ sub(2) [of sl]] live_finite [OF op_reach_finite [OF r], of sl] by (simp add: pc_rank_def)
  with op_total_goto [OF op_reach_finite [OF r] step_cancel(2) sub(1) sub(2)] show ?thesis by (simp add: step_cancel(1))
next
  case (step_wake i k sl)
  have k: "k = opDestroy" using op_reach_waiter [OF r step_wake(2)] by blast
  have sub: "live_creates (goto t Trying s) \<subseteq> live_creates s" "other_creates (goto t Trying s) sl' \<subseteq> other_creates s sl'" for sl'
    using live_creates_goto [OF step_wake(2), of Trying] k by auto
  have "live_creates s = other_creates s sl"
    using ops_okD(4) [OF op_reach_ok [OF r], of _ sl] step_wake(3) by (auto simp: other_creates_def holds_def)
  with card_mono [OF _ sub(1)] live_finite [OF op_reach_finite [OF r], of sl]
  have "pc_rank (goto t Trying s) Trying < pc_rank s (Awaiting sl)" by (simp add: pc_rank_def)
  with op_total_goto [OF op_reach_finite [OF r] step_wake(2) sub(1) sub(2)] show ?thesis by (simp add: step_wake(1))
next
  case (step_release i k sl)
  have same: "op_threads (release_slot i sl s) = op_threads s" by (auto simp: release_slot_def split: option.splits)
  have sub: "live_creates (goto t (Closing sl) s) \<subseteq> live_creates s" "other_creates (goto t (Closing sl) s) sl' \<subseteq> other_creates s sl'" for sl'
    using live_creates_goto [OF step_release(2), of "Closing sl"] by auto
  with op_total_goto [OF op_reach_finite [OF r] step_release(2) sub(1) sub(2) _ same] show ?thesis
    by (simp add: step_release(1) pc_rank_def)
next
  case (step_close i k sl)
  have sub: "live_creates (goto t Finished s) \<subseteq> live_creates s" "other_creates (goto t Finished s) sl' \<subseteq> other_creates s sl'" for sl'
    using live_creates_goto [OF step_close(2), of Finished] by auto
  with op_total_goto [OF op_reach_finite [OF r] step_close(2) sub(1) sub(2)] show ?thesis
    by (simp add: step_close(1) pc_rank_def)
qed

text \<open>A goroutine that has not ended can move, or waits for one that can.\<close>

definition ended :: "op_pc \<Rightarrow> bool" where
  "ended p \<longleftrightarrow> p = Finished \<or> p = Dropped"

lemma holder_moves: "holds s t sl \<Longrightarrow> \<exists>s'. op_step t s s'"
  by (auto simp: holds_def intro: op_step.step_release op_step.step_close)

lemma op_progress:
  assumes "op_reach s" and "op_at s t i k p" and "\<not> ended p"
  shows "\<exists>t' s'. op_step t' s s'"
proof (cases p)
  case Trying
  obtain a s' where "acquireOp i k s = (a, s')" by fastforce
  with assms(2) Trying show ?thesis by (blast intro: op_step.step_try)
next
  case (Cancelling sl)
  with assms(2) show ?thesis by (blast intro: op_step.step_cancel)
next
  case (Awaiting sl)
  with assms(2) have "waits_for s t sl" by (auto simp: waits_for_def)
  from ops_okD(6) [OF op_reach_ok [OF assms(1)] this] assms(2) Awaiting holder_moves show ?thesis
    by (blast intro: op_step.step_wake)
next
  case (Working sl)
  with assms(2) have "holds s t sl" by (auto simp: holds_def)
  with holder_moves show ?thesis by blast
next
  case (Closing sl)
  with assms(2) have "holds s t sl" by (auto simp: holds_def)
  with holder_moves show ?thesis by blast
qed (use assms(3) in \<open>auto simp: ended_def\<close>)

end
