(* ===== verification/Profile.thy ===== *)
theory Profile
  imports Proto
begin

text \<open>
  Package \<open>profile\<close> of compute-agent: the slot layout an operator gave a node, checked against the
  GPUs the node has before it is reported to main-api. Reading and decoding the YAML file and SHA-256
  are parameters.
\<close>

record SlotYAML =
  sy_size :: int
  sy_gpus :: "int list"
  sy_nvlink :: string

record Layout =
  ly_name :: string
  ly_slots :: "SlotYAML list"

record File =
  fl_active :: string
  fl_layouts :: "Layout list"

record Resolved =
  rs_name :: string
  rs_hash :: string
  rs_slots :: "SlotYAML list"

definition ErrActiveMissing :: err where
  "ErrActiveMissing = Err ''profile: active layout not found''"

definition ErrSlotSizeMismatch :: err where
  "ErrSlotSizeMismatch = Err ''profile: slot size != len(gpu_indices)''"

definition ErrUnknownGPU :: err where
  "ErrUnknownGPU = Err ''profile: slot references unknown GPU index''"

definition ErrDuplicateGPU :: err where
  "ErrDuplicateGPU = Err ''profile: gpu claimed by two slots''"

definition ErrEmptyGpuIndices :: err where
  "ErrEmptyGpuIndices = Err ''profile: slot.gpu_indices is empty''"

definition ErrSharedNvlinkDomain :: err where
  "ErrSharedNvlinkDomain = Err ''profile: nvlink_domain claimed by two slots''"

definition Load :: "(string \<Rightarrow> err + string) \<Rightarrow> (string \<Rightarrow> err + File) \<Rightarrow> string \<Rightarrow> err + File \<times> string" where
  "Load rd unmarshal path = (case rd path of
       Inl e \<Rightarrow> Inl (WrapErr (''read '' @ path @ '': '') e [])
     | Inr raw \<Rightarrow> (case unmarshal raw of
         Inl e \<Rightarrow> Inl (WrapErr (''parse '' @ path @ '': '') e [])
       | Inr f \<Rightarrow> Inr (f, raw)))"

text \<open>The loop over the GPU indices of slot \<open>i\<close>, with the indices claimed so far.\<close>

fun claim_gpus :: "int list \<Rightarrow> nat \<Rightarrow> int list \<Rightarrow> int list \<Rightarrow> err + int list" where
  "claim_gpus known i [] claimed = Inr claimed"
| "claim_gpus known i (g # gs) claimed =
     (if g \<notin> set known then Inl (WrapErr [] ErrUnknownGPU ('': gpu '' @ dec_int g @ '' in slot '' @ dec_nat i))
      else if g \<in> set claimed then Inl (WrapErr [] ErrDuplicateGPU ('': gpu '' @ dec_int g))
      else claim_gpus known i gs (g # claimed))"

text \<open>The loop over the slots, with the claimed indices and the slot that claimed each NVLink
  domain.\<close>

fun check_slots :: "int list \<Rightarrow> nat \<Rightarrow> SlotYAML list \<Rightarrow> int list \<Rightarrow> (string \<Rightarrow> nat option) \<Rightarrow> err option" where
  "check_slots known i [] claimed doms = None"
| "check_slots known i (s # ss) claimed doms =
     (if sy_size s \<le> 0
      then Some (WrapErr [] ErrSlotSizeMismatch ('': slot '' @ dec_nat i @ '' size='' @ dec_int (sy_size s)))
      else if sy_gpus s = []
      then Some (WrapErr [] ErrEmptyGpuIndices ('': slot '' @ dec_nat i @ '' declares size='' @ dec_int (sy_size s)))
      else if sy_size s \<noteq> int (length (sy_gpus s))
      then Some (WrapErr [] ErrSlotSizeMismatch ('': slot '' @ dec_nat i @ '' declares size='' @ dec_int (sy_size s)
             @ '' but lists '' @ dec_nat (length (sy_gpus s)) @ '' gpus''))
      else case claim_gpus known i (sy_gpus s) claimed of
        Inl e \<Rightarrow> Some e
      | Inr claimed' \<Rightarrow>
          if sy_nvlink s = [] then check_slots known (Suc i) ss claimed' doms
          else (case doms (sy_nvlink s) of
              Some other \<Rightarrow> Some (WrapErr [] ErrSharedNvlinkDomain ('': '' @ quoted (sy_nvlink s) @ '' in slots ''
                 @ dec_nat other @ '' and '' @ dec_nat i))
            | None \<Rightarrow> check_slots known (Suc i) ss claimed' (doms(sy_nvlink s \<mapsto> i))))"

definition Resolve :: "(string \<Rightarrow> string) \<Rightarrow> File \<Rightarrow> string \<Rightarrow> int list \<Rightarrow> err + Resolved" where
  "Resolve sha f raw host = (case find (\<lambda>l. ly_name l = fl_active f) (fl_layouts f) of
       None \<Rightarrow> Inl (WrapErr [] ErrActiveMissing ('': '' @ quoted (fl_active f)))
     | Some active \<Rightarrow> (case check_slots host 0 (ly_slots active) [] (\<lambda>_. None) of
         Some e \<Rightarrow> Inl e
       | None \<Rightarrow> Inr \<lparr>rs_name = ly_name active, rs_hash = sha raw, rs_slots = ly_slots active\<rparr>))"

text \<open>\<open>Resolved.Proto\<close>; a slot index is an \<open>int32\<close>.\<close>

fun proto_slots :: "nat \<Rightarrow> SlotYAML list \<Rightarrow> SlotSpec list" where
  "proto_slots i [] = []"
| "proto_slots i (s # ss) = \<lparr>sp_index = int32 (int i), sp_gpus = sy_size s, sp_gpu_indices = sy_gpus s,
     sp_nvlink = sy_nvlink s\<rparr> # proto_slots (Suc i) ss"

definition Proto_of :: "Resolved \<Rightarrow> Profile_pb" where
  "Proto_of r = \<lparr>pf_name = rs_name r, pf_hash = rs_hash r, pf_slots = proto_slots 0 (rs_slots r)\<rparr>"

section \<open>What the checks accept\<close>

text \<open>The layouts the documentation of the package describes.\<close>

definition layout_ok :: "int list \<Rightarrow> SlotYAML list \<Rightarrow> bool" where
  "layout_ok known ss \<longleftrightarrow>
     (\<forall>s\<in>set ss. 0 < sy_size s \<and> sy_size s = int (length (sy_gpus s)) \<and> set (sy_gpus s) \<subseteq> set known) \<and>
     distinct (concat (map sy_gpus ss)) \<and>
     distinct (filter (\<lambda>d. d \<noteq> []) (map sy_nvlink ss))"

lemma claim_gpus_iff:
  "claim_gpus known i gs claimed = Inr c' \<longleftrightarrow>
     set gs \<subseteq> set known \<and> distinct gs \<and> set gs \<inter> set claimed = {} \<and> c' = rev gs @ claimed"
  by (induction known i gs claimed rule: claim_gpus.induct) auto

lemma claim_gpus_Inl: "(\<exists>e. claim_gpus known i gs claimed = Inl e) \<longleftrightarrow>
     \<not> (set gs \<subseteq> set known \<and> distinct gs \<and> set gs \<inter> set claimed = {})"
  using claim_gpus_iff [of known i gs claimed] by (cases "claim_gpus known i gs claimed") auto

lemma layout_ok_Cons:
  "layout_ok known (s # ss) \<longleftrightarrow> 0 < sy_size s \<and> sy_size s = int (length (sy_gpus s)) \<and>
     set (sy_gpus s) \<subseteq> set known \<and> distinct (sy_gpus s) \<and>
     (\<forall>t\<in>set ss. set (sy_gpus t) \<inter> set (sy_gpus s) = {} \<and> (sy_nvlink t \<noteq> [] \<longrightarrow> sy_nvlink t \<noteq> sy_nvlink s)) \<and>
     layout_ok known ss"
proof -
  have "set (sy_gpus s) \<inter> set (concat (map sy_gpus ss)) = {} \<longleftrightarrow> (\<forall>t\<in>set ss. set (sy_gpus t) \<inter> set (sy_gpus s) = {})"
    by auto
  then have g: "distinct (concat (map sy_gpus (s # ss))) \<longleftrightarrow> distinct (sy_gpus s) \<and>
      (\<forall>t\<in>set ss. set (sy_gpus t) \<inter> set (sy_gpus s) = {}) \<and> distinct (concat (map sy_gpus ss))" by auto
  have "(sy_nvlink s \<noteq> [] \<longrightarrow> sy_nvlink s \<notin> set (filter (\<lambda>d. d \<noteq> []) (map sy_nvlink ss))) \<longleftrightarrow>
      (\<forall>t\<in>set ss. sy_nvlink t \<noteq> [] \<longrightarrow> sy_nvlink t \<noteq> sy_nvlink s)" by auto (metis imageI)
  then have d: "distinct (filter (\<lambda>d. d \<noteq> []) (map sy_nvlink (s # ss))) \<longleftrightarrow>
      (\<forall>t\<in>set ss. sy_nvlink t \<noteq> [] \<longrightarrow> sy_nvlink t \<noteq> sy_nvlink s) \<and> distinct (filter (\<lambda>d. d \<noteq> []) (map sy_nvlink ss))"
    by (cases "sy_nvlink s = []") simp_all
  show ?thesis unfolding layout_ok_def g d list.set ball_conj_distrib by (simp only: ball_simps conj_ac)
qed

lemma check_slots_iff:
  "check_slots known i ss claimed doms = None \<longleftrightarrow> layout_ok known ss \<and>
     (\<forall>s\<in>set ss. set (sy_gpus s) \<inter> set claimed = {} \<and> (sy_nvlink s \<noteq> [] \<longrightarrow> doms (sy_nvlink s) = None))"
proof (induction ss arbitrary: i claimed doms)
  case Nil
  then show ?case by (simp add: layout_ok_def)
next
  case (Cons s ss)
  let ?ok = "0 < sy_size s \<and> sy_size s = int (length (sy_gpus s)) \<and> set (sy_gpus s) \<subseteq> set known \<and>
    distinct (sy_gpus s) \<and> set (sy_gpus s) \<inter> set claimed = {} \<and> (sy_nvlink s \<noteq> [] \<longrightarrow> doms (sy_nvlink s) = None)"
  show ?case
  proof (cases ?ok)
    case True
    then have "claim_gpus known i (sy_gpus s) claimed = Inr (rev (sy_gpus s) @ claimed)" by (simp add: claim_gpus_iff)
    with True have eq: "check_slots known i (s # ss) claimed doms = check_slots known (Suc i) ss (rev (sy_gpus s) @ claimed)
      (if sy_nvlink s = [] then doms else doms(sy_nvlink s \<mapsto> i))" by auto
    have "(\<forall>t\<in>set ss. set (sy_gpus t) \<inter> set (rev (sy_gpus s) @ claimed) = {} \<and>
        (sy_nvlink t \<noteq> [] \<longrightarrow> (if sy_nvlink s = [] then doms else doms(sy_nvlink s \<mapsto> i)) (sy_nvlink t) = None)) \<longleftrightarrow>
      (\<forall>t\<in>set ss. set (sy_gpus t) \<inter> set (sy_gpus s) = {} \<and> (sy_nvlink t \<noteq> [] \<longrightarrow> sy_nvlink t \<noteq> sy_nvlink s)) \<and>
      (\<forall>t\<in>set ss. set (sy_gpus t) \<inter> set claimed = {} \<and> (sy_nvlink t \<noteq> [] \<longrightarrow> doms (sy_nvlink t) = None))"
      by (auto split: if_splits)
    with True show ?thesis unfolding eq Cons.IH layout_ok_Cons by auto
  next
    case False
    then have "check_slots known i (s # ss) claimed doms \<noteq> None"
      using claim_gpus_Inl [of known i "sy_gpus s" claimed] claim_gpus_iff [of known i "sy_gpus s" claimed]
      by (cases "claim_gpus known i (sy_gpus s) claimed") (auto split: option.split)
    with False show ?thesis by (auto simp: layout_ok_Cons)
  qed
qed

lemma proto_slots_nth:
  "map (\<lambda>q. (sp_gpus q, sp_gpu_indices q, sp_nvlink q)) (proto_slots i ss) = map (\<lambda>s. (sy_size s, sy_gpus s, sy_nvlink s)) ss"
  "map sp_index (proto_slots i ss) = map (int32 \<circ> int) [i..<i + length ss]"
  by (induction i ss rule: proto_slots.induct) (simp_all add: upt_rec)

end
