(* ===== verification/VmProps.thy ===== *)
theory VmProps
  imports VmHandler OpSlots Profile AgentStream
begin

text \<open>
  Properties of compute-agent: layouts, the devices of a domain, the work on one order, the interplay of
  concurrent orders, and the reports main-api receives.
\<close>

section \<open>Layouts\<close>

text \<open>A slot layout is accepted exactly when it is one: the active layout exists and each of its slots
  has a positive size equal to the number of GPUs it lists, all of which the host has, no GPU is in two
  slots and no NVLink domain in two slots. What is reported to main-api is that layout, slot by slot,
  numbered from 0.\<close>

theorem resolve_exact:
  assumes "find (\<lambda>l. ly_name l = fl_active f) (fl_layouts f) = Some l" and "length (ly_slots l) \<le> 2 ^ 31"
  shows "(\<exists>r. Resolve sha f raw host = Inr r) = layout_ok host (ly_slots l) \<and>
    (\<forall>r. Resolve sha f raw host = Inr r \<longrightarrow>
       map sp_index (pf_slots (Proto_of r)) = map int [0..<length (ly_slots l)] \<and>
       map (\<lambda>q. (sp_gpus q, sp_gpu_indices q, sp_nvlink q)) (pf_slots (Proto_of r)) =
         map (\<lambda>s. (sy_size s, sy_gpus s, sy_nvlink s)) (ly_slots l))"
proof -
  have idx: "map (int32 \<circ> int) [0..<length (ly_slots l)] = map int [0..<length (ly_slots l)]"
    using assms(2) by (auto simp: int32_id)
  show ?thesis
    using assms(1) check_slots_iff [of host 0 "ly_slots l" "[]" "\<lambda>_. None"]
    by (cases "check_slots host 0 (ly_slots l) [] (\<lambda>_. None)")
      (auto simp: Resolve_def Proto_of_def proto_slots_nth idx)
qed

definition sample_layout :: File where
  "sample_layout = \<lparr>fl_active = ''pairs'', fl_layouts = [\<lparr>ly_name = ''pairs'', ly_slots =
     [\<lparr>sy_size = 2, sy_gpus = [0, 1], sy_nvlink = ''a''\<rparr>, \<lparr>sy_size = 1, sy_gpus = [2], sy_nvlink = []\<rparr>]\<rparr>]\<rparr>"

theorem resolve_exact_witness:
  "(\<exists>r. Resolve (\<lambda>_. ''h'') sample_layout [] [0, 1, 2] = Inr r) \<and>
   \<not> (\<exists>r. Resolve (\<lambda>_. ''h'') sample_layout [] [0, 1] = Inr r)"
  using resolve_exact [of sample_layout "\<lparr>ly_name = ''pairs'', ly_slots =
     [\<lparr>sy_size = 2, sy_gpus = [0, 1], sy_nvlink = ''a''\<rparr>, \<lparr>sy_size = 1, sy_gpus = [2], sy_nvlink = []\<rparr>]\<rparr>" "\<lambda>_. ''h''" "[]"]
  by (simp add: sample_layout_def layout_ok_def)

section \<open>Devices\<close>

text \<open>C29. Reading the devices of a domain back gives what it was built from: from the document of any
  specification the builder accepts, the parser recovers exactly the list of PCI addresses, in order
  and as the same text.\<close>

theorem passthrough_round_trip:
  assumes "xml_ok L" and "BuildDomainXML L spec = Inr xml"
  shows "ParsePassthroughPCIFromXML L xml = Inr (ds_pci spec)"
proof -
  from BuildDomainXML_Inr [OF assms(2)] obtain hs where hs: "build_hostdevs (ds_pci spec) = Inr hs"
    "xml_MarshalIndent L (domain_doc spec hs) = Inr xml" by auto
  with assms(1) have "xml_Unmarshal L xml = Inr (map seen_hostdev hs)" by (auto simp: xml_ok_def domain_doc_def)
  moreover have "filter (\<lambda>(m, t, _). m = ''subsystem'' \<and> t = ''pci'') (map seen_hostdev hs) = map seen_hostdev hs"
    using build_hostdevs_inverse [OF hs(1)] by (auto simp: seen_hostdev_def filter_id_conv)
  ultimately show ?thesis
    using build_hostdevs_inverse [OF hs(1)] by (simp add: ParsePassthroughPCIFromXML_def seen_hostdev_def comp_def)
qed

definition sample_spec :: DomainSpec where
  "sample_spec = \<lparr>ds_name = ''vm'', ds_memory = 1024, ds_vcpus = 2, ds_disk = ''/d'', ds_iso = [], ds_network = ''default'',
     ds_machine = [], ds_emulator = [], ds_pci = [''0000:16:00.0'', ''0000:16:00.1'']\<rparr>"

text \<open>A codec that writes the hostdevs only: text of the addresses, one per line.\<close>

definition sample_xml_lib :: "hostdevXML list \<Rightarrow> xml_lib" where
  "sample_xml_lib hs = \<lparr>xml_MarshalIndent = (\<lambda>d. if dv_hostdevs (dx_devices d) = hs then Inr ''<domain/>'' else Inl (Err ''unsupported'')),
     xml_Unmarshal = (\<lambda>_. Inr (map seen_hostdev hs))\<rparr>"

theorem passthrough_round_trip_witness:
  "BuildDomainXML (sample_xml_lib [hostdev_for ''0000'' ''16'' ''00'' ''0'', hostdev_for ''0000'' ''16'' ''00'' ''1'']) sample_spec =
     Inr ''<domain/>'' \<and>
   ParsePassthroughPCIFromXML (sample_xml_lib [hostdev_for ''0000'' ''16'' ''00'' ''0'', hostdev_for ''0000'' ''16'' ''00'' ''1'']) ''<domain/>'' =
     Inr [''0000:16:00.0'', ''0000:16:00.1'']"
proof -
  let ?L = "sample_xml_lib [hostdev_for ''0000'' ''16'' ''00'' ''0'', hostdev_for ''0000'' ''16'' ''00'' ''1'']"
  have ok: "xml_ok ?L" by (auto simp: xml_ok_def sample_xml_lib_def split: if_splits)
  have b: "BuildDomainXML ?L sample_spec = Inr ''<domain/>''"
    by (simp add: BuildDomainXML_def sample_spec_def Validate_spec_def buildHostdev_def ParseUint16_32_def hex_digit_def
        Let_def domain_doc_def sample_xml_lib_def)
  from passthrough_round_trip [OF ok b] b show ?thesis by (simp add: sample_spec_def)
qed

section \<open>Concurrent orders\<close>

text \<open>C12. At most one operation works on an instance at a time: in every interleaving of any number of
  create and destroy orders, two goroutines that work for the same instance are the same one, and the
  slot of the instance is theirs.\<close>

theorem one_operation_per_instance:
  assumes "op_reach s" and "op_at s t i k (Working sl)" and "op_at s t' i k' (Working sl')"
  shows "t' = t \<and> k' = k \<and> op_inflight s i = Some (sl, k)"
proof -
  note ok = op_reach_ok [OF assms(1)]
  from ops_okD(2) [OF ok assms(2)] ops_okD(2) [OF ok assms(3)] have "sl' = sl" "k' = k" by auto
  moreover have "holds s t sl" "holds s t' sl'" using assms(2,3) by (auto simp: holds_def)
  ultimately show ?thesis using ops_okD(5) [OF ok] ops_okD(2) [OF ok assms(2)] by blast
qed

definition two_orders :: ops where
  "two_orders = spawn 1 ''i'' opDestroy (spawn 0 ''i'' opCreate ops_init)"

definition first_claimed :: ops where
  "first_claimed = goto 0 (Working 0) (snd (acquireOp ''i'' opCreate two_orders))"

lemma first_claimed_reach: "op_reach first_claimed"
proof -
  have "op_reach two_orders" unfolding two_orders_def
    by (intro op_reach.reach_order op_reach.reach_init) (simp_all add: spawn_def ops_init_def)
  moreover have "op_step 0 two_orders (goto 0 (after_acquire (Claimed 0)) (snd (acquireOp ''i'' opCreate two_orders)))"
    by (rule op_step.step_try [of _ _ "''i''" opCreate])
      (simp_all add: two_orders_def op_at_def spawn_def ops_init_def acquireOp_def)
  ultimately have "op_reach (goto 0 (after_acquire (Claimed 0)) (snd (acquireOp ''i'' opCreate two_orders)))"
    by (rule op_reach.reach_step)
  then show ?thesis by (simp add: first_claimed_def after_acquire_def)
qed

theorem one_operation_per_instance_witness:
  "op_at first_claimed 0 ''i'' opCreate (Working 0) \<and> op_inflight first_claimed ''i'' = Some (0, opCreate)"
proof -
  have "op_at first_claimed 0 ''i'' opCreate (Working 0)"
    by (simp add: first_claimed_def two_orders_def op_at_def goto_def spawn_def ops_init_def acquireOp_def)
  with one_operation_per_instance [OF first_claimed_reach this this] show ?thesis by blast
qed

definition some_step :: "ops \<Rightarrow> ops \<Rightarrow> bool" where
  "some_step a b \<longleftrightarrow> (\<exists>t. op_step t a b)"

lemma run_reach: "(some_step ^^ n) s s' \<Longrightarrow> op_reach s \<Longrightarrow> op_reach s'"
proof (induction n arbitrary: s')
  case (Suc n)
  then obtain m where m: "(some_step ^^ n) s m" "some_step m s'" by auto
  from m(2) obtain t where "op_step t m s'" unfolding some_step_def ..
  with Suc m(1) show ?case by (blast intro: op_reach.reach_step)
qed simp

lemma run_bound: "(some_step ^^ n) s s' \<Longrightarrow> op_reach s \<Longrightarrow> n + op_total s' \<le> op_total s"
proof (induction n arbitrary: s')
  case (Suc n)
  then obtain m where m: "(some_step ^^ n) s m" "some_step m s'" by auto
  from m(2) op_step_decreases [OF run_reach [OF m(1) Suc.prems(2)]] have "op_total s' < op_total m" by (auto simp: some_step_def)
  with Suc.IH [OF m(1) Suc.prems(2)] show ?case by simp
qed simp

text \<open>C13. Every order comes to an end, and none waits for ever: without new orders a system in any
  reachable state makes at most \<open>op_total\<close> further steps, however they are scheduled, and when no step is
  possible every goroutine has finished its work or dropped its order. In particular a destroy that
  waits for a create is never lost.\<close>

theorem orders_complete:
  assumes "op_reach s" and "(some_step ^^ n) s s'"
  shows "n \<le> op_total s \<and>
    ((\<nexists>s''. some_step s' s'') \<longrightarrow> (\<forall>t i k p. op_at s' t i k p \<longrightarrow> p = Finished \<or> p = Dropped))"
proof -
  have "op_reach s'" using run_reach assms by blast
  from op_progress [OF this] have "\<exists>s''. some_step s' s''" if "op_at s' t i k p" "\<not> (p = Finished \<or> p = Dropped)" for t i k p
    using that unfolding ended_def some_step_def by blast
  moreover have "n \<le> op_total s" using run_bound [OF assms(2,1)] by simp
  ultimately show ?thesis by blast
qed

theorem orders_complete_witness: "\<exists>s' n. (some_step ^^ n) first_claimed s' \<and> n \<le> op_total first_claimed \<and> n = 1"
proof -
  have "op_at first_claimed 0 ''i'' opCreate (Working 0)"
    by (simp add: first_claimed_def two_orders_def op_at_def goto_def spawn_def ops_init_def acquireOp_def)
  then have "some_step first_claimed (goto 0 (Closing 0) (release_slot ''i'' 0 first_claimed))"
    unfolding some_step_def by (blast intro: op_step.step_release)
  then have "(some_step ^^ 1) first_claimed (goto 0 (Closing 0) (release_slot ''i'' 0 first_claimed))" by auto
  with orders_complete [OF first_claimed_reach this] show ?thesis by blast
qed

section \<open>One order\<close>

lemma handleCreate_cases:
  assumes "handleCreate V cfg True ctx req h = (r, h')"
  obtains (unprepared) e h2 where "r = False"
      "prepareFiles (ve_os V) (ve_iso V) cfg req (send_status (cm_instance req) INSTANCE_STATE_PROVISIONING [] [] h) = (Inl e, h2)"
      "h' = send_status (cm_instance req) INSTANCE_STATE_FAILED [] (''prepare: '' @ err_text e) (cleanupFiles (ve_os V) cfg (cm_instance req) h2)"
  | (uncreated) h2 e d where "r = False"
      "prepareFiles (ve_os V) (ve_iso V) cfg req (send_status (cm_instance req) INSTANCE_STATE_PROVISIONING [] [] h) =
         (Inr (disk_path cfg (cm_instance req), seed_path cfg (cm_instance req)), h2)"
      "CreateDomain (ve_conn V) (ve_xml V) ctx (vm_spec cfg req (disk_path cfg (cm_instance req)) (seed_path cfg (cm_instance req)))
         (vh_dom h2) = (Inl e, d)"
      "h' = send_status (cm_instance req) INSTANCE_STATE_FAILED [] (''libvirt-create: '' @ err_text e)
         (reset_all (ve_sysfs V) (cm_pci req) (cleanupFiles (ve_os V) cfg (cm_instance req) (h2\<lparr>vh_dom := d\<rparr>)))"
  | (running) h2 info d where "r = True"
      "prepareFiles (ve_os V) (ve_iso V) cfg req (send_status (cm_instance req) INSTANCE_STATE_PROVISIONING [] [] h) =
         (Inr (disk_path cfg (cm_instance req), seed_path cfg (cm_instance req)), h2)"
      "CreateDomain (ve_conn V) (ve_xml V) ctx (vm_spec cfg req (disk_path cfg (cm_instance req)) (seed_path cfg (cm_instance req)))
         (vh_dom h2) = (Inr info, d)"
      "h' = send_status (cm_instance req) INSTANCE_STATE_RUNNING [] [] (h2\<lparr>vh_dom := d\<rparr>)"
proof -
  let ?h1 = "send_status (cm_instance req) INSTANCE_STATE_PROVISIONING [] [] h"
  obtain p h2 where p: "prepareFiles (ve_os V) (ve_iso V) cfg req ?h1 = (p, h2)" by fastforce
  show thesis
  proof (cases p)
    case (Inl e)
    with assms p show ?thesis by (intro unprepared) (auto simp: handleCreate_def Let_def)
  next
    case (Inr ds)
    obtain disk seed where ds: "ds = (disk, seed)" by fastforce
    with prepareFiles_Inr p Inr have paths: "disk = disk_path cfg (cm_instance req)" "seed = seed_path cfg (cm_instance req)" by blast+
    obtain q d where q: "CreateDomain (ve_conn V) (ve_xml V) ctx (vm_spec cfg req disk seed) (vh_dom h2) = (q, d)" by fastforce
    show ?thesis
    proof (cases q)
      case (Inl e)
      with assms p \<open>p = Inr ds\<close> ds q paths show ?thesis
        by (intro uncreated) (auto simp: handleCreate_def Let_def on_dom_def)
    next
      case (Inr info)
      with assms p \<open>p = Inr ds\<close> ds q paths show ?thesis
        by (intro running) (auto simp: handleCreate_def Let_def on_dom_def)
    qed
  qed
qed

definition host_calls_succeed :: "'d vm_env \<Rightarrow> bool" where
  "host_calls_succeed V \<longleftrightarrow> (\<forall>p. os_Remove (ve_os V) p = None) \<and> (\<forall>p. sf_WriteFile (ve_sysfs V) p ''1'' = None)"

text \<open>An order to create an instance has exactly two outcomes for a name libvirtd does not know. Either
  the machine runs, from the document built for the request, its seed image exists, and \<open>RUNNING\<close> was
  reported after \<open>PROVISIONING\<close>; or \<open>FAILED\<close> was reported, the machine does not run, and its two
  files are gone. No other machine and no other file is touched.\<close>

theorem create_order_outcome:
  assumes "libvirtd_ok (ve_conn V) (ve_xml V) view" and "host_calls_succeed V" and "i = cm_instance req"
    and "view (vh_dom h) i = None" and "handleCreate V cfg True ctx req h = (r, h')"
  shows "(r \<and> vh_sent h' = vh_sent h @ [status_msg i INSTANCE_STATE_PROVISIONING [] [], status_msg i INSTANCE_STATE_RUNNING [] []] \<and>
      (\<exists>xml. BuildDomainXML (ve_xml V) (vm_spec cfg req (disk_path cfg i) (seed_path cfg i)) = Inr xml \<and>
         view (vh_dom h') = (view (vh_dom h))(i \<mapsto> (True, xml))) \<and> vh_files h' (seed_path cfg i) \<or>
     \<not> r \<and> (\<exists>er. vh_sent h' = vh_sent h @ [status_msg i INSTANCE_STATE_PROVISIONING [] [], status_msg i INSTANCE_STATE_FAILED [] er]) \<and>
      \<not> (\<exists>xml. view (vh_dom h') i = Some (True, xml)) \<and>
      \<not> vh_files h' (disk_path cfg i) \<and> \<not> vh_files h' (seed_path cfg i)) \<and>
    (\<forall>n. n \<noteq> i \<longrightarrow> view (vh_dom h') n = view (vh_dom h) n) \<and>
    (\<forall>p. p \<noteq> disk_path cfg i \<longrightarrow> p \<noteq> seed_path cfg i \<longrightarrow> vh_files h' p = vh_files h p)"
  using assms(5)
proof (cases rule: handleCreate_cases)
  case (unprepared e h2)
  have g: "\<not> vh_files (cleanupFiles (ve_os V) cfg i h2) (disk_path cfg i)" "\<not> vh_files (cleanupFiles (ve_os V) cfg i h2) (seed_path cfg i)"
    using cleanupFiles_gone [of "ve_os V" cfg i h2] assms(2) by (auto simp: host_calls_succeed_def)
  from prepareFiles_frame [OF unprepared(2)] unprepared g assms(3,4) show ?thesis
    by (auto simp: cleanupFiles_frame)
next
  case (uncreated h2 e d)
  let ?h3 = "h2\<lparr>vh_dom := d\<rparr>"
  have g: "\<not> vh_files (cleanupFiles (ve_os V) cfg i ?h3) (disk_path cfg i)" "\<not> vh_files (cleanupFiles (ve_os V) cfg i ?h3) (seed_path cfg i)"
    using cleanupFiles_gone [of "ve_os V" cfg i ?h3] assms(2) by (auto simp: host_calls_succeed_def)
  note f = prepareFiles_frame [OF uncreated(2)]
  have v: "\<not> (\<exists>xml. view d i = Some (True, xml)) \<and> (\<forall>n. n \<noteq> i \<longrightarrow> view d n = view (vh_dom h) n)"
    using assms(1) uncreated(3)
    by (cases rule: CreateDomain_cases) (use assms(3,4) f in \<open>auto simp: vm_spec_def\<close>)
  from f uncreated(1,4) g v assms(3) show ?thesis by (auto simp: cleanupFiles_frame reset_all_frame)
next
  case (running h2 info d)
  note f = prepareFiles_frame [OF running(2)] and s = prepareFiles_Inr [OF running(2)]
  obtain xml where x: "BuildDomainXML (ve_xml V) (vm_spec cfg req (disk_path cfg i) (seed_path cfg i)) = Inr xml"
    "view d = (view (vh_dom h))(i \<mapsto> (True, xml))"
    using assms(1) running(3)
    by (cases rule: CreateDomain_cases) (use assms(3) f in \<open>auto simp: vm_spec_def\<close>)
  from f s running(1,4) x assms(3) show ?thesis by auto
qed

text \<open>A host for the witnesses: libvirtd as a map from names to domains, a codec for one document.\<close>

definition sample_req :: CreateInstance_pb where
  "sample_req = \<lparr>cm_instance = ''i1'', cm_name = ''vm'', cm_memory = 1024, cm_vcpus = 2, cm_pubkeys = [], cm_slots = [],
     cm_image = [], cm_pci = []\<rparr>"

definition sample_vm_config :: vm_config where
  "sample_vm_config = \<lparr>hc_image_dir = ''/img'', hc_seed_dir = ''/seed'', hc_base = ''/base'', hc_network = [], hc_disk_gb = 10\<rparr>"

definition sample_doc :: domainXML where
  "sample_doc = domain_doc (vm_spec sample_vm_config sample_req (disk_path sample_vm_config ''i1'') (seed_path sample_vm_config ''i1'')) []"

definition one_doc_lib :: xml_lib where
  "one_doc_lib = \<lparr>xml_MarshalIndent = (\<lambda>d. if d = sample_doc then Inr ''<domain/>'' else Inl (Err ''unsupported'')),
     xml_Unmarshal = (\<lambda>_. Inr [])\<rparr>"

definition sample_conn :: "(string \<Rightarrow> (bool \<times> string) option) connector" where
  "sample_conn = \<lparr>DomainDefineXML = (\<lambda>x m. (Inr \<lparr>vd_name = ''i1'', vd_uuid = []\<rparr>, m(''i1'' \<mapsto> (False, x)))),
     DomainCreate = (\<lambda>d m. (Inr (), m(vd_name d := map_option (\<lambda>(_, x). (True, x)) (m (vd_name d))))),
     DomainDestroy = (\<lambda>d m. (Inr (), m(vd_name d := map_option (\<lambda>(_, x). (False, x)) (m (vd_name d))))),
     DomainUndefineFlags = (\<lambda>d m. (Inr (), m(vd_name d := None))),
     DomainLookupByName = (\<lambda>n m. if m n = None then (Inl (Err ''no domain''), m) else (Inr \<lparr>vd_name = n, vd_uuid = []\<rparr>, m)),
     DomainGetState = (\<lambda>d m. (Inr 1, m)),
     DomainGetXMLDesc = (\<lambda>d m. case m (vd_name d) of None \<Rightarrow> (Inl (Err ''no domain''), m) | Some (_, x) \<Rightarrow> (Inr x, m)),
     DomainInterfaceAddresses = (\<lambda>d m. (Inr [[(0, ''10.0.0.9'')]], m))\<rparr>"

definition sample_env :: "(string \<Rightarrow> (bool \<times> string) option) vm_env" where
  "sample_env = \<lparr>ve_os = \<lparr>os_MkdirAll = (\<lambda>_. None), os_imgFn = (\<lambda>_ _. (None, True)), os_Chmod = (\<lambda>_. None),
       os_resizeFn = (\<lambda>_ _. None), os_OpenFile = (\<lambda>_. None), os_Remove = (\<lambda>_. None)\<rparr>,
     ve_conn = sample_conn, ve_xml = one_doc_lib,
     ve_sysfs = \<lparr>sf_root = [], sf_Readlink = (\<lambda>_. Inl (Err ''x'')), sf_ReadDir = (\<lambda>_. Inl (Err ''x'')),
       sf_ReadFile = (\<lambda>_. Inl (Err ''x'')), sf_Stat = (\<lambda>_. None), sf_WriteFile = (\<lambda>_ _. None), sf_IsNotExist = (\<lambda>_. False)\<rparr>,
     ve_iso = \<lparr>yaml_Marshal = Inr, iso_NewWriter = None, iso_AddFile = (\<lambda>_ _. None), iso_WriteTo = (\<lambda>_ _. Inr ''iso'')\<rparr>\<rparr>"

definition sample_host :: "(string \<Rightarrow> (bool \<times> string) option) \<Rightarrow> (string \<Rightarrow> (bool \<times> string) option) vm_host" where
  "sample_host m = \<lparr>vh_files = (\<lambda>_. False), vh_dom = m, vh_resets = [], vh_sent = []\<rparr>"

lemma sample_conn_ok: "libvirtd_ok sample_conn one_doc_lib (\<lambda>m. m)"
proof -
  have "dx_name sample_doc = ''i1''" by (simp add: sample_doc_def domain_doc_def vm_spec_def sample_req_def)
  then show ?thesis
    unfolding libvirtd_ok_def quiet_def fails_quietly_def
    by (simp add: sample_conn_def one_doc_lib_def split: if_splits option.splits prod.splits)
qed

lemma sample_calls: "host_calls_succeed sample_env"
  by (simp add: host_calls_succeed_def sample_env_def)

lemma sample_vm_simps [simp]:
  "cm_instance sample_req = ''i1''" "vh_dom (sample_host m) = m" "ve_xml sample_env = one_doc_lib" "ve_conn sample_env = sample_conn"
  "vh_sent (sample_host m) = []" "vh_resets (sample_host m) = []" "\<not> vh_files (sample_host m) p"
  by (simp_all add: sample_req_def sample_host_def sample_env_def)

theorem create_order_outcome_witness:
  "fst (handleCreate sample_env sample_vm_config True None sample_req (sample_host (\<lambda>_. None))) \<and>
   vh_dom (snd (handleCreate sample_env sample_vm_config True None sample_req (sample_host (\<lambda>_. None)))) ''i1'' = Some (True, ''<domain/>'')"
proof -
  obtain r h' where run: "handleCreate sample_env sample_vm_config True None sample_req (sample_host (\<lambda>_. None)) = (r, h')" by fastforce
  have "fst (handleCreate sample_env sample_vm_config True None sample_req (sample_host (\<lambda>_. None)))" by code_simp
  with run have r: r by simp
  have b: "BuildDomainXML one_doc_lib (vm_spec sample_vm_config sample_req (disk_path sample_vm_config ''i1'') (seed_path sample_vm_config ''i1'')) = Inr ''<domain/>''"
    by code_simp
  have ok: "libvirtd_ok (ve_conn sample_env) (ve_xml sample_env) (\<lambda>m. m)" using sample_conn_ok by simp
  from create_order_outcome [OF ok sample_calls _ _ run, of "''i1''"] r b have "vh_dom h' ''i1'' = Some (True, ''<domain/>'')" by auto
  with r show ?thesis unfolding run by simp
qed

text \<open>An order to destroy an instance ends in one of two ways. Either \<open>STOPPED\<close> was reported: libvirtd no
  longer knows the machine, its files are gone, and every passthrough device the machine had, as far as it
  can be reset, was reset, in order; this also holds when the machine was already gone. Or \<open>FAILED\<close> was
  reported: the machine is still defined, and its files and devices are as they were. No other machine and
  no other file is touched.\<close>

theorem destroy_order_outcome:
  assumes "libvirtd_ok (ve_conn V) (ve_xml V) view" and "host_calls_succeed V"
    and "fst (DomainPassthroughPCI (ve_conn V) (ve_xml V) None i (vh_dom h)) = Inr pcis \<or>
      pcis = [] \<and> view (vh_dom h) i = None"
    and "handleDestroy V cfg True None i h = h'"
  shows "(vh_sent h' = vh_sent h @ [status_msg i INSTANCE_STATE_STOPPING [] [], status_msg i INSTANCE_STATE_STOPPED [] []] \<and>
      view (vh_dom h') = (view (vh_dom h))(i := None) \<and> \<not> vh_files h' (disk_path cfg i) \<and> \<not> vh_files h' (seed_path cfg i) \<and>
      vh_resets h' = vh_resets h @ filter (HasResetFile (ve_sysfs V)) pcis \<or>
     (\<exists>er. vh_sent h' = vh_sent h @ [status_msg i INSTANCE_STATE_STOPPING [] [], status_msg i INSTANCE_STATE_FAILED [] er]) \<and>
      view (vh_dom h) i \<noteq> None \<and> view (vh_dom h') i \<noteq> None \<and> vh_files h' = vh_files h \<and> vh_resets h' = vh_resets h) \<and>
    (\<forall>n. n \<noteq> i \<longrightarrow> view (vh_dom h') n = view (vh_dom h) n) \<and>
    (\<forall>p. p \<noteq> disk_path cfg i \<longrightarrow> p \<noteq> seed_path cfg i \<longrightarrow> vh_files h' p = vh_files h p)"
proof -
  let ?h1 = "send_status i INSTANCE_STATE_STOPPING [] [] h"
  obtain q d1 where q: "DomainPassthroughPCI (ve_conn V) (ve_xml V) None i (vh_dom h) = (q, d1)" by fastforce
  have v1: "view d1 = view (vh_dom h)" using DomainPassthroughPCI_quiet [OF assms(1) q] .
  have pcis: "(case q of Inl _ \<Rightarrow> [] | Inr xs \<Rightarrow> xs) = pcis"
  proof (cases "view (vh_dom h) i = None")
    case True
    with lookup_domain_cases [OF assms(1), of i "vh_dom h"] q have "\<exists>e. q = Inl e"
      by (cases "lookup_domain (ve_conn V) i (vh_dom h)") (auto simp: DomainPassthroughPCI_def bnd_def)
    with assms(3) q True show ?thesis by auto
  next
    case False
    with assms(3) q show ?thesis by auto
  qed
  obtain r d where r: "DestroyDomain (ve_conn V) None i d1 = (r, d)" by fastforce
  let ?h3 = "?h1\<lparr>vh_dom := d\<rparr>"
  let ?done = "send_status i INSTANCE_STATE_STOPPED [] [] (reset_all (ve_sysfs V) pcis (cleanupFiles (ve_os V) cfg i ?h3))"
  have h': "h' = (case r of Inl e \<Rightarrow> if \<not> err_is e ErrDomainNotFound then send_status i INSTANCE_STATE_FAILED [] (err_text e) ?h3 else ?done
      | Inr _ \<Rightarrow> ?done)"
    using assms(4) q r pcis by (auto simp: handleDestroy_def Let_def on_dom_def split: sum.splits)
  have g: "\<not> vh_files (cleanupFiles (ve_os V) cfg i ?h3) (disk_path cfg i)" "\<not> vh_files (cleanupFiles (ve_os V) cfg i ?h3) (seed_path cfg i)"
    using cleanupFiles_gone [of "ve_os V" cfg i ?h3] assms(2) by (auto simp: host_calls_succeed_def)
  have rs: "vh_resets (reset_all (ve_sysfs V) pcis x) = vh_resets x @ filter (HasResetFile (ve_sysfs V)) pcis" for x :: "'a vm_host"
    using assms(2) by (intro reset_all_resets) (auto simp: host_calls_succeed_def)
  from assms(1) r show ?thesis
  proof (cases rule: DestroyDomain_cases)
    case gone
    with h' g v1 rs show ?thesis by (simp add: cleanupFiles_frame reset_all_frame)
  next
    case (missing e)
    then have "(view (vh_dom h))(i := None) = view (vh_dom h)" using v1 by auto
    with missing h' g v1 rs show ?thesis by (simp add: cleanupFiles_frame reset_all_frame)
  next
    case (failed e)
    then have "view d i \<noteq> None" by (metis map_option_is_None)
    with failed h' v1 show ?thesis by auto
  qed simp
qed

theorem destroy_order_outcome_witness:
  "vh_dom (handleDestroy sample_env sample_vm_config True None ''i1'' (sample_host [''i1'' \<mapsto> (True, ''<domain/>'')])) ''i1'' = None"
proof -
  let ?h = "sample_host [''i1'' \<mapsto> (True, ''<domain/>'')]"
  have ok: "libvirtd_ok (ve_conn sample_env) (ve_xml sample_env) (\<lambda>m. m)" using sample_conn_ok by simp
  have p: "fst (DomainPassthroughPCI (ve_conn sample_env) (ve_xml sample_env) None ''i1'' (vh_dom ?h)) = Inr [] \<or>
      [] = [] \<and> vh_dom ?h ''i1'' = None" by code_simp
  have s: "map st_state (vh_sent (handleDestroy sample_env sample_vm_config True None ''i1'' ?h)) =
      [INSTANCE_STATE_STOPPING, INSTANCE_STATE_STOPPED]" by code_simp
  from destroy_order_outcome [OF ok sample_calls p refl, of sample_vm_config] s show ?thesis
    by (auto simp: status_msg_def)
qed

text \<open>C38. A create order that is delivered again destroys what it created: when the machine already runs, the
  second order is answered with \<open>FAILED\<close>, the disk and the seed image of the running machine are deleted
  and its devices are reset, while libvirtd keeps running it.\<close>

theorem redelivered_create_wrecks_instance:
  assumes "libvirtd_ok (ve_conn V) (ve_xml V) view" and "host_calls_succeed V" and "i = cm_instance req"
    and "view (vh_dom h) i = Some (True, x)"
    and "prepareFiles (ve_os V) (ve_iso V) cfg req (send_status i INSTANCE_STATE_PROVISIONING [] [] h) = (Inr ps, h2)"
    and "BuildDomainXML (ve_xml V) (vm_spec cfg req (disk_path cfg i) (seed_path cfg i)) = Inr xml"
    and "handleCreate V cfg True None req h = (r, h')"
  shows "\<not> r \<and> (\<exists>er. vh_sent h' = vh_sent h @ [status_msg i INSTANCE_STATE_PROVISIONING [] [], status_msg i INSTANCE_STATE_FAILED [] er]) \<and>
    view (vh_dom h') i = Some (True, x) \<and> \<not> vh_files h' (disk_path cfg i) \<and> \<not> vh_files h' (seed_path cfg i) \<and>
    vh_resets h' = vh_resets h @ filter (HasResetFile (ve_sysfs V)) (cm_pci req)"
  using assms(7)
proof (cases rule: handleCreate_cases)
  case (unprepared e h3)
  with assms(3,5) show ?thesis by simp
next
  case (running h3 info d)
  from prepareFiles_frame [OF running(2)] have "vh_dom h3 = vh_dom h" by simp
  with assms(1) running(3) show ?thesis
    by (cases rule: CreateDomain_cases) (use assms(3,4) in \<open>auto simp: vm_spec_def\<close>)
next
  case (uncreated h3 e d)
  let ?h3 = "h3\<lparr>vh_dom := d\<rparr>"
  have g: "\<not> vh_files (cleanupFiles (ve_os V) cfg i ?h3) (disk_path cfg i)" "\<not> vh_files (cleanupFiles (ve_os V) cfg i ?h3) (seed_path cfg i)"
    using cleanupFiles_gone [of "ve_os V" cfg i ?h3] assms(2) by (auto simp: host_calls_succeed_def)
  have rs: "vh_resets (reset_all (ve_sysfs V) (cm_pci req) x) = vh_resets x @ filter (HasResetFile (ve_sysfs V)) (cm_pci req)" for x :: "'a vm_host"
    using assms(2) by (intro reset_all_resets) (auto simp: host_calls_succeed_def)
  note f = prepareFiles_frame [OF uncreated(2)]
  have "view d i = Some (True, x)"
    using assms(1) uncreated(3)
    by (cases rule: CreateDomain_cases) (use assms(3,4,6) f in \<open>auto simp: vm_spec_def\<close>)
  with f uncreated(1,4) g rs assms(3) show ?thesis by (auto simp: cleanupFiles_frame reset_all_frame)
qed

theorem redelivered_create_wrecks_instance_witness:
  "\<not> vh_files (snd (handleCreate sample_env sample_vm_config True None sample_req
     (sample_host [''i1'' \<mapsto> (True, ''<domain/>'')]))) (disk_path sample_vm_config ''i1'') \<and>
   vh_dom (snd (handleCreate sample_env sample_vm_config True None sample_req
     (sample_host [''i1'' \<mapsto> (True, ''<domain/>'')]))) ''i1'' = Some (True, ''<domain/>'')"
proof -
  let ?h = "sample_host [''i1'' \<mapsto> (True, ''<domain/>'')]"
  have ok: "libvirtd_ok (ve_conn sample_env) (ve_xml sample_env) (\<lambda>m. m)" using sample_conn_ok by simp
  obtain r h' where run: "handleCreate sample_env sample_vm_config True None sample_req ?h = (r, h')" by fastforce
  have "isl (fst (prepareFiles (ve_os sample_env) (ve_iso sample_env) sample_vm_config sample_req
      (send_status ''i1'' INSTANCE_STATE_PROVISIONING [] [] ?h))) = False" by code_simp
  then obtain ps h2 where p: "prepareFiles (ve_os sample_env) (ve_iso sample_env) sample_vm_config sample_req
      (send_status ''i1'' INSTANCE_STATE_PROVISIONING [] [] ?h) = (Inr ps, h2)"
    by (metis isl_def prod.collapse sum.collapse(2))
  have b: "BuildDomainXML (ve_xml sample_env) (vm_spec sample_vm_config sample_req (disk_path sample_vm_config ''i1'') (seed_path sample_vm_config ''i1'')) = Inr ''<domain/>''"
    by code_simp
  from redelivered_create_wrecks_instance [OF ok sample_calls _ _ p b run] show ?thesis unfolding run by simp
qed

section \<open>The reports main-api receives\<close>

fun legal_from :: "InstanceState \<Rightarrow> (err + InstanceState) list \<Rightarrow> bool" where
  "legal_from st [] = True"
| "legal_from st (Inl e # xs) = False"
| "legal_from st (Inr x # xs) = (CanTransition st x \<and> legal_from x xs)"

definition reported :: "'d vm_host \<Rightarrow> 'd vm_host \<Rightarrow> (err + InstanceState) list" where
  "reported h h' = map (\<lambda>m. mapInstanceState (st_state m)) (drop (length (vh_sent h)) (vh_sent h'))"

lemma handleCreate_sent:
  assumes "handleCreate V cfg True ctx req h = (r, h')"
  shows "\<exists>er. vh_sent h' = vh_sent h @ [status_msg (cm_instance req) INSTANCE_STATE_PROVISIONING [] [],
    if r then status_msg (cm_instance req) INSTANCE_STATE_RUNNING [] [] else status_msg (cm_instance req) INSTANCE_STATE_FAILED [] er]"
  using assms
  by (cases rule: handleCreate_cases)
    (auto simp: cleanupFiles_frame reset_all_frame dest!: prepareFiles_frame)

lemma detect_sent:
  "vh_sent (detectAndPublishIP C i dl rounds h) = vh_sent h \<or>
   (\<exists>ip. ip \<noteq> [] \<and> vh_sent (detectAndPublishIP C i dl rounds h) = vh_sent h @ [status_msg i INSTANCE_STATE_RUNNING ip []])"
proof (induction C i dl rounds h rule: detectAndPublishIP.induct)
  case (2 C i dl now w ctx rounds h)
  obtain q d where q: "on_dom (DomainIPv4 C ctx i) h = (q, d)" by fastforce
  then have "vh_sent d = vh_sent h" by (auto simp: on_dom_def split: prod.splits)
  with q 2 show ?case by (cases w; cases q) auto
qed simp

lemma handleDestroy_sent:
  "\<exists>st er. st \<in> {INSTANCE_STATE_STOPPED, INSTANCE_STATE_FAILED} \<and> vh_sent (handleDestroy V cfg True ctx i h) =
     vh_sent h @ [status_msg i INSTANCE_STATE_STOPPING [] [], status_msg i st [] er]"
  by (auto simp: handleDestroy_def Let_def on_dom_def cleanupFiles_frame reset_all_frame split: prod.splits sum.splits)

lemma life_edges:
  "CanTransition Pending Provisioning" "CanTransition Provisioning Running" "CanTransition Provisioning Failed"
  "CanTransition Running Running" "CanTransition Running Stopping" "CanTransition Stopping Stopped" "CanTransition Stopping Failed"
  by (simp_all add: sm_defs)

text \<open>main-api accepts everything the agent reports about an instance it ordered. The reports of a
  create order are legal transitions from state pending; when the creation succeeded, so are those of the
  whole life: creation, the later report of the address if it is found, and destruction, however
  libvirtd, the file system and the timing behave.\<close>

theorem life_reports_accepted:
  assumes "handleCreate V cfg True ctx req h = (r, h1)"
    and "h2 = detectAndPublishIP C (cm_instance req) dl rounds h1"
    and "h3 = handleDestroy V' cfg True ctx' (cm_instance req) h2"
  shows "legal_from Pending (reported h h1) \<and> (r \<longrightarrow> legal_from Pending (reported h h3)) \<and>
    (\<forall>m\<in>set (drop (length (vh_sent h)) (vh_sent h3)). st_instance m = cm_instance req)"
proof -
  obtain e1 where s1: "vh_sent h1 = vh_sent h @ [status_msg (cm_instance req) INSTANCE_STATE_PROVISIONING [] [],
    if r then status_msg (cm_instance req) INSTANCE_STATE_RUNNING [] [] else status_msg (cm_instance req) INSTANCE_STATE_FAILED [] e1]"
    using handleCreate_sent [OF assms(1)] by blast
  obtain st e3 where st: "st \<in> {INSTANCE_STATE_STOPPED, INSTANCE_STATE_FAILED}" and
    s3: "vh_sent h3 = vh_sent h2 @ [status_msg (cm_instance req) INSTANCE_STATE_STOPPING [] [], status_msg (cm_instance req) st [] e3]"
    using handleDestroy_sent [of V' cfg ctx' "cm_instance req" h2] unfolding assms(3) [symmetric] by (elim exE conjE)
  from detect_sent [of C "cm_instance req" dl rounds h1] assms(2)
  consider "vh_sent h2 = vh_sent h1" | ip where "vh_sent h2 = vh_sent h1 @ [status_msg (cm_instance req) INSTANCE_STATE_RUNNING ip []]"
    by auto
  then obtain mid where mid: "vh_sent h2 = vh_sent h1 @ mid" "\<forall>m\<in>set mid. st_state m = INSTANCE_STATE_RUNNING \<and> st_instance m = cm_instance req"
    "length mid \<le> 1"
    by cases (auto simp: status_msg_def)
  have d1: "reported h h1 = [Inr Provisioning, if r then Inr Running else Inr Failed]"
    by (simp add: reported_def s1 status_msg_def mapInstanceState_def)
  have d3: "drop (length (vh_sent h)) (vh_sent h3) = [status_msg (cm_instance req) INSTANCE_STATE_PROVISIONING [] [],
      if r then status_msg (cm_instance req) INSTANCE_STATE_RUNNING [] [] else status_msg (cm_instance req) INSTANCE_STATE_FAILED [] e1]
      @ mid @ [status_msg (cm_instance req) INSTANCE_STATE_STOPPING [] [], status_msg (cm_instance req) st [] e3]"
    by (simp add: s3 mid(1) s1)
  have "mapInstanceState st = Inr Stopped \<or> mapInstanceState st = Inr Failed" using st by (auto simp: mapInstanceState_def)
  moreover have "map (\<lambda>m. mapInstanceState (st_state m)) mid = [] \<or> map (\<lambda>m. mapInstanceState (st_state m)) mid = [Inr Running]"
    using mid(2,3) by (cases mid) (auto simp: mapInstanceState_def)
  moreover have "reported h h3 = [Inr Provisioning, Inr Running] @ map (\<lambda>m. mapInstanceState (st_state m)) mid @ [Inr Stopping, mapInstanceState st]"
    if r using that by (simp add: reported_def d3 status_msg_def mapInstanceState_def)
  ultimately have "legal_from Pending (reported h h3)" if r
    using that by (elim disjE) (simp_all add: life_edges)
  moreover have "legal_from Pending (reported h h1)" unfolding d1 by (simp add: life_edges)
  moreover have "\<forall>m\<in>set (drop (length (vh_sent h)) (vh_sent h3)). st_instance m = cm_instance req"
    unfolding d3 using mid(2) by (simp add: status_msg_def)
  ultimately show ?thesis by blast
qed

theorem life_reports_accepted_witness:
  "legal_from Pending (reported (sample_host (\<lambda>_. None)) (handleDestroy sample_env sample_vm_config True None ''i1''
     (detectAndPublishIP sample_conn ''i1'' 90 [(0, WTimer, None)]
       (snd (handleCreate sample_env sample_vm_config True None sample_req (sample_host (\<lambda>_. None)))))))"
proof -
  obtain r h1 where run: "handleCreate sample_env sample_vm_config True None sample_req (sample_host (\<lambda>_. None)) = (r, h1)" by fastforce
  have "fst (handleCreate sample_env sample_vm_config True None sample_req (sample_host (\<lambda>_. None)))" by code_simp
  with run have r by simp
  with life_reports_accepted [where C = sample_conn and dl = 90 and rounds = "[(0, WTimer, None)]" and V' = sample_env and ctx' = None, OF run refl refl] show ?thesis
    unfolding run by simp
qed

end
