(* ===== verification/SshServer.thy ===== *)
theory SshServer
  imports GoStrings
begin

text \<open>
  The SSH front of ssh-proxy: \<open>router/router.go\<close>, which takes the instance label out of a target
  host name, and \<open>server/server.go\<close>, which accepts connections up to a cap, hands every
  \<open>direct-tcpip\<close> channel to the tunnel handler and drains on shutdown. The SSH library is a
  parameter: what its handshake, its payload decoder and \<open>Accept\<close> return are arguments.
\<close>

section \<open>Routing (\<open>router.go\<close>)\<close>

definition ErrWrongZone :: err where
  "ErrWrongZone = Err ''router: target host not in zone''"

definition ErrBadSubdomain :: err where
  "ErrBadSubdomain = Err ''router: malformed subdomain''"

record Route =
  ro_prefix :: string
  ro_zone :: string

definition ExtractRoute :: "string \<Rightarrow> string \<Rightarrow> err + Route" where
  "ExtractRoute target0 zone0 =
     (let target = ToLower (TrimSuffix target0 ''.''); zone = ToLower (TrimPrefix zone0 ''.'') in
      if zone = [] then Inl (Err ''router: zone is empty'')
      else let sfx = ''.'' @ zone in
        if \<not> suffix sfx target then Inl ErrWrongZone
        else let p = TrimSuffix target sfx in
          if p = [] \<or> Contains p ''.'' then Inl ErrBadSubdomain
          else Inr \<lparr>ro_prefix = p, ro_zone = zone\<rparr>)"

section \<open>Configuration (\<open>server.New\<close>)\<close>

record ConnInfo =
  ci_fingerprint :: string
  ci_remote :: string

text \<open>A handler takes the channel over: it returns its error and the state it leaves. \<open>close_chan\<close>
  is what closing the channel does to the state.\<close>

type_synonym 's conn_handler = "ConnInfo \<Rightarrow> string \<Rightarrow> 's \<Rightarrow> err option \<times> 's"

definition DenyHandler_Connect :: "('s \<Rightarrow> 's) \<Rightarrow> string \<Rightarrow> 's conn_handler" where
  "DenyHandler_Connect close_chan reason info p s =
     (Some (Err (if reason = [] then ''proxy: tunnel not implemented'' else ''proxy: '' @ reason)), close_chan s)"

record 's server_config =
  sc_zone :: string
  sc_keys :: "string list"
  sc_handler :: "'s conn_handler option"
  sc_handshake :: int
  sc_max :: int
  sc_idle :: int

definition server_New :: "('s \<Rightarrow> 's) \<Rightarrow> 's server_config \<Rightarrow> err + 's server_config" where
  "server_New close_chan cfg =
     (if sc_zone cfg = [] then Inl (Err ''server: Zone required'')
      else if sc_keys cfg = [] then Inl (Err ''server: at least one host key required'')
      else Inr (cfg\<lparr>
        sc_handler := Some (case sc_handler cfg of None \<Rightarrow> DenyHandler_Connect close_chan ''tunnel not configured'' | Some h \<Rightarrow> h),
        sc_handshake := (if sc_handshake cfg \<le> 0 then 15 * second else sc_handshake cfg),
        sc_max := (if sc_max cfg \<le> 0 then 1024 else sc_max cfg),
        sc_idle := (if sc_idle cfg \<le> 0 then 60 * second else sc_idle cfg)\<rparr>))"

section \<open>Channels\<close>

record directTCPIPReq =
  dr_host :: string
  dr_port :: nat
  dr_origin_host :: string
  dr_origin_port :: nat

datatype reject_reason = Prohibited | ConnectionFailed

datatype chan_result =
    Rejected reject_reason string
  | AcceptFailed err
  | Served "err option" \<comment> \<open>what the handler returned\<close>

text \<open>\<open>payload\<close> is what \<open>ssh.Unmarshal\<close> makes of the extra data, \<open>accepted\<close> the error of
  \<open>newCh.Accept\<close>.\<close>

definition handleDirectTCPIP ::
  "'s server_config \<Rightarrow> ConnInfo \<Rightarrow> err + directTCPIPReq \<Rightarrow> err option \<Rightarrow> 's \<Rightarrow> chan_result \<times> 's" where
  "handleDirectTCPIP cfg info payload accepted s = (case payload of
       Inl e \<Rightarrow> (Rejected ConnectionFailed ''malformed direct-tcpip payload'', s)
     | Inr req \<Rightarrow> (case ExtractRoute (dr_host req) (sc_zone cfg) of
         Inl e \<Rightarrow> (Rejected Prohibited ''target not in hybrid-cloud zone'', s)
       | Inr route \<Rightarrow>
           if dr_port req \<noteq> 22 then (Rejected Prohibited ''only port 22 is forwarded'', s)
           else (case accepted of
               Some e \<Rightarrow> (AcceptFailed e, s)
             | None \<Rightarrow> (case sc_handler cfg of
                 None \<Rightarrow> (AcceptFailed (Panic ''nil handler''), s)
               | Some h \<Rightarrow> (case h info (ro_prefix route) s of (e, s') \<Rightarrow> (Served e, s'))))))"

section \<open>Connections\<close>

text \<open>What the channel queue of a connection sees, in order: a channel request, or the idle timer. A
  closed connection ends the queue.\<close>

datatype chan_event =
    NewChannel string "err + directTCPIPReq"
  | IdleFires

datatype conn_action =
    RejectChannel string
  | StartChannel "err + directTCPIPReq"
  | CloseConn

fun channel_loop :: "bool \<Rightarrow> chan_event list \<Rightarrow> conn_action list" where
  "channel_loop armed [] = []"
| "channel_loop armed (NewChannel ty payload # evs) =
     (if ty \<noteq> ''direct-tcpip''
      then RejectChannel (''channel type '' @ quoted ty @ '' not supported; use direct-tcpip (ProxyJump)'') # channel_loop armed evs
      else StartChannel payload # channel_loop False evs)"
| "channel_loop armed (IdleFires # evs) = (if armed then [CloseConn] else channel_loop armed evs)"

text \<open>\<open>hs\<close> is the result of \<open>ssh.NewServerConn\<close>: the remote address and the permissions, whose
  fingerprint the public-key callback sets to \<open>ssh.FingerprintSHA256\<close> of the offered key.\<close>

definition PublicKeyCallback :: "('k \<Rightarrow> string) \<Rightarrow> 'k \<Rightarrow> (string \<times> string) list" where
  "PublicKeyCallback fingerprintSHA256 key = [(''fingerprint'', fingerprintSHA256 key)]"

definition conn_info :: "string \<Rightarrow> (string \<times> string) list option \<Rightarrow> ConnInfo" where
  "conn_info remote perms = \<lparr>ci_fingerprint = (case perms of None \<Rightarrow> []
       | Some ext \<Rightarrow> (case map_of ext ''fingerprint'' of None \<Rightarrow> [] | Some f \<Rightarrow> f)), ci_remote = remote\<rparr>"

definition server_handleConn ::
  "err + (string \<times> (string \<times> string) list option) \<Rightarrow> chan_event list \<Rightarrow> (ConnInfo \<times> conn_action list) option" where
  "server_handleConn hs evs = (case hs of
       Inl e \<Rightarrow> None
     | Inr (remote, perms) \<Rightarrow> Some (conn_info remote perms, channel_loop True evs))"

section \<open>The accept loop\<close>

text \<open>
  \<open>Serve\<close> with its goroutines: connections hold a slot of the semaphore until they are done,
  channels are tracked by their own wait group. A step is an accepted connection, a channel opened
  by a live connection, the end of either, the cancellation of the context, or the progress of
  \<open>Serve\<close> through its two waits.
\<close>

datatype serve_phase = Accepting | WaitConns | WaitChannels | ServeReturned

record ssh_srv =
  sv_phase :: serve_phase
  sv_cancelled :: bool
  sv_conns :: "nat list" \<comment> \<open>connections in \<open>handleConn\<close>, each with a slot of \<open>connSlots\<close>\<close>
  sv_dropped :: "nat list"
  sv_chans :: "(nat \<times> nat) list" \<comment> \<open>connection and number of the channels being served\<close>

definition srv_init :: ssh_srv where
  "srv_init = \<lparr>sv_phase = Accepting, sv_cancelled = False, sv_conns = [], sv_dropped = [], sv_chans = []\<rparr>"

definition accept_conn :: "int \<Rightarrow> nat \<Rightarrow> ssh_srv \<Rightarrow> ssh_srv" where
  "accept_conn cap c s =
     (if int (length (sv_conns s)) < cap then s\<lparr>sv_conns := sv_conns s @ [c]\<rparr>
      else s\<lparr>sv_dropped := sv_dropped s @ [c]\<rparr>)"

inductive serve_step :: "int \<Rightarrow> ssh_srv \<Rightarrow> ssh_srv \<Rightarrow> bool" for cap where
  srv_accept: "sv_phase s = Accepting \<Longrightarrow> c \<notin> set (sv_conns s) \<Longrightarrow> c \<notin> set (sv_dropped s) \<Longrightarrow> serve_step cap s (accept_conn cap c s)"
| srv_accept_err: "sv_phase s = Accepting \<Longrightarrow> \<not> sv_cancelled s \<Longrightarrow> serve_step cap s s"
| srv_stop: "sv_phase s = Accepting \<Longrightarrow> sv_cancelled s \<Longrightarrow> serve_step cap s (s\<lparr>sv_phase := WaitConns\<rparr>)"
| srv_channel: "c \<in> set (sv_conns s) \<Longrightarrow> serve_step cap s (s\<lparr>sv_chans := (c, n) # sv_chans s\<rparr>)"
| srv_channel_done: "x \<in> set (sv_chans s) \<Longrightarrow> serve_step cap s (s\<lparr>sv_chans := remove1 x (sv_chans s)\<rparr>)"
| srv_conn_done: "c \<in> set (sv_conns s) \<Longrightarrow> serve_step cap s (s\<lparr>sv_conns := remove1 c (sv_conns s)\<rparr>)"
| srv_cancel: "serve_step cap s (s\<lparr>sv_cancelled := True\<rparr>)"
| srv_conns_done: "sv_phase s = WaitConns \<Longrightarrow> sv_conns s = [] \<Longrightarrow> serve_step cap s (s\<lparr>sv_phase := WaitChannels\<rparr>)"
| srv_chans_done: "sv_phase s = WaitChannels \<Longrightarrow> sv_chans s = [] \<Longrightarrow> serve_step cap s (s\<lparr>sv_phase := ServeReturned\<rparr>)"

inductive serve_reach :: "int \<Rightarrow> ssh_srv \<Rightarrow> bool" for cap where
  serve_start: "serve_reach cap srv_init"
| serve_more: "serve_reach cap s \<Longrightarrow> serve_step cap s s' \<Longrightarrow> serve_reach cap s'"

section \<open>Lemmas\<close>

lemma serve_ok:
  assumes "serve_reach cap s" and "0 \<le> cap"
  shows "int (length (sv_conns s)) \<le> cap \<and> distinct (sv_conns s) \<and>
    (sv_phase s \<noteq> Accepting \<longrightarrow> sv_cancelled s) \<and>
    (sv_phase s \<in> {WaitChannels, ServeReturned} \<longrightarrow> sv_conns s = []) \<and> (sv_phase s = ServeReturned \<longrightarrow> sv_chans s = [])"
  using assms(1)
proof induction
  case serve_start
  then show ?case using assms(2) by (simp add: srv_init_def)
next
  case (serve_more s s')
  from serve_more(2,3) show ?case
  proof cases
    case (srv_conn_done c)
    then have "length (remove1 c (sv_conns s)) \<le> length (sv_conns s)" by (simp add: length_remove1)
    with srv_conn_done serve_more(3) show ?thesis by (auto simp: distinct_remove1)
  qed (auto simp: accept_conn_def split: if_splits)
qed

lemma ToLower_TrimSuffix_dot: "TrimSuffix (x @ ''.'') ''.'' = x"
  by simp

lemma suffix_TrimSuffix: "suffix p s \<Longrightarrow> TrimSuffix s p @ p = s"
  by (auto simp: TrimSuffix_def suffix_def)

lemma ExtractRoute_Inr:
  "ExtractRoute host zone = Inr r \<longleftrightarrow>
     (let z = ToLower (TrimPrefix zone ''.'') in
      z \<noteq> [] \<and> ro_zone r = z \<and> ro_prefix r \<noteq> [] \<and> CHR ''.'' \<notin> set (ro_prefix r) \<and>
      ToLower (TrimSuffix host ''.'') = ro_prefix r @ ''.'' @ z)"
  (is "?l \<longleftrightarrow> ?r")
proof
  assume ?l
  then show ?r
    by (auto simp: ExtractRoute_def Let_def Contains_single suffix_TrimSuffix split: if_splits)
next
  assume r: ?r
  then show ?l
    by (cases r) (auto simp: ExtractRoute_def Let_def Contains_single suffix_def TrimSuffix_def)
qed

lemma channel_loop_armed:
  assumes "\<forall>e\<in>set (take k evs). \<exists>ty p. e = NewChannel ty p \<and> ty \<noteq> ''direct-tcpip''" and "k < length evs" and "evs ! k = IdleFires"
  shows "CloseConn = last (channel_loop True evs) \<and> (\<forall>p. StartChannel p \<notin> set (channel_loop True evs))"
  using assms
proof (induction evs arbitrary: k)
  case Nil
  then show ?case by simp
next
  case (Cons e evs)
  show ?case
  proof (cases k)
    case 0
    with Cons.prems show ?thesis by simp
  next
    case (Suc j)
    with Cons.prems(1) obtain ty p where e: "e = NewChannel ty p" "ty \<noteq> ''direct-tcpip''" by auto
    moreover have IH: "CloseConn = last (channel_loop True evs) \<and> (\<forall>p. StartChannel p \<notin> set (channel_loop True evs))"
      using Cons.prems Suc by (intro Cons.IH [of j]) auto
    moreover have "channel_loop True evs \<noteq> []"
      using Cons.prems(2,3) Suc by (cases evs; cases "hd evs") auto
    ultimately show ?thesis by simp
  qed
qed

end
