(* ===== verification/Wire.thy ===== *)
theory Wire
  imports GoStrings
begin

text \<open>
  What the hops of a tunnel exchange: a line read from a buffered connection, the header ssh-proxy
  writes on a mux stream and compute-agent reads, the HTTP calls ssh-proxy makes to main-api. The
  JSON codecs are parameters.
\<close>

section \<open>Reading a line (\<open>bufio.Reader.ReadBytes\<close>)\<close>

text \<open>What ends the bytes a connection delivers: the end of the stream or another error, such as the
  read deadline.\<close>

datatype read_end = ReadEOF | ReadFail err

definition newline :: char where
  "newline = CHR 0x0A"

text \<open>The bytes up to and including the delimiter and the rest, which the reader keeps; \<open>None\<close> when there is
  no delimiter.\<close>

fun cut_line :: "string \<Rightarrow> (string \<times> string) option" where
  "cut_line [] = None"
| "cut_line (c # cs) = (if c = newline then Some ([c], cs)
     else map_option (\<lambda>(l, r). (c # l, r)) (cut_line cs))"

text \<open>\<open>line, err := br.ReadBytes('\n'); if err != nil && err != io.EOF { return err }\<close>, then the check for an
  empty line.\<close>

definition read_header_line :: "string \<Rightarrow> read_end \<Rightarrow> err + (string \<times> string)" where
  "read_header_line bytes fin = (case cut_line bytes of
       Some (line, rest) \<Rightarrow> Inr (line, rest)
     | None \<Rightarrow> (case fin of
         ReadFail e \<Rightarrow> Inl e
       | ReadEOF \<Rightarrow> if bytes = [] then Inl (Err ''empty header'') else Inr (bytes, [])))"

lemma cut_line_append: "newline \<notin> set l \<Longrightarrow> cut_line (l @ newline # r) = Some (l @ [newline], r)"
  by (induction l) auto

lemma cut_line_Some: "cut_line s = Some (l, r) \<Longrightarrow> s = l @ r \<and> l \<noteq> []"
  by (induction s arbitrary: l r) (auto split: if_splits)

text \<open>\<open>net.JoinHostPort\<close> with the port as a number.\<close>

definition JoinHostPort :: "string \<Rightarrow> nat \<Rightarrow> string" where
  "JoinHostPort host port = (if CHR '':'' \<in> set host then ''['' @ host @ '']:'' @ dec_nat port
     else host @ '':'' @ dec_nat port)"

section \<open>The stream header\<close>

record streamHeader =
  sh_instance :: string
  sh_ip :: string
  sh_port :: nat
  sh_expires :: time

record header_lib =
  hd_Marshal :: "streamHeader \<Rightarrow> err + string"
  hd_Unmarshal :: "string \<Rightarrow> err + streamHeader"

text \<open>What \<open>encoding/json\<close> documents of the two ends: compact output without a line break, decoding
  gives back what was encoded, and white space alone is no value.\<close>

definition header_ok :: "header_lib \<Rightarrow> bool" where
  "header_ok H \<longleftrightarrow> (\<forall>h raw. hd_Marshal H h = Inr raw \<longrightarrow> newline \<notin> set raw \<and> hd_Unmarshal H (raw @ [newline]) = Inr h) \<and>
     isl (hd_Unmarshal H [newline])"

section \<open>HTTP\<close>

record http_request =
  hq_method :: string
  hq_url :: string
  hq_authorization :: string
  hq_body :: string

text \<open>\<open>http.Client.Do\<close> and the reading of the body: the server's state is behind it.\<close>

type_synonym 'm transport = "http_request \<Rightarrow> ('m, nat \<times> string) action"

end
