(* ===== verification/ByteRelay.thy ===== *)
theory ByteRelay
  imports Prelude
begin

text \<open>
  The byte relay both ends of a tunnel run: the last part of \<open>Relay\<close> in ssh-proxy
  (\<open>tunnelhandler/relay.go\<close>: SSH channel and mux stream) and \<open>relayBytes\<close> in compute-agent
  (\<open>muxclient/handler.go\<close>: mux stream and VM connection). Two goroutines run \<open>io.Copy\<close>, each signals when its
  copy has ended, a third closes both ends when the context is cancelled, a fourth when the timer fires; the
  function itself waits for the first signal, closes both ends and waits for the second. The step relation interleaves
  them with the peers, who send bytes, close their side or disappear.
\<close>

text \<open>\<open>Up\<close> copies from the near end (the one the relay was called for) to the far end, \<open>Down\<close> back. The
  end a direction reads from has the direction's name.\<close>

datatype dir = Up | Down

primrec opposite :: "dir \<Rightarrow> dir" where
  "opposite Up = Down"
| "opposite Down = Up"

lemma opposite_simps [simp]: "opposite (opposite d) = d" "opposite d \<noteq> d" "d \<noteq> opposite d"
  by (cases d; simp)+

datatype copy_pc = Copying | CopyEnded | Signalled

datatype main_pc = WaitFirst | CloseBoth | WaitSecond | RelayReturned

record pipe =
  pp_arrived :: string \<comment> \<open>everything the source delivered\<close>
  pp_buf :: string \<comment> \<open>the part not read yet\<close>
  pp_written :: string \<comment> \<open>what was written to the destination\<close>
  pp_eof :: bool \<comment> \<open>the source's peer closed its side\<close>
  pp_pc :: copy_pc

record relay =
  rl_pipe :: "dir \<Rightarrow> pipe"
  rl_dead :: "dir \<Rightarrow> bool" \<comment> \<open>the end is closed here or reset by its peer: reads and writes fail\<close>
  rl_wclosed :: "dir \<Rightarrow> bool" \<comment> \<open>\<open>CloseWrite\<close> was called on the end\<close>
  rl_main :: main_pc

text \<open>Which ends are closed for writing only when the copy towards them ends (\<open>CloseWrite\<close>); the others
  are closed. In ssh-proxy the SSH channel supports it and the stream may; in compute-agent the VM
  connection may and the stream is closed.\<close>

type_synonym relay_conf = "dir \<Rightarrow> bool"

definition proxy_conf :: "bool \<Rightarrow> relay_conf" where
  "proxy_conf stream_cw d = (case d of Up \<Rightarrow> True | Down \<Rightarrow> stream_cw)"

definition agent_conf :: "bool \<Rightarrow> relay_conf" where
  "agent_conf vm_cw d = (case d of Up \<Rightarrow> False | Down \<Rightarrow> vm_cw)"

section \<open>Steps\<close>

definition upd_pipe :: "dir \<Rightarrow> (pipe \<Rightarrow> pipe) \<Rightarrow> relay \<Rightarrow> relay" where
  "upd_pipe d f s = s\<lparr>rl_pipe := (rl_pipe s)(d := f (rl_pipe s d))\<rparr>"

definition closeBoth :: "relay \<Rightarrow> relay" where
  "closeBoth s = s\<lparr>rl_dead := (\<lambda>_. True)\<rparr>"

text \<open>One round of \<open>io.Copy\<close>: a chunk is read and written; a failed write ends the copy and loses the chunk.\<close>

definition copy_chunk :: "dir \<Rightarrow> nat \<Rightarrow> relay \<Rightarrow> relay" where
  "copy_chunk d n s =
     (if rl_dead s (opposite d)
      then upd_pipe d (\<lambda>p. p\<lparr>pp_buf := drop n (pp_buf p), pp_pc := CopyEnded\<rparr>) s
      else upd_pipe d (\<lambda>p. p\<lparr>pp_buf := drop n (pp_buf p), pp_written := pp_written p @ take n (pp_buf p)\<rparr>) s)"

definition end_copy :: "dir \<Rightarrow> relay \<Rightarrow> relay" where
  "end_copy d s = upd_pipe d (\<lambda>p. p\<lparr>pp_pc := CopyEnded\<rparr>) s"

definition signal_done :: "relay_conf \<Rightarrow> dir \<Rightarrow> relay \<Rightarrow> relay" where
  "signal_done cf d s =
     (let s1 = (if cf (opposite d) then s\<lparr>rl_wclosed := (rl_wclosed s)(opposite d := True)\<rparr>
                else s\<lparr>rl_dead := (rl_dead s)(opposite d := True)\<rparr>)
      in upd_pipe d (\<lambda>p. p\<lparr>pp_pc := Signalled\<rparr>) s1)"

text \<open>What the relay's own goroutines do.\<close>

inductive relay_step :: "relay_conf \<Rightarrow> relay \<Rightarrow> relay \<Rightarrow> bool" for cf where
  rs_copy: "pp_pc (rl_pipe s d) = Copying \<Longrightarrow> 0 < n \<Longrightarrow> n \<le> length (pp_buf (rl_pipe s d)) \<Longrightarrow>
    relay_step cf s (copy_chunk d n s)"
| rs_eof: "pp_pc (rl_pipe s d) = Copying \<Longrightarrow> pp_eof (rl_pipe s d) \<Longrightarrow> pp_buf (rl_pipe s d) = [] \<Longrightarrow>
    relay_step cf s (end_copy d s)"
| rs_readerr: "pp_pc (rl_pipe s d) = Copying \<Longrightarrow> rl_dead s d \<Longrightarrow> relay_step cf s (end_copy d s)"
| rs_signal: "pp_pc (rl_pipe s d) = CopyEnded \<Longrightarrow> relay_step cf s (signal_done cf d s)"
| rs_first: "rl_main s = WaitFirst \<Longrightarrow> pp_pc (rl_pipe s d) = Signalled \<Longrightarrow> relay_step cf s (s\<lparr>rl_main := CloseBoth\<rparr>)"
| rs_close: "rl_main s = CloseBoth \<Longrightarrow> relay_step cf s ((closeBoth s)\<lparr>rl_main := WaitSecond\<rparr>)"
| rs_second: "rl_main s = WaitSecond \<Longrightarrow> \<forall>d. pp_pc (rl_pipe s d) = Signalled \<Longrightarrow>
    relay_step cf s (s\<lparr>rl_main := RelayReturned\<rparr>)"

text \<open>What happens to it: bytes arrive, a peer closes its side, an end is reset, the context is cancelled
  or the timer fires.\<close>

definition arrive :: "dir \<Rightarrow> string \<Rightarrow> relay \<Rightarrow> relay" where
  "arrive d bs s = upd_pipe d (\<lambda>p. p\<lparr>pp_arrived := pp_arrived p @ bs, pp_buf := pp_buf p @ bs\<rparr>) s"

definition hang_up :: "dir \<Rightarrow> relay \<Rightarrow> relay" where
  "hang_up d s = upd_pipe d (\<lambda>p. p\<lparr>pp_eof := True\<rparr>) s"

inductive relay_env :: "relay \<Rightarrow> relay \<Rightarrow> bool" where
  re_arrive: "\<not> pp_eof (rl_pipe s d) \<Longrightarrow> relay_env s (arrive d bs s)"
| re_eof: "relay_env s (hang_up d s)"
| re_reset: "relay_env s (s\<lparr>rl_dead := (rl_dead s)(d := True)\<rparr>)"
| re_cancel: "rl_main s \<noteq> RelayReturned \<Longrightarrow> relay_env s (closeBoth s)"

text \<open>\<open>ahead\<close> is what the reader of the near end already holds when the relay starts.\<close>

definition relay_init :: "string \<Rightarrow> relay" where
  "relay_init ahead = \<lparr>rl_pipe = (\<lambda>d. \<lparr>pp_arrived = (if d = Up then ahead else []),
       pp_buf = (if d = Up then ahead else []), pp_written = [], pp_eof = False, pp_pc = Copying\<rparr>),
     rl_dead = (\<lambda>_. False), rl_wclosed = (\<lambda>_. False), rl_main = WaitFirst\<rparr>"

inductive relay_reach :: "relay_conf \<Rightarrow> string \<Rightarrow> relay \<Rightarrow> bool" for cf ahead where
  relay_start: "relay_reach cf ahead (relay_init ahead)"
| relay_internal: "relay_reach cf ahead s \<Longrightarrow> relay_step cf s s' \<Longrightarrow> relay_reach cf ahead s'"
| relay_external: "relay_reach cf ahead s \<Longrightarrow> relay_env s s' \<Longrightarrow> relay_reach cf ahead s'"

section \<open>The invariant\<close>

lemmas relay_defs = upd_pipe_def copy_chunk_def end_copy_def signal_done_def closeBoth_def arrive_def hang_up_def Let_def

definition pipe_ok :: "bool \<Rightarrow> pipe \<Rightarrow> bool" where
  "pipe_ok dead p \<longleftrightarrow> (pp_pc p = Copying \<longrightarrow> pp_arrived p = pp_written p @ pp_buf p) \<and>
     prefix (pp_written p) (pp_arrived p) \<and>
     (pp_pc p \<noteq> Copying \<longrightarrow> dead \<or> pp_eof p \<and> pp_written p = pp_arrived p)"

definition relay_ok :: "relay \<Rightarrow> bool" where
  "relay_ok s \<longleftrightarrow> (\<forall>d. pipe_ok (rl_dead s d \<or> rl_dead s (opposite d)) (rl_pipe s d)) \<and>
     (rl_main s \<in> {WaitSecond, RelayReturned} \<longrightarrow> (\<forall>d. rl_dead s d)) \<and>
     (rl_main s \<noteq> WaitFirst \<longrightarrow> (\<exists>d. pp_pc (rl_pipe s d) = Signalled)) \<and>
     (rl_main s = RelayReturned \<longrightarrow> (\<forall>d. pp_pc (rl_pipe s d) = Signalled))"

lemma pipe_ok_dead: "pipe_ok b p \<Longrightarrow> (b \<Longrightarrow> b') \<Longrightarrow> pipe_ok b' p"
  by (auto simp: pipe_ok_def)

lemma take_drop_written:
  assumes "a = w @ b"
  shows "a = (w @ take n b) @ drop n b" and "prefix (w @ take n b) a"
  using assms by (simp_all add: prefix_def) (metis append_take_drop_id)

lemma relay_ok_init: "relay_ok (relay_init ahead)"
  by (simp add: relay_ok_def relay_init_def pipe_ok_def)

definition main_ok :: "relay \<Rightarrow> bool" where
  "main_ok s \<longleftrightarrow> (rl_main s \<in> {WaitSecond, RelayReturned} \<longrightarrow> (\<forall>d. rl_dead s d)) \<and>
     (rl_main s \<noteq> WaitFirst \<longrightarrow> (\<exists>d. pp_pc (rl_pipe s d) = Signalled)) \<and>
     (rl_main s = RelayReturned \<longrightarrow> (\<forall>d. pp_pc (rl_pipe s d) = Signalled))"

lemma relay_ok_iff:
  "relay_ok s \<longleftrightarrow> (\<forall>d. pipe_ok (rl_dead s d \<or> rl_dead s (opposite d)) (rl_pipe s d)) \<and> main_ok s"
  unfolding relay_ok_def main_ok_def by (rule refl)

lemma relay_ok_pipe:
  assumes "relay_ok s" and "pipe_ok (rl_dead s d \<or> rl_dead s (opposite d)) (f (rl_pipe s d))"
    and "pp_pc (rl_pipe s d) = Signalled \<longrightarrow> pp_pc (f (rl_pipe s d)) = Signalled"
  shows "relay_ok (upd_pipe d f s)"
proof -
  have "main_ok (upd_pipe d f s)"
    using assms(1,3) unfolding relay_ok_iff main_ok_def upd_pipe_def by (simp, metis)
  with assms(1,2) show ?thesis by (simp add: relay_ok_iff upd_pipe_def)
qed

lemma relay_ok_dead:
  assumes "relay_ok s" and "\<And>d. rl_dead s d \<Longrightarrow> dd d"
  shows "relay_ok (s\<lparr>rl_dead := dd\<rparr>)"
proof -
  have "pipe_ok (dd d \<or> dd (opposite d)) (rl_pipe s d)" for d
    by (rule pipe_ok_dead [of "rl_dead s d \<or> rl_dead s (opposite d)"])
      (use assms in \<open>auto simp: relay_ok_iff\<close>)
  moreover have "main_ok (s\<lparr>rl_dead := dd\<rparr>)" using assms by (auto simp: relay_ok_iff main_ok_def)
  ultimately show ?thesis by (simp add: relay_ok_iff)
qed

lemma relay_ok_wclosed: "relay_ok s \<Longrightarrow> relay_ok (s\<lparr>rl_wclosed := w\<rparr>)"
  by (auto simp: relay_ok_iff main_ok_def)

lemma relay_ok_pipeD: "relay_ok s \<Longrightarrow> pipe_ok (rl_dead s d \<or> rl_dead s (opposite d)) (rl_pipe s d)"
  by (simp add: relay_ok_def)

lemma relay_ok_step: "relay_step cf s s' \<Longrightarrow> relay_ok s \<Longrightarrow> relay_ok s'"
proof (induction rule: relay_step.induct)
  case (rs_copy s d n)
  note p = relay_ok_pipeD [OF rs_copy(4), of d]
  show ?case
  proof (cases "rl_dead s (opposite d)")
    case True
    with p rs_copy show ?thesis by (auto intro!: relay_ok_pipe simp: copy_chunk_def pipe_ok_def)
  next
    case False
    with p rs_copy take_drop_written [of _ "pp_written (rl_pipe s d)" "pp_buf (rl_pipe s d)" n]
    show ?thesis by (auto intro!: relay_ok_pipe simp: copy_chunk_def pipe_ok_def)
  qed
next
  case (rs_eof s d)
  then show ?case using relay_ok_pipeD [of s d]
    by (auto simp: end_copy_def pipe_ok_def intro!: relay_ok_pipe)
next
  case (rs_readerr s d)
  then show ?case using relay_ok_pipeD [of s d]
    by (auto simp: end_copy_def pipe_ok_def intro!: relay_ok_pipe)
next
  case (rs_signal s d)
  let ?s1 = "if cf (opposite d) then s\<lparr>rl_wclosed := (rl_wclosed s)(opposite d := True)\<rparr> else s\<lparr>rl_dead := (rl_dead s)(opposite d := True)\<rparr>"
  have ok: "relay_ok ?s1" using rs_signal(2) by (auto intro: relay_ok_wclosed relay_ok_dead)
  have "rl_pipe ?s1 = rl_pipe s" by simp
  with relay_ok_pipeD [OF ok, of d] rs_signal(1) show ?case unfolding signal_done_def Let_def
    by (intro relay_ok_pipe [OF ok]) (auto simp: pipe_ok_def)
next
  case (rs_close s)
  then have "main_ok ((closeBoth s)\<lparr>rl_main := WaitSecond\<rparr>)" by (auto simp: relay_ok_iff main_ok_def closeBoth_def)
  with rs_close show ?case by (auto simp: relay_ok_iff closeBoth_def pipe_ok_def)
next
  case (rs_first s d)
  then have "main_ok (s\<lparr>rl_main := CloseBoth\<rparr>)" by (auto simp: main_ok_def)
  with rs_first show ?case by (simp add: relay_ok_iff)
next
  case (rs_second s)
  then have "main_ok (s\<lparr>rl_main := RelayReturned\<rparr>)" by (auto simp: relay_ok_iff main_ok_def)
  with rs_second show ?case by (simp add: relay_ok_iff)
qed

lemma relay_ok_env: "relay_env s s' \<Longrightarrow> relay_ok s \<Longrightarrow> relay_ok s'"
proof (induction rule: relay_env.induct)
  case (re_arrive s d bs)
  then show ?case using relay_ok_pipeD [of s d]
    by (auto simp: arrive_def pipe_ok_def prefix_def intro!: relay_ok_pipe)
next
  case (re_eof s d)
  from relay_ok_pipeD [OF re_eof, of d] show ?case unfolding hang_up_def
    by (intro relay_ok_pipe [OF re_eof]) (auto simp: pipe_ok_def)
next
  case (re_reset s d)
  then show ?case by (auto intro: relay_ok_dead)
next
  case (re_cancel s)
  then show ?case by (auto simp: closeBoth_def intro: relay_ok_dead)
qed

lemma relay_reach_ok: "relay_reach cf ahead s \<Longrightarrow> relay_ok s"
  by (induction rule: relay_reach.induct) (auto intro: relay_ok_init relay_ok_step relay_ok_env)

section \<open>Progress\<close>

primrec pc_rank :: "copy_pc \<Rightarrow> nat" where
  "pc_rank Copying = 2"
| "pc_rank CopyEnded = 1"
| "pc_rank Signalled = 0"

primrec main_rank :: "main_pc \<Rightarrow> nat" where
  "main_rank WaitFirst = 3"
| "main_rank CloseBoth = 2"
| "main_rank WaitSecond = 1"
| "main_rank RelayReturned = 0"

definition pipe_rank :: "pipe \<Rightarrow> nat" where
  "pipe_rank p = pc_rank (pp_pc p) + length (pp_buf p)"

definition relay_rank :: "relay \<Rightarrow> nat" where
  "relay_rank s = pipe_rank (rl_pipe s Up) + pipe_rank (rl_pipe s Down) + main_rank (rl_main s)"

lemma rank_upd_pipe:
  "pipe_rank (f (rl_pipe s d)) < pipe_rank (rl_pipe s d) \<Longrightarrow> relay_rank (upd_pipe d f s) < relay_rank s"
  by (cases d) (simp_all add: relay_rank_def upd_pipe_def)

text \<open>Every step of the relay's own brings it closer to its end.\<close>

lemma relay_step_decreases: "relay_step cf s s' \<Longrightarrow> relay_rank s' < relay_rank s"
proof (induction rule: relay_step.induct)
  case (rs_copy s d n)
  then show ?case unfolding copy_chunk_def by (auto intro!: rank_upd_pipe simp: pipe_rank_def)
next
  case (rs_eof s d)
  then show ?case unfolding end_copy_def by (intro rank_upd_pipe) (simp add: pipe_rank_def)
next
  case (rs_readerr s d)
  then show ?case unfolding end_copy_def by (intro rank_upd_pipe) (simp add: pipe_rank_def)
next
  case (rs_signal s d)
  let ?s1 = "if cf (opposite d) then s\<lparr>rl_wclosed := (rl_wclosed s)(opposite d := True)\<rparr> else s\<lparr>rl_dead := (rl_dead s)(opposite d := True)\<rparr>"
  have "relay_rank (upd_pipe d (\<lambda>p. p\<lparr>pp_pc := Signalled\<rparr>) ?s1) < relay_rank ?s1"
    by (rule rank_upd_pipe) (use rs_signal in \<open>simp add: pipe_rank_def\<close>)
  also have "relay_rank ?s1 = relay_rank s" by (simp add: relay_rank_def)
  finally show ?case by (simp add: signal_done_def Let_def)
qed (simp_all add: relay_rank_def closeBoth_def)

definition ending :: "relay \<Rightarrow> bool" where
  "ending s \<longleftrightarrow> (\<exists>d. rl_dead s d \<or> pp_eof (rl_pipe s d) \<or> pp_pc (rl_pipe s d) \<noteq> Copying)"

lemma ending_pipe:
  assumes "rl_dead s d \<or> pp_eof (rl_pipe s d) \<or> pp_pc (rl_pipe s d) \<noteq> Copying"
    and "\<not> (\<exists>s'. relay_step cf s s')"
  shows "pp_pc (rl_pipe s d) = Signalled"
proof (cases "pp_pc (rl_pipe s d)")
  case Copying
  show ?thesis
  proof (cases "pp_buf (rl_pipe s d) = []")
    case True
    with Copying assms show ?thesis using rs_eof [of s d cf] rs_readerr [of s d cf] by auto
  next
    case False
    then have "0 < length (pp_buf (rl_pipe s d))" by simp
    with Copying assms(2) show ?thesis using rs_copy [of s d "length (pp_buf (rl_pipe s d))" cf] by auto
  qed
next
  case CopyEnded
  with assms(2) show ?thesis using rs_signal [of s d cf] by auto
qed simp

lemma relay_stuck_returned:
  assumes "relay_ok s" and "ending s" and "\<not> (\<exists>s'. relay_step cf s s')"
  shows "rl_main s = RelayReturned"
proof (cases "rl_main s")
  case WaitFirst
  from assms(2) obtain d where "rl_dead s d \<or> pp_eof (rl_pipe s d) \<or> pp_pc (rl_pipe s d) \<noteq> Copying" by (auto simp: ending_def)
  from ending_pipe [OF this assms(3)] WaitFirst assms(3) show ?thesis using rs_first by blast
next
  case CloseBoth
  with assms(3) show ?thesis using rs_close by blast
next
  case WaitSecond
  with assms(1) have "\<forall>d. rl_dead s d" by (simp add: relay_ok_def)
  with ending_pipe assms(3) have "\<forall>d. pp_pc (rl_pipe s d) = Signalled" by blast
  with WaitSecond assms(3) show ?thesis using rs_second by blast
qed

lemma ending_step:
  assumes "relay_step cf s s'" and "ending s" shows "ending s'"
  using assms
proof (induction rule: relay_step.induct)
  case (rs_first s d)
  then show ?case by (auto simp: ending_def)
next
  case (rs_second s)
  then show ?case by (auto simp: ending_def)
next
  case (rs_copy s d n)
  then show ?case unfolding ending_def by (auto simp: relay_defs split: if_splits)
qed (auto simp: ending_def relay_defs)

end
