(* ===== verification/Tunnel.thy ===== *)
theory Tunnel
  imports SshServer Wire MuxRegistry ByteRelay Http
begin

text \<open>
  The tunnel handler of ssh-proxy: \<open>ticketclient/client.go\<close> asks main-api for a ticket,
  \<open>tunnelhandler/handler.go\<close> connects an accepted channel, \<open>tunnelhandler/relay.go\<close> reads the ticket, opens
  a mux stream to its node and writes the header for the agent. The copying of bytes that follows is
  \<open>ByteRelay\<close>. The client's copy of the type \<open>Signed\<close> is the one of \<open>Http\<close>.
\<close>

section \<open>The ticket client\<close>

record ticket_json =
  tj_Marshal :: "(string \<times> string) list \<Rightarrow> err + string"
  tj_NewRequest :: "string \<Rightarrow> err option" \<comment> \<open>the error of \<open>http.NewRequestWithContext\<close> for the URL\<close>
  tj_Decode :: "string \<Rightarrow> err + Signed"

record ticket_client =
  tc_base :: string
  tc_token :: string

definition ticket_request :: "ticket_client \<Rightarrow> string \<Rightarrow> http_request" where
  "ticket_request c body = \<lparr>hq_method = ''POST'', hq_url = tc_base c @ ''/internal/ssh-ticket'',
     hq_authorization = ''Bearer '' @ tc_token c, hq_body = body\<rparr>"

definition TicketClient_Issue ::
  "ticket_json \<Rightarrow> 'm transport \<Rightarrow> ticket_client \<Rightarrow> string \<Rightarrow> string \<Rightarrow> ('m, Signed) action" where
  "TicketClient_Issue J net c p fp m =
     (case tj_Marshal J [(''subdomain_prefix'', p), (''ssh_key_fingerprint'', fp)] of
        Inl e \<Rightarrow> (Inl (WrapErr ''encode request: '' e []), m)
      | Inr body \<Rightarrow> (case tj_NewRequest J (tc_base c @ ''/internal/ssh-ticket'') of
          Some e \<Rightarrow> (Inl (WrapErr ''build request: '' e []), m)
        | None \<Rightarrow> (case net (ticket_request c body) m of
            (Inl e, m') \<Rightarrow> (Inl (WrapErr ''POST /internal/ssh-ticket: '' e []), m')
          | (Inr (st, resp), m') \<Rightarrow>
              if st \<noteq> 200 then (Inl (Err (''ticket status '' @ dec_nat st @ '': '' @ take 1024 resp)), m')
              else (case tj_Decode J (take 16384 resp) of
                  Inl e \<Rightarrow> (Inl (WrapErr ''decode: '' e []), m')
                | Inr s \<Rightarrow> (Inr s, m')))))"

section \<open>The state of the proxy\<close>

text \<open>The mux registry, main-api behind the transport, and, for the channel at hand, whether it was
  closed and the streams that were opened for it with the header line written on each.\<close>

record 'm proxy =
  px_mux :: mux
  px_api :: 'm
  px_closed :: bool
  px_streams :: "(string \<times> nat \<times> string) list"

definition close_channel :: "'m proxy \<Rightarrow> 'm proxy" where
  "close_channel s = s\<lparr>px_closed := True\<rparr>"

section \<open>\<open>Handler.Connect\<close>\<close>

record 'm tunnel_handler =
  th_tickets :: "(string \<Rightarrow> string \<Rightarrow> ('m, Signed) action) option"
  th_after :: "(string \<Rightarrow> Signed \<Rightarrow> 'm proxy \<Rightarrow> err option \<times> 'm proxy) option"

definition Tunnel_Connect :: "'m tunnel_handler \<Rightarrow> 'm proxy conn_handler" where
  "Tunnel_Connect h info p s = (case th_tickets h of
       None \<Rightarrow> (Some (Err ''tunnelhandler: no ticket issuer configured''), close_channel s)
     | Some issue \<Rightarrow>
         if ci_fingerprint info = [] then (Some (Err ''tunnelhandler: missing client fingerprint''), close_channel s)
         else (case issue p (ci_fingerprint info) (px_api s) of
             (Inl e, m) \<Rightarrow> (Some (WrapErr ''ticket: '' e []), close_channel (s\<lparr>px_api := m\<rparr>))
           | (Inr sgd, m) \<Rightarrow> (case th_after h of
               None \<Rightarrow> (None, close_channel (s\<lparr>px_api := m\<rparr>))
             | Some after \<Rightarrow> after p sgd (s\<lparr>px_api := m\<rparr>))))"

section \<open>\<open>Relayer.Relay\<close>\<close>

record ticketPayload =
  py_session :: string
  py_instance :: string
  py_node :: string
  py_ip :: string
  py_port :: nat
  py_expires :: time

record relay_lib =
  rb_DecodeString :: "string \<Rightarrow> err + string"
  rb_Unmarshal :: "string \<Rightarrow> err + ticketPayload"
  rb_header :: header_lib
  rb_rfc3339 :: "time \<Rightarrow> string"

definition header_timeout :: "int \<Rightarrow> int" where
  "header_timeout t = (if t \<le> 0 then 5 * second else t)"

text \<open>The checks before a stream is opened; both hops use the same test of the expiry.\<close>

definition ticket_stale :: "time \<Rightarrow> time \<Rightarrow> bool" where
  "ticket_stale now ex \<longleftrightarrow> ex \<noteq> zero_time \<and> now > ex - second"

definition check_payload :: "relay_lib \<Rightarrow> time \<Rightarrow> Signed \<Rightarrow> err + ticketPayload" where
  "check_payload R now sgd = (case rb_DecodeString R (sg_payload sgd) of
       Inl e \<Rightarrow> Inl (WrapErr ''decode ticket payload: '' e [])
     | Inr raw \<Rightarrow> (case rb_Unmarshal R raw of
         Inl e \<Rightarrow> Inl (WrapErr ''parse ticket payload: '' e [])
       | Inr p \<Rightarrow>
           if py_node p = [] then Inl (Err ''ticket missing node_id'')
           else if py_ip p = [] \<or> py_port p = 0 then Inl (Err ''ticket missing vm address'')
           else if ticket_stale now (py_expires p) then Inl (Err (''ticket expired at '' @ rb_rfc3339 R (py_expires p)))
           else Inr p))"

definition stream_header :: "ticketPayload \<Rightarrow> streamHeader" where
  "stream_header p = \<lparr>sh_instance = py_instance p, sh_ip = py_ip p, sh_port = py_port p, sh_expires = py_expires p\<rparr>"

text \<open>The error of \<open>json.Marshal\<close> is ignored: the line is then empty.\<close>

definition header_line :: "relay_lib \<Rightarrow> ticketPayload \<Rightarrow> string" where
  "header_line R p = (case hd_Marshal (rb_header R) (stream_header p) of Inl _ \<Rightarrow> [] | Inr raw \<Rightarrow> raw) @ [newline]"

text \<open>\<open>opener\<close> is whether an opener is configured, \<open>opened\<close> what yamux returns when asked for a stream,
  \<open>written\<close> the error of writing the header. The relay of bytes ends with both sides closed and returns nil.\<close>

definition Relay ::
  "relay_lib \<Rightarrow> bool \<Rightarrow> time \<Rightarrow> err + nat \<Rightarrow> err option \<Rightarrow> string \<Rightarrow> Signed \<Rightarrow> 'm proxy \<Rightarrow> err option \<times> 'm proxy" where
  "Relay R opener now opened written _ sgd s =
     (if \<not> opener then (Some (Err ''tunnelhandler: no StreamOpener configured''), close_channel s)
      else case check_payload R now sgd of
        Inl e \<Rightarrow> (Some e, close_channel s)
      | Inr p \<Rightarrow> (case OpenStream (py_node p) opened (px_mux s) of
          Inl e \<Rightarrow> (Some (WrapErr (''open mux stream for node '' @ py_node p @ '': '') e []), close_channel s)
        | Inr st \<Rightarrow> (case written of
            Some e \<Rightarrow> (Some (WrapErr ''write stream header: '' e []), close_channel s)
          | None \<Rightarrow> (None, close_channel (s\<lparr>px_streams := px_streams s @ [(py_node p, st, header_line R p)]\<rparr>)))))"

section \<open>Lemmas\<close>

lemma check_payload_Inr:
  assumes "check_payload R now sgd = Inr p"
  shows "\<exists>raw. rb_DecodeString R (sg_payload sgd) = Inr raw \<and> rb_Unmarshal R raw = Inr p \<and>
    py_node p \<noteq> [] \<and> py_ip p \<noteq> [] \<and> py_port p \<noteq> 0 \<and> \<not> ticket_stale now (py_expires p)"
  using assms by (auto simp: check_payload_def split: sum.splits if_splits)

lemma Relay_opens:
  assumes "Relay R opener now opened written lbl sgd s = (r, s')" and "px_streams s' \<noteq> px_streams s"
  shows "\<exists>p e st. check_payload R now sgd = Inr p \<and> mx_sessions (px_mux s) (py_node p) = Some e \<and>
    \<not> mx_dead (px_mux s) (me_sess e) \<and> opened = Inr st \<and>
    px_streams s' = px_streams s @ [(py_node p, st, header_line R p)] \<and> r = None"
  using assms
  by (auto simp: Relay_def close_channel_def OpenStream_def split: if_splits sum.splits option.splits)

lemma Relay_closes: "px_closed (snd (Relay R opener now opened written lbl sgd s))"
  by (auto simp: Relay_def close_channel_def split: if_splits sum.splits option.splits)

lemma Issue_Inr:
  assumes "TicketClient_Issue J net c p fp m = (Inr s, m')"
  shows "\<exists>body resp. tj_Marshal J [(''subdomain_prefix'', p), (''ssh_key_fingerprint'', fp)] = Inr body \<and>
    net (ticket_request c body) m = (Inr (200, resp), m') \<and> tj_Decode J (take 16384 resp) = Inr s"
  using assms
  by (auto simp: TicketClient_Issue_def split: sum.splits option.splits prod.splits if_splits)

end
