(* ===== verification/AgentTunnel.thy ===== *)
theory AgentTunnel
  imports Wire ByteRelay
begin

text \<open>
  compute-agent's end of a tunnel (\<open>muxclient/handler.go\<close>): a stream that arrives on the mux session is read
  up to its header line, checked, and connected to the VM the header names. The relay of bytes that follows is
  \<open>ByteRelay\<close>, started with what the reader has read ahead.
\<close>

record stream_handler =
  sn_dial_timeout :: int
  sn_idle_timeout :: int
  sn_header_timeout :: int

definition or_default :: "int \<Rightarrow> int \<Rightarrow> int" where
  "or_default t d = (if t \<le> 0 then d else t)"

definition idle_bound :: "int \<Rightarrow> int" where
  "idle_bound t = (if t < 0 then 0 else if t = 0 then 30 * 60 * second else t)"

text \<open>\<open>bytes\<close> is what the stream delivers before the read deadline, \<open>fin\<close> what comes after it. The result
  carries what the buffered reader keeps for the relay.\<close>

definition readHeader :: "header_lib \<Rightarrow> string \<Rightarrow> read_end \<Rightarrow> err + (streamHeader \<times> string)" where
  "readHeader H bytes fin = (case read_header_line bytes fin of
       Inl e \<Rightarrow> Inl e
     | Inr (line, rest) \<Rightarrow> (case hd_Unmarshal H line of
         Inl e \<Rightarrow> Inl (WrapErr ''decode: '' e [])
       | Inr h \<Rightarrow> Inr (h, rest)))"

text \<open>A stream fails with a reason, or is connected to an address and relayed.\<close>

datatype stream_result =
    StreamFailed string err string
  | StreamRelayed string string \<comment> \<open>the address dialled and the bytes read ahead\<close>

text \<open>\<open>dialled\<close> is the error of the dial, by address.\<close>

definition handleStream ::
  "header_lib \<Rightarrow> (time \<Rightarrow> string) \<Rightarrow> time \<Rightarrow> (string \<Rightarrow> err option) \<Rightarrow> string \<Rightarrow> read_end \<Rightarrow> stream_result" where
  "handleStream H rfc3339 now dialled bytes fin = (case readHeader H bytes fin of
       Inl e \<Rightarrow> StreamFailed ''bad_header'' e []
     | Inr (h, rest) \<Rightarrow>
         if sh_ip h = [] \<or> sh_port h = 0
         then StreamFailed ''missing_vm'' (Err ''vm_internal_ip / vm_port required'') (sh_instance h)
         else if sh_expires h \<noteq> zero_time \<and> now > sh_expires h - second
         then StreamFailed ''expired_ticket'' (Err (''ticket expired at '' @ rfc3339 (sh_expires h))) (sh_instance h)
         else (let addr = JoinHostPort (sh_ip h) (sh_port h) in
           case dialled addr of
             Some e \<Rightarrow> StreamFailed ''vm_dial_failed'' (WrapErr (''dial '' @ addr @ '': '') e []) (sh_instance h)
           | None \<Rightarrow> StreamRelayed addr rest))"

text \<open>\<open>AcceptLoop\<close>: every stream of the session is handled, until accepting fails. \<open>isClosedErr\<close> only decides
  whether the failure is logged.\<close>

definition ErrSessionShutdown :: err where
  "ErrSessionShutdown = Err ''session shutdown''"

definition net_ErrClosed :: err where
  "net_ErrClosed = Err ''use of closed network connection''"

definition io_EOF :: err where
  "io_EOF = Err ''EOF''"

definition isClosedErr :: "err \<Rightarrow> bool" where
  "isClosedErr e \<longleftrightarrow> err_is e io_EOF \<or> err_is e net_ErrClosed \<or> err_is e ErrSessionShutdown"

fun AcceptLoop :: "('st \<Rightarrow> 'r) \<Rightarrow> (err + 'st) list \<Rightarrow> 'r list" where
  "AcceptLoop handle [] = []"
| "AcceptLoop handle (Inl e # _) = []"
| "AcceptLoop handle (Inr st # xs) = handle st # AcceptLoop handle xs"

section \<open>Lemmas\<close>

lemma readHeader_line:
  assumes "header_ok H" and "hd_Marshal H h = Inr raw"
  shows "readHeader H (raw @ newline # rest) fin = Inr (h, rest)"
  using assms by (simp add: readHeader_def read_header_line_def header_ok_def cut_line_append)

lemma readHeader_keeps:
  assumes "readHeader H bytes fin = Inr (h, rest)"
  shows "\<exists>line. bytes = line @ rest \<and> hd_Unmarshal H line = Inr h"
  using assms
  by (auto simp: readHeader_def read_header_line_def split: sum.splits option.splits read_end.splits if_splits
      dest!: cut_line_Some)

end
