(* ===== verification/TunnelProps.thy ===== *)
theory TunnelProps
  imports Tunnel AgentTunnel GateProps RouterProps
begin

text \<open>
  Properties of the tunnels: the whole path of an SSH channel through ssh-proxy, main-api and
  compute-agent to the machine.
\<close>

section \<open>From a channel to the machine\<close>

text \<open>What HTTP gives ssh-proxy: an answer is what main-api's router answers to the request sent.\<close>

definition reaches_api ::
  "api_libs \<Rightarrow> router_cfg \<Rightarrow> (response \<Rightarrow> string) \<Rightarrow> (string \<Rightarrow> string list) \<Rightarrow> api_state transport \<Rightarrow> bool" where
  "reaches_api E c render url_path net \<longleftrightarrow> (\<forall>q m st body m'. net q m = (Inr (st, body), m') \<longrightarrow>
     (\<exists>rq r. NewRouter E c rq m = (r, m') \<and> rq_method rq = hq_method q \<and> rq_path rq = url_path (hq_url q) \<and>
        rq_authorization rq = hq_authorization q \<and> rq_body rq = hq_body q \<and> status_of r = Some st \<and> body = render r))"

text \<open>What \<open>encoding/json\<close> and \<open>encoding/base64\<close> give the three programs: one decodes what the other
  encoded, field by field.\<close>

definition is_ascii :: "string \<Rightarrow> bool" where
  "is_ascii s \<longleftrightarrow> (\<forall>c\<in>set s. (of_char c :: nat) < 128)"

definition payload_of :: "Ticket \<Rightarrow> ticketPayload" where
  "payload_of t = \<lparr>py_session = tk_session t, py_instance = uuid_text (tk_instance t), py_node = uuid_text (tk_node t),
     py_ip = tk_ip t, py_port = tk_port t, py_expires = tk_expires t\<rparr>"

definition codecs_agree :: "api_libs \<Rightarrow> (response \<Rightarrow> string) \<Rightarrow> ticket_json \<Rightarrow> relay_lib \<Rightarrow> bool" where
  "codecs_agree E render J R \<longleftrightarrow>
     (\<forall>p f body. is_ascii p \<longrightarrow> is_ascii f \<longrightarrow> tj_Marshal J [(''subdomain_prefix'', p), (''ssh_key_fingerprint'', f)] = Inr body \<longrightarrow>
        dec_ticket (al_json E) body = Decoded \<lparr>tr_prefix = p, tr_fingerprint = f\<rparr>) \<and>
     (\<forall>ck t s. tj_Decode J (take 16384 (render (HJson 200 ck (JSigned t)))) = Inr s \<longrightarrow> s = t) \<and>
     (\<forall>x. rb_DecodeString R (b64_enc (al_ticket E) x) = Inr x) \<and>
     (\<forall>t raw. json_Marshal (al_ticket E) t = Inr raw \<longrightarrow> rb_Unmarshal R raw = Inr (payload_of t)) \<and>
     header_ok (rb_header R)"

lemma internal_ticket_route:
  assumes "NewRouter E c rq m = (r, m')" and "rq_path rq = [''internal'', ''ssh-ticket'']" and "rq_method rq = ''POST''"
    and "status_of r = Some 200"
  shows "SSHTicketHandler (al_ticket E) (rc_signer c) (rc_ssh_keys c) (rq_fresh rq) (rq_now rq)
    (dec_ticket (al_json E) (rq_body rq)) m = (r, m')"
proof -
  have h: "mux_handler (internal_mux c) ''POST'' [''internal'', ''ssh-ticket''] =
    Some ((''POST'', [Lit ''internal'', Lit ''ssh-ticket'']), RTicket)"
    by (simp add: internal_mux_def mux_handler_def pat_match_def path_match_def)
  show ?thesis using assms h
    by (auto simp: NewRouter_def NewInternalRouter_def RequireInternalToken_def mux_serve_def serve_plain_def reply_def
        writeError_def split: if_splits)
qed

lemma ticket_status_200:
  assumes "SSHTicketHandler L sg keys fresh now body s = (r, s')" and "status_of r = Some 200"
  shows "\<exists>ck b. r = HJson 200 ck b"
proof -
  have p: "\<exists>k m. r = HError 400 k m" if "parseSSHTicketRequest body = Inl r" for r
    using that by (auto simp: parseSSHTicketRequest_def Let_def writeError_def split: body_in.splits if_splits)
  show ?thesis using assms
    by (auto simp: SSHTicketHandler_def attempt_def reply_def writeError_def writeJSON_def
        split: sum.splits prod.splits if_splits option.splits dest!: p)
qed

lemma complete_ticket_keeps [simp]:
  "tk_instance (complete_ticket sg fresh now t) = tk_instance t" "tk_node (complete_ticket sg fresh now t) = tk_node t"
  "tk_ip (complete_ticket sg fresh now t) = tk_ip t" "tk_port (complete_ticket sg fresh now t) = tk_port t"
  by (simp_all add: complete_ticket_def)

lemma issued_payload:
  assumes "codecs_agree E render J R" and "Issue (al_ticket E) sg fresh now t = Inr tick"
    and "check_payload R now' tick = Inr p"
  shows "p = payload_of (complete_ticket sg fresh now t)"
proof -
  from assms(2) obtain raw where raw: "json_Marshal (al_ticket E) (complete_ticket sg fresh now t) = Inr raw"
    "sg_payload tick = b64_enc (al_ticket E) raw" by (auto simp: Issue_def Let_def split: sum.splits)
  with assms(1) have "rb_DecodeString R (sg_payload tick) = Inr raw" "rb_Unmarshal R raw = Inr (payload_of (complete_ticket sg fresh now t))"
    by (simp_all add: codecs_agree_def)
  with check_payload_Inr [OF assms(3)] show ?thesis by auto
qed

text \<open>The agent's side of a stream on which the proxy wrote its header line.\<close>

lemma header_stream:
  assumes "header_ok (rb_header R)" and "handleStream (rb_header R) rfc now dialled (header_line R p @ rest) fin = StreamRelayed a r"
  shows "a = JoinHostPort (py_ip p) (py_port p) \<and> r = rest"
proof (cases "hd_Marshal (rb_header R) (stream_header p)")
  case (Inl e)
  with assms show ?thesis
    by (cases "hd_Unmarshal (rb_header R) [newline]")
      (auto simp: header_line_def handleStream_def readHeader_def read_header_line_def header_ok_def)
next
  case (Inr raw)
  with assms readHeader_line [OF assms(1) Inr, of rest fin] show ?thesis
    by (auto simp: header_line_def handleStream_def stream_header_def Let_def split: if_splits option.splits)
qed

lemma ascii_ToLower: "is_ascii s \<Longrightarrow> is_ascii (ToLower s)"
  by (auto simp: is_ascii_def ToLower_def lower_char_def Let_def)

lemma ascii_TrimSuffix: "is_ascii s \<Longrightarrow> is_ascii (TrimSuffix s p)"
  by (auto simp: is_ascii_def TrimSuffix_def dest: in_set_takeD)

lemma ExtractRoute_ascii:
  assumes "ExtractRoute host zone = Inr route" and "is_ascii host"
  shows "is_ascii (ro_prefix route)"
proof -
  from assms(1) have "ToLower (TrimSuffix host ''.'') = ro_prefix route @ ''.'' @ ro_zone route"
    unfolding ExtractRoute_Inr Let_def by simp
  with ascii_ToLower [OF ascii_TrimSuffix [OF assms(2)]] show ?thesis
    unfolding is_ascii_def by (metis Un_iff set_append)
qed

text \<open>An SSH channel reaches the caller's own machine or nothing. Whenever ssh-proxy opens a stream for a
  channel, however the calls in between fail: the channel asked for port 22 of a host in the zone; the
  fingerprint of the key the client authenticated with is stored in main-api for a user; the first label of
  the host is the start of the id of a running instance of that user; the stream goes to the live mux session
  of the node the instance is on; and on the agent there, what follows the header is relayed, unchanged and from its
  first byte, to port 22 of the address main-api has for that instance, unless the ticket is stale or the dial fails.\<close>

theorem tunnel_reaches_own_vm:
  assumes "reaches_api E c render url_path net" and "codecs_agree E render J R"
    and "url_path (tc_base cl @ ''/internal/ssh-ticket'') = [''internal'', ''ssh-ticket'']"
    and "sc_handler cfg = Some (Tunnel_Connect \<lparr>th_tickets = Some (TicketClient_Issue J net cl),
           th_after = Some (Relay R opener now opened written)\<rparr>)"
    and "is_ascii (ci_fingerprint info)" and "\<forall>req. payload = Inr req \<longrightarrow> is_ascii (dr_host req)"
    and "handleDirectTCPIP cfg info payload accepted s = (res, s')" and "px_streams s' \<noteq> px_streams s"
  shows "\<exists>req route k inst ip e st line. payload = Inr req \<and> dr_port req = 22 \<and>
    ExtractRoute (dr_host req) (sc_zone cfg) = Inr route \<and>
    k \<in> set (ssh_keys (tbl (px_api s))) \<and> k_fingerprint k = normalizeFingerprint (TrimSpace (ci_fingerprint info)) \<and>
    inst \<in> set (instances (tbl (px_api s))) \<and> i_owner inst = Some (k_user k) \<and> i_state inst = Running \<and> i_ip inst = Some ip \<and>
    take 8 (uuid_text (i_id inst)) = ToLower (TrimSpace (ro_prefix route)) \<and>
    mx_sessions (px_mux s) (uuid_text (i_node inst)) = Some e \<and> \<not> mx_dead (px_mux s) (me_sess e) \<and>
    px_streams s' = px_streams s @ [(uuid_text (i_node inst), st, line)] \<and>
    (\<forall>rfc t dialled rest fin a r. handleStream (rb_header R) rfc t dialled (line @ rest) fin = StreamRelayed a r \<longrightarrow>
       a = JoinHostPort ip 22 \<and> r = rest)"
proof -
  from assms(7,8) obtain req route r0 where req: "payload = Inr req" "ExtractRoute (dr_host req) (sc_zone cfg) = Inr route" "dr_port req = 22"
    and con: "Tunnel_Connect \<lparr>th_tickets = Some (TicketClient_Issue J net cl), th_after = Some (Relay R opener now opened written)\<rparr>
      info (ro_prefix route) s = (r0, s')"
    by (auto simp: handleDirectTCPIP_def assms(4) split: sum.splits if_splits option.splits prod.splits)
  from con assms(8) obtain sgd m where iss: "TicketClient_Issue J net cl (ro_prefix route) (ci_fingerprint info) (px_api s) = (Inr sgd, m)"
    and rel: "Relay R opener now opened written (ro_prefix route) sgd (s\<lparr>px_api := m\<rparr>) = (r0, s')"
    by (auto simp: Tunnel_Connect_def close_channel_def split: if_splits prod.splits sum.splits)
  from Issue_Inr [OF iss] obtain body resp where call:
    "tj_Marshal J [(''subdomain_prefix'', ro_prefix route), (''ssh_key_fingerprint'', ci_fingerprint info)] = Inr body"
    "net (ticket_request cl body) (px_api s) = (Inr (200, resp), m)" "tj_Decode J (take 16384 resp) = Inr sgd" by auto
  from assms(1) [unfolded reaches_api_def, rule_format, OF call(2)] assms(3) obtain rq r where
    srv: "NewRouter E c rq (px_api s) = (r, m)" "rq_method rq = ''POST''" "rq_path rq = [''internal'', ''ssh-ticket'']"
      "rq_body rq = body" "status_of r = Some 200" "resp = render r"
    by (auto simp: ticket_request_def)
  from internal_ticket_route [OF srv(1,3,2,5)] have hnd: "SSHTicketHandler (al_ticket E) (rc_signer c) (rc_ssh_keys c) (rq_fresh rq) (rq_now rq)
    (dec_ticket (al_json E) body) (px_api s) = (r, m)" by (simp add: srv(4))
  from ticket_status_200 [OF hnd srv(5)] obtain ck b where rb: "r = HJson 200 ck b" by auto
  from assms(6) req(1) have "is_ascii (ro_prefix route)" by (intro ExtractRoute_ascii [OF req(2)]) simp
  with assms(2,5) call(1) have dec: "dec_ticket (al_json E) body = Decoded \<lparr>tr_prefix = ro_prefix route, tr_fingerprint = ci_fingerprint info\<rparr>"
    by (simp add: codecs_agree_def)
  from ticket_only_for_own_instance [OF hnd [unfolded rb]] obtain q k inst node ip tick where g:
    "parseSSHTicketRequest (dec_ticket (al_json E) body) = Inr q"
    "k \<in> set (ssh_keys (tbl (px_api s)))" "k_fingerprint k = normalizeFingerprint (tr_fingerprint q)"
    "inst \<in> set (instances (tbl (px_api s)))" "i_owner inst = Some (k_user k)"
    "prefix (tr_prefix q) (uuid_text (i_id inst))" "length (tr_prefix q) = 8" "i_state inst = Running" "i_ip inst = Some ip"
    "n_id node = i_node inst" "Issue (al_ticket E) (rc_signer c) (rq_fresh rq) (rq_now rq) (instance_ticket inst node ip) = Inr tick"
    "b = JSigned tick" by auto
  from g(1) dec have q: "tr_prefix q = ToLower (TrimSpace (ro_prefix route))" "tr_fingerprint q = TrimSpace (ci_fingerprint info)"
    by (auto simp: parseSSHTicketRequest_def Let_def split: if_splits)
  from assms(2) call(3) srv(6) rb g(12) have "sgd = tick" by (auto simp: codecs_agree_def)
  from Relay_opens [OF rel] assms(8) obtain p e st where rl: "check_payload R now sgd = Inr p"
    "mx_sessions (px_mux s) (py_node p) = Some e" "\<not> mx_dead (px_mux s) (me_sess e)"
    "px_streams s' = px_streams s @ [(py_node p, st, header_line R p)]" by auto
  from issued_payload [OF assms(2) g(11) rl(1) [unfolded \<open>sgd = tick\<close>]] g(10)
  have p: "py_node p = uuid_text (i_node inst)" "py_ip p = ip" "py_port p = 22" by (simp_all add: payload_of_def instance_ticket_def)
  have "a = JoinHostPort ip 22 \<and> r = rest"
    if "handleStream (rb_header R) rfc t dialled (header_line R p @ rest) fin = StreamRelayed a r" for rfc t dialled rest fin a r
    using header_stream [OF _ that] assms(2) p by (auto simp: codecs_agree_def)
  moreover have "take 8 (uuid_text (i_id inst)) = ToLower (TrimSpace (ro_prefix route))"
    using g(6,7) q(1) by (auto simp: prefix_def)
  ultimately show ?thesis using req g(2-5,8,9) q(2) rl(2-4) p
    by (intro exI [of _ req] exI [of _ route] exI [of _ k] exI [of _ inst] exI [of _ ip] exI [of _ e] exI [of _ st] exI [of _ "header_line R p"]) simp
qed

text \<open>A world in which a tunnel is opened: one ticket the codecs know, one key, one running instance.\<close>

definition tw_ticket :: Ticket where
  "tw_ticket = sample_ticket\<lparr>tk_session := ''s'', tk_expires := 16 * second\<rparr>"

definition tw_signed :: Signed where
  "tw_signed = \<lparr>sg_payload = ''t'', sg_signature = ''0123456789abcdeft''\<rparr>"

definition tw_libs :: api_libs where
  "tw_libs = sample_libs\<lparr>al_ticket := sample_ticket_lib tw_ticket, al_json := (al_json sample_libs)\<lparr>
     dec_ticket := (\<lambda>_. Decoded \<lparr>tr_prefix = ''00000000'', tr_fingerprint = ''SHA256:f''\<rparr>)\<rparr>\<rparr>"

definition tw_api :: api_state where
  "tw_api = sample_api\<lparr>tbl := tbl ticket_world\<rparr>"

definition tw_render :: "response \<Rightarrow> string" where
  "tw_render r = (case r of HJson st ck (JSigned t) \<Rightarrow> if t = tw_signed then ''T'' else ''?'' | _ \<Rightarrow> [])"

definition tw_json :: ticket_json where
  "tw_json = \<lparr>tj_Marshal = (\<lambda>l. if l = [(''subdomain_prefix'', ''00000000''), (''ssh_key_fingerprint'', ''SHA256:f'')] then Inr ''q''
       else Inl (Err ''json'')), tj_NewRequest = (\<lambda>_. None),
     tj_Decode = (\<lambda>b. if b = ''T'' then Inr tw_signed else Inl (Err ''json''))\<rparr>"

definition tw_request :: "http_request \<Rightarrow> request" where
  "tw_request q = (probe (hq_method q) [''internal'', ''ssh-ticket''])\<lparr>rq_authorization := hq_authorization q,
     rq_body := hq_body q, rq_now := second, rq_fresh := ''s''\<rparr>"

definition router_net :: "router_cfg \<Rightarrow> api_state transport" where
  "router_net c q m = (case NewRouter tw_libs c (tw_request q) m of (r, m') \<Rightarrow>
     (case status_of r of None \<Rightarrow> (Inl (Err ''EOF''), m') | Some st \<Rightarrow> (Inr (st, tw_render r), m')))"

definition tw_net :: "api_state transport" where
  "tw_net = router_net sample_router"

definition tw_relay :: relay_lib where
  "tw_relay = \<lparr>rb_DecodeString = Inr,
     rb_Unmarshal = (\<lambda>x. if x = ''t'' then Inr (payload_of tw_ticket) else Inl (Err ''bad'')),
     rb_header = \<lparr>hd_Marshal = (\<lambda>h. if h = stream_header (payload_of tw_ticket) then Inr ''h'' else Inl (Err ''json'')),
       hd_Unmarshal = (\<lambda>l. if l = ''h'' @ [newline] then Inr (stream_header (payload_of tw_ticket)) else Inl (Err ''eof''))\<rparr>,
     rb_rfc3339 = (\<lambda>_. [])\<rparr>"

definition tw_proxy :: "api_state proxy" where
  "tw_proxy = \<lparr>px_mux = snd (mux_Register (uuid_text 1) 4 ''v1'' (snd (mux_New \<lparr>mc_reporter = False, mc_interval = 0, mc_timeout = 0\<rparr>))),
     px_api = tw_api, px_closed = False, px_streams = []\<rparr>"

definition tw_open :: "err + directTCPIPReq" where
  "tw_open = Inr \<lparr>dr_host = ''00000000.Z.net.'', dr_port = 22, dr_origin_host = [], dr_origin_port = 0\<rparr>"

lemma router_reaches: "reaches_api tw_libs c tw_render (\<lambda>_. [''internal'', ''ssh-ticket'']) (router_net c)"
  unfolding reaches_api_def
proof (intro allI impI)
  fix q m st body m' assume "router_net c q m = (Inr (st, body), m')"
  then obtain r where "NewRouter tw_libs c (tw_request q) m = (r, m')" "status_of r = Some st" "body = tw_render r"
    by (auto simp: router_net_def split: prod.splits option.splits)
  then show "\<exists>rq r. NewRouter tw_libs c rq m = (r, m') \<and> rq_method rq = hq_method q \<and>
      rq_path rq = [''internal'', ''ssh-ticket''] \<and> rq_authorization rq = hq_authorization q \<and> rq_body rq = hq_body q \<and>
      status_of r = Some st \<and> body = tw_render r"
    by (intro exI [of _ "tw_request q"] exI [of _ r]) (simp add: tw_request_def probe_def)
qed

lemma tw_codecs: "codecs_agree tw_libs tw_render tw_json tw_relay"
  by (auto simp: codecs_agree_def tw_libs_def tw_render_def tw_json_def tw_relay_def sample_ticket_lib_def header_ok_def newline_def
      split: if_splits)

end
