(* ===== verification/RelayProps.thy ===== *)
theory RelayProps
  imports ByteRelay SshServer
begin

text \<open>
  Properties of the byte relay and of the connection front of ssh-proxy.
\<close>

section \<open>The relay\<close>

lemma ahead_first:
  assumes "relay_reach cf ahead s"
  shows "prefix ahead (pp_arrived (rl_pipe s Up))"
  using assms
proof (induction rule: relay_reach.induct)
  case relay_start
  then show ?case by (simp add: relay_init_def)
next
  case (relay_internal s s')
  from relay_internal(2,3) show ?case by cases (auto simp: relay_defs)
next
  case (relay_external s s')
  from relay_external(2,3) show ?case by cases (auto simp: relay_defs)
qed

text \<open>C14. The relay neither loses, repeats nor reorders a byte while the tunnel is up: in every interleaving of
  the copying goroutines, the peers, cancellation and the timer, what was written in a direction is a prefix of
  what arrived, the bytes read ahead with the header come first, nothing is missing while the direction is being copied,
  and when its copy ended without an end being closed or reset, the source had finished and everything was
  delivered.\<close>

theorem relay_delivers:
  assumes "relay_reach cf ahead s"
  shows "prefix (pp_written (rl_pipe s d)) (pp_arrived (rl_pipe s d)) \<and> prefix ahead (pp_arrived (rl_pipe s Up)) \<and>
    (pp_pc (rl_pipe s d) = Copying \<longrightarrow> pp_arrived (rl_pipe s d) = pp_written (rl_pipe s d) @ pp_buf (rl_pipe s d)) \<and>
    (pp_pc (rl_pipe s d) \<noteq> Copying \<longrightarrow> \<not> rl_dead s Up \<longrightarrow> \<not> rl_dead s Down \<longrightarrow>
       pp_eof (rl_pipe s d) \<and> pp_written (rl_pipe s d) = pp_arrived (rl_pipe s d))"
  using relay_ok_pipeD [OF relay_reach_ok [OF assms], of d] ahead_first [OF assms]
  by (cases d) (auto simp: pipe_ok_def)

lemma one_copy:
  "relay_reach (agent_conf True) ''a'' (copy_chunk Up 2 (arrive Up ''b'' (relay_init ''a'')))"
  by (intro relay_internal [OF relay_external [OF relay_start re_arrive] rs_copy]) (simp_all add: relay_defs relay_init_def)

theorem relay_delivers_witness:
  "prefix ''ab'' (pp_arrived (rl_pipe (copy_chunk Up 2 (arrive Up ''b'' (relay_init ''a''))) Up))"
  using relay_delivers [OF one_copy, of Up] by (simp add: relay_defs relay_init_def)

lemma relay_steps_ok: "(relay_step cf)\<^sup>*\<^sup>* s t \<Longrightarrow> relay_ok s \<Longrightarrow> ending s \<Longrightarrow> relay_ok t \<and> ending t"
  by (induction rule: rtranclp_induct) (auto intro: relay_ok_step ending_step)

lemma relay_runs_out: "\<exists>t. (relay_step cf)\<^sup>*\<^sup>* s t \<and> \<not> (\<exists>u. relay_step cf t u)"
proof (induction "relay_rank s" arbitrary: s rule: less_induct)
  case less
  show ?case
  proof (cases "\<exists>u. relay_step cf s u")
    case True
    then obtain u where u: "relay_step cf s u" by blast
    from less [OF relay_step_decreases [OF u]] u show ?thesis by (meson converse_rtranclp_into_rtranclp)
  qed blast
qed

lemma no_descent:
  fixes g :: "nat \<Rightarrow> nat"
  assumes "\<And>i. g (Suc i) < g i"
  shows "g i + i \<le> g 0"
proof (induction i)
  case (Suc i)
  with assms [of i] show ?case by linarith
qed simp

lemma no_endless_relay: "\<not> (\<forall>i. relay_step cf (f i) (f (Suc i)))"
proof
  assume "\<forall>i. relay_step cf (f i) (f (Suc i))"
  then have "relay_rank (f (Suc i)) < relay_rank (f i)" for i using relay_step_decreases by blast
  from no_descent [of "\<lambda>i. relay_rank (f i)" "Suc (relay_rank (f 0))", OF this] show False by simp
qed



text \<open>C39. Half-closing one direction cuts off the other: when the near peer sends a request and closes its
  writing side, the relay may return with both ends closed and not a byte of the reply delivered, although the reply had
  arrived, no peer had disappeared and nothing was cancelled.\<close>

theorem half_close_loses_reply:
  assumes "q \<noteq> []"
  shows "\<exists>t. (relay_step cf)\<^sup>*\<^sup>* (arrive Down r (hang_up Up (arrive Up q (relay_init [])))) t \<and> rl_main t = RelayReturned \<and>
    pp_written (rl_pipe t Up) = q \<and> pp_arrived (rl_pipe t Down) = r \<and> pp_written (rl_pipe t Down) = []"
proof -
  let ?s0 = "arrive Down r (hang_up Up (arrive Up q (relay_init [])))"
  let ?s1 = "copy_chunk Up (length q) ?s0"
  let ?s2 = "end_copy Up ?s1"
  let ?s3 = "signal_done cf Up ?s2"
  let ?s4 = "?s3\<lparr>rl_main := CloseBoth\<rparr>"
  let ?s5 = "(closeBoth ?s4)\<lparr>rl_main := WaitSecond\<rparr>"
  let ?s6 = "end_copy Down ?s5"
  let ?s7 = "signal_done cf Down ?s6"
  let ?s8 = "?s7\<lparr>rl_main := RelayReturned\<rparr>"
  note defs = relay_defs relay_init_def
  have "relay_step cf ?s0 ?s1" using assms by (intro rs_copy) (simp_all add: defs)
  moreover have "relay_step cf ?s1 ?s2" by (intro rs_eof) (simp_all add: defs)
  moreover have "relay_step cf ?s2 ?s3" by (intro rs_signal) (simp add: defs)
  moreover have "relay_step cf ?s3 ?s4" by (intro rs_first [of _ Up]) (simp_all add: defs)
  moreover have "relay_step cf ?s4 ?s5" by (intro rs_close) simp
  moreover have "relay_step cf ?s5 ?s6" by (intro rs_readerr) (simp_all add: defs)
  moreover have "relay_step cf ?s6 ?s7" by (intro rs_signal) (simp add: defs)
  moreover have "relay_step cf ?s7 ?s8"
  proof (rule rs_second)
    show "\<forall>d. pp_pc (rl_pipe ?s7 d) = Signalled" by (rule allI, case_tac d) (simp_all add: defs)
  qed (simp add: defs)
  ultimately have "(relay_step cf)\<^sup>*\<^sup>* ?s0 ?s8" by (meson rtranclp.rtrancl_into_rtrancl rtranclp.rtrancl_refl)
  then show ?thesis by (intro exI [of _ ?s8]) (simp add: defs)
qed

theorem half_close_loses_reply_witness:
  "\<exists>t. (relay_step (proxy_conf True))\<^sup>*\<^sup>* (arrive Down ''reply'' (hang_up Up (arrive Up ''req'' (relay_init [])))) t \<and>
     rl_main t = RelayReturned \<and> pp_written (rl_pipe t Down) = []"
  using half_close_loses_reply [of "''req''" "proxy_conf True" "''reply''"] by blast

section \<open>The connection front\<close>

text \<open>C31. The proxy never serves more connections than its cap, and drains before it stops: with any configuration
  \<open>New\<close> accepts, in every interleaving, at most \<open>MaxConcurrentConns\<close> connections are in progress, one
  over the cap is dropped without touching the others, and when \<open>Serve\<close> has returned the context was cancelled and no
  connection and no channel is being served.\<close>

theorem proxy_bounded_and_drained:
  assumes "server_New cl cfg0 = Inr cfg" and "serve_reach (sc_max cfg) s"
  shows "0 < sc_max cfg \<and> int (length (sv_conns s)) \<le> sc_max cfg \<and>
    (int (length (sv_conns s)) = sc_max cfg \<longrightarrow> sv_conns (accept_conn (sc_max cfg) c s) = sv_conns s) \<and>
    (sv_phase s = ServeReturned \<longrightarrow> sv_cancelled s \<and> sv_conns s = [] \<and> sv_chans s = [])"
proof -
  have "0 < sc_max cfg" using assms(1) by (auto simp: server_New_def split: if_splits)
  with serve_ok [OF assms(2)] show ?thesis by (auto simp: accept_conn_def)
qed

theorem proxy_bounded_and_drained_witness:
  "sv_conns (accept_conn 1 9 (accept_conn 1 8 srv_init)) = [8]"
proof -
  let ?c = "\<lparr>sc_zone = ''z'', sc_keys = [''k''], sc_handler = Some (DenyHandler_Connect id []), sc_handshake = 1, sc_max = 1, sc_idle = 1\<rparr>
    :: unit server_config"
  have n: "server_New id ?c = Inr ?c" by (simp add: server_New_def)
  have "serve_step 1 srv_init (accept_conn 1 8 srv_init)" by (rule srv_accept) (simp_all add: srv_init_def)
  then have "serve_reach (sc_max ?c) (accept_conn 1 8 srv_init)" by (simp add: serve_more [OF serve_start])
  from proxy_bounded_and_drained [OF n this, of 9] show ?thesis by (simp add: accept_conn_def srv_init_def)
qed

text \<open>A channel is served exactly for port 22 of a one-label host in the zone: the label handed to
  the tunnel handler is the host in lower case, without a final dot and without the zone, and contains no dot; every other request
  is rejected without touching anything.\<close>

theorem only_zone_hosts_served:
  "(\<exists>e. fst (handleDirectTCPIP cfg info payload None s) = Served e) \<longleftrightarrow>
    (\<exists>req (r :: Route) h. payload = Inr req \<and> dr_port req = 22 \<and> sc_handler cfg = Some h \<and>
       CHR ''.'' \<notin> set (ro_prefix r) \<and> ro_prefix r \<noteq> [] \<and> ro_zone r = ToLower (TrimPrefix (sc_zone cfg) ''.'') \<and> ro_zone r \<noteq> [] \<and>
       ToLower (TrimSuffix (dr_host req) ''.'') = ro_prefix r @ ''.'' @ ro_zone r \<and>
       handleDirectTCPIP cfg info payload None s = (Served (fst (h info (ro_prefix r) s)), snd (h info (ro_prefix r) s)))"
  (is "?l \<longleftrightarrow> ?r")
proof
  assume ?l
  then obtain req r h where q: "payload = Inr req" "ExtractRoute (dr_host req) (sc_zone cfg) = Inr r" "dr_port req = 22" "sc_handler cfg = Some h"
    by (auto simp: handleDirectTCPIP_def split: sum.splits if_splits option.splits)
  then have "handleDirectTCPIP cfg info payload None s = (Served (fst (h info (ro_prefix r) s)), snd (h info (ro_prefix r) s))"
    by (simp add: handleDirectTCPIP_def split: prod.split)
  with q q(2) [unfolded ExtractRoute_Inr Let_def] show ?r
    by (intro exI [of _ req] exI [of _ r] exI [of _ h]) simp
next
  assume ?r
  then show ?l by auto
qed

end
