(* ===== verification/MuxServer.thy ===== *)
theory MuxServer
  imports Wire MuxRegistry TtlCache
begin

text \<open>
  The mux endpoint of ssh-proxy: \<open>muxserver/auth.go\<close>, which asks main-api whether an agent's token is
  good and may cache the answer, and \<open>muxserver/server.go\<close>, which takes a TLS connection through the header, the check
  and the registration of its session. TLS, yamux and JSON are parameters: a connection is what its handshake and its
  bytes turn out to be.
\<close>

section \<open>The verifier (\<open>auth.go\<close>)\<close>

definition ErrUnauthenticated :: err where
  "ErrUnauthenticated = Err ''muxserver: unauthenticated''"

record AuthRequest =
  aq_node :: string
  aq_token :: string
  aq_version :: string

record AuthResult =
  as_node :: string
  as_policy :: string
  as_team :: string
  as_version :: string

record wireResponse =
  wr_ok :: bool
  wr_node :: string
  wr_policy :: string
  wr_team :: string
  wr_version :: string

record verify_json =
  vj_Marshal :: "(string \<times> string) list \<Rightarrow> err + string"
  vj_NewRequest :: "string \<Rightarrow> err option"
  vj_Unmarshal :: "string \<Rightarrow> err + wireResponse"

record verifier_config =
  vc_base :: string
  vc_token :: string
  vc_ttl :: int

definition NewHTTPVerifier :: "verifier_config \<Rightarrow> verifier_config" where
  "NewHTTPVerifier cfg = cfg\<lparr>vc_ttl := (if vc_ttl cfg < 0 then 0 else vc_ttl cfg)\<rparr>"

record 'm verifier =
  hv_cache :: "string \<times> string \<Rightarrow> (AuthResult \<times> time) option"
  hv_api :: 'm

definition auth_request :: "verifier_config \<Rightarrow> string \<Rightarrow> http_request" where
  "auth_request cfg body = \<lparr>hq_method = ''POST'', hq_url = vc_base cfg @ ''/internal/agent-auth'',
     hq_authorization = ''Bearer '' @ vc_token cfg, hq_body = body\<rparr>"

definition wire_result :: "wireResponse \<Rightarrow> AuthResult" where
  "wire_result w = \<lparr>as_node = wr_node w, as_policy = wr_policy w, as_team = wr_team w, as_version = wr_version w\<rparr>"

text \<open>The part of \<open>Verify\<close> after a cache miss.\<close>

definition call_agent_auth ::
  "verify_json \<Rightarrow> 'm transport \<Rightarrow> verifier_config \<Rightarrow> string \<Rightarrow> string \<Rightarrow> ('m, AuthResult) action" where
  "call_agent_auth J net cfg nd tok m = (case vj_Marshal J [(''node_id'', nd), (''token'', tok)] of
       Inl e \<Rightarrow> (Inl (WrapErr ''marshal: '' e []), m)
     | Inr body \<Rightarrow> (case vj_NewRequest J (vc_base cfg @ ''/internal/agent-auth'') of
         Some e \<Rightarrow> (Inl (WrapErr ''new request: '' e []), m)
       | None \<Rightarrow> (case net (auth_request cfg body) m of
           (Inl e, m') \<Rightarrow> (Inl (WrapErr ''agent-auth call: '' e []), m')
         | (Inr (st, resp), m') \<Rightarrow>
             if st = 200 then
               (case vj_Unmarshal J (take 8192 resp) of
                  Inl e \<Rightarrow> (Inl (WrapErr ''decode 200: '' e []), m')
                | Inr w \<Rightarrow> if \<not> wr_ok w then (Inl ErrUnauthenticated, m') else (Inr (wire_result w), m'))
             else if st = 401 then (Inl ErrUnauthenticated, m')
             else (Inl (Err (''agent-auth status '' @ dec_nat st)), m'))))"

text \<open>\<open>now\<close> and \<open>fin\<close> are the two readings of the clock.\<close>

definition HTTPVerifier_Verify ::
  "verify_json \<Rightarrow> 'm transport \<Rightarrow> verifier_config \<Rightarrow> AuthRequest \<Rightarrow> time \<Rightarrow> time \<Rightarrow> ('m verifier, AuthResult) action" where
  "HTTPVerifier_Verify J net cfg req now fin s =
     (let key = (aq_node req, aq_token req) in
      case cache_hit (vc_ttl cfg) now (hv_cache s key) of
        Some r \<Rightarrow> (Inr r, s)
      | None \<Rightarrow> (case call_agent_auth J net cfg (aq_node req) (aq_token req) (hv_api s) of
          (Inl e, m) \<Rightarrow> (Inl e, s\<lparr>hv_api := m\<rparr>)
        | (Inr r, m) \<Rightarrow> (Inr r, s\<lparr>hv_api := m,
            hv_cache := (if vc_ttl cfg > 0 then (hv_cache s)(key \<mapsto> (r, fin + vc_ttl cfg)) else hv_cache s)\<rparr>)))"

section \<open>Connections (\<open>server.go\<close>)\<close>

definition classifyHandshakeError :: "err \<Rightarrow> string" where
  "classifyHandshakeError e = (let msg = err_text e in
     if Contains msg ''tls: client offered only unsupported versions'' \<or> Contains msg ''tls: no application protocol'' \<or>
        Contains msg ''protocol version not supported'' then ''tls_downgrade''
     else if Contains msg ''EOF'' then ''tls_downgrade'' else ''tls_handshake_failed'')"

definition readAuthHeader :: "(string \<Rightarrow> err + AuthRequest) \<Rightarrow> string \<Rightarrow> read_end \<Rightarrow> err + AuthRequest" where
  "readAuthHeader unmarshal bytes fin = (case read_header_line bytes fin of
       Inl e \<Rightarrow> Inl e
     | Inr (line, rest) \<Rightarrow> (case unmarshal line of
         Inl e \<Rightarrow> Inl e
       | Inr req \<Rightarrow> if aq_node req = [] \<or> aq_token req = [] then Inl (Err ''missing node_id or token'') else Inr req))"

text \<open>What an agent's connection does: the TLS handshake, the bytes that arrive in time, and what yamux makes
  of the rest.\<close>

record agent_conn =
  ac_handshake :: "err option"
  ac_bytes :: string
  ac_end :: read_end
  ac_now :: time
  ac_done :: time
  ac_yamux :: "err + nat"

record 'm mux_srv =
  ms_registry :: mux
  ms_verifier :: "'m verifier"
  ms_failures :: "string list" \<comment> \<open>the reasons counted by the metrics\<close>
  ms_accepted :: nat

definition failure :: "string \<Rightarrow> 'm mux_srv \<Rightarrow> 'm mux_srv" where
  "failure reason s = s\<lparr>ms_failures := ms_failures s @ [reason]\<rparr>"

text \<open>The metrics are configured. The previous session of the node is closed by the registry; \<open>prev.Close\<close>
  closes it again.\<close>

definition mux_handleConn ::
  "verify_json \<Rightarrow> 'm transport \<Rightarrow> verifier_config \<Rightarrow> (string \<Rightarrow> err + AuthRequest) \<Rightarrow> agent_conn \<Rightarrow> 'm mux_srv \<Rightarrow> 'm mux_srv" where
  "mux_handleConn J net cfg unmarshal c s = (case ac_handshake c of
       Some e \<Rightarrow> failure (classifyHandshakeError e) s
     | None \<Rightarrow> (case readAuthHeader unmarshal (ac_bytes c) (ac_end c) of
         Inl e \<Rightarrow> failure ''bad_header'' s
       | Inr req \<Rightarrow> (case HTTPVerifier_Verify J net cfg req (ac_now c) (ac_done c) (ms_verifier s) of
           (Inl e, v) \<Rightarrow> failure (if err_is e ErrUnauthenticated then ''unauthenticated'' else ''auth_call_failed'') (s\<lparr>ms_verifier := v\<rparr>)
         | (Inr r, v) \<Rightarrow> (case ac_yamux c of
             Inl e \<Rightarrow> failure ''yamux_init_failed'' (s\<lparr>ms_verifier := v\<rparr>)
           | Inr sess \<Rightarrow> (case mux_Register (as_node r) sess (as_version r) (ms_registry s) of
               (prev, reg) \<Rightarrow> s\<lparr>ms_verifier := v, ms_accepted := Suc (ms_accepted s),
                 ms_registry := (case prev of None \<Rightarrow> reg | Some p \<Rightarrow> close_sess p reg)\<rparr>)))))"

record mux_deps =
  md_tls :: "bool option" \<comment> \<open>whether a TLS configuration is given, and has certificates\<close>
  md_min_version :: nat
  md_verifier :: bool
  md_registry :: bool
  md_log :: bool
  md_handshake :: int

definition VersionTLS13 :: nat where
  "VersionTLS13 = 772"

definition validateDeps :: "mux_deps \<Rightarrow> err option" where
  "validateDeps d =
     (if md_tls d \<noteq> Some True then Some (Err ''muxserver: TLSConfig with certificates required'')
      else if \<not> md_verifier d then Some (Err ''muxserver: Verifier required'')
      else if \<not> md_registry d then Some (Err ''muxserver: Registry required'')
      else if \<not> md_log d then Some (Err ''muxserver: Log required'')
      else None)"

text \<open>What \<open>Serve\<close> makes of its configuration before it accepts.\<close>

definition mux_Serve_setup :: "mux_deps \<Rightarrow> err + (nat \<times> int)" where
  "mux_Serve_setup d = (case validateDeps d of
       Some e \<Rightarrow> Inl e
     | None \<Rightarrow> Inr (if md_min_version d < VersionTLS13 then VersionTLS13 else md_min_version d,
                    if md_handshake d \<le> 0 then 30 * second else md_handshake d))"

text \<open>The accept loop: what \<open>Accept\<close> gives, with whether the context is cancelled. The result says what
  \<open>Serve\<close> returns, if it does.\<close>

datatype accepted_conn = AcceptErr err | Accepted agent_conn

definition net_closed :: err where
  "net_closed = Err ''use of closed network connection''"

fun mux_Serve_loop :: "(agent_conn \<Rightarrow> 's \<Rightarrow> 's) \<Rightarrow> (bool \<times> accepted_conn) list \<Rightarrow> 's \<Rightarrow> err option option \<times> 's" where
  "mux_Serve_loop h [] s = (None, s)"
| "mux_Serve_loop h ((cancelled, AcceptErr e) # xs) s =
     (if cancelled then (Some (Some (Err ''context canceled'')), s)
      else if err_is e net_closed then (Some None, s)
      else mux_Serve_loop h xs s)"
| "mux_Serve_loop h ((cancelled, Accepted c) # xs) s = mux_Serve_loop h xs (h c s)"

section \<open>The verifier as a cache\<close>

definition verifier_answer :: "('m verifier, AuthResult) action \<Rightarrow> 'm verifier \<Rightarrow> AuthResult option \<times> 'm verifier" where
  "verifier_answer m s = (case m s of (Inl e, s') \<Rightarrow> (None, s') | (Inr r, s') \<Rightarrow> (Some r, s'))"

definition verifier_look ::
  "verify_json \<Rightarrow> 'm transport \<Rightarrow> verifier_config \<Rightarrow> string \<times> string \<Rightarrow> time \<Rightarrow> time \<Rightarrow> 'm verifier \<Rightarrow> AuthResult option \<times> 'm verifier" where
  "verifier_look J net cfg k now fin =
     verifier_answer (HTTPVerifier_Verify J net cfg \<lparr>aq_node = fst k, aq_token = snd k, aq_version = []\<rparr> now fin)"

definition verifier_ask :: "verify_json \<Rightarrow> 'm transport \<Rightarrow> verifier_config \<Rightarrow> string \<times> string \<Rightarrow> 'm verifier \<Rightarrow> AuthResult option" where
  "verifier_ask J net cfg k s = (case fst (call_agent_auth J net cfg (fst k) (snd k) (hv_api s)) of Inl _ \<Rightarrow> None | Inr r \<Rightarrow> Some r)"

lemma Verify_look:
  "verifier_answer (HTTPVerifier_Verify J net cfg req now fin) s = verifier_look J net cfg (aq_node req, aq_token req) now fin s"
  by (cases "cache_hit (vc_ttl cfg) now (hv_cache s (aq_node req, aq_token req))")
    (simp_all add: verifier_look_def verifier_answer_def HTTPVerifier_Verify_def Let_def)

lemma verifier_hit:
  assumes "0 < vc_ttl cfg" "hv_cache s k = Some (v, ex)" "now < ex"
  shows "verifier_look J net cfg k now fin s = (Some v, s)"
  using assms by (simp add: verifier_look_def verifier_answer_def HTTPVerifier_Verify_def cache_hit_def Let_def)

lemma verifier_miss:
  assumes "\<not> (0 < vc_ttl cfg \<and> (\<exists>v ex. hv_cache s k = Some (v, ex) \<and> now < ex))"
    and "verifier_look J net cfg k now fin s = (r, s')"
  shows "r = verifier_ask J net cfg k s \<and>
    hv_cache s' k' = (if k' = k \<and> 0 < vc_ttl cfg \<and> r \<noteq> None then Some (the r, fin + vc_ttl cfg) else hv_cache s k')"
proof -
  from assms(1) have h: "cache_hit (vc_ttl cfg) now (hv_cache s k) = None" by (simp only: cache_hit_None not_False_eq_True)
  obtain a m where "call_agent_auth J net cfg (fst k) (snd k) (hv_api s) = (a, m)" by fastforce
  with h assms(2) show ?thesis
    by (cases a) (auto simp: verifier_look_def verifier_answer_def HTTPVerifier_Verify_def verifier_ask_def Let_def)
qed

interpretation proxy_auth: ttl_cache "verifier_ask J net cfg" "verifier_look J net cfg" hv_cache "vc_ttl cfg"
  for J :: verify_json and net :: "'m transport" and cfg
  by unfold_locales (rule verifier_hit verifier_miss; assumption)+

section \<open>Lemmas\<close>

lemma call_agent_auth_Inr:
  assumes "call_agent_auth J net cfg nd tok m = (Inr r, m')"
  shows "\<exists>body resp w. vj_Marshal J [(''node_id'', nd), (''token'', tok)] = Inr body \<and>
    net (auth_request cfg body) m = (Inr (200, resp), m') \<and> vj_Unmarshal J (take 8192 resp) = Inr w \<and> wr_ok w \<and> r = wire_result w"
  using assms
  by (auto simp: call_agent_auth_def split: sum.splits option.splits prod.splits if_splits)

lemma mux_handleConn_registers:
  assumes "ms_accepted (mux_handleConn J net cfg unm c s) \<noteq> ms_accepted s"
  shows "\<exists>req r v sess. ac_handshake c = None \<and> readAuthHeader unm (ac_bytes c) (ac_end c) = Inr req \<and>
    HTTPVerifier_Verify J net cfg req (ac_now c) (ac_done c) (ms_verifier s) = (Inr r, v) \<and> ac_yamux c = Inr sess \<and>
    ms_verifier (mux_handleConn J net cfg unm c s) = v \<and>
    ms_registry (mux_handleConn J net cfg unm c s) = snd (mux_Register (as_node r) sess (as_version r) (ms_registry s))"
  using assms
  by (auto simp: mux_handleConn_def failure_def mux_Register_def Let_def close_sess_def cancel_entry_def
      split: option.splits sum.splits prod.splits if_splits)

section \<open>What is counted (\<open>metrics.go\<close>)\<close>

record PromMetrics =
  authFailures :: "string \<Rightarrow> nat" \<comment> \<open>a counter per reason\<close>
  sessionsAccepted :: nat

definition NewPromMetrics :: PromMetrics where
  "NewPromMetrics = \<lparr>authFailures = (\<lambda>_. 0), sessionsAccepted = 0\<rparr>"

definition AuthFailure :: "string \<Rightarrow> PromMetrics \<Rightarrow> PromMetrics" where
  "AuthFailure reason m = m\<lparr>authFailures := (authFailures m)(reason := Suc (authFailures m reason))\<rparr>"

definition SessionAccepted :: "PromMetrics \<Rightarrow> PromMetrics" where
  "SessionAccepted m = m\<lparr>sessionsAccepted := Suc (sessionsAccepted m)\<rparr>"

text \<open>The server reports to them in \<open>failure\<close> and after the registration of a session.\<close>

definition prom_view :: "'m mux_srv \<Rightarrow> PromMetrics" where
  "prom_view s = \<lparr>authFailures = count_list (ms_failures s), sessionsAccepted = ms_accepted s\<rparr>"

lemma prom_view_failure: "prom_view (failure reason s) = AuthFailure reason (prom_view s)"
  by (auto simp: prom_view_def failure_def AuthFailure_def fun_eq_iff)

lemma prom_view_start: "ms_failures s = [] \<Longrightarrow> ms_accepted s = 0 \<Longrightarrow> prom_view s = NewPromMetrics"
  by (simp add: prom_view_def NewPromMetrics_def fun_eq_iff)

text \<open>Every connection is counted once: as one failure, under one of six reasons and with the registry
  as it was, or as one accepted session.\<close>

theorem connection_counted_once:
  "(\<exists>reason\<in>{''tls_downgrade'', ''tls_handshake_failed'', ''bad_header'', ''unauthenticated'', ''auth_call_failed'', ''yamux_init_failed''}.
      prom_view (mux_handleConn J net cfg unm c s) = AuthFailure reason (prom_view s) \<and>
      ms_registry (mux_handleConn J net cfg unm c s) = ms_registry s) \<or>
   prom_view (mux_handleConn J net cfg unm c s) = SessionAccepted (prom_view s)"
proof -
  have cl: "classifyHandshakeError e = ''tls_downgrade'' \<or> classifyHandshakeError e = ''tls_handshake_failed''" for e
    by (simp add: classifyHandshakeError_def Let_def)
  have v: "prom_view (s\<lparr>ms_verifier := w\<rparr>) = prom_view s" for w by (simp add: prom_view_def)
  have r: "ms_registry (failure x y) = ms_registry y" for x and y :: "'a mux_srv" by (simp add: failure_def)
  show ?thesis
  proof (cases "ac_handshake c")
    case (Some e)
    with cl [of e] show ?thesis by (auto simp: mux_handleConn_def prom_view_failure r)
  next
    case None
    show ?thesis
    proof (cases "readAuthHeader unm (ac_bytes c) (ac_end c)")
      case (Inl e)
      with None show ?thesis by (simp add: mux_handleConn_def prom_view_failure r)
    next
      case (Inr req)
      obtain q w where q: "HTTPVerifier_Verify J net cfg req (ac_now c) (ac_done c) (ms_verifier s) = (q, w)" by fastforce
      show ?thesis
      proof (cases q)
        case (Inl e)
        with None Inr q show ?thesis by (simp add: mux_handleConn_def prom_view_failure r v)
      next
        case (Inr a)
        note to = None \<open>readAuthHeader _ _ _ = Inr req\<close> q Inr
        show ?thesis
        proof (cases "ac_yamux c")
          case (Inl e)
          with to show ?thesis by (simp add: mux_handleConn_def prom_view_failure r v)
        next
          case (Inr sess)
          with to show ?thesis
            by (simp add: mux_handleConn_def prom_view_def SessionAccepted_def split: prod.split)
        qed
      qed
    qed
  qed
qed

end
