(* ===== verification/RevokeProps.thy ===== *)
theory RevokeProps
  imports MuxServer GateProps
begin

text \<open>
  Properties of the agents' credentials across ssh-proxy and main-api: both sides cache positive
  answers, and a session enters the mux registry only through them.
\<close>

section \<open>Two caches in a row\<close>

text \<open>One verification: what the connection presents, when ssh-proxy tests its cache and stores the answer, when
  main-api's handler does, the database main-api finds, and whether the answer is lost on the way back.\<close>

record 'z va_call =
  va_node :: string
  va_token :: string
  va_now :: time
  va_mid :: time
  va_mid_done :: time
  va_fin :: time
  va_db :: "'z pg_scheme"
  va_lost :: bool

record aa_wire =
  aw_decode :: "string \<Rightarrow> aa_request body_in"
  aw_render :: "aa_response \<Rightarrow> string"

definition aa_status :: "aa_response \<Rightarrow> nat" where
  "aa_status r = (case r of AAError st _ _ \<Rightarrow> st | AAOk _ _ _ _ \<Rightarrow> 200)"

definition served :: "auth_lib \<Rightarrow> ext \<Rightarrow> int \<Rightarrow> aa_wire \<Rightarrow> 'z va_call \<Rightarrow> 'z aa_state transport" where
  "served A X ttl w c q m = (case AgentAuth_ServeHTTP A X ttl (va_mid c) (va_mid_done c) (hq_method q = ''POST'')
       (aw_decode w (hq_body q)) (m\<lparr>aa_db := va_db c\<rparr>) of
     (r, m') \<Rightarrow> (if va_lost c then Inl (Err ''deadline exceeded'') else Inr (aa_status r, aw_render w r), m'))"

definition va_verify ::
  "auth_lib \<Rightarrow> ext \<Rightarrow> int \<Rightarrow> aa_wire \<Rightarrow> verify_json \<Rightarrow> verifier_config \<Rightarrow> 'z va_call \<Rightarrow> ('z aa_state verifier, AuthResult) action" where
  "va_verify A X ttl w J cfg c = HTTPVerifier_Verify J (served A X ttl w c) cfg
     \<lparr>aq_node = va_node c, aq_token = va_token c, aq_version = []\<rparr> (va_now c) (va_fin c)"

definition va_run ::
  "auth_lib \<Rightarrow> ext \<Rightarrow> int \<Rightarrow> aa_wire \<Rightarrow> verify_json \<Rightarrow> verifier_config \<Rightarrow> 'z va_call list \<Rightarrow> 'z aa_state verifier \<Rightarrow> 'z aa_state verifier" where
  "va_run A X ttl w J cfg cs s = fold (\<lambda>c s. snd (va_verify A X ttl w J cfg c s)) cs s"

text \<open>What \<open>encoding/json\<close> gives: main-api decodes the node and the token ssh-proxy encoded.\<close>

definition request_decoded :: "verify_json \<Rightarrow> aa_wire \<Rightarrow> string \<Rightarrow> string \<Rightarrow> bool" where
  "request_decoded J w ns tok \<longleftrightarrow> (\<forall>body. vj_Marshal J [(''node_id'', ns), (''token'', tok)] = Inr body \<longrightarrow>
     aw_decode w body = Decoded \<lparr>ar_node = ns, ar_token = tok\<rparr>)"

lemma serve_state:
  "snd (AgentAuth_ServeHTTP A X ttl now fin p body s) = s \<or>
   (\<exists>k. snd (AgentAuth_ServeHTTP A X ttl now fin p body s) = snd (lookup_token A ttl (fst k) (snd k) now fin s))"
  by (auto simp: AgentAuth_ServeHTTP_def split: body_in.split sum.split prod.split option.split) (metis fst_conv snd_conv)+

lemma serve_before:
  assumes "agent_auth.until (T + ttl) k s" and "fin \<le> T"
  shows "agent_auth.until (T + ttl) k (snd (AgentAuth_ServeHTTP A X ttl now fin p body s))"
proof -
  have "agent_auth.until (T + ttl) k (snd (lookup_token A ttl (fst k') (snd k') now fin s))" for k'
    using agent_auth.look_until [of A ttl k' now fin s _ _ "T + ttl" k] assms by (metis add_right_mono prod.collapse)
  with serve_state [of A X ttl now fin p body s] assms(1) show ?thesis by metis
qed

lemma serve_later:
  assumes "agent_auth.until d (nd, tok) s" and "inactive A nd tok (aa_db s)"
  shows "agent_auth.until d (nd, tok) (snd (AgentAuth_ServeHTTP A X ttl now fin p body s))"
proof -
  have "agent_auth.until d (nd, tok) (snd (lookup_token A ttl (fst k) (snd k) now fin s))" for k
  proof (cases "k = (nd, tok)")
    case True
    with agent_auth.refused_until [of A ttl "(nd, tok)" now fin s _ _ d] assms inactive_refused [OF assms(2)]
    show ?thesis by (metis fst_conv snd_conv prod.collapse)
  next
    case False
    with agent_auth.other_until [of A ttl k now fin s _ _ "(nd, tok)" d] assms(1) show ?thesis by (metis prod.collapse)
  qed
  with serve_state [of A X ttl now fin p body s] assms(1) show ?thesis by metis
qed

lemma serve_refused:
  assumes "agent_auth.until d (nd, tok) s" and "inactive A nd tok (aa_db s)" and "d \<le> now" and "uuid_Parse X ns = Inr nd"
  shows "aa_status (fst (AgentAuth_ServeHTTP A X ttl now fin p (Decoded \<lparr>ar_node = ns, ar_token = tok\<rparr>) s)) \<noteq> 200"
proof -
  from agent_auth.refused_after [OF assms(1) _ assms(3), of A ttl fin] inactive_refused [OF assms(2)]
  have "fst (lookup_token A ttl nd tok now fin s) = None" by simp
  then show ?thesis using assms(4)
    by (cases "lookup_token A ttl nd tok now fin s") (simp add: AgentAuth_ServeHTTP_def aa_status_def)
qed

lemma until_api: "proxy_auth.until d k (s\<lparr>hv_api := m\<rparr>) = proxy_auth.until d k s"
  by (simp add: proxy_auth.until_def)

lemma Verify_api:
  "hv_api (snd (HTTPVerifier_Verify J net cfg req now fin s)) = hv_api s \<or>
   (\<exists>q. hv_api (snd (HTTPVerifier_Verify J net cfg req now fin s)) = snd (net q (hv_api s)))"
  by (auto simp: HTTPVerifier_Verify_def Let_def call_agent_auth_def split: option.split sum.split prod.split) (metis snd_conv)+

lemma Verify_entry:
  assumes "HTTPVerifier_Verify J net cfg req now fin s = (r, s')"
  shows "hv_cache s' k = hv_cache s k \<or>
    (\<exists>v. k = (aq_node req, aq_token req) \<and> fst (call_agent_auth J net cfg (aq_node req) (aq_token req) (hv_api s)) = Inr v \<and>
       hv_cache s' k = Some (v, fin + vc_ttl cfg))"
  using assms by (auto simp: HTTPVerifier_Verify_def Let_def fun_upd_def split: option.splits prod.splits sum.splits if_splits)

text \<open>The invariant of the two caches: no entry for the node's token outlives its bound on either side.\<close>

definition bounded :: "time \<Rightarrow> time \<Rightarrow> string \<Rightarrow> uuid \<Rightarrow> string \<Rightarrow> 'z aa_state verifier \<Rightarrow> bool" where
  "bounded B M ns nd tok s \<longleftrightarrow> proxy_auth.until B (ns, tok) s \<and> agent_auth.until M (nd, tok) (hv_api s)"

lemma served_state: "snd (served A X ttl w c q m) = snd (AgentAuth_ServeHTTP A X ttl (va_mid c) (va_mid_done c)
    (hq_method q = ''POST'') (aw_decode w (hq_body q)) (m\<lparr>aa_db := va_db c\<rparr>))"
  by (simp add: served_def split: prod.split)

lemma va_api:
  "hv_api (snd (va_verify A X ttl w J cfg c s)) = hv_api s \<or>
   (\<exists>p body. hv_api (snd (va_verify A X ttl w J cfg c s)) =
      snd (AgentAuth_ServeHTTP A X ttl (va_mid c) (va_mid_done c) p body ((hv_api s)\<lparr>aa_db := va_db c\<rparr>)))"
  using Verify_api [of J "served A X ttl w c" cfg "\<lparr>aq_node = va_node c, aq_token = va_token c, aq_version = []\<rparr>" "va_now c" "va_fin c" s]
  unfolding va_verify_def served_state by blast

lemma va_before:
  assumes "bounded B (T + ttl) ns nd tok s" and "va_mid_done c \<le> T" and "va_fin c + vc_ttl cfg \<le> B"
  shows "bounded B (T + ttl) ns nd tok (snd (va_verify A X ttl w J cfg c s))"
proof -
  obtain r s' where v: "va_verify A X ttl w J cfg c s = (r, s')" by fastforce
  have "agent_auth.until (T + ttl) (nd, tok) (hv_api s')"
    using va_api [of A X ttl w J cfg c s] v assms(1,2)
    by (elim disjE exE) (simp_all add: bounded_def serve_before until_db)
  moreover have "proxy_auth.until B (ns, tok) s'"
    using Verify_entry [OF v [unfolded va_verify_def], of "(ns, tok)"] assms(1,3)
    by (auto simp: bounded_def proxy_auth.until_def)
  ultimately show ?thesis by (simp add: v bounded_def)
qed

lemma va_accepts_early:
  assumes "agent_auth.until M (nd, tok) (hv_api s)" and "inactive A nd tok (va_db c)" and "uuid_Parse X ns = Inr nd"
    and "request_decoded J w ns tok" and "fst (call_agent_auth J (served A X ttl w c) cfg ns tok (hv_api s)) = Inr v"
  shows "va_mid c < M"
proof (rule ccontr)
  assume "\<not> va_mid c < M"
  then have le: "M \<le> va_mid c" by simp
  from assms(5) obtain m' where "call_agent_auth J (served A X ttl w c) cfg ns tok (hv_api s) = (Inr v, m')" by (metis prod.collapse)
  from call_agent_auth_Inr [OF this] obtain body resp where b: "vj_Marshal J [(''node_id'', ns), (''token'', tok)] = Inr body"
    "served A X ttl w c (auth_request cfg body) (hv_api s) = (Inr (200, resp), m')" by auto
  with assms(4) have "aw_decode w body = Decoded \<lparr>ar_node = ns, ar_token = tok\<rparr>" by (simp add: request_decoded_def)
  with b(2) have "aa_status (fst (AgentAuth_ServeHTTP A X ttl (va_mid c) (va_mid_done c) True
      (Decoded \<lparr>ar_node = ns, ar_token = tok\<rparr>) ((hv_api s)\<lparr>aa_db := va_db c\<rparr>))) = 200"
    by (auto simp: served_def auth_request_def split: prod.splits if_splits)
  with serve_refused [of M nd tok "(hv_api s)\<lparr>aa_db := va_db c\<rparr>" A "va_mid c" X ns] assms(1-3) le show False
    by (simp add: until_db)
qed

lemma va_later:
  assumes "bounded B M ns nd tok s" and "inactive A nd tok (va_db c)" and "uuid_Parse X ns = Inr nd" and "request_decoded J w ns tok"
    and "va_fin c \<le> va_mid c + D" and "M + D + vc_ttl cfg \<le> B"
  shows "bounded B M ns nd tok (snd (va_verify A X ttl w J cfg c s))"
proof -
  obtain r s' where v: "va_verify A X ttl w J cfg c s = (r, s')" by fastforce
  have "agent_auth.until M (nd, tok) (hv_api s')"
    using va_api [of A X ttl w J cfg c s] v assms(1,2)
    by (elim disjE exE) (simp_all add: bounded_def serve_later until_db)
  moreover have "proxy_auth.until B (ns, tok) s'"
    using Verify_entry [OF v [unfolded va_verify_def], of "(ns, tok)"]
  proof (elim disjE exE conjE)
    assume "hv_cache s' (ns, tok) = hv_cache s (ns, tok)"
    with assms(1) show ?thesis by (simp add: bounded_def proxy_auth.until_def)
  next
    fix x assume "fst (call_agent_auth J (served A X ttl w c) cfg
          (aq_node \<lparr>aq_node = va_node c, aq_token = va_token c, aq_version = []\<rparr>)
          (aq_token \<lparr>aq_node = va_node c, aq_token = va_token c, aq_version = []\<rparr>) (hv_api s)) = Inr x"
      and "(ns, tok) = (aq_node \<lparr>aq_node = va_node c, aq_token = va_token c, aq_version = []\<rparr>,
          aq_token \<lparr>aq_node = va_node c, aq_token = va_token c, aq_version = []\<rparr>)"
      and e: "hv_cache s' (ns, tok) = Some (x, va_fin c + vc_ttl cfg)"
    then have "va_mid c < M" using va_accepts_early assms(1-4) by (auto simp: bounded_def)
    with e assms(5,6) show ?thesis by (simp add: proxy_auth.until_def)
  qed
  ultimately show ?thesis by (simp add: v bounded_def)
qed

lemma va_run_bounded:
  assumes "bounded B M ns nd tok s" and "\<And>c s. c \<in> set cs \<Longrightarrow> bounded B M ns nd tok s \<Longrightarrow> bounded B M ns nd tok (snd (va_verify A X ttl w J cfg c s))"
  shows "bounded B M ns nd tok (va_run A X ttl w J cfg cs s)"
  using assms by (induction cs arbitrary: s) (auto simp: va_run_def)

text \<open>Revocation reaches ssh-proxy within the sum of the two caches' lives: after any verifications done
  by time \<open>T\<close>, and any later ones that find no active row for the node's token in main-api's database and
  whose answers take at most \<open>D\<close> on the way, no verification that starts \<open>ttl + D + CacheTTL\<close> or more after
  \<open>T\<close> succeeds.\<close>

theorem revoked_across_both_caches:
  assumes "\<forall>c\<in>set before. va_mid_done c \<le> T \<and> va_fin c \<le> T"
    and "\<forall>c\<in>set (later @ [c0]). inactive A nd tok (va_db c) \<and> va_fin c \<le> va_mid c + D"
    and "va_node c0 = ns" and "va_token c0 = tok" and "uuid_Parse X ns = Inr nd" and "request_decoded J w ns tok"
    and "0 \<le> ttl" and "0 \<le> D" and "0 \<le> vc_ttl cfg" and "T + ttl + D + vc_ttl cfg \<le> va_now c0" and "va_now c0 \<le> va_mid c0"
  shows "isl (fst (va_verify A X ttl w J cfg c0
    (va_run A X ttl w J cfg (before @ later) \<lparr>hv_cache = (\<lambda>_. None), hv_api = \<lparr>aa_cache = (\<lambda>_. None), aa_db = db\<rparr>\<rparr>)))"
proof -
  let ?B = "T + ttl + D + vc_ttl cfg" and ?M = "T + ttl"
  let ?start = "\<lparr>hv_cache = (\<lambda>_. None), hv_api = \<lparr>aa_cache = (\<lambda>_. None), aa_db = db\<rparr>\<rparr>"
  let ?s = "va_run A X ttl w J cfg (before @ later) ?start"
  have s0: "bounded ?B ?M ns nd tok ?start" by (simp add: bounded_def agent_auth.until_def proxy_auth.until_def)
  have "bounded ?B ?M ns nd tok ?s"
  proof (rule va_run_bounded [OF s0])
    fix c and s :: "'a aa_state verifier" assume c: "c \<in> set (before @ later)" and b: "bounded ?B ?M ns nd tok s"
    show "bounded ?B ?M ns nd tok (snd (va_verify A X ttl w J cfg c s))"
    proof (cases "c \<in> set before")
      case True
      with assms(1,7-9) show ?thesis by (intro va_before [OF b]) fastforce+
    next
      case False
      with c assms(2,5,6) show ?thesis by (intro va_later [OF b]) auto
    qed
  qed
  then have p: "proxy_auth.until ?B (ns, tok) ?s" and m: "agent_auth.until ?M (nd, tok) (hv_api ?s)" by (simp_all add: bounded_def)
  have miss: "cache_hit (vc_ttl cfg) (va_now c0) (hv_cache ?s (ns, tok)) = None"
    using p assms(10) by (cases "hv_cache ?s (ns, tok)") (auto simp: cache_hit_def proxy_auth.until_def)
  have "\<nexists>v. fst (call_agent_auth J (served A X ttl w c0) cfg ns tok (hv_api ?s)) = Inr v"
  proof
    assume "\<exists>v. fst (call_agent_auth J (served A X ttl w c0) cfg ns tok (hv_api ?s)) = Inr v"
    then have "va_mid c0 < ?M" using va_accepts_early [OF m _ assms(5,6)] assms(2) by auto
    with assms(8-11) show False by linarith
  qed
  then obtain e m' where "call_agent_auth J (served A X ttl w c0) cfg ns tok (hv_api ?s) = (Inl e, m')"
    by (metis prod.collapse obj_sumE)
  with miss assms(3,4) show ?thesis by (simp add: va_verify_def HTTPVerifier_Verify_def Let_def)
qed

definition rv_json :: verify_json where
  "rv_json = \<lparr>vj_Marshal = (\<lambda>l. if l = [(''node_id'', uuid_text 1), (''token'', ''secret'')] then Inr ''q'' else Inl (Err ''json'')),
     vj_NewRequest = (\<lambda>_. None),
     vj_Unmarshal = (\<lambda>b. if b = ''ok'' then Inr \<lparr>wr_ok = True, wr_node = uuid_text 1, wr_policy = ''public'', wr_team = [], wr_version = ''v1''\<rparr>
       else Inl (Err ''json''))\<rparr>"

definition rv_wire :: aa_wire where
  "rv_wire = \<lparr>aw_decode = (\<lambda>_. Decoded \<lparr>ar_node = uuid_text 1, ar_token = ''secret''\<rparr>),
     aw_render = (\<lambda>r. if r = AAOk (uuid_text 1) ''public'' [] ''v1'' then ''ok'' else [])\<rparr>"

definition rv_call :: "time option \<Rightarrow> time \<Rightarrow> unit va_call" where
  "rv_call rv t = \<lparr>va_node = uuid_text 1, va_token = ''secret'', va_now = t, va_mid = t, va_mid_done = t, va_fin = t,
     va_db = token_pg rv, va_lost = False\<rparr>"

definition rv_cfg :: verifier_config where
  "rv_cfg = \<lparr>vc_base = [], vc_token = [], vc_ttl = 30\<rparr>"

definition rv_start :: "unit aa_state verifier" where
  "rv_start = \<lparr>hv_cache = (\<lambda>_. None), hv_api = \<lparr>aa_cache = (\<lambda>_. None), aa_db = token_pg None\<rparr>\<rparr>"

abbreviation rv_run :: "unit va_call list \<Rightarrow> unit aa_state verifier \<Rightarrow> unit aa_state verifier" where
  "rv_run \<equiv> va_run sample_auth_lib sample_ext 60 rv_wire rv_json rv_cfg"

abbreviation rv_verify :: "unit va_call \<Rightarrow> (unit aa_state verifier, AuthResult) action" where
  "rv_verify \<equiv> va_verify sample_auth_lib sample_ext 60 rv_wire rv_json rv_cfg"

text \<open>The token is revoked at 20; it is still accepted at 98, and refused at 100.\<close>

theorem revoked_across_both_caches_witness:
  "\<not> isl (fst (rv_verify (rv_call (Some 20) 98) (rv_run ([rv_call None 10] @ [rv_call (Some 20) 69]) rv_start))) \<and>
   isl (fst (rv_verify (rv_call (Some 20) 100) (rv_run ([rv_call None 10] @ [rv_call (Some 20) 69]) rv_start)))"
proof -
  have "inactive sample_auth_lib 1 ''secret'' (token_pg (Some 20))" by (simp add: inactive_def token_pg_def)
  moreover have "uuid_Parse sample_ext (uuid_text 1) = Inr 1" by code_simp
  moreover have "request_decoded rv_json rv_wire (uuid_text 1) ''secret''" by (simp add: request_decoded_def rv_wire_def)
  ultimately have "isl (fst (rv_verify (rv_call (Some 20) 100) (rv_run ([rv_call None 10] @ [rv_call (Some 20) 69])
      \<lparr>hv_cache = (\<lambda>_. None), hv_api = \<lparr>aa_cache = (\<lambda>_. None), aa_db = token_pg None\<rparr>\<rparr>)))"
    using revoked_across_both_caches [of "[rv_call None 10]" 10 "[rv_call (Some 20) 69]" "rv_call (Some 20) 100" sample_auth_lib 1 "''secret''" 0
      "uuid_text 1" sample_ext rv_json rv_wire 60 rv_cfg "token_pg None"]
    by (simp add: rv_call_def rv_cfg_def)
  moreover have "\<not> isl (fst (rv_verify (rv_call (Some 20) 98) (rv_run ([rv_call None 10] @ [rv_call (Some 20) 69]) rv_start)))"
    by code_simp
  ultimately show ?thesis by (simp add: rv_start_def)
qed

section \<open>Registration\<close>

definition answer_decoded :: "verify_json \<Rightarrow> aa_wire \<Rightarrow> bool" where
  "answer_decoded J w \<longleftrightarrow> (\<forall>a b c d x. vj_Unmarshal J (take 8192 (aw_render w (AAOk a b c d))) = Inr x \<longrightarrow>
     x = \<lparr>wr_ok = True, wr_node = a, wr_policy = b, wr_team = c, wr_version = d\<rparr>)"

lemma AgentAuth_ok:
  assumes "AgentAuth_ServeHTTP A X ttl now fin p (Decoded \<lparr>ar_node = ns, ar_token = tok\<rparr>) s = (r, s')" and "aa_status r = 200"
    and "aa_cache s = (\<lambda>_. None)"
  shows "\<exists>nd a b c. uuid_Parse X ns = Inr nd \<and> r = AAOk (uuid_text nd) a b c \<and>
    (\<exists>t\<in>set (node_tokens (tbl (aa_db s))). t_node t = nd \<and> t_revoked t = None \<and> bcrypt_Compare A (t_hash t) tok)"
proof -
  from assms(1,2) obtain nd v where nd: "uuid_Parse X ns = Inr nd" "lookup_token A ttl nd tok now fin s = (Some v, s')"
    "r = AAOk (uuid_text nd) (nw_policy v) (case nw_team v of None \<Rightarrow> [] | Some t \<Rightarrow> uuid_text t) (nw_version v)"
    by (auto simp: AgentAuth_ServeHTTP_def aa_status_def split: if_splits sum.splits prod.splits option.splits)
  have "cache_hit ttl now (aa_cache s (nd, tok)) = None" using assms(3) by (simp add: cache_hit_def)
  with nd(2) have "fst (authority A nd tok (aa_db s)) = Some v" by (auto simp: lookup_token_def split: prod.splits)
  from authority_active [OF this] nd show ?thesis by blast
qed


definition rv_conn :: agent_conn where
  "rv_conn = \<lparr>ac_handshake = None, ac_bytes = ''h'' @ [newline] @ ''rest'', ac_end = ReadEOF, ac_now = 10, ac_done = 10, ac_yamux = Inr 4\<rparr>"

definition rv_header :: "string \<Rightarrow> err + AuthRequest" where
  "rv_header l = (if l = ''h'' @ [newline] then Inr \<lparr>aq_node = uuid_text 1, aq_token = ''secret'', aq_version = ''v0''\<rparr> else Inl (Err ''json''))"

definition rv_server :: "unit aa_state mux_srv" where
  "rv_server = \<lparr>ms_registry = snd (mux_New \<lparr>mc_reporter = False, mc_interval = 0, mc_timeout = 0\<rparr>), ms_verifier = rv_start,
     ms_failures = [], ms_accepted = 0\<rparr>"


end
