(* ===== verification/Backoff.thy ===== *)
theory Backoff
  imports Prelude
begin

text \<open>
  The reconnect delays of compute-agent: \<open>nextBackoff\<close> and \<open>jitter\<close>, which \<open>stream/client.go\<close> and
  \<open>muxclient/muxclient.go\<close> define alike. A \<open>time.Duration\<close> is an \<open>int64\<close>.
\<close>

definition nextBackoff :: "int \<Rightarrow> int \<Rightarrow> int" where
  "nextBackoff cur mx = (let n = int64 (cur * 2) in if n > mx then mx else n)"

text \<open>\<open>r\<close> is the number \<open>rand.Int64N(half+1)\<close> draws.\<close>

definition jitter :: "int \<Rightarrow> int \<Rightarrow> int" where
  "jitter d r = (if d \<le> 0 then 0 else int64 (d + r))"

definition jitter_draw :: "int \<Rightarrow> int \<Rightarrow> bool" where
  "jitter_draw d r \<longleftrightarrow> 0 \<le> r \<and> r \<le> go_quot d 2"

lemma nextBackoff_min:
  assumes "0 < cur" and "cur < 2 ^ 62"
  shows "nextBackoff cur mx = min mx (2 * cur)"
  using assms by (simp add: nextBackoff_def Let_def int64_id min_def)

lemma jitter_bounds:
  assumes "0 < d" and "d < 2 ^ 62" and "jitter_draw d r"
  shows "d \<le> jitter d r \<and> 2 * jitter d r \<le> 3 * d"
proof -
  have "2 * go_quot d 2 \<le> d" using assms(1) by (simp add: go_quot_nonneg)
  with assms show ?thesis by (auto simp: jitter_def jitter_draw_def int64_id)
qed

text \<open>The delay after \<open>k\<close> failures in a row.\<close>

fun backoff_after :: "int \<Rightarrow> int \<Rightarrow> nat \<Rightarrow> int" where
  "backoff_after i mx 0 = i"
| "backoff_after i mx (Suc k) = nextBackoff (backoff_after i mx k) mx"

lemma backoff_after_closed:
  assumes "0 < i" and "i < 2 ^ 62" and "0 < mx" and "mx < 2 ^ 62"
  shows "backoff_after i mx k = (if k = 0 then i else min mx (2 ^ k * i)) \<and> 0 < backoff_after i mx k \<and> backoff_after i mx k < 2 ^ 62"
proof (induction k)
  case 0
  with assms show ?case by simp
next
  case (Suc k)
  then have b: "0 < backoff_after i mx k" "backoff_after i mx k < 2 ^ 62" by auto
  have "backoff_after i mx (Suc k) = min mx (2 * backoff_after i mx k)" using nextBackoff_min [OF b] by simp
  moreover have "min mx (2 * min mx (2 ^ k * i)) = min mx (2 ^ Suc k * i)" using assms(3) by (simp add: min_def)
  ultimately have "backoff_after i mx (Suc k) = min mx (2 ^ Suc k * i)" using Suc by (cases "k = 0") simp_all
  moreover have "0 < min mx (2 ^ Suc k * i)" "min mx (2 ^ Suc k * i) < 2 ^ 62" using assms by (simp, linarith)
  ultimately show ?case by (simp del: power_Suc backoff_after.simps)
qed

end
