(* ===== verification/MuxClient.thy ===== *)
theory MuxClient
  imports Backoff Wire
begin

text \<open>
  The outbound mux session of compute-agent (\<open>muxclient/muxclient.go\<close>): configuration, one connection attempt, and
  the loop that keeps a session attached. TCP, TLS and yamux are parameters; a session is a number.
\<close>

record mux_client_config =
  mk_endpoint :: string
  mk_server_name :: string
  mk_node :: string
  mk_token :: string
  mk_version :: string
  mk_keepalive :: int
  mk_initial :: int
  mk_max :: int
  mk_handshake :: int
  mk_on_attach :: bool

text \<open>\<open>split\<close> is the host part \<open>net.SplitHostPort\<close> finds.\<close>

definition mux_validate :: "(string \<Rightarrow> string option) \<Rightarrow> mux_client_config \<Rightarrow> err + mux_client_config" where
  "mux_validate split cfg =
     (if mk_endpoint cfg = [] then Inl (Err ''muxclient: Endpoint required'')
      else if mk_node cfg = [] then Inl (Err ''muxclient: NodeID required'')
      else if mk_token cfg = [] then Inl (Err ''muxclient: AgentToken required'')
      else if \<not> mk_on_attach cfg then Inl (Err ''muxclient: OnAttach required'')
      else Inr (cfg\<lparr>
        mk_initial := (if mk_initial cfg \<le> 0 then second else mk_initial cfg),
        mk_max := (if mk_max cfg \<le> 0 then 60 * second else mk_max cfg),
        mk_handshake := (if mk_handshake cfg \<le> 0 then 10 * second else mk_handshake cfg),
        mk_server_name := (if mk_server_name cfg = []
          then (case split (mk_endpoint cfg) of None \<Rightarrow> [] | Some h \<Rightarrow> h) else mk_server_name cfg)\<rparr>))"

section \<open>One attempt\<close>

record mux_attempt =
  at_dial :: "err option"
  at_tls :: "err option"
  at_marshal :: "err + string" \<comment> \<open>the encoded header\<close>
  at_write :: "err option"
  at_yamux :: "err + nat"

text \<open>The header line, and the error if there is one.\<close>

definition writeAuthHeader :: "mux_attempt \<Rightarrow> err + string" where
  "writeAuthHeader a = (case at_marshal a of
       Inl e \<Rightarrow> Inl e
     | Inr h \<Rightarrow> (case at_write a of Some e \<Rightarrow> Inl e | None \<Rightarrow> Inr (h @ [newline])))"

definition dialAndAuth :: "mux_client_config \<Rightarrow> mux_attempt \<Rightarrow> err + nat" where
  "dialAndAuth cfg a = (case at_dial a of
       Some e \<Rightarrow> Inl (WrapErr (''dial '' @ mk_endpoint cfg @ '': '') e [])
     | None \<Rightarrow> (case at_tls a of
         Some e \<Rightarrow> Inl (WrapErr ''tls handshake: '' e [])
       | None \<Rightarrow> (case writeAuthHeader a of
           Inl e \<Rightarrow> Inl (WrapErr ''write auth header: '' e [])
         | Inr _ \<Rightarrow> (case at_yamux a of
             Inl e \<Rightarrow> Inl (WrapErr ''yamux client: '' e [])
           | Inr s \<Rightarrow> Inr s))))"

section \<open>The loop\<close>

text \<open>One round of \<open>Run\<close>: the context at its start, the attempt, the random number of the delay, and the context
  when the wait or the session is over.\<close>

record mux_round =
  rd_ctx :: "err option"
  rd_attempt :: mux_attempt
  rd_rand :: int
  rd_ctx_after :: "err option"

definition mux_sleep :: "err option \<Rightarrow> int \<Rightarrow> bool" where
  "mux_sleep ctx d = (ctx = None)"

datatype client_event = Waited int | Attached nat | Closed nat

text \<open>The second component is what \<open>Run\<close> returned, \<open>None\<close> while it runs.\<close>

fun mux_Run_loop :: "mux_client_config \<Rightarrow> int \<Rightarrow> mux_round list \<Rightarrow> client_event list \<times> err option" where
  "mux_Run_loop cfg b [] = ([], None)"
| "mux_Run_loop cfg b (r # rs) = (case rd_ctx r of
       Some e \<Rightarrow> ([], Some e)
     | None \<Rightarrow> (case dialAndAuth cfg (rd_attempt r) of
         Inl e \<Rightarrow> (let d = jitter b (rd_rand r) in
           if \<not> mux_sleep (rd_ctx_after r) d then ([Waited d], rd_ctx_after r)
           else apfst ((#) (Waited d)) (mux_Run_loop cfg (nextBackoff b (mk_max cfg)) rs))
       | Inr s \<Rightarrow> (case rd_ctx_after r of
           Some e \<Rightarrow> ([Attached s, Closed s], Some e)
         | None \<Rightarrow> apfst (\<lambda>es. Attached s # Closed s # es) (mux_Run_loop cfg (mk_initial cfg) rs))))"

definition mux_Run :: "(string \<Rightarrow> string option) \<Rightarrow> mux_client_config \<Rightarrow> mux_round list \<Rightarrow> err + (client_event list \<times> err option)" where
  "mux_Run split cfg rs = (case mux_validate split cfg of
       Inl e \<Rightarrow> Inl e
     | Inr c \<Rightarrow> Inr (mux_Run_loop c (mk_initial c) rs))"

section \<open>Lemmas\<close>

text \<open>Every wait is the \<open>k\<close>-th in a row, with \<open>k\<close> counted from the last session.\<close>

fun waits_ok :: "int \<Rightarrow> int \<Rightarrow> nat \<Rightarrow> client_event list \<Rightarrow> bool" where
  "waits_ok i mx k [] = True"
| "waits_ok i mx k (Waited d # es) = (backoff_after i mx k \<le> d \<and> 2 * d \<le> 3 * backoff_after i mx k \<and> waits_ok i mx (Suc k) es)"
| "waits_ok i mx k (_ # es) = waits_ok i mx 0 es"

fun sessions_ok :: "client_event list \<Rightarrow> bool" where
  "sessions_ok [] = True"
| "sessions_ok (Waited d # es) = sessions_ok es"
| "sessions_ok (Attached s # Closed t # es) = (s = t \<and> sessions_ok es)"
| "sessions_ok (_ # es) = False"

lemma loop_sessions: "sessions_ok (fst (mux_Run_loop cfg b rs))"
  by (induction cfg b rs rule: mux_Run_loop.induct) (auto simp: Let_def split: option.split sum.split)

text \<open>The random numbers are drawn for the delay of their round.\<close>

fun draws_ok :: "mux_client_config \<Rightarrow> int \<Rightarrow> mux_round list \<Rightarrow> bool" where
  "draws_ok cfg b [] = True"
| "draws_ok cfg b (r # rs) = (jitter_draw b (rd_rand r) \<and>
     (case dialAndAuth cfg (rd_attempt r) of
        Inl _ \<Rightarrow> draws_ok cfg (nextBackoff b (mk_max cfg)) rs
      | Inr _ \<Rightarrow> draws_ok cfg (mk_initial cfg) rs))"

lemma loop_waits:
  assumes "0 < mk_initial cfg" "mk_initial cfg < 2 ^ 62" "0 < mk_max cfg" "mk_max cfg < 2 ^ 62"
    and "draws_ok cfg b rs" and "b = backoff_after (mk_initial cfg) (mk_max cfg) k"
  shows "waits_ok (mk_initial cfg) (mk_max cfg) k (fst (mux_Run_loop cfg b rs))"
  using assms(5,6)
proof (induction rs arbitrary: b k)
  case Nil
  then show ?case by simp
next
  case (Cons r rs)
  note c = backoff_after_closed [OF assms(1-4)]
  have j: "backoff_after (mk_initial cfg) (mk_max cfg) k \<le> jitter b (rd_rand r) \<and>
      2 * jitter b (rd_rand r) \<le> 3 * backoff_after (mk_initial cfg) (mk_max cfg) k"
    using jitter_bounds [of b "rd_rand r"] c [of k] Cons.prems by simp
  show ?case
  proof (cases "dialAndAuth cfg (rd_attempt r)")
    case (Inl e)
    with Cons.IH [of "nextBackoff b (mk_max cfg)" "Suc k"] Cons.prems j show ?thesis
      by (auto simp: Let_def split: option.split)
  next
    case (Inr s)
    with Cons.IH [of "mk_initial cfg" 0] Cons.prems show ?thesis by (auto split: option.split)
  qed
qed

end
