(* ===== verification/StreamClient.thy ===== *)
theory StreamClient
  imports Backoff Proto
begin

text \<open>
  The agent's side of the control stream (\<open>stream/client.go\<close>): configuration, the handshake of one session, the
  goroutines of a live session as a step relation, and the reconnect loop. gRPC is a parameter: what each call
  returns is part of a session's description.
\<close>

section \<open>Configuration\<close>

record stream_config =
  sf_endpoint :: string
  sf_node_name :: string
  sf_hostname :: string
  sf_version :: string
  sf_token :: string
  sf_topology :: "(err + Topology) option" \<comment> \<open>what the collector returns, when one is set\<close>
  sf_initial :: int
  sf_max :: int

definition empty_topology :: Topology where
  "empty_topology = \<lparr>tp_gpus = [], tp_nvlink = [], tp_iommu = False, tp_profile = None\<rparr>"

definition stream_New :: "stream_config \<Rightarrow> err + stream_config" where
  "stream_New cfg =
     (if sf_endpoint cfg = [] then Inl (Err ''stream.New: Endpoint required'')
      else if sf_node_name cfg = [] then Inl (Err ''stream.New: NodeName required'')
      else if sf_token cfg = [] then Inl (Err ''stream.New: AgentToken required'')
      else Inr (cfg\<lparr>
        sf_topology := Some (case sf_topology cfg of None \<Rightarrow> Inr empty_topology | Some t \<Rightarrow> t),
        sf_initial := (if sf_initial cfg \<le> 0 then second else sf_initial cfg),
        sf_max := (if sf_max cfg \<le> 0 then 60 * second else sf_max cfg)\<rparr>))"

section \<open>The handshake (\<open>runOnce\<close>)\<close>

record session_env =
  se_dial :: "err option"
  se_open :: "err option"
  se_send :: "err option"
  se_recv :: "err + ControlMessage"

definition register_message :: "stream_config \<Rightarrow> Topology \<Rightarrow> AgentMessage" where
  "register_message cfg t = MRegister \<lparr>rg_node_name = sf_node_name cfg, rg_hostname = sf_hostname cfg,
     rg_version = sf_version cfg, rg_token = sf_token cfg, rg_topology = Some t, rg_endpoint = []\<rparr>"

definition heartbeat_interval :: "int \<Rightarrow> int" where
  "heartbeat_interval secs = (let i = int64 (secs * second) in if i \<le> 0 then 15 * second else i)"

text \<open>The registration: the message sent, if any, and the node id and heartbeat interval of the
  acknowledgement.\<close>

definition register_session :: "stream_config \<Rightarrow> session_env \<Rightarrow> AgentMessage list \<times> (err + (string \<times> int))" where
  "register_session cfg e = (case se_dial e of
       Some x \<Rightarrow> ([], Inl (WrapErr ''dial: '' x []))
     | None \<Rightarrow> (case se_open e of
         Some x \<Rightarrow> ([], Inl (WrapErr ''open stream: '' x []))
       | None \<Rightarrow> (case sf_topology cfg of
           None \<Rightarrow> ([], Inl (Panic ''nil Topology''))
         | Some (Inl x) \<Rightarrow> ([], Inl (WrapErr ''collect topology: '' x []))
         | Some (Inr t) \<Rightarrow> (case se_send e of
             Some x \<Rightarrow> ([register_message cfg t], Inl (WrapErr ''send Register: '' x []))
           | None \<Rightarrow> ([register_message cfg t],
               (case se_recv e of
                  Inl x \<Rightarrow> Inl (WrapErr ''recv RegisterAck: '' x [])
                | Inr (CRegisterAck nd secs) \<Rightarrow> Inr (nd, heartbeat_interval secs)
                | Inr _ \<Rightarrow> Inl (Err ''expected RegisterAck'')))))))"

section \<open>A live session\<close>

text \<open>The channel \<open>outCh\<close> (16 messages), what went over the wire, the goroutines that still run, the error channel
  (3 values) and the state of \<open>runOnce\<close>.\<close>

datatype session_phase = SWaiting | SDraining | SReturned

record cli_session =
  cs_queue :: "AgentMessage list"
  cs_wire :: "AgentMessage list"
  cs_offered :: "AgentMessage list" \<comment> \<open>what \<open>sendFn\<close> put into the channel, ever\<close>
  cs_dropped :: "AgentMessage list" \<comment> \<open>what it gave up because the session was over\<close>
  cs_lost :: "AgentMessage list" \<comment> \<open>the message whose \<open>stream.Send\<close> failed\<close>
  cs_cancelled :: bool
  cs_sender :: bool
  cs_ticker :: bool
  cs_reader :: bool
  cs_errs :: "err option list"
  cs_phase :: session_phase
  cs_result :: "err option"

definition session_init :: cli_session where
  "session_init = \<lparr>cs_queue = [], cs_wire = [], cs_offered = [], cs_dropped = [], cs_lost = [], cs_cancelled = False,
     cs_sender = True, cs_ticker = True, cs_reader = True, cs_errs = [], cs_phase = SWaiting, cs_result = None\<rparr>"

text \<open>A message is offered by the ticker, or by a handler the reader started, which may outlive the session.\<close>

inductive session_step :: "cli_session \<Rightarrow> cli_session \<Rightarrow> bool" where
  ss_enqueue: "length (cs_queue s) < 16 \<Longrightarrow>
    session_step s (s\<lparr>cs_queue := cs_queue s @ [m], cs_offered := cs_offered s @ [m]\<rparr>)"
| ss_drop: "cs_cancelled s \<Longrightarrow> session_step s (s\<lparr>cs_dropped := cs_dropped s @ [m]\<rparr>)"
| ss_send: "cs_sender s \<Longrightarrow> cs_queue s = m # q \<Longrightarrow> session_step s (s\<lparr>cs_queue := q, cs_wire := cs_wire s @ [m]\<rparr>)"
| ss_send_err: "cs_sender s \<Longrightarrow> cs_queue s = m # q \<Longrightarrow>
    session_step s (s\<lparr>cs_queue := q, cs_lost := [m], cs_sender := False, cs_errs := cs_errs s @ [Some (WrapErr ''send: '' e [])]\<rparr>)"
| ss_send_exit: "cs_sender s \<Longrightarrow> cs_cancelled s \<Longrightarrow> session_step s (s\<lparr>cs_sender := False, cs_errs := cs_errs s @ [None]\<rparr>)"
| ss_ticker_exit: "cs_ticker s \<Longrightarrow> cs_cancelled s \<Longrightarrow> session_step s (s\<lparr>cs_ticker := False, cs_errs := cs_errs s @ [Some e]\<rparr>)"
| ss_reader_exit: "cs_reader s \<Longrightarrow> session_step s (s\<lparr>cs_reader := False, cs_errs := cs_errs s @ [e]\<rparr>)"
| ss_cancel: "session_step s (s\<lparr>cs_cancelled := True\<rparr>)"
| ss_first: "cs_phase s = SWaiting \<Longrightarrow> cs_errs s = e # es \<Longrightarrow>
    session_step s (s\<lparr>cs_phase := SDraining, cs_result := e, cs_cancelled := True\<rparr>)"
| ss_return: "cs_phase s = SDraining \<Longrightarrow> \<not> cs_sender s \<Longrightarrow> session_step s (s\<lparr>cs_phase := SReturned\<rparr>)"

inductive session_reach :: "cli_session \<Rightarrow> bool" where
  session_start: "session_reach session_init"
| session_more: "session_reach s \<Longrightarrow> session_step s s' \<Longrightarrow> session_reach s'"

definition running_count :: "cli_session \<Rightarrow> nat" where
  "running_count s = of_bool (cs_sender s) + of_bool (cs_ticker s) + of_bool (cs_reader s)"

definition fifo_ok :: "cli_session \<Rightarrow> bool" where
  "fifo_ok s \<longleftrightarrow> cs_offered s = cs_wire s @ cs_lost s @ cs_queue s \<and> length (cs_queue s) \<le> 16 \<and>
     (cs_sender s \<longrightarrow> cs_lost s = [])"

definition errs_ok :: "cli_session \<Rightarrow> bool" where
  "errs_ok s \<longleftrightarrow> length (cs_errs s) + running_count s = 3"

definition phase_ok :: "cli_session \<Rightarrow> bool" where
  "phase_ok s \<longleftrightarrow> (cs_phase s \<noteq> SWaiting \<longrightarrow> cs_cancelled s \<and> cs_errs s \<noteq> [] \<and> cs_result s = hd (cs_errs s)) \<and>
     (cs_phase s = SReturned \<longrightarrow> \<not> cs_sender s)"

definition session_ok :: "cli_session \<Rightarrow> bool" where
  "session_ok s \<longleftrightarrow> fifo_ok s \<and> errs_ok s \<and> phase_ok s"

lemma session_ok_init: "session_ok session_init"
  by (simp add: session_ok_def fifo_ok_def errs_ok_def phase_ok_def session_init_def running_count_def)

lemma fifo_ok_step: "session_step s s' \<Longrightarrow> fifo_ok s \<Longrightarrow> fifo_ok s'"
  by (induction rule: session_step.induct) (simp_all add: fifo_ok_def)

lemma errs_ok_step: "session_step s s' \<Longrightarrow> errs_ok s \<Longrightarrow> errs_ok s'"
  by (induction rule: session_step.induct) (simp_all add: errs_ok_def running_count_def)

lemma phase_ok_step: "session_step s s' \<Longrightarrow> phase_ok s \<Longrightarrow> phase_ok s'"
  by (induction rule: session_step.induct) (simp_all add: phase_ok_def)

lemma session_ok_step: "session_step s s' \<Longrightarrow> session_ok s \<Longrightarrow> session_ok s'"
  unfolding session_ok_def using fifo_ok_step errs_ok_step phase_ok_step by blast

lemma session_reach_ok: "session_reach s \<Longrightarrow> session_ok s"
  by (induction rule: session_reach.induct) (auto intro: session_ok_init session_ok_step)

section \<open>The reconnect loop\<close>

text \<open>One round of \<open>Run\<close>: the context at its start, the result of \<open>runOnce\<close>, the context after it, the random number of
  the delay, and the context after the wait.\<close>

record run_round =
  rn_ctx :: "err option"
  rn_result :: "err option"
  rn_ctx_after :: "err option"
  rn_rand :: int
  rn_ctx_waited :: "err option"

definition ErrCanceled :: err where
  "ErrCanceled = Err ''context canceled''"

definition is_canceled :: "err option \<Rightarrow> bool" where
  "is_canceled e = (case e of None \<Rightarrow> False | Some x \<Rightarrow> err_is x ErrCanceled)"

text \<open>The delays waited, and what \<open>Run\<close> returned if it did.\<close>

fun stream_Run :: "stream_config \<Rightarrow> int \<Rightarrow> run_round list \<Rightarrow> int list \<times> err option option" where
  "stream_Run cfg b [] = ([], None)"
| "stream_Run cfg b (r # rs) = (case rn_ctx r of
       Some e \<Rightarrow> ([], Some (Some e))
     | None \<Rightarrow>
         if is_canceled (rn_result r) \<or> rn_ctx_after r \<noteq> None then ([], Some (rn_ctx_after r))
         else let d = jitter b (rn_rand r) in
           case rn_ctx_waited r of
             Some e \<Rightarrow> ([d], Some (Some e))
           | None \<Rightarrow> apfst ((#) d) (stream_Run cfg (nextBackoff b (sf_max cfg)) rs))"

fun run_draws_ok :: "stream_config \<Rightarrow> int \<Rightarrow> run_round list \<Rightarrow> bool" where
  "run_draws_ok cfg b [] = True"
| "run_draws_ok cfg b (r # rs) = (jitter_draw b (rn_rand r) \<and> run_draws_ok cfg (nextBackoff b (sf_max cfg)) rs)"

lemma stream_waits:
  assumes "0 < sf_initial cfg" "sf_initial cfg < 2 ^ 62" "0 < sf_max cfg" "sf_max cfg < 2 ^ 62"
    and "run_draws_ok cfg b rs" and "b = backoff_after (sf_initial cfg) (sf_max cfg) k"
    and "j < length (fst (stream_Run cfg b rs))"
  shows "backoff_after (sf_initial cfg) (sf_max cfg) (k + j) \<le> fst (stream_Run cfg b rs) ! j \<and>
    2 * fst (stream_Run cfg b rs) ! j \<le> 3 * backoff_after (sf_initial cfg) (sf_max cfg) (k + j)"
  using assms(5-7)
proof (induction rs arbitrary: b k j)
  case Nil
  then show ?case by simp
next
  case (Cons r rs)
  note c = backoff_after_closed [OF assms(1-4)]
  have d: "backoff_after (sf_initial cfg) (sf_max cfg) k \<le> jitter b (rn_rand r) \<and>
      2 * jitter b (rn_rand r) \<le> 3 * backoff_after (sf_initial cfg) (sf_max cfg) k"
    using jitter_bounds [of b "rn_rand r"] c [of k] Cons.prems by simp
  show ?case
  proof (cases j)
    case 0
    with Cons.prems d show ?thesis by (auto simp: Let_def split: option.splits if_splits)
  next
    case (Suc i)
    with Cons.prems Cons.IH [of "nextBackoff b (sf_max cfg)" "Suc k" i] show ?thesis
      by (auto simp: Let_def split: option.splits if_splits)
  qed
qed

end
