(* ===== verification/LoopProps.thy ===== *)
theory LoopProps
  imports MuxClient StreamClient
begin

text \<open>
  Properties of the loops of compute-agent: the reconnect loops of its two connections, and the
  outgoing channel of the control stream.
\<close>

section \<open>The mux session\<close>

text \<open>The configuration \<open>mux_Run\<close> works with.\<close>

lemma mux_validate_ok:
  assumes "mux_validate split cfg = Inr c"
  shows "0 < mk_initial c \<and> 0 < mk_max c \<and>
    mk_initial c = (if mk_initial cfg \<le> 0 then second else mk_initial cfg) \<and>
    mk_max c = (if mk_max cfg \<le> 0 then 60 * second else mk_max cfg)"
  using assms by (auto simp: mux_validate_def second_def split: if_splits)

lemma loop_returns:
  assumes "mux_Run_loop cfg b rs = (es, Some e)"
  shows "\<exists>r\<in>set rs. rd_ctx r = Some e \<or> rd_ctx_after r = Some e"
  using assms
  by (induction cfg b rs arbitrary: es rule: mux_Run_loop.induct)
     (auto simp: Let_def mux_sleep_def apfst_def map_prod_def split: option.splits sum.splits if_splits prod.splits)

definition rounds_of :: "client_event list \<Rightarrow> nat" where
  "rounds_of es = length (filter (\<lambda>e. case e of Closed _ \<Rightarrow> False | _ \<Rightarrow> True) es)"

lemma loop_rounds:
  assumes "mux_Run_loop cfg b rs = (es, None)"
  shows "rounds_of es = length rs"
  using assms
  by (induction cfg b rs arbitrary: es rule: mux_Run_loop.induct)
     (auto simp: Let_def mux_sleep_def rounds_of_def apfst_def map_prod_def split: option.splits sum.splits if_splits prod.splits)

text \<open>C32. The mux client keeps a session attached until it is told to stop: it returns only with the error of
  its context, otherwise every round attaches a session or waits; every session it attaches is closed before
  the next; and the wait after the \<open>k\<close>-th failure since the last session is between one and one and a half times
  \<open>min (MaxBackoff, InitialBackoff * 2^k)\<close>.\<close>

theorem mux_client_loop:
  assumes "mux_validate split cfg = Inr c" and "mux_Run split cfg rs = Inr (es, r)"
    and "mk_initial c < 2 ^ 62" and "mk_max c < 2 ^ 62" and "draws_ok c (mk_initial c) rs"
  shows "sessions_ok es \<and> waits_ok (mk_initial c) (mk_max c) 0 es \<and>
    (case r of None \<Rightarrow> rounds_of es = length rs
     | Some e \<Rightarrow> \<exists>q\<in>set rs. rd_ctx q = Some e \<or> rd_ctx_after q = Some e)"
proof -
  have run: "mux_Run_loop c (mk_initial c) rs = (es, r)" using assms(1,2) by (simp add: mux_Run_def)
  have v: "0 < mk_initial c" "0 < mk_max c" using mux_validate_ok [OF assms(1)] by auto
  from loop_waits [OF v(1) assms(3) v(2) assms(4,5), of 0] run have "waits_ok (mk_initial c) (mk_max c) 0 es" by simp
  moreover have "sessions_ok es" using loop_sessions [of c "mk_initial c" rs] run by simp
  ultimately show ?thesis using loop_returns [of c "mk_initial c" rs es] loop_rounds [of c "mk_initial c" rs es] run
    by (auto split: option.split)
qed

definition sample_mux_config :: mux_client_config where
  "sample_mux_config = \<lparr>mk_endpoint = ''proxy:8443'', mk_server_name = [], mk_node = ''n'', mk_token = ''t'', mk_version = [],
     mk_keepalive = 0, mk_initial = 4, mk_max = 10, mk_handshake = 0, mk_on_attach = True\<rparr>"

definition dial_fails :: mux_round where
  "dial_fails = \<lparr>rd_ctx = None, rd_attempt = \<lparr>at_dial = Some (Err ''refused''), at_tls = None, at_marshal = Inr [],
     at_write = None, at_yamux = Inr 0\<rparr>, rd_rand = 1, rd_ctx_after = None\<rparr>"

definition dial_works :: mux_round where
  "dial_works = dial_fails\<lparr>rd_attempt := (rd_attempt dial_fails)\<lparr>at_dial := None, at_yamux := Inr 7\<rparr>\<rparr>"

lemmas mux_samples = sample_mux_config_def dial_fails_def dial_works_def

lemma sample_mux_valid:
  "mux_validate (\<lambda>_. None) sample_mux_config = Inr (sample_mux_config\<lparr>mk_handshake := 10 * second\<rparr>)"
  by (simp add: mux_validate_def mux_samples)

theorem mux_client_loop_witness:
  "mux_Run (\<lambda>_. None) sample_mux_config [dial_fails, dial_fails, dial_fails, dial_works, dial_fails] =
     Inr ([Waited 5, Waited 9, Waited 11, Attached 7, Closed 7, Waited 5], None) \<and>
   waits_ok 4 10 0 [Waited 5, Waited 9, Waited 11, Attached 7, Closed 7, Waited 5]"
proof -
  let ?rs = "[dial_fails, dial_fails, dial_fails, dial_works, dial_fails]"
  have run: "mux_Run (\<lambda>_. None) sample_mux_config ?rs =
      Inr ([Waited 5, Waited 9, Waited 11, Attached 7, Closed 7, Waited 5], None)"
    unfolding mux_Run_def sample_mux_valid
    by (simp add: mux_samples dialAndAuth_def writeAuthHeader_def mux_sleep_def jitter_def nextBackoff_def Let_def int64_id)
  have d: "draws_ok (sample_mux_config\<lparr>mk_handshake := 10 * second\<rparr>) 4 ?rs"
    by (simp add: mux_samples jitter_draw_def go_quot_nonneg dialAndAuth_def writeAuthHeader_def nextBackoff_def Let_def int64_id)
  from mux_client_loop [OF sample_mux_valid run] d show ?thesis using run by (simp add: sample_mux_config_def)
qed

section \<open>The control stream\<close>

lemma stream_New_ok:
  assumes "stream_New cfg = Inr c"
  shows "0 < sf_initial c \<and> 0 < sf_max c"
  using assms by (auto simp: stream_New_def second_def split: if_splits)

text \<open>The control stream's delay only grows: the \<open>j\<close>-th wait of \<open>Run\<close> is at least
  \<open>min (MaxBackoff, InitialBackoff * 2^j)\<close> and at most one and a half times that, counted from the start of the
  process and not from the last session, whatever the sessions in between returned and however long they
  lasted: after an hour of service a lost connection is retried as late as after a series of failures.\<close>

theorem stream_backoff_never_resets:
  assumes "stream_New cfg = Inr c" and "sf_initial c < 2 ^ 62" and "sf_max c < 2 ^ 62"
    and "run_draws_ok c (sf_initial c) rs" and "stream_Run c (sf_initial c) rs = (ws, r)" and "j < length ws"
  shows "(let d = if j = 0 then sf_initial c else min (sf_max c) (2 ^ j * sf_initial c) in d \<le> ws ! j \<and> 2 * ws ! j \<le> 3 * d)"
proof -
  have v: "0 < sf_initial c" "0 < sf_max c" using stream_New_ok [OF assms(1)] by auto
  from stream_waits [OF v(1) assms(2) v(2) assms(3,4), of 0 j] assms(5,6)
    backoff_after_closed [OF v(1) assms(2) v(2) assms(3), of j]
  show ?thesis by (simp add: Let_def)
qed

definition sample_stream_config :: stream_config where
  "sample_stream_config = \<lparr>sf_endpoint = ''api:9090'', sf_node_name = ''h1'', sf_hostname = [], sf_version = [],
     sf_token = ''agent'', sf_topology = Some (Inr empty_topology), sf_initial = 4, sf_max = 10\<rparr>"

definition session_ends :: run_round where
  "session_ends = \<lparr>rn_ctx = None, rn_result = None, rn_ctx_after = None, rn_rand = 0, rn_ctx_waited = None\<rparr>"

theorem stream_backoff_never_resets_witness:
  "fst (stream_Run sample_stream_config 4 [session_ends, session_ends, session_ends]) = [4, 8, 10] \<and>
   10 \<le> fst (stream_Run sample_stream_config 4 [session_ends, session_ends, session_ends]) ! 2"
proof -
  have n: "stream_New sample_stream_config = Inr sample_stream_config" by (simp add: stream_New_def sample_stream_config_def)
  have run: "stream_Run sample_stream_config (sf_initial sample_stream_config) [session_ends, session_ends, session_ends] = ([4, 8, 10], None)"
    by (simp add: sample_stream_config_def session_ends_def is_canceled_def jitter_def nextBackoff_def Let_def int64_id)
  have d: "run_draws_ok sample_stream_config (sf_initial sample_stream_config) [session_ends, session_ends, session_ends]"
    by (simp add: sample_stream_config_def session_ends_def jitter_draw_def go_quot_nonneg nextBackoff_def Let_def int64_id)
  from stream_backoff_never_resets [OF n _ _ d run, of 2] run show ?thesis by (simp add: sample_stream_config_def)
qed

lemma stopped_wire:
  assumes "session_step\<^sup>*\<^sup>* s s'" and "\<not> cs_sender s"
  shows "\<not> cs_sender s' \<and> cs_wire s' = cs_wire s"
  using assms by (induction rule: rtranclp_induct) (auto elim!: session_step.cases)

text \<open>C34. The outgoing channel of the control stream is a bounded queue that loses nothing while the session
  lasts: in every reachable state of a session the messages on the wire are a prefix of the messages the handlers
  and the ticker offered, in their order; the channel holds at most 16 and the error channel at most 3, so no
  goroutine blocks on it; a session that has returned reports its first error. After that
  nothing reaches the wire: a report offered by a handler that outlives its session is accepted and lost.\<close>

theorem agent_stream_fifo:
  assumes "session_reach s"
  shows "(\<exists>rest. cs_offered s = cs_wire s @ rest) \<and> length (cs_queue s) \<le> 16 \<and> length (cs_errs s) \<le> 3 \<and>
    (cs_phase s = SReturned \<longrightarrow> cs_result s = hd (cs_errs s) \<and>
       (\<forall>s'. session_step\<^sup>*\<^sup>* s s' \<longrightarrow> cs_wire s' = cs_wire s))"
proof -
  from session_reach_ok [OF assms] have ok: "fifo_ok s" "errs_ok s" "phase_ok s" by (simp_all add: session_ok_def)
  from ok(1) have "(\<exists>rest. cs_offered s = cs_wire s @ rest) \<and> length (cs_queue s) \<le> 16" by (auto simp: fifo_ok_def)
  moreover from ok(2) have "length (cs_errs s) \<le> 3" by (simp add: errs_ok_def)
  moreover from ok(3) have "cs_phase s = SReturned \<Longrightarrow> cs_result s = hd (cs_errs s) \<and> \<not> cs_sender s" by (simp add: phase_ok_def)
  ultimately show ?thesis using stopped_wire [of s] by blast
qed

theorem agent_stream_fifo_witness:
  "\<exists>s s'. session_reach s \<and> cs_phase s = SReturned \<and> session_step s s' \<and> cs_offered s' = cs_offered s @ [MHeartbeat] \<and>
     cs_wire s' = cs_wire s"
proof -
  let ?a = "session_init\<lparr>cs_reader := False, cs_errs := [Some (Err ''EOF'')]\<rparr>"
  let ?b = "?a\<lparr>cs_phase := SDraining, cs_result := Some (Err ''EOF''), cs_cancelled := True\<rparr>"
  let ?c = "?b\<lparr>cs_sender := False, cs_errs := [Some (Err ''EOF''), None]\<rparr>"
  let ?d = "?c\<lparr>cs_phase := SReturned\<rparr>"
  let ?e = "?d\<lparr>cs_queue := [MHeartbeat], cs_offered := [MHeartbeat]\<rparr>"
  have "session_step session_init ?a" using ss_reader_exit [of session_init "Some (Err ''EOF'')"] by (simp add: session_init_def)
  then have a: "session_reach ?a" by (rule session_more [OF session_start])
  have "session_step ?a ?b" using ss_first [of ?a "Some (Err ''EOF'')" "[]"] by (simp add: session_init_def)
  with a have b: "session_reach ?b" by (rule session_more)
  have "session_step ?b ?c" using ss_send_exit [of ?b] by (simp add: session_init_def)
  with b have c: "session_reach ?c" by (rule session_more)
  have "session_step ?c ?d" using ss_return [of ?c] by (simp add: session_init_def)
  with c have d: "session_reach ?d" by (rule session_more)
  have e: "session_step ?d ?e" using ss_enqueue [of ?d MHeartbeat] by (simp add: session_init_def)
  have p: "cs_phase ?d = SReturned" by simp
  from agent_stream_fifo [OF d, THEN conjunct2, THEN conjunct2, THEN conjunct2, rule_format, OF p, THEN conjunct2, rule_format, OF r_into_rtranclp, of _, OF e]
  have "cs_wire ?e = cs_wire ?d" .
  with d e show ?thesis by (intro exI [of _ ?d] exI [of _ ?e]) (simp add: session_init_def)
qed

end
