(* ===== verification/Topo.thy ===== *)
theory Topo
  imports Gpu Proto
begin

text \<open>
  Package \<open>topology\<close> of compute-agent: the GPUs of the host as they are reported on every registration, from
  nvidia-smi when it works and from sysfs otherwise. The command and the XML decoder are parameters.
\<close>

section \<open>Parsing (\<open>linux.go\<close>)\<close>

record smiGPU =
  sg_id :: string
  sg_product :: string
  sg_minor :: string
  sg_total :: string

definition normalisePCI :: "string \<Rightarrow> string" where
  "normalisePCI s0 = (let s = TrimSpace s0 in
     if length s = 16 \<and> s ! 8 = CHR '':'' \<and> s ! 11 = CHR '':'' \<and> prefix ''0000'' s then drop 4 s else s)"

text \<open>\<open>strings.Fields\<close>.\<close>

fun fields_acc :: "string \<Rightarrow> string \<Rightarrow> string list" where
  "fields_acc acc [] = (if acc = [] then [] else [rev acc])"
| "fields_acc acc (c # cs) = (if is_space c then (if acc = [] then fields_acc [] cs else rev acc # fields_acc [] cs)
     else fields_acc (c # acc) cs)"

definition Fields :: "string \<Rightarrow> string list" where
  "Fields s = fields_acc [] s"

text \<open>\<open>fmt.Sscanf(s, "%d", &x)\<close> for an unsigned 64-bit \<open>x\<close>: the leading digits, which must fit.\<close>

definition digit_value :: "char \<Rightarrow> nat option" where
  "digit_value c = (let n = (of_char c :: nat) in if 48 \<le> n \<and> n \<le> 57 then Some (n - 48) else None)"

fun scan_digits :: "nat \<Rightarrow> string \<Rightarrow> nat" where
  "scan_digits acc [] = acc"
| "scan_digits acc (c # cs) = (case digit_value c of None \<Rightarrow> acc | Some d \<Rightarrow> scan_digits (10 * acc + d) cs)"

definition Sscan_uint64 :: "string \<Rightarrow> nat option" where
  "Sscan_uint64 s = (case s of [] \<Rightarrow> None | c # _ \<Rightarrow> if digit_value c = None then None
     else let n = scan_digits 0 s in if n < 2 ^ 64 then Some n else None)"

definition parseMemMiB :: "string \<Rightarrow> nat" where
  "parseMemMiB s = (case Fields s of
       [v, u] \<Rightarrow> (case Sscan_uint64 v of
           None \<Rightarrow> 0
         | Some mib \<Rightarrow>
             if u = ''MiB'' then (mib * 1024 * 1024) mod 2 ^ 64
             else if u = ''GiB'' then (mib * 1024 * 1024 * 1024) mod 2 ^ 64
             else 0)
     | _ \<Rightarrow> 0)"

definition plain_gpu :: "nat \<Rightarrow> string \<Rightarrow> string \<Rightarrow> nat \<Rightarrow> Gpu" where
  "plain_gpu i pci model mem = \<lparr>g_index = int32 (int i), g_pci = pci, g_model = model, g_memory = mem, g_iommu_group = [],
     g_driver = [], g_companions = [], g_vfio_ready = False, g_bind_blocker = []\<rparr>"

definition parseNvidiaSmiXML :: "(string \<Rightarrow> err + smiGPU list) \<Rightarrow> string \<Rightarrow> err + Gpu list" where
  "parseNvidiaSmiXML unmarshal data = (case unmarshal data of
       Inl e \<Rightarrow> Inl e
     | Inr gs \<Rightarrow> Inr (map (\<lambda>(i, g). plain_gpu i (normalisePCI (sg_id g)) (TrimSpace (sg_product g)) (parseMemMiB (sg_total g)))
                         (enumerate 0 gs)))"

section \<open>Collecting\<close>

text \<open>The host besides sysfs: whether the command is on the path, what it prints, the XML decoder.\<close>

record smi_env =
  sm_LookPath :: "string \<Rightarrow> err option"
  sm_Output :: "string \<Rightarrow> err + string"
  sm_Unmarshal :: "string \<Rightarrow> err + smiGPU list"

record linux_collector =
  lc_smi :: string
  lc_profile :: "Profile_pb option"

definition collectViaNvidiaSmi :: "smi_env \<Rightarrow> linux_collector \<Rightarrow> Gpu list option" where
  "collectViaNvidiaSmi E c = (let smi = (if lc_smi c = [] then ''nvidia-smi'' else lc_smi c) in
     case sm_LookPath E smi of
       Some _ \<Rightarrow> None
     | None \<Rightarrow> (case sm_Output E smi of
         Inl _ \<Rightarrow> None
       | Inr out \<Rightarrow> (case parseNvidiaSmiXML (sm_Unmarshal E) out of Inl _ \<Rightarrow> None | Inr gs \<Rightarrow> Some gs)))"

definition trimHexPrefix :: "string \<Rightarrow> string" where
  "trimHexPrefix s = (if prefix ''0x'' s then drop 2 s else s)"

definition sysfs_model :: "sysfs \<Rightarrow> string \<Rightarrow> string" where
  "sysfs_model S pci = (case DeviceVendor S pci of
       Inl _ \<Rightarrow> ''NVIDIA''
     | Inr v \<Rightarrow> (case DeviceID S pci of
         Inl _ \<Rightarrow> ''NVIDIA''
       | Inr d \<Rightarrow> ''NVIDIA '' @ trimHexPrefix v @ '':'' @ trimHexPrefix d))"

definition collectViaSysfs :: "sysfs \<Rightarrow> Gpu list" where
  "collectViaSysfs S = (case ListNVIDIAGPUs S of
       Inl _ \<Rightarrow> []
     | Inr pcis \<Rightarrow> map (\<lambda>(i, pci). plain_gpu i pci (sysfs_model S pci) 0) (enumerate 0 pcis))"

definition host_blocker :: string where
  "host_blocker = ''host drivers hold the group '' @ [CHR 0xE2, CHR 0x80, CHR 0x94] @ '' run scripts/node-bootstrap.sh''"

text \<open>The body of the loop over the GPUs.\<close>

definition diagnose :: "sysfs \<Rightarrow> Gpu \<Rightarrow> Gpu" where
  "diagnose S g = (case DiagnoseBindability S (g_pci g) of
       Inl _ \<Rightarrow> g
     | Inr (ok, reason) \<Rightarrow>
         let ready = (case VFIOReady S (g_pci g) of Inl _ \<Rightarrow> False | Inr b \<Rightarrow> b) in
         g\<lparr>g_vfio_ready := ready,
           g_bind_blocker := (if \<not> ok then reason else if \<not> ready then host_blocker else g_bind_blocker g)\<rparr>)"

definition enrich :: "sysfs \<Rightarrow> Gpu \<Rightarrow> Gpu" where
  "enrich S g0 = (if g_pci g0 = [] then g0 else
     let g1 = (case IOMMUGroup S (g_pci g0) of Inl _ \<Rightarrow> g0 | Inr grp \<Rightarrow> g0\<lparr>g_iommu_group := grp\<rparr>);
         g2 = (case CurrentDriver S (g_pci g0) of Inl _ \<Rightarrow> g1 | Inr d \<Rightarrow> g1\<lparr>g_driver := d\<rparr>);
         g3 = (case Companions S (g_pci g0) of Inl _ \<Rightarrow> g2 | Inr cs \<Rightarrow> g2\<lparr>g_companions := cs\<rparr>)
     in diagnose S g3)"

definition Collect :: "smi_env \<Rightarrow> sysfs \<Rightarrow> linux_collector \<Rightarrow> Topology" where
  "Collect E S c = \<lparr>
     tp_gpus = map (enrich S) (case collectViaNvidiaSmi E c of None \<Rightarrow> collectViaSysfs S | Some gs \<Rightarrow> gs),
     tp_nvlink = [], tp_iommu = IOMMUEnabled S, tp_profile = lc_profile c\<rparr>"

text \<open>\<open>topology.go\<close>: the collector that always reports the same.\<close>

definition Static_Collect :: "Topology option \<Rightarrow> Topology" where
  "Static_Collect t = (case t of None \<Rightarrow> \<lparr>tp_gpus = [], tp_nvlink = [], tp_iommu = False, tp_profile = None\<rparr> | Some x \<Rightarrow> x)"

section \<open>Lemmas\<close>

lemma enrich_keeps [simp]: "g_pci (enrich S g) = g_pci g" "g_index (enrich S g) = g_index g"
  by (auto simp: enrich_def diagnose_def Let_def split: sum.splits)

lemma enrich_diagnoses:
  assumes "g_pci g \<noteq> []"
  shows "\<exists>h. enrich S g = diagnose S h \<and> g_pci h = g_pci g \<and> g_vfio_ready h = g_vfio_ready g \<and> g_bind_blocker h = g_bind_blocker g"
  unfolding enrich_def Let_def if_not_P [OF assms] by (rule exI, rule conjI, rule refl) (simp split: sum.split)

lemma diagnose_reports:
  assumes "\<not> g_vfio_ready g" and "g_bind_blocker g = []"
  shows "(g_vfio_ready (diagnose S g) \<longrightarrow> VFIOReady S (g_pci g) = Inr True) \<and>
    (g_bind_blocker (diagnose S g) = [] \<longrightarrow> g_vfio_ready (diagnose S g) \<longrightarrow> (\<exists>r. DiagnoseBindability S (g_pci g) = Inr (True, r)))"
proof (cases "DiagnoseBindability S (g_pci g)")
  case (Inl e)
  with assms show ?thesis by (simp add: diagnose_def)
next
  case (Inr p)
  moreover obtain ok r where "p = (ok, r)" by fastforce
  moreover from this Inr have "\<not> ok \<longrightarrow> r \<noteq> []" by (auto simp: DiagnoseBindability_def split: sum.splits if_splits)
  ultimately show ?thesis using assms by (cases "VFIOReady S (g_pci g)") (auto simp: diagnose_def Let_def)
qed

lemma enrich_diagnosed:
  assumes "g_pci g \<noteq> []" and "\<not> g_vfio_ready g" and "g_bind_blocker g = []"
  shows "(g_vfio_ready (enrich S g) \<longrightarrow> VFIOReady S (g_pci g) = Inr True) \<and>
    (g_bind_blocker (enrich S g) = [] \<longrightarrow> g_vfio_ready (enrich S g) \<longrightarrow> (\<exists>r. DiagnoseBindability S (g_pci g) = Inr (True, r)))"
  using enrich_diagnoses [OF assms(1), of S] diagnose_reports [of _ S] assms(2,3) by metis

lemma collected_plain:
  "g \<in> set (case collectViaNvidiaSmi E c of None \<Rightarrow> collectViaSysfs S | Some gs \<Rightarrow> gs) \<Longrightarrow> \<not> g_vfio_ready g \<and> g_bind_blocker g = []"
  by (auto simp: collectViaNvidiaSmi_def collectViaSysfs_def parseNvidiaSmiXML_def plain_gpu_def Let_def in_set_enumerate_eq
      split: option.splits sum.splits)

end
