(* ===== verification/AgentProps.thy ===== *)
theory AgentProps
  imports AgentStream AdminCli Topo GateProps
begin

text \<open>
  Properties of what the agent tells the control plane and how it is let in: the two doors a node token is
  checked at, and the readiness of a GPU in the topology report.
\<close>

section \<open>Node tokens\<close>

lemma issue_token_fine:
  assumes "faults s = []" and "issue_token A (Inr b) endpoint node team s = (Inr x, s')"
  obtains h n where "bcrypt_Generate A (b64url A b) = Inr h" "faults s' = []"
    "\<exists>r\<in>set (node_tokens (tbl s')). t_node r = n_id node \<and> t_hash r = h \<and> t_revoked r = None"
    "find (\<lambda>r. n_id r = n_id node) (nodes (tbl s')) = Some n" "n_policy n = ''owner_team''" "n_team n = Some (tm_id team)"
proof -
  from assms obtain h where h: "bcrypt_Generate A (b64url A b) = Inr h"
    by (auto simp: issue_token_def generateTokenPlaintext_def fail_def split: sum.splits)
  let ?pin = "\<lambda>n. n\<lparr>n_policy := ''owner_team'', n_team := Some (tm_id team)\<rparr>"
  have t: "(\<exists>r\<in>set (node_tokens (tbl s')). t_node r = n_id node \<and> t_hash r = h \<and> t_revoked r = None) \<and> faults s' = [] \<and>
      nodes (tbl s') = set_where (\<lambda>n. n_id n = n_id node) ?pin (nodes (tbl s)) \<and> (\<exists>n\<in>set (nodes (tbl s)). n_id n = n_id node)"
    using assms h
    by (auto simp: issue_token_def generateTokenPlaintext_def NodeTokenInsert_def pin_node_acl_def fine_simps bnd_def
        wrap_err_def ret_def Let_def split: sum.splits if_splits)
  then obtain n where n: "find (\<lambda>r. n_id r = n_id node) (nodes (tbl s)) = Some n"
    by (cases "find (\<lambda>r. n_id r = n_id node) (nodes (tbl s))") (auto simp: find_None_iff)
  have "find (\<lambda>r. n_id r = i) (set_where (\<lambda>r. n_id r = i) ?pin ns) = Some (?pin n)"
    if "find (\<lambda>r. n_id r = i) ns = Some n" for i :: uuid and ns
    using that by (induction ns) (auto simp: set_where_def split: if_splits)
  from this [OF n] t that [OF h, of "?pin n"] show thesis by simp
qed

lemma authority_fine:
  assumes "faults s = []" and "\<exists>r\<in>set (node_tokens (tbl s)). t_node r = nd \<and> t_revoked r = None \<and> bcrypt_Compare A (t_hash r) tok"
    and "find (\<lambda>r. n_id r = nd) (nodes (tbl s)) = Some n"
  shows "fst (authority A nd tok s) = Some \<lparr>nw_node = nd, nw_policy = n_policy n, nw_team = n_team n, nw_version = n_version n\<rparr>"
proof -
  have "filter (\<lambda>r. t_node r = nd \<and> t_revoked r = None) (node_tokens (tbl s)) \<noteq> []"
    using assms(2) by (auto simp: filter_empty_conv)
  with assms show ?thesis
    by (auto simp: authority_def PgRepo_ListActiveNodeTokens_def ListActiveNodeTokens_def NodeAuthView_def NodeAccessPolicy_def
        GetNode_def attempt_def bnd_def wrap_err_def fine_simps pick_def reply_def ret_def)
qed

lemma stream_open_other_token:
  "rg_token rg \<noteq> as_token svc \<Longrightarrow>
   stream_open svc X (RecvMsg (MRegister rg)) ack s = (Inl (rpc_err ''Unauthenticated'' ''invalid agent token''), s)"
  by (simp add: stream_open_def fail_def)

text \<open>A token the command line issues for a node opens one of the two doors: \<open>/internal/agent-auth\<close> accepts it
  for that node, under the node's new policy of the owning team, so the mux session works; the control stream
  accepts no token but the one of its configuration, and refuses the node's own before it registers anything.
  The agent sends one token to both.\<close>

theorem node_token_opens_one_door:
  assumes "faults s = []" and "\<forall>p h. bcrypt_Generate A p = Inr h \<longrightarrow> bcrypt_Compare A h p"
    and "issue_token A (Inr b) endpoint node team s = (Inr x, s')" and "b64url A b \<noteq> as_token svc" and "rg_token rg = b64url A b"
  shows "(\<exists>v. fst (authority A (n_id node) (b64url A b) s') = Some v \<and> nw_node v = n_id node \<and>
      nw_policy v = ''owner_team'' \<and> nw_team v = Some (tm_id team)) \<and>
    stream_open svc X (RecvMsg (MRegister rg)) ack w = (Inl (rpc_err ''Unauthenticated'' ''invalid agent token''), w)"
proof -
  from issue_token_fine [OF assms(1,3)] obtain h n where i: "bcrypt_Generate A (b64url A b) = Inr h" "faults s' = []"
    "\<exists>r\<in>set (node_tokens (tbl s')). t_node r = n_id node \<and> t_hash r = h \<and> t_revoked r = None"
    "find (\<lambda>r. n_id r = n_id node) (nodes (tbl s')) = Some n" "n_policy n = ''owner_team''" "n_team n = Some (tm_id team)" .
  with assms(2) have "\<exists>r\<in>set (node_tokens (tbl s')). t_node r = n_id node \<and> t_revoked r = None \<and> bcrypt_Compare A (t_hash r) (b64url A b)"
    by blast
  from authority_fine [OF i(2) this i(4)] i(5,6) stream_open_other_token [of rg svc X ack w] assms(4,5) show ?thesis by simp
qed

definition sample_stream :: AgentStreamService where
  "sample_stream = \<lparr>as_instances = True, as_slots = True, as_profiles = True, as_registry = True, as_token = ''shared'',
     as_zone = 9, as_heartbeat = 0, as_buffer = 0\<rparr>"

theorem node_token_opens_one_door_witness:
  "\<forall>X. fst (stream_open sample_stream X (RecvMsg (MRegister \<lparr>rg_node_name = ''n1'', rg_hostname = [], rg_version = [], rg_token = ''tok'',
     rg_topology = None, rg_endpoint = []\<rparr>)) None (sample_world [])) = Inl (rpc_err ''Unauthenticated'' ''invalid agent token'')"
proof -
  let ?team = "\<lparr>tm_id = 7, tm_name = ''t'', tm_description = []\<rparr>"
  let ?rg = "\<lparr>rg_node_name = ''n1'', rg_hostname = [], rg_version = [], rg_token = ''tok'', rg_topology = None, rg_endpoint = []\<rparr>"
  obtain x s' where run: "issue_token sample_auth_lib (Inr ''tok'') [] sample_node ?team (sample_pg []) = (Inr x, s')"
    by (simp add: issue_token_def generateTokenPlaintext_def NodeTokenInsert_def pin_node_acl_def fine_simps bnd_def
        wrap_err_def ret_def Let_def sample_defs sample_auth_lib_def)
  have b: "\<forall>p h. bcrypt_Generate sample_auth_lib p = Inr h \<longrightarrow> bcrypt_Compare sample_auth_lib h p"
    and t: "b64url sample_auth_lib ''tok'' \<noteq> as_token sample_stream" and r: "rg_token ?rg = b64url sample_auth_lib ''tok''"
    by (simp_all add: sample_auth_lib_def sample_stream_def)
  from node_token_opens_one_door [OF _ b run t r, of _ None "sample_world []"] show ?thesis by (simp add: sample_defs)
qed

section \<open>The topology report\<close>

lemma reported_gpu:
  assumes "g \<in> set (tp_gpus (Collect E S c))" and "g_vfio_ready g"
  shows "VFIOReady S (g_pci g) = Inr True \<and> (g_bind_blocker g = [] \<longrightarrow> (\<exists>r. DiagnoseBindability S (g_pci g) = Inr (True, r)))"
proof -
  from assms(1) obtain g0 where g0: "g0 \<in> set (case collectViaNvidiaSmi E c of None \<Rightarrow> collectViaSysfs S | Some gs \<Rightarrow> gs)"
    "g = enrich S g0" by (auto simp: Collect_def)
  from collected_plain [OF g0(1)] have p: "\<not> g_vfio_ready g0" "g_bind_blocker g0 = []" by simp_all
  show ?thesis
  proof (cases "g_pci g0 = []")
    case True
    with g0(2) assms(2) p show ?thesis by (simp add: enrich_def)
  next
    case False
    from enrich_diagnosed [OF False p] g0(2) assms(2) show ?thesis by auto
  qed
qed

text \<open>A GPU is reported ready only when it can be passed through: when the report says that a GPU is bound to
  vfio and names no blocker, the host has an IOMMU, and every device of the GPU's IOMMU group is bound to
  \<open>vfio-pci\<close> and is a GPU, an audio function or a USB controller, in whatever state the files of sysfs are.\<close>

theorem vfio_report_sound:
  assumes "g \<in> set (tp_gpus (Collect E S c))" and "g_vfio_ready g" and "g_bind_blocker g = []"
  shows "IOMMUEnabled S \<and> (\<exists>ms. GroupMembers S (g_pci g) = Inr ms \<and> ms \<noteq> [] \<and>
    (\<forall>m\<in>set ms. CurrentDriver S m = Inr ''vfio-pci'' \<and> (\<exists>cl. deviceClass S m = Inr cl \<and> companion_class cl)))"
proof -
  from reported_gpu [OF assms(1,2)] assms(3) obtain r
    where v: "VFIOReady S (g_pci g) = Inr True" and d: "DiagnoseBindability S (g_pci g) = Inr (True, r)" by blast
  from v obtain ms where ms: "GroupMembers S (g_pci g) = Inr ms" "\<forall>m\<in>set ms. CurrentDriver S m = Inr ''vfio-pci''"
    by (auto simp: VFIOReady_def all_vfio_True split: sum.splits)
  from d ms(1) have "IOMMUEnabled S" and "\<exists>n. count_classes S ms 0 0 = Inr (0, n) \<and> n \<noteq> 0"
    by (auto simp: DiagnoseBindability_def split: if_splits sum.splits)
  then have "ms \<noteq> [] \<and> (\<forall>m\<in>set ms. \<exists>cl. deviceClass S m = Inr cl \<and> companion_class cl)"
    using count_classes_ok [of S ms 0 0] by auto
  with ms \<open>IOMMUEnabled S\<close> show ?thesis by blast
qed

text \<open>A host with one GPU, alone in its group and bound to \<open>vfio-pci\<close>.\<close>

definition sample_sysfs :: sysfs where
  "sample_sysfs = \<lparr>sf_root = [],
     sf_Readlink = (\<lambda>p. if p ! 3 = ''driver'' then Inr ''vfio-pci'' else Inr ''7''),
     sf_ReadDir = (\<lambda>p. if p ! 1 = ''kernel/iommu_groups'' \<and> length p = 2 then Inr [''7''] else Inr [''g'']),
     sf_ReadFile = (\<lambda>p. if p ! 3 = ''class'' then Inr ''0x030000'' else Inr ''0x10de''),
     sf_Stat = (\<lambda>_. None), sf_WriteFile = (\<lambda>_ _. None), sf_IsNotExist = (\<lambda>_. False)\<rparr>"

definition no_smi :: smi_env where
  "no_smi = \<lparr>sm_LookPath = (\<lambda>_. Some (Err ''not found'')), sm_Output = (\<lambda>_. Inl (Err ''x'')), sm_Unmarshal = (\<lambda>_. Inl (Err ''x''))\<rparr>"

lemma sample_sysfs_gpus: "ListNVIDIAGPUs sample_sysfs = Inr [''g'']"
  by (simp add: ListNVIDIAGPUs_def nvidia_gpu_def DeviceVendor_def deviceClass_def sample_sysfs_def device_file_def
      is_gpu_class_def TrimSpace_def is_space_def)

lemma sample_sysfs_group: "GroupMembers sample_sysfs ''g'' = Inr [''g'']"
  by (simp add: GroupMembers_def IOMMUGroup_def sample_sysfs_def device_file_def Base_def Let_def)

lemma sample_sysfs_driver: "CurrentDriver sample_sysfs ''g'' = Inr ''vfio-pci''"
  by (simp add: CurrentDriver_def sample_sysfs_def device_file_def Base_def Let_def)

lemma sample_sysfs_class: "deviceClass sample_sysfs ''g'' = Inr ''0x030000''"
  by (simp add: deviceClass_def sample_sysfs_def device_file_def TrimSpace_def is_space_def)

lemma sample_sysfs_iommu: "IOMMUEnabled sample_sysfs"
  by (simp add: IOMMUEnabled_def sample_sysfs_def)

lemmas sample_sysfs_simps = sample_sysfs_gpus sample_sysfs_group sample_sysfs_driver sample_sysfs_class sample_sysfs_iommu

theorem vfio_report_sound_witness:
  "\<exists>g. g \<in> set (tp_gpus (Collect no_smi sample_sysfs \<lparr>lc_smi = [], lc_profile = None\<rparr>)) \<and> g_vfio_ready g \<and>
     (\<exists>ms. GroupMembers sample_sysfs (g_pci g) = Inr ms \<and> (\<forall>m\<in>set ms. CurrentDriver sample_sysfs m = Inr ''vfio-pci''))"
proof -
  let ?g = "enrich sample_sysfs (plain_gpu 0 ''g'' (sysfs_model sample_sysfs ''g'') 0)"
  have g: "?g \<in> set (tp_gpus (Collect no_smi sample_sysfs \<lparr>lc_smi = [], lc_profile = None\<rparr>))"
    by (simp add: Collect_def collectViaNvidiaSmi_def collectViaSysfs_def no_smi_def sample_sysfs_simps)
  have v: "VFIOReady sample_sysfs ''g'' = Inr True" by (simp add: VFIOReady_def sample_sysfs_simps)
  have d: "DiagnoseBindability sample_sysfs ''g'' = Inr (True, [])"
    by (simp add: DiagnoseBindability_def sample_sysfs_simps companion_class_def is_gpu_class_def)
  have "g_vfio_ready ?g" "g_bind_blocker ?g = []"
    using v d by (auto simp: enrich_def diagnose_def plain_gpu_def Let_def split: sum.splits)
  from vfio_report_sound [OF g this] g this show ?thesis by blast
qed

end
