(* ===== verification/MainBoot.thy ===== *)
theory MainBoot
  imports MainApi
begin

text \<open>
  The start of main-api (\<open>cmd/main-api/main.go\<close>): configuration, migrations, database, recovery of orphaned
  reservations, and the wiring of the components of \<open>MainApi\<close>. A start ends with an exit code or with the
  service running; what each call of the outside world returns is a parameter.
\<close>

record boot_env =
  be_migrate :: "err option"
  be_pool :: "err option"
  be_listen :: "err option"
  be_rates :: "err + (err + (int \<times> int) list)" \<comment> \<open>the rates file, decoded\<close>

datatype boot_result = Exit nat | Serving api_cfg

definition LoginRateLimit :: nat where
  "LoginRateLimit = 5"

definition LoginRateWindow :: int where
  "LoginRateWindow = 60 * second"

text \<open>\<open>runMigrations\<close>: an exit code, or none to go on.\<close>

definition runMigrations :: "boot_env \<Rightarrow> bool \<Rightarrow> nat option" where
  "runMigrations V migrate_only = (case be_migrate V of
       Some _ \<Rightarrow> Some 1
     | None \<Rightarrow> if migrate_only then Some 0 else None)"

definition recoverOrphanReservations :: "('z pg_scheme, nat) action" where
  "recoverOrphanReservations s = (case RecoverOrphanReservations s of
       (Inl e, s') \<Rightarrow> (Inl e, s')
     | (Inr n, s') \<Rightarrow> (Inr (nat n), s'))"

text \<open>\<open>startBillingWorker\<close>: without a path there is no worker.\<close>

definition startBillingWorker :: "Config \<Rightarrow> boot_env \<Rightarrow> err + RateTable option" where
  "startBillingWorker cf V = (if cf_rates_path cf = [] then Inr None
     else case LoadRates (be_rates V) of Inl e \<Rightarrow> Inl e | Inr r \<Rightarrow> Inr (Some r))"

text \<open>\<open>rc_signer\<close> is not used when the internal API is not served.\<close>

definition no_signer :: Signer where
  "no_signer = \<lparr>sn_secret = [], sn_ttl = 0\<rparr>"

definition wire_signer :: "Config \<Rightarrow> err + Signer" where
  "wire_signer cf = (if cf_internal_token cf = [] then Inr no_signer else NewSigner (cf_tunnel_secret cf) (cf_ticket_ttl cf))"

definition wire_router :: "Config \<Rightarrow> Signer \<Rightarrow> router_cfg" where
  "wire_router cf sg = \<lparr>rc_handlers = \<lparr>ih_slots = True, ih_extras = True, ih_balance = True, ih_team = True\<rparr>,
     rc_instances = True, rc_credits = True, rc_admin_token = cf_admin_token cf,
     rc_internal = (cf_internal_token cf \<noteq> []), rc_agent_auth = True, rc_internal_token = cf_internal_token cf,
     rc_signer = sg, rc_ssh_keys = True, rc_aa_ttl = 60 * second,
     rc_auth = \<lparr>ac_ttl = cf_session_ttl cf, ac_hops = cf_hops cf\<rparr>,
     uh_auth = True, uh_instances = True, uh_nodes = True, uh_ssh_keys = True, uh_credits = True, uh_admin = True,
     uh_admin_instances = True, uh_admin_credits = True, uh_admin_nodes = True\<rparr>"

definition wire_stream :: "Config \<Rightarrow> uuid \<Rightarrow> AgentStreamService" where
  "wire_stream cf zone = \<lparr>as_instances = True, as_slots = True, as_profiles = True, as_registry = True,
     as_token = cf_agent_token cf, as_zone = zone, as_heartbeat = 0, as_buffer = 0\<rparr>"

text \<open>The state the service starts with: what the database holds, no agent, a fresh limiter, an empty cache.\<close>

definition fresh_state :: "api_state \<Rightarrow> api_state" where
  "fresh_state s = s\<lparr>reg := (\<lambda>_. None), api_limiter := Some (NewRateLimiter LoginRateLimit LoginRateWindow), api_cache := (\<lambda>_. None)\<rparr>"

definition boot :: "api_libs \<Rightarrow> boot_env \<Rightarrow> bool \<Rightarrow> err + Config \<Rightarrow> api_state \<Rightarrow> boot_result \<times> api_state" where
  "boot E V migrate_only conf s0 = (case conf of
       Inl _ \<Rightarrow> (Exit 2, s0)
     | Inr cf \<Rightarrow> (case runMigrations V migrate_only of
         Some n \<Rightarrow> (Exit n, s0)
       | None \<Rightarrow>
           if be_pool V \<noteq> None then (Exit 1, s0)
           else (case recoverOrphanReservations s0 of
             (Inl _, s1) \<Rightarrow> (Exit 1, s1)
           | (Inr _, s1) \<Rightarrow> (case DefaultZoneID s1 of
               (Inl _, s2) \<Rightarrow> (Exit 1, s2)
             | (Inr zone, s2) \<Rightarrow>
                 if be_listen V \<noteq> None then (Exit 1, s2)
                 else (case wire_signer cf of
                   Inl _ \<Rightarrow> (Exit 2, s2)
                 | Inr sg \<Rightarrow> (case startBillingWorker cf V of
                     Inl _ \<Rightarrow> (Exit 2, s2)
                   | Inr rates \<Rightarrow> (Serving \<lparr>ap_router = wire_router cf sg, ap_stream = wire_stream cf zone,
                       ap_rates = rates, ap_dispatcher = True, ap_libs = E\<rparr>, fresh_state s2)))))))"

section \<open>Lemmas\<close>

lemma boot_Serving:
  assumes "boot E V mo conf s0 = (Serving c, s)"
  obtains cf sg zone rates n s1 s2 where "conf = Inr cf" "wire_signer cf = Inr sg" "startBillingWorker cf V = Inr rates"
    "RecoverOrphanReservations s0 = (Inr n, s1)" "DefaultZoneID s1 = (Inr zone, s2)" "s = fresh_state s2"
    "c = \<lparr>ap_router = wire_router cf sg, ap_stream = wire_stream cf zone, ap_rates = rates, ap_dispatcher = True, ap_libs = E\<rparr>"
  using assms
  by (auto simp: boot_def recoverOrphanReservations_def split: sum.splits option.splits prod.splits if_splits)

lemma recovered:
  assumes "RecoverOrphanReservations s = (Inr n, s')"
  shows "\<not> (\<exists>q\<in>set (slots (tbl s')). s_status q = Reserved \<and> s_instance q = None)"
proof -
  let ?P = "\<lambda>r. s_status r = Reserved \<and> s_instance r = None"
  have "tbl s' = (tbl s)\<lparr>slots := set_where ?P (\<lambda>r. r\<lparr>s_status := Free, s_instance := None\<rparr>) (slots (tbl s))\<rparr>"
    using assms unfolding RecoverOrphanReservations_def ReleaseAllOrphanReservedSlots_def
    by (elim dml_Inr) (simp add: Let_def)
  then show ?thesis
    by (auto simp: set_where_def)
qed

lemma zone_frame: "DefaultZoneID s = (r, s') \<Longrightarrow> tbl s' = tbl s"
  by (auto simp: DefaultZoneID_def GetDefaultZone_def bnd_def ret_def split: prod.splits sum.splits dest!: sel_tbl)

end
