(* ===== verification/BootProps.thy ===== *)
theory BootProps
  imports MainBoot RouterProps
begin

text \<open>
  Properties of a started main-api: what the configuration and the start-up guarantee to the service that runs.
\<close>

lemma admin_guard:
  assumes "rc_admin_token c \<noteq> []" and "rq_path rq = ''admin'' # p # ps" and "rq_authorization rq \<noteq> ''Bearer '' @ rc_admin_token c"
  shows "NewRouter E c rq w = (writeError 401 ''unauthenticated'' ''invalid or missing bearer token'', w)"
  using assms by (simp add: NewRouter_def NewAdminRouter_def RequireAdminToken_def bearer_ok_iff reply_def)

lemma internal_guard:
  assumes "rc_internal c \<longrightarrow> rc_internal_token c \<noteq> []" and "rq_path rq = ''internal'' # p # ps"
    and "rq_authorization rq \<noteq> ''Bearer '' @ rc_internal_token c"
  shows "NewRouter E c rq w = (if rc_internal c then writeError 401 ''unauthenticated'' ''invalid or missing internal bearer token''
    else HStatus 404 None, w)"
  using assms by (auto simp: NewRouter_def NewInternalRouter_def RequireInternalToken_def bearer_ok_iff reply_def)

lemma stream_guard:
  "rg_token rg \<noteq> as_token svc \<or> as_token svc = [] \<Longrightarrow>
   stream_open svc X (RecvMsg (MRegister rg)) ack w = (Inl (rpc_err ''Unauthenticated'' ''invalid agent token''), w)"
  by (auto simp: stream_open_def fail_def)

text \<open>C24. main-api serves only when its three doors are locked: whenever the start ends with the service running, a
  request below \<open>/admin/\<close> or \<open>/internal/\<close> without the exact bearer token of its section changes nothing and
  is refused, an agent without the agent token opens no stream, the tickets are signed with a secret of
  at least 16 bytes when the internal API is served, and no slot is left reserved without an instance
  and no agent registered from before.\<close>

theorem boot_secures_service:
  assumes "boot E V migrate_only (FromEnv cv ev) s0 = (Serving c, s)"
  shows "(rq_path rq = ''admin'' # p # ps \<and> rq_authorization rq \<noteq> ''Bearer '' @ rc_admin_token (ap_router c) \<longrightarrow>
      NewRouter E (ap_router c) rq w = (writeError 401 ''unauthenticated'' ''invalid or missing bearer token'', w)) \<and>
    (rq_path rq = ''internal'' # p # ps \<and> rq_authorization rq \<noteq> ''Bearer '' @ rc_internal_token (ap_router c) \<longrightarrow>
      snd (NewRouter E (ap_router c) rq w) = w \<and> fst (NewRouter E (ap_router c) rq w) \<in>
        {writeError 401 ''unauthenticated'' ''invalid or missing internal bearer token'', HStatus 404 None}) \<and>
    (rg_token rg \<noteq> as_token (ap_stream c) \<or> rg_token rg = [] \<longrightarrow>
      stream_open (ap_stream c) X (RecvMsg (MRegister rg)) ack w = (Inl (rpc_err ''Unauthenticated'' ''invalid agent token''), w)) \<and>
    (rc_internal (ap_router c) \<longrightarrow> 16 \<le> length (sn_secret (rc_signer (ap_router c))) \<and> 0 < sn_ttl (rc_signer (ap_router c))) \<and>
    (\<forall>q\<in>set (slots (tbl s)). s_status q = Reserved \<longrightarrow> s_instance q \<noteq> None) \<and> reg s = (\<lambda>_. None)"
proof -
  from boot_Serving [OF assms] obtain cf sg zone rates n s1 s2 where b: "FromEnv cv ev = Inr cf" "wire_signer cf = Inr sg"
    "RecoverOrphanReservations s0 = (Inr n, s1)" "DefaultZoneID s1 = (Inr zone, s2)" "s = fresh_state s2"
    "c = \<lparr>ap_router = wire_router cf sg, ap_stream = wire_stream cf zone, ap_rates = rates, ap_dispatcher = True, ap_libs = E\<rparr>" .
  note f = FromEnv_ok [OF b(1)]
  have r: "rc_admin_token (ap_router c) \<noteq> []" "rc_internal (ap_router c) \<longrightarrow> rc_internal_token (ap_router c) \<noteq> []"
    "as_token (ap_stream c) \<noteq> []" using f by (simp_all add: b(6) wire_router_def wire_stream_def)
  have "rc_internal (ap_router c) \<longrightarrow> 16 \<le> length (sn_secret (rc_signer (ap_router c))) \<and> 0 < sn_ttl (rc_signer (ap_router c))"
    using b(2) by (auto simp: b(6) wire_router_def wire_signer_def NewSigner_def split: if_splits)
  moreover have "(\<forall>q\<in>set (slots (tbl s)). s_status q = Reserved \<longrightarrow> s_instance q \<noteq> None) \<and> reg s = (\<lambda>_. None)"
    using recovered [OF b(3)] zone_frame [OF b(4)] by (auto simp: b(5) fresh_state_def)
  ultimately show ?thesis
    using admin_guard [OF r(1), of rq p ps E w] internal_guard [OF r(2), of rq p ps E w]
      stream_guard [of rg "ap_stream c" X ack w] r(3) by auto
qed

definition healthy_boot :: boot_env where
  "healthy_boot = \<lparr>be_migrate = None, be_pool = None, be_listen = None, be_rates = Inl (Err ''no file'')\<rparr>"

lemma sample_FromEnv: "FromEnv sample_conv sample_env = Inr (read_config sample_conv sample_env)"
  by (simp add: FromEnv_def Let_def read_config_def sample_env_def boolEnv_def)

text \<open>A healthy start over the sample database, with any accepted configuration that has no rates file.\<close>

lemma sample_boot_world:
  assumes "wire_signer cf = Inr sg" and "cf_rates_path cf = []"
  shows "\<exists>c s. boot E healthy_boot False (Inr cf) sample_api = (Serving c, s) \<and> ap_router c = wire_router cf sg"
proof -
  have fa: "faults sample_api = []" by (simp add: sample_api_def sample_world_def world.defs)
  have "(snd (RecoverOrphanReservations sample_api)) = sample_api\<lparr>tbl := sample_tables, ctr := ctr (snd (RecoverOrphanReservations sample_api))\<rparr>
    \<and> (\<exists>n. fst (RecoverOrphanReservations sample_api) = Inr n)"
    using fa by (simp add: RecoverOrphanReservations_def ReleaseAllOrphanReservedSlots_def fine_simps Let_def tbl_sample_api set_where_def sample_tables_def sample_slot_def)
  then obtain n k where r: "RecoverOrphanReservations sample_api = (Inr n, sample_api\<lparr>tbl := sample_tables, ctr := k\<rparr>)"
    by (metis prod.collapse)
  have z: "DefaultZoneID (sample_api\<lparr>tbl := sample_tables, ctr := k\<rparr>) = (Inr 9, sample_api\<lparr>tbl := sample_tables, ctr := k\<rparr>)"
    using fa by (simp add: DefaultZoneID_def GetDefaultZone_def bnd_def wrap_err_def ret_def fine_simps pick_def sample_tables_def)
  show ?thesis
    by (simp add: boot_def runMigrations_def healthy_boot_def recoverOrphanReservations_def r z assms startBillingWorker_def)
qed

lemma sample_boot: "\<exists>c s. boot sample_libs healthy_boot False (FromEnv sample_conv sample_env) sample_api = (Serving c, s) \<and>
    rc_admin_token (ap_router c) = ''root''"
  using sample_boot_world [of "read_config sample_conv sample_env" no_signer sample_libs]
  by (auto simp: sample_FromEnv wire_signer_def wire_router_def read_config_def sample_env_def)

theorem boot_secures_service_witness:
  "\<exists>c s. boot sample_libs healthy_boot False (FromEnv sample_conv sample_env) sample_api = (Serving c, s) \<and>
    NewRouter sample_libs (ap_router c) (probe ''GET'' [''admin'', ''nodes'']) s =
      (writeError 401 ''unauthenticated'' ''invalid or missing bearer token'', s)"
proof -
  from sample_boot obtain c s where b: "boot sample_libs healthy_boot False (FromEnv sample_conv sample_env) sample_api = (Serving c, s)"
    "rc_admin_token (ap_router c) = ''root''" by blast
  from boot_secures_service [OF b(1), of "probe ''GET'' [''admin'', ''nodes'']" "''nodes''" "[]" s] b(2)
  have "NewRouter sample_libs (ap_router c) (probe ''GET'' [''admin'', ''nodes'']) s =
      (writeError 401 ''unauthenticated'' ''invalid or missing bearer token'', s)" by simp
  with b(1) show ?thesis by blast
qed

end
