(* ===== verification/HostKey.thy ===== *)
theory HostKey
  imports Prelude
begin

text \<open>
  ssh-proxy's host key (\<open>hostkey/hostkey.go\<close>): read from its file, or generated and written when there is none. The
  file and the functions of \<open>crypto\<close> and \<open>ssh\<close> are parameters; a private key is of type \<open>'k\<close>, a signer of type \<open>'g\<close>.
\<close>

record ('k, 'g) key_lib =
  kl_generate :: "err + 'k"
  kl_Marshal :: "'k \<Rightarrow> err + string" \<comment> \<open>\<open>ssh.MarshalPrivateKey\<close> and the PEM encoding\<close>
  kl_Parse :: "string \<Rightarrow> err + 'g"
  kl_Signer :: "'k \<Rightarrow> err + 'g"

text \<open>The file at the path: missing, unreadable, or its bytes.\<close>

datatype key_file = KeyMissing | KeyUnreadable err | KeyBytes string

definition parsePEM :: "('k, 'g) key_lib \<Rightarrow> string \<Rightarrow> err + 'g" where
  "parsePEM L raw = (case kl_Parse L raw of Inl e \<Rightarrow> Inl (WrapErr ''parse host key: '' e []) | Inr g \<Rightarrow> Inr g)"

definition marshalPEM :: "('k, 'g) key_lib \<Rightarrow> 'k \<Rightarrow> err + string" where
  "marshalPEM L k = (case kl_Marshal L k of Inl e \<Rightarrow> Inl (WrapErr ''marshal private key: '' e []) | Inr b \<Rightarrow> Inr b)"

text \<open>\<open>written\<close> is the error of \<open>os.WriteFile\<close>, with what the file holds if it fails.\<close>

definition LoadOrGenerate ::
  "('k, 'g) key_lib \<Rightarrow> string \<Rightarrow> (err \<times> key_file) option \<Rightarrow> key_file \<Rightarrow> (err + 'g) \<times> key_file" where
  "LoadOrGenerate L path written f = (case f of
       KeyBytes raw \<Rightarrow> (parsePEM L raw, f)
     | KeyUnreadable e \<Rightarrow> (Inl (WrapErr (''read host key '' @ path @ '': '') e []), f)
     | KeyMissing \<Rightarrow> (case kl_generate L of
         Inl e \<Rightarrow> (Inl (WrapErr ''generate ed25519: '' e []), f)
       | Inr k \<Rightarrow> (case marshalPEM L k of
           Inl e \<Rightarrow> (Inl e, f)
         | Inr pem \<Rightarrow> (case written of
             Some (e, f') \<Rightarrow> (Inl (WrapErr (''write host key '' @ path @ '': '') e []), f')
           | None \<Rightarrow> (kl_Signer L k, KeyBytes pem)))))"

text \<open>What \<open>ssh\<close> documents of the encoding: parsing gives the signer of the key that was encoded.\<close>

definition key_ok :: "('k, 'g) key_lib \<Rightarrow> bool" where
  "key_ok L \<longleftrightarrow> (\<forall>k pem. kl_Marshal L k = Inr pem \<longrightarrow> kl_Parse L pem = kl_Signer L k)"

lemma existing_key_kept: "snd (LoadOrGenerate L path written (KeyBytes raw)) = KeyBytes raw"
  by (simp add: LoadOrGenerate_def)

text \<open>A start that succeeded leaves a file from which every later start gets the same signer.\<close>

lemma host_key_stable:
  assumes "key_ok L" and "LoadOrGenerate L path written f = (Inr g, f')"
  shows "LoadOrGenerate L path' written' f' = (Inr g, f')"
  using assms
  by (auto simp: LoadOrGenerate_def parsePEM_def marshalPEM_def key_ok_def split: key_file.splits sum.splits option.splits)

end
