(* ===== verification/ProxyBoot.thy ===== *)
theory ProxyBoot
  imports Tunnel MuxServer HostKey GoFlags
begin

text \<open>
  The start of ssh-proxy (\<open>cmd/ssh-proxy/main.go\<close>): flags with defaults from the environment, the host key, the mux
  endpoint, the choice of the tunnel handler, and the exit codes. What the calls of the outside world return is a parameter.
\<close>

section \<open>Configuration\<close>

text \<open>\<open>env\<close> of both binaries.\<close>

definition env :: "(string \<Rightarrow> string) \<Rightarrow> string \<Rightarrow> string \<Rightarrow> string" where
  "env ev key fallback = (if ev key \<noteq> [] then ev key else fallback)"

record proxy_flags =
  pf_listen :: string
  pf_zone :: string
  pf_host_key :: string
  pf_api :: string
  pf_token :: string
  pf_mux_listen :: string
  pf_mux_cert :: string
  pf_mux_key :: string
  pf_metrics :: string

definition proxy_flag_names :: "string list" where
  "proxy_flag_names = [''listen'', ''zone'', ''host-key'', ''api'', ''internal-token'', ''mux-listen'', ''mux-cert'', ''mux-key'', ''metrics-listen'']"

definition proxy_defaults :: "(string \<Rightarrow> string) \<Rightarrow> string \<Rightarrow> string" where
  "proxy_defaults ev nm =
     (if nm = ''listen'' then env ev ''SSH_PROXY_LISTEN'' '':22''
      else if nm = ''zone'' then env ev ''SSH_PROXY_ZONE'' ''hybrid-cloud.com''
      else if nm = ''host-key'' then env ev ''SSH_PROXY_HOST_KEY'' ''/var/lib/hybrid/ssh-proxy-hostkey''
      else if nm = ''api'' then env ev ''SSH_PROXY_API_ENDPOINT'' ''http://127.0.0.1:8080''
      else if nm = ''internal-token'' then env ev ''SSH_PROXY_INTERNAL_TOKEN'' []
      else if nm = ''mux-listen'' then env ev ''SSH_PROXY_MUX_LISTEN'' []
      else if nm = ''mux-cert'' then env ev ''SSH_PROXY_MUX_CERT'' []
      else if nm = ''mux-key'' then env ev ''SSH_PROXY_MUX_KEY'' []
      else if nm = ''metrics-listen'' then env ev ''SSH_PROXY_METRICS_LISTEN'' []
      else [])"

definition proxy_read_flags :: "(string \<Rightarrow> string) \<Rightarrow> string list \<Rightarrow> err + proxy_flags" where
  "proxy_read_flags ev args = (case flag_parse proxy_flag_names [] (\<lambda>_ _. True) args (proxy_defaults ev) of
       Inl e \<Rightarrow> Inl e
     | Inr v \<Rightarrow> Inr \<lparr>pf_listen = v ''listen'', pf_zone = v ''zone'', pf_host_key = v ''host-key'', pf_api = v ''api'',
         pf_token = v ''internal-token'', pf_mux_listen = v ''mux-listen'', pf_mux_cert = v ''mux-cert'',
         pf_mux_key = v ''mux-key'', pf_metrics = v ''metrics-listen''\<rparr>)"

section \<open>The mux endpoint\<close>

text \<open>The outside world at start-up: the key pair and the two listeners.\<close>

record proxy_env =
  pe_keypair :: "err option"
  pe_mux_listen :: "err option"
  pe_listen :: "err option"

text \<open>What runs once the mux endpoint is up: the registry, the configuration of the verifier and of the server.\<close>

record mux_endpoint =
  me_registry :: "mux_config \<times> mux"
  me_verifier :: verifier_config
  me_deps :: mux_deps

definition startMuxIfConfigured :: "proxy_flags \<Rightarrow> proxy_env \<Rightarrow> nat + mux_endpoint option" where
  "startMuxIfConfigured fl V =
     (if pf_mux_listen fl = [] then Inr None
      else if pf_mux_cert fl = [] \<or> pf_mux_key fl = [] then Inl 2
      else if pf_token fl = [] then Inl 2
      else if pe_keypair V \<noteq> None then Inl 2
      else if pe_mux_listen V \<noteq> None then Inl 1
      else Inr (Some \<lparr>
        me_registry = mux_New \<lparr>mc_reporter = True, mc_interval = 0, mc_timeout = 0\<rparr>,
        me_verifier = NewHTTPVerifier \<lparr>vc_base = pf_api fl, vc_token = pf_token fl, vc_ttl = 0\<rparr>,
        me_deps = \<lparr>md_tls = Some True, md_min_version = VersionTLS13, md_verifier = True, md_registry = True, md_log = True,
          md_handshake = 0\<rparr>\<rparr>))"

section \<open>The SSH front\<close>

text \<open>The relay, as \<open>main\<close> wires it: the decoders of the ticket, the clock, what yamux returns and the error of
  writing the header are parameters.\<close>

type_synonym 'm relay_fn = "string \<Rightarrow> Signed \<Rightarrow> 'm proxy \<Rightarrow> err option \<times> 'm proxy"

definition wire_handler :: "ticket_json \<Rightarrow> 'm transport \<Rightarrow> 'm relay_fn \<Rightarrow> proxy_flags \<Rightarrow> 'm proxy conn_handler" where
  "wire_handler J net relay fl =
     (if pf_token fl = [] then DenyHandler_Connect close_channel ''internal token not configured''
      else Tunnel_Connect \<lparr>
        th_tickets = Some (TicketClient_Issue J net \<lparr>tc_base = pf_api fl, tc_token = pf_token fl\<rparr>),
        th_after = Some relay\<rparr>)"

datatype 'm proxy_boot = ProxyExit nat | ProxyServing "'m proxy server_config" "mux_endpoint option"

text \<open>\<open>main\<close> up to \<open>Serve\<close>; \<open>key\<close> is the result of \<open>LoadOrGenerate\<close>, a signer being its text.\<close>

definition proxy_main ::
  "ticket_json \<Rightarrow> 'm transport \<Rightarrow> 'm relay_fn \<Rightarrow> proxy_env \<Rightarrow> (string \<Rightarrow> err + string) \<Rightarrow> (string \<Rightarrow> string) \<Rightarrow> string list \<Rightarrow> 'm proxy_boot" where
  "proxy_main J net relay V key ev args = (case proxy_read_flags ev args of
       Inl e \<Rightarrow> ProxyExit (flag_exit e)
     | Inr fl \<Rightarrow> (case key (pf_host_key fl) of
         Inl e \<Rightarrow> ProxyExit 2
       | Inr signer \<Rightarrow> (case startMuxIfConfigured fl V of
           Inl n \<Rightarrow> ProxyExit n
         | Inr mx \<Rightarrow>
             if pf_token fl \<noteq> [] \<and> mx = None then ProxyExit 2
             else (case server_New close_channel \<lparr>sc_zone = pf_zone fl, sc_keys = [signer],
                      sc_handler = Some (wire_handler J net relay fl), sc_handshake = 0, sc_max = 0, sc_idle = 0\<rparr> of
                 Inl e \<Rightarrow> ProxyExit 2
               | Inr cfg \<Rightarrow> if pe_listen V \<noteq> None then ProxyExit 1 else ProxyServing cfg mx))))"

text \<open>How \<open>main\<close> ends when \<open>Serve\<close> has returned: an error other than the cancellation ends the process at once,
  otherwise the registry is closed.\<close>

definition ErrContextCanceled :: err where
  "ErrContextCanceled = Err ''context canceled''"

definition proxy_shutdown :: "err option \<Rightarrow> string list \<Rightarrow> mux option \<Rightarrow> nat \<times> mux option" where
  "proxy_shutdown served nds mx = (case served of
       Some e \<Rightarrow> if e \<noteq> ErrContextCanceled then (1, mx) else (0, map_option (mux_Close nds) mx)
     | None \<Rightarrow> (0, map_option (mux_Close nds) mx))"

section \<open>Lemmas\<close>

lemma startMux_Some:
  assumes "startMuxIfConfigured fl V = Inr (Some m)"
  shows "pf_token fl \<noteq> [] \<and> me_verifier m = \<lparr>vc_base = pf_api fl, vc_token = pf_token fl, vc_ttl = 0\<rparr> \<and>
    validateDeps (me_deps m) = None \<and> mux_Serve_setup (me_deps m) = Inr (VersionTLS13, 30 * second)"
  using assms
  by (auto simp: startMuxIfConfigured_def NewHTTPVerifier_def validateDeps_def mux_Serve_setup_def second_def split: if_splits)

lemma proxy_serving:
  assumes "proxy_main J net relay V key ev args = ProxyServing cfg mx"
  obtains fl signer where "proxy_read_flags ev args = Inr fl" "key (pf_host_key fl) = Inr signer"
    "startMuxIfConfigured fl V = Inr mx" "pf_token fl \<noteq> [] \<longrightarrow> mx \<noteq> None" "pf_zone fl \<noteq> []"
    "cfg = \<lparr>sc_zone = pf_zone fl, sc_keys = [signer], sc_handler = Some (wire_handler J net relay fl),
       sc_handshake = 15 * second, sc_max = 1024, sc_idle = 60 * second\<rparr>"
  using assms
  by (auto simp: proxy_main_def server_New_def split: sum.splits if_splits)

end
