(* ===== verification/AgentBoot.thy ===== *)
theory AgentBoot
  imports StreamClient MuxClient Topo Profile VmHandler GoFlags
begin

text \<open>
  The start of compute-agent (\<open>cmd/compute-agent/main.go\<close>): flags with defaults from the environment, the slot
  layout, the collector, the wiring of the control stream, the VM handler and the mux client, and the exit codes.
\<close>

section \<open>Flags\<close>

text \<open>\<open>fmt.Sscanf(v, "%d", &n)\<close> for an \<open>int\<close>: white space, a sign, and digits whose value fits; what follows is
  ignored. A line break before the number is an error.\<close>

fun skip_space :: "string \<Rightarrow> string option" where
  "skip_space [] = Some []"
| "skip_space (c # cs) = (if c = CHR 0x0A then None else if is_space c then skip_space cs else Some (c # cs))"

definition scan_int :: "string \<Rightarrow> int option" where
  "scan_int s = (case s of
       [] \<Rightarrow> None
     | c # cs \<Rightarrow>
         let neg = (c = CHR ''-''); ds = (if c = CHR ''-'' \<or> c = CHR ''+'' then cs else s) in
         (case ds of [] \<Rightarrow> None
          | d # _ \<Rightarrow> if digit_value d = None then None
              else let n = (if neg then - int (scan_digits 0 ds) else int (scan_digits 0 ds))
                in if - (2 ^ 63) \<le> n \<and> n < 2 ^ 63 then Some n else None))"

definition Sscan_int :: "string \<Rightarrow> int option" where
  "Sscan_int s = Option.bind (skip_space s) scan_int"

definition agent_env :: "(string \<Rightarrow> string) \<Rightarrow> string \<Rightarrow> string \<Rightarrow> string" where
  "agent_env ev key fallback = (if ev key \<noteq> [] then ev key else fallback)"

definition envInt :: "(string \<Rightarrow> string) \<Rightarrow> string \<Rightarrow> int \<Rightarrow> int" where
  "envInt ev key fallback = (if ev key = [] then fallback
     else case Sscan_int (ev key) of None \<Rightarrow> fallback | Some n \<Rightarrow> n)"

record agent_flags =
  af_endpoint :: string
  af_node_name :: string
  af_token :: string
  af_version :: string
  af_fake :: bool
  af_no_vms :: bool
  af_image_dir :: string
  af_seed_dir :: string
  af_base_image :: string
  af_network :: string
  af_disk_gb :: int
  af_profile :: string
  af_mux_endpoint :: string
  af_mux_server :: string
  af_mux_insecure :: bool

text \<open>The conversions of the boolean and the integer flags; a flag that is not given has the empty text, which
  neither accepts.\<close>

record flag_conv =
  fv_ParseBool :: "string \<Rightarrow> bool option"
  fv_ParseInt :: "string \<Rightarrow> int option"

definition agent_bools :: "string list" where
  "agent_bools = [''fake-topology'', ''disable-vms'', ''mux-insecure'']"

definition agent_strings :: "string list" where
  "agent_strings = [''endpoint'', ''node-name'', ''agent-token'', ''agent-version'', ''image-dir'', ''seed-dir'', ''base-image'',
     ''network'', ''disk-gb'', ''profile'', ''mux-endpoint'', ''mux-server-name'']"

definition agent_okay :: "flag_conv \<Rightarrow> string \<Rightarrow> string \<Rightarrow> bool" where
  "agent_okay cv nm v = (if nm \<in> set agent_bools then fv_ParseBool cv v \<noteq> None
     else if nm = ''disk-gb'' then fv_ParseInt cv v \<noteq> None else True)"

definition agent_defaults :: "(string \<Rightarrow> string) \<Rightarrow> string \<Rightarrow> string" where
  "agent_defaults ev nm =
     (if nm = ''endpoint'' then agent_env ev ''AGENT_API_ENDPOINT'' ''localhost:8081''
      else if nm = ''node-name'' then agent_env ev ''AGENT_NODE_NAME'' []
      else if nm = ''agent-token'' then agent_env ev ''AGENT_API_TOKEN'' []
      else if nm = ''agent-version'' then ''0.1.0''
      else if nm = ''image-dir'' then agent_env ev ''AGENT_IMAGE_DIR'' ''/var/lib/hybrid/images''
      else if nm = ''seed-dir'' then agent_env ev ''AGENT_SEED_DIR'' ''/var/lib/hybrid/seeds''
      else if nm = ''base-image'' then agent_env ev ''AGENT_BASE_IMAGE'' []
      else if nm = ''network'' then agent_env ev ''AGENT_LIBVIRT_NETWORK'' ''default''
      else if nm = ''profile'' then agent_env ev ''AGENT_PROFILE'' []
      else if nm = ''mux-endpoint'' then agent_env ev ''AGENT_MUX_ENDPOINT'' []
      else if nm = ''mux-server-name'' then agent_env ev ''AGENT_MUX_SERVER_NAME'' []
      else [])"

definition given_bool :: "flag_conv \<Rightarrow> string \<Rightarrow> bool \<Rightarrow> bool" where
  "given_bool cv v fallback = (case fv_ParseBool cv v of None \<Rightarrow> fallback | Some b \<Rightarrow> b)"

definition agent_read_flags :: "flag_conv \<Rightarrow> (string \<Rightarrow> string) \<Rightarrow> string list \<Rightarrow> err + agent_flags" where
  "agent_read_flags cv ev args = (case flag_parse agent_strings agent_bools (agent_okay cv) args (agent_defaults ev) of
       Inl e \<Rightarrow> Inl e
     | Inr v \<Rightarrow> Inr \<lparr>af_endpoint = v ''endpoint'', af_node_name = v ''node-name'', af_token = v ''agent-token'',
         af_version = v ''agent-version'',
         af_fake = given_bool cv (v ''fake-topology'') (agent_env ev ''AGENT_FAKE_TOPOLOGY'' [] = ''1''),
         af_no_vms = given_bool cv (v ''disable-vms'') (agent_env ev ''AGENT_DISABLE_VMS'' [] = ''1''),
         af_image_dir = v ''image-dir'', af_seed_dir = v ''seed-dir'', af_base_image = v ''base-image'', af_network = v ''network'',
         af_disk_gb = (case fv_ParseInt cv (v ''disk-gb'') of None \<Rightarrow> envInt ev ''AGENT_DISK_GB'' 50 | Some n \<Rightarrow> n),
         af_profile = v ''profile'', af_mux_endpoint = v ''mux-endpoint'', af_mux_server = v ''mux-server-name'',
         af_mux_insecure = given_bool cv (v ''mux-insecure'') (agent_env ev ''AGENT_MUX_INSECURE'' [] = ''1'')\<rparr>)"

section \<open>Start\<close>

text \<open>The host: its name (empty when unknown), the profile file, SHA-256, nvidia-smi, sysfs, the connection to
  libvirtd.\<close>

record agent_host =
  ah_hostname :: string
  ah_ReadFile :: "string \<Rightarrow> err + string"
  ah_yaml :: "string \<Rightarrow> err + File"
  ah_sha :: "string \<Rightarrow> string"
  ah_smi :: smi_env
  ah_sysfs :: sysfs
  ah_libvirt :: "err option"

definition detectGPUIndices :: "agent_host \<Rightarrow> bool \<Rightarrow> int list" where
  "detectGPUIndices H fake = (if fake then []
     else map g_index (tp_gpus (Collect (ah_smi H) (ah_sysfs H) \<lparr>lc_smi = [], lc_profile = None\<rparr>)))"

definition load_profile :: "agent_host \<Rightarrow> agent_flags \<Rightarrow> err + Profile_pb option" where
  "load_profile H fl = (if af_profile fl = [] then Inr None
     else case Load (ah_ReadFile H) (ah_yaml H) (af_profile fl) of
       Inl e \<Rightarrow> Inl e
     | Inr (f, raw) \<Rightarrow> (case Resolve (ah_sha H) f raw (detectGPUIndices H (af_fake fl)) of
         Inl e \<Rightarrow> Inl e
       | Inr r \<Rightarrow> Inr (Some (Proto_of r))))"

definition agent_collector :: "agent_host \<Rightarrow> agent_flags \<Rightarrow> Profile_pb option \<Rightarrow> Topology" where
  "agent_collector H fl pf = (if af_fake fl then empty_topology
     else Collect (ah_smi H) (ah_sysfs H) \<lparr>lc_smi = [], lc_profile = pf\<rparr>)"

definition agent_stream_config :: "agent_host \<Rightarrow> agent_flags \<Rightarrow> Profile_pb option \<Rightarrow> stream_config" where
  "agent_stream_config H fl pf = \<lparr>sf_endpoint = af_endpoint fl, sf_node_name = af_node_name fl, sf_hostname = ah_hostname H,
     sf_version = af_version fl, sf_token = af_token fl, sf_topology = Some (Inr (agent_collector H fl pf)),
     sf_initial = 0, sf_max = 0\<rparr>"

definition agent_vm_config :: "agent_flags \<Rightarrow> vm_config" where
  "agent_vm_config fl = \<lparr>hc_image_dir = af_image_dir fl, hc_seed_dir = af_seed_dir fl, hc_base = af_base_image fl,
     hc_network = af_network fl, hc_disk_gb = af_disk_gb fl\<rparr>"

text \<open>The configuration the control stream runs with and that of the VM handler, if there is one.\<close>

datatype agent_boot = AgentExit nat | AgentRunning agent_flags stream_config "vm_config option"

definition agent_main :: "flag_conv \<Rightarrow> agent_host \<Rightarrow> (string \<Rightarrow> string) \<Rightarrow> string list \<Rightarrow> agent_boot" where
  "agent_main cv H ev args = (case agent_read_flags cv ev args of
       Inl e \<Rightarrow> AgentExit (flag_exit e)
     | Inr fl0 \<Rightarrow>
         let fl = (if af_node_name fl0 = [] then fl0\<lparr>af_node_name := ah_hostname H\<rparr> else fl0) in
         if af_token fl = [] then AgentExit 2
         else (case load_profile H fl of
             Inl e \<Rightarrow> AgentExit 2
           | Inr pf \<Rightarrow>
               if \<not> af_no_vms fl \<and> ah_libvirt H \<noteq> None then AgentExit 1
               else (case stream_New (agent_stream_config H fl pf) of
                   Inl e \<Rightarrow> AgentExit 2
                 | Inr sc \<Rightarrow> AgentRunning fl sc (if af_no_vms fl then None else Some (agent_vm_config fl)))))"

section \<open>The mux client\<close>

definition startMuxclient :: "agent_flags \<Rightarrow> string \<Rightarrow> mux_client_config" where
  "startMuxclient fl nd = \<lparr>mk_endpoint = af_mux_endpoint fl, mk_server_name = af_mux_server fl, mk_node = nd,
     mk_token = af_token fl, mk_version = af_version fl, mk_keepalive = 0, mk_initial = 0, mk_max = 0, mk_handshake = 0,
     mk_on_attach = True\<rparr>"

text \<open>\<open>OnRegistered\<close> with its \<open>sync.Once\<close>: the state is the client that was started.\<close>

definition OnRegistered :: "agent_flags \<Rightarrow> string \<Rightarrow> mux_client_config option \<Rightarrow> mux_client_config option" where
  "OnRegistered fl nd started = (if af_mux_endpoint fl = [] then started
     else case started of None \<Rightarrow> Some (startMuxclient fl nd) | Some c \<Rightarrow> Some c)"

text \<open>The end: what \<open>client.Run\<close> returned.\<close>

definition agent_exit :: "err option \<Rightarrow> nat" where
  "agent_exit r = (case r of None \<Rightarrow> 0 | Some e \<Rightarrow> if e = ErrCanceled then 0 else 1)"

section \<open>Lemmas\<close>

lemma agent_running:
  assumes "agent_main cv H ev args = AgentRunning fl sc vm"
  obtains pf where "af_token fl \<noteq> []" "load_profile H fl = Inr pf" "stream_New (agent_stream_config H fl pf) = Inr sc"
    "vm = (if af_no_vms fl then None else Some (agent_vm_config fl))"
  using assms by (auto simp: agent_main_def Let_def split: sum.splits if_splits)

lemma no_mux_started: "af_mux_endpoint fl = [] \<Longrightarrow> fold (OnRegistered fl) nds s = s"
  by (induction nds arbitrary: s) (simp_all add: OnRegistered_def)

lemma started_once: "fold (OnRegistered fl) nds (Some c) = Some c"
proof (induction nds)
  case (Cons nd nds)
  have "OnRegistered fl nd (Some c) = Some c" by (simp add: OnRegistered_def)
  with Cons show ?case by simp
qed simp

lemma first_registration:
  "fold (OnRegistered fl) (nd # nds) None = (if af_mux_endpoint fl = [] then None else Some (startMuxclient fl nd))"
proof (cases "af_mux_endpoint fl = []")
  case True
  with no_mux_started [OF True, of "nd # nds" None] show ?thesis by simp
next
  case False
  then have "OnRegistered fl nd None = Some (startMuxclient fl nd)" by (simp add: OnRegistered_def)
  with False show ?thesis by (simp add: started_once)
qed

end
