(* ===== verification/DeployProps.thy ===== *)
theory DeployProps
  imports BootProps TunnelProps RevokeProps AgentProps LoopProps ProxyBoot AgentBoot
begin

text \<open>
  Properties of the three programs as they are started: what the wiring of main-api, ssh-proxy and compute-agent
  makes of the properties of their components.
\<close>

section \<open>ssh-proxy\<close>

lemma wired_deny:
  assumes "handleDirectTCPIP cfg info payload accepted s = (r, s')" and "sc_handler cfg = Some (DenyHandler_Connect close_channel reason)"
  shows "px_streams s' = px_streams s \<and> px_api s' = px_api s \<and> r \<noteq> Served None"
  using assms
  by (auto simp: handleDirectTCPIP_def DenyHandler_Connect_def close_channel_def split: sum.splits option.splits if_splits)

text \<open>C19. ssh-proxy comes up whole or not at all: when it serves with a mux endpoint, that endpoint speaks TLS 1.3 only, asks
  main-api about every agent with the token and the address the tickets are fetched with, and caches no answer, and
  channels are connected through those tickets; when it serves without one, no token is configured and no channel ever
  reaches main-api or a stream.\<close>

theorem proxy_boot_wired:
  assumes "proxy_main J net relay V key ev args = ProxyServing cfg mx"
  shows "0 < sc_max cfg \<and> (case mx of
      Some m \<Rightarrow> mux_Serve_setup (me_deps m) = Inr (VersionTLS13, 30 * second) \<and> vc_ttl (me_verifier m) = 0 \<and> vc_token (me_verifier m) \<noteq> [] \<and>
        sc_handler cfg = Some (Tunnel_Connect \<lparr>th_tickets = Some (TicketClient_Issue J net
          \<lparr>tc_base = vc_base (me_verifier m), tc_token = vc_token (me_verifier m)\<rparr>), th_after = Some relay\<rparr>)
    | None \<Rightarrow> (\<forall>info payload accepted s r s'. handleDirectTCPIP cfg info payload accepted s = (r, s') \<longrightarrow>
        px_streams s' = px_streams s \<and> px_api s' = px_api s \<and> r \<noteq> Served None))"
proof -
  from proxy_serving [OF assms] obtain fl signer where p: "startMuxIfConfigured fl V = Inr mx" "pf_token fl \<noteq> [] \<longrightarrow> mx \<noteq> None"
    "cfg = \<lparr>sc_zone = pf_zone fl, sc_keys = [signer], sc_handler = Some (wire_handler J net relay fl),
       sc_handshake = 15 * second, sc_max = 1024, sc_idle = 60 * second\<rparr>" by metis
  show ?thesis
  proof (cases mx)
    case None
    with p have "sc_handler cfg = Some (DenyHandler_Connect close_channel ''internal token not configured'')"
      by (simp add: wire_handler_def)
    from wired_deny [OF _ this] None p(3) show ?thesis by auto
  next
    case (Some m)
    from startMux_Some [OF p(1) [unfolded Some]] Some p(3) show ?thesis by (simp add: wire_handler_def)
  qed
qed

definition bare_env :: "string \<Rightarrow> string" where
  "bare_env k = []"

definition full_env :: "string \<Rightarrow> string" where
  "full_env k = (if k = ''SSH_PROXY_MUX_LISTEN'' then '':8443'' else if k = ''SSH_PROXY_MUX_CERT'' then ''c'' else if k = ''SSH_PROXY_MUX_KEY'' then ''k''
     else if k = ''SSH_PROXY_INTERNAL_TOKEN'' then ''int'' else if k = ''SSH_PROXY_ZONE'' then ''z.net'' else [])"

definition calm_proxy :: proxy_env where
  "calm_proxy = \<lparr>pe_keypair = None, pe_mux_listen = None, pe_listen = None\<rparr>"

lemma full_serving:
  "\<exists>cfg m. proxy_main J net relay calm_proxy Inr full_env [] = ProxyServing cfg (Some m) \<and> sc_zone cfg = ''z.net'' \<and>
     sc_handler cfg = Some (Tunnel_Connect \<lparr>th_tickets = Some (TicketClient_Issue J net
       \<lparr>tc_base = ''http://127.0.0.1:8080'', tc_token = ''int''\<rparr>), th_after = Some relay\<rparr>)"
  by (simp add: proxy_main_def proxy_read_flags_def startMuxIfConfigured_def proxy_defaults_def full_env_def env_def calm_proxy_def server_New_def
      wire_handler_def)

theorem proxy_boot_wired_witness:
  "\<exists>cfg m. proxy_main tw_json tw_net (\<lambda>_ _ s. (None, s)) calm_proxy Inr full_env [] = ProxyServing cfg (Some m) \<and>
     mux_Serve_setup (me_deps m) = Inr (VersionTLS13, 30 * second) \<and> vc_ttl (me_verifier m) = 0"
proof -
  from full_serving obtain cfg m where b: "proxy_main tw_json tw_net (\<lambda>_ _ s. (None, s)) calm_proxy Inr full_env [] = ProxyServing cfg (Some m)"
    by blast
  from proxy_boot_wired [OF b] b show ?thesis by auto
qed

section \<open>The tunnel\<close>

text \<open>C4. In the deployed system an SSH channel reaches the caller's own machine or nothing. Between a main-api and an
  ssh-proxy that have started, whenever ssh-proxy opens a stream for a channel, however the calls in between fail: the channel
  asked for port 22 of a host in the zone; the fingerprint of the key the client authenticated with is stored for
  a user; the first label of the host is the start of the id of a running instance of that user; the stream goes to the
  live mux session of the node the instance is on; and the agent there relays what follows the header, unchanged and from
  its first byte, to port 22 of the address main-api has for that instance, unless the ticket is stale or the dial fails.\<close>

theorem deployed_tunnel:
  assumes "boot E V migrate_only conf s0 = (Serving c, s1)"
    and "proxy_main J net (Relay R True now opened written) W key ev args = ProxyServing cfg mx"
    and "reaches_api E (ap_router c) render url_path net" and "codecs_agree E render J R"
    and "\<forall>base. url_path (base @ ''/internal/ssh-ticket'') = [''internal'', ''ssh-ticket'']"
    and "is_ascii (ci_fingerprint info)" and "\<forall>req. payload = Inr req \<longrightarrow> is_ascii (dr_host req)"
    and "handleDirectTCPIP cfg info payload accepted s = (res, s')" and "px_streams s' \<noteq> px_streams s"
  shows "\<exists>req route k inst ip e st line. payload = Inr req \<and> dr_port req = 22 \<and>
    ExtractRoute (dr_host req) (sc_zone cfg) = Inr route \<and>
    k \<in> set (ssh_keys (tbl (px_api s))) \<and> k_fingerprint k = normalizeFingerprint (TrimSpace (ci_fingerprint info)) \<and>
    inst \<in> set (instances (tbl (px_api s))) \<and> i_owner inst = Some (k_user k) \<and> i_state inst = Running \<and> i_ip inst = Some ip \<and>
    take 8 (uuid_text (i_id inst)) = ToLower (TrimSpace (ro_prefix route)) \<and>
    mx_sessions (px_mux s) (uuid_text (i_node inst)) = Some e \<and> \<not> mx_dead (px_mux s) (me_sess e) \<and>
    px_streams s' = px_streams s @ [(uuid_text (i_node inst), st, line)] \<and>
    (\<forall>rfc t dialled rest fin a r. handleStream (rb_header R) rfc t dialled (line @ rest) fin = StreamRelayed a r \<longrightarrow>
       a = JoinHostPort ip 22 \<and> r = rest)"
proof -
  from proxy_serving [OF assms(2)] obtain fl signer where h: "sc_handler cfg = Some (wire_handler J net (Relay R True now opened written) fl)"
    by (metis server_config.select_convs(3))
  have "pf_token fl \<noteq> []"
  proof
    assume "pf_token fl = []"
    with h have "sc_handler cfg = Some (DenyHandler_Connect close_channel ''internal token not configured'')"
      by (simp add: wire_handler_def)
    with wired_deny [OF assms(8) this] assms(9) show False by simp
  qed
  with h have "sc_handler cfg = Some (Tunnel_Connect \<lparr>th_tickets = Some (TicketClient_Issue J net \<lparr>tc_base = pf_api fl, tc_token = pf_token fl\<rparr>),
      th_after = Some (Relay R True now opened written)\<rparr>)" by (simp add: wire_handler_def)
  from tunnel_reaches_own_vm [OF assms(3,4) _ this assms(6,7,8,9)] assms(5) show ?thesis by simp
qed

text \<open>A deployment: main-api with its internal API, and the proxy above.\<close>

definition api_env :: "string \<Rightarrow> string" where
  "api_env k = (if k = ''MAIN_API_INTERNAL_TOKEN'' then ''int'' else if k = ''MAIN_API_TUNNEL_SECRET'' then ''0123456789abcdef''
     else sample_env k)"

definition dt_signer :: Signer where
  "dt_signer = \<lparr>sn_secret = ''0123456789abcdef'', sn_ttl = 15000000000\<rparr>"

definition dt_router :: router_cfg where
  "dt_router = \<lparr>rc_handlers = \<lparr>ih_slots = True, ih_extras = True, ih_balance = True, ih_team = True\<rparr>,
     rc_instances = True, rc_credits = True, rc_admin_token = ''root'', rc_internal = True, rc_agent_auth = True,
     rc_internal_token = ''int'', rc_signer = dt_signer, rc_ssh_keys = True, rc_aa_ttl = 60 * second,
     rc_auth = \<lparr>ac_ttl = 604800000000000, ac_hops = 0\<rparr>,
     uh_auth = True, uh_instances = True, uh_nodes = True, uh_ssh_keys = True, uh_credits = True, uh_admin = True,
     uh_admin_instances = True, uh_admin_credits = True, uh_admin_nodes = True\<rparr>"

lemma dt_router_wired: "wire_router (read_config sample_conv api_env) dt_signer = dt_router"
  by (simp add: wire_router_def read_config_def api_env_def sample_env_def sample_conv_def durationEnv_def intEnv_def dt_router_def)

definition dt_relay :: "api_state relay_fn" where
  "dt_relay = Relay tw_relay True second (Inr 7) None"

definition dt_server :: "api_state proxy server_config" where
  "dt_server = \<lparr>sc_zone = ''z.net'', sc_keys = [], sc_handler = Some (Tunnel_Connect \<lparr>th_tickets = Some (TicketClient_Issue tw_json
     (router_net dt_router) \<lparr>tc_base = ''http://127.0.0.1:8080'', tc_token = ''int''\<rparr>), th_after = Some dt_relay\<rparr>),
     sc_handshake = 0, sc_max = 0, sc_idle = 0\<rparr>"

lemma handle_same:
  "sc_zone cfg = sc_zone cfg' \<Longrightarrow> sc_handler cfg = sc_handler cfg' \<Longrightarrow>
   handleDirectTCPIP cfg info payload accepted s = handleDirectTCPIP cfg' info payload accepted s"
  unfolding handleDirectTCPIP_def by (simp only:)

lemma api_FromEnv: "FromEnv sample_conv api_env = Inr (read_config sample_conv api_env)"
  by (simp add: FromEnv_def Let_def read_config_def api_env_def sample_env_def boolEnv_def)

lemma api_signer: "wire_signer (read_config sample_conv api_env) = Inr dt_signer"
  by (simp add: wire_signer_def NewSigner_def read_config_def api_env_def sample_env_def durationEnv_def dt_signer_def)

lemma api_boot: "\<exists>c s. boot E healthy_boot False (FromEnv sample_conv api_env) sample_api = (Serving c, s) \<and>
    ap_router c = dt_router"
  using sample_boot_world [OF api_signer, of E]
  by (auto simp: api_FromEnv dt_router_wired) (simp_all add: read_config_def api_env_def sample_env_def)

theorem deployed_tunnel_witness:
  "px_streams (snd (handleDirectTCPIP dt_server \<lparr>ci_fingerprint = ''SHA256:f'', ci_remote = []\<rparr> tw_open None tw_proxy)) =
     [(uuid_text 1, 7, ''h'' @ [newline])] \<and>
   (\<exists>inst\<in>set (instances (tbl tw_api)). i_state inst = Running \<and> uuid_text (i_node inst) = uuid_text 1 \<and> i_ip inst \<noteq> None)"
proof -
  from api_boot [of tw_libs] obtain c s1 where b: "boot tw_libs healthy_boot False (FromEnv sample_conv api_env) sample_api = (Serving c, s1)"
    "ap_router c = dt_router" by blast
  from full_serving [of tw_json "router_net dt_router" dt_relay] obtain cfg m
    where p: "proxy_main tw_json (router_net dt_router) (Relay tw_relay True second (Inr 7) None) calm_proxy Inr full_env [] = ProxyServing cfg (Some m)"
      and z: "sc_zone cfg = sc_zone dt_server" "sc_handler cfg = sc_handler dt_server"
    by (auto simp: dt_server_def dt_relay_def)
  let ?info = "\<lparr>ci_fingerprint = ''SHA256:f'', ci_remote = []\<rparr>"
  let ?run = "handleDirectTCPIP dt_server ?info tw_open None tw_proxy"
  have e: "px_streams (snd ?run) = [(uuid_text 1, 7, ''h'' @ [newline])]" by code_simp
  obtain res s' where run: "?run = (res, s')" by fastforce
  have "px_streams s' \<noteq> px_streams tw_proxy" using e run by (simp add: tw_proxy_def)
  with deployed_tunnel [OF b(1) p _ tw_codecs, of "\<lambda>_. [''internal'', ''ssh-ticket'']" ?info tw_open None tw_proxy res s']
    router_reaches [of dt_router] b(2) run handle_same [OF z]
  obtain inst ip st line where "inst \<in> set (instances (tbl (px_api tw_proxy)))" "i_state inst = Running" "i_ip inst = Some ip"
    "px_streams s' = px_streams tw_proxy @ [(uuid_text (i_node inst), st, line)]" by (auto simp: is_ascii_def tw_open_def)
  with e run show ?thesis by (auto simp: tw_proxy_def)
qed

section \<open>Revocation\<close>

text \<open>C16. In the deployed system a revoked node token dies within a minute. Between a main-api and an ssh-proxy that have
  started, after any verifications done by time \<open>T\<close>, and any later ones that find no active row for the node's token in
  main-api's database and whose answers take at most \<open>D\<close> on the way, no verification that starts 60 seconds and \<open>D\<close>
  or more after \<open>T\<close> succeeds: main-api keeps positive answers for 60 seconds, and the proxy, as wired, keeps none.\<close>

theorem deployed_revocation:
  assumes "boot E V migrate_only conf s0 = (Serving c, s1)"
    and "proxy_main tj net relay W key ev args = ProxyServing cfg (Some m)"
    and "\<forall>v\<in>set before. va_mid_done v \<le> T \<and> va_fin v \<le> T"
    and "\<forall>v\<in>set (later @ [v0]). inactive (al_auth E) nd tok (va_db v) \<and> va_fin v \<le> va_mid v + D"
    and "va_node v0 = ns" and "va_token v0 = tok" and "uuid_Parse (al_ext E) ns = Inr nd" and "request_decoded J w ns tok"
    and "0 \<le> D" and "T + 60 * second + D \<le> va_now v0" and "va_now v0 \<le> va_mid v0"
  shows "isl (fst (va_verify (al_auth E) (al_ext E) (rc_aa_ttl (ap_router c)) w J (me_verifier m) v0
    (va_run (al_auth E) (al_ext E) (rc_aa_ttl (ap_router c)) w J (me_verifier m) (before @ later)
      \<lparr>hv_cache = (\<lambda>_. None), hv_api = NewHandler db\<rparr>)))"
proof -
  from boot_Serving [OF assms(1)] obtain cf sg where "ap_router c = wire_router cf sg" by (metis api_cfg.select_convs(1))
  then have ttl: "rc_aa_ttl (ap_router c) = 60 * second" by (simp add: wire_router_def)
  from proxy_serving [OF assms(2)] obtain fl where "startMuxIfConfigured fl W = Inr (Some m)" by metis
  from startMux_Some [OF this] have "vc_ttl (me_verifier m) = 0" by simp
  with assms(9,10) ttl show ?thesis unfolding NewHandler_def
    by (intro revoked_across_both_caches [OF assms(3-8) _ assms(9) _ _ assms(11)]) (simp_all add: second_def)
qed

text \<open>The token is revoked, found revoked at 10 s and refused at 71 s, an answer taking up to a second.\<close>

theorem deployed_revocation_witness:
  "\<exists>cfg m. proxy_main tw_json tw_net (\<lambda>_ _ s. (None, s)) calm_proxy Inr full_env [] = ProxyServing cfg (Some m) \<and>
   isl (fst (va_verify sample_auth_lib sample_ext (rc_aa_ttl dt_router) rv_wire rv_json (me_verifier m) (rv_call (Some 0) (71 * second))
     (va_run sample_auth_lib sample_ext (rc_aa_ttl dt_router) rv_wire rv_json (me_verifier m)
        ([rv_call None (10 * second)] @ [rv_call (Some 0) (30 * second)]) rv_start)))"
proof -
  let ?E = "tw_libs\<lparr>al_auth := sample_auth_lib\<rparr>"
  have E: "al_auth ?E = sample_auth_lib" "al_ext ?E = sample_ext" by (simp_all add: tw_libs_def sample_libs_def)
  from api_boot [of ?E] obtain c s1 where b: "boot ?E healthy_boot False (FromEnv sample_conv api_env) sample_api = (Serving c, s1)"
    "ap_router c = dt_router" by blast
  from full_serving obtain cfg m where p: "proxy_main tw_json tw_net (\<lambda>_ _ s. (None, s)) calm_proxy Inr full_env [] = ProxyServing cfg (Some m)"
    by blast
  have "inactive sample_auth_lib 1 ''secret'' (token_pg (Some 0))" by (simp add: inactive_def token_pg_def)
  moreover have "uuid_Parse sample_ext (uuid_text 1) = Inr 1" by code_simp
  moreover have "request_decoded rv_json rv_wire (uuid_text 1) ''secret''" by (simp add: request_decoded_def rv_wire_def)
  ultimately have "isl (fst (va_verify sample_auth_lib sample_ext (rc_aa_ttl dt_router) rv_wire rv_json (me_verifier m) (rv_call (Some 0) (71 * second))
     (va_run sample_auth_lib sample_ext (rc_aa_ttl dt_router) rv_wire rv_json (me_verifier m)
        ([rv_call None (10 * second)] @ [rv_call (Some 0) (30 * second)]) \<lparr>hv_cache = (\<lambda>_. None), hv_api = \<lparr>aa_cache = (\<lambda>_. None), aa_db = token_pg None\<rparr>\<rparr>)))"
    using deployed_revocation [OF b(1) p, of "[rv_call None (10 * second)]" "10 * second" "[rv_call (Some 0) (30 * second)]"
      "rv_call (Some 0) (71 * second)" 1 "''secret''" second "uuid_text 1" rv_json rv_wire "token_pg None"]
    by (simp add: E b(2) rv_call_def second_def NewHandler_def)
  with p show ?thesis unfolding rv_start_def by (intro exI conjI)
qed

section \<open>The agents' credentials\<close>

lemma agent_tokens:
  assumes "agent_main cv H ev args = AgentRunning fl sc vm"
  shows "sf_token sc = af_token fl" and "mk_token (startMuxclient fl nd) = af_token fl"
proof -
  from agent_running [OF assms] obtain pf where "stream_New (agent_stream_config H fl pf) = Inr sc" by metis
  then show "sf_token sc = af_token fl" by (auto simp: stream_New_def agent_stream_config_def split: if_splits)
qed (simp add: startMuxclient_def)

lemma stream_open_token:
  "stream_open svc X (RecvMsg (register_message sc t)) ack s = (Inr st, s') \<Longrightarrow> sf_token sc = as_token svc"
  by (auto simp: stream_open_def register_message_def fail_def split: if_splits)

text \<open>Tokens issued per node connect one node. An agent has one token for both of its connections, the control
  stream accepts only the token of main-api's configuration, and the mux endpoint only a token with an active row of
  the node: so when every active row of two nodes matches just the plaintext it was issued from, and the plaintexts
  of the two differ, the two agents are never both let in at both doors, whatever their flags are.\<close>

theorem cli_tokens_connect_one_node:
  assumes "agent_main cv1 H1 ev1 args1 = AgentRunning fl1 sc1 vm1" and "agent_main cv2 H2 ev2 args2 = AgentRunning fl2 sc2 vm2"
    and "\<forall>r\<in>set (node_tokens (tbl db)). t_revoked r = None \<longrightarrow> (\<forall>p. bcrypt_Compare A (t_hash r) p \<longrightarrow>
      (t_node r = n1 \<longrightarrow> p = p1) \<and> (t_node r = n2 \<longrightarrow> p = p2))" and "p1 \<noteq> p2"
  shows "\<not> (\<not> isl (fst (stream_open svc X (RecvMsg (register_message sc1 t1)) ack1 w1)) \<and>
    \<not> isl (fst (stream_open svc X (RecvMsg (register_message sc2 t2)) ack2 w2)) \<and>
    fst (authority A n1 (mk_token (startMuxclient fl1 (uuid_text n1))) db) \<noteq> None \<and>
    fst (authority A n2 (mk_token (startMuxclient fl2 (uuid_text n2))) db) \<noteq> None)"
proof
  assume in_: "\<not> isl (fst (stream_open svc X (RecvMsg (register_message sc1 t1)) ack1 w1)) \<and>
    \<not> isl (fst (stream_open svc X (RecvMsg (register_message sc2 t2)) ack2 w2)) \<and>
    fst (authority A n1 (mk_token (startMuxclient fl1 (uuid_text n1))) db) \<noteq> None \<and>
    fst (authority A n2 (mk_token (startMuxclient fl2 (uuid_text n2))) db) \<noteq> None"
  then have "sf_token sc1 = as_token svc" "sf_token sc2 = as_token svc"
    by (metis isl_def stream_open_token prod.collapse obj_sumE)+
  then have tok: "mk_token (startMuxclient fl1 n) = as_token svc" "mk_token (startMuxclient fl2 n) = as_token svc" for n
    using agent_tokens [OF assms(1)] agent_tokens [OF assms(2)] by simp_all
  from in_ tok obtain v1 v2 where "fst (authority A n1 (as_token svc) db) = Some v1" "fst (authority A n2 (as_token svc) db) = Some v2"
    by auto
  from authority_active [OF this(1)] authority_active [OF this(2)] assms(3,4) show False by metis
qed

definition ag_conv :: flag_conv where
  "ag_conv = \<lparr>fv_ParseBool = (\<lambda>s. if s = ''true'' then Some True else None), fv_ParseInt = (\<lambda>_. None)\<rparr>"

definition ag_host :: "string \<Rightarrow> agent_host" where
  "ag_host nm = \<lparr>ah_hostname = nm, ah_ReadFile = (\<lambda>_. Inr ''raw''),
     ah_yaml = (\<lambda>_. Inr \<lparr>fl_active = ''a'', fl_layouts = [\<lparr>ly_name = ''a'', ly_slots = [\<lparr>sy_size = 1, sy_gpus = [0], sy_nvlink = []\<rparr>]\<rparr>]\<rparr>),
     ah_sha = (\<lambda>_. ''h''), ah_smi = no_smi, ah_sysfs = sample_sysfs, ah_libvirt = None\<rparr>"

definition ag_env :: "string \<Rightarrow> string \<Rightarrow> string" where
  "ag_env tok k = (if k = ''AGENT_API_TOKEN'' then tok else if k = ''AGENT_PROFILE'' then ''p.yaml'' else [])"

definition ag_report :: Topology where
  "ag_report = Collect no_smi sample_sysfs \<lparr>lc_smi = [], lc_profile = Some \<lparr>pf_name = ''a'', pf_hash = ''h'',
     pf_slots = [\<lparr>sp_index = 0, sp_gpus = 1, sp_gpu_indices = [0], sp_nvlink = []\<rparr>]\<rparr>\<rparr>"

lemma ag_gpus: "map g_index (tp_gpus (Collect no_smi sample_sysfs \<lparr>lc_smi = [], lc_profile = pf\<rparr>)) = [0]"
  by (simp add: Collect_def collectViaNvidiaSmi_def collectViaSysfs_def no_smi_def sample_sysfs_simps plain_gpu_def int32_def)

lemma ag_profile:
  "af_profile fl \<noteq> [] \<Longrightarrow> \<not> af_fake fl \<Longrightarrow> load_profile (ag_host nm) fl = Inr (Some \<lparr>pf_name = ''a'', pf_hash = ''h'',
     pf_slots = [\<lparr>sp_index = 0, sp_gpus = 1, sp_gpu_indices = [0], sp_nvlink = []\<rparr>]\<rparr>)"
  by (simp add: load_profile_def ag_host_def Load_def Resolve_def detectGPUIndices_def ag_gpus Proto_of_def int32_def)

lemma ag_libvirt: "ah_libvirt (ag_host nm) = None" "ah_hostname (ag_host nm) = nm" "ah_smi (ag_host nm) = no_smi"
    "ah_sysfs (ag_host nm) = sample_sysfs"
  by (simp_all add: ag_host_def)

lemma ag_running:
  assumes "nm \<noteq> []" and "tok \<noteq> []"
  shows "\<exists>fl sc vm. agent_main ag_conv (ag_host nm) (ag_env tok) [] = AgentRunning fl sc vm \<and> sf_topology sc = Some (Inr ag_report) \<and>
    af_token fl = tok"
  using assms
  by (simp add: agent_main_def Let_def ag_libvirt agent_read_flags_def agent_defaults_def agent_env_def ag_env_def given_bool_def ag_conv_def ag_profile
      stream_New_def agent_stream_config_def agent_collector_def ag_report_def)

theorem cli_tokens_connect_one_node_witness:
  "\<exists>fl1 sc1 vm1 fl2 sc2 vm2. agent_main ag_conv (ag_host ''n1'') (ag_env ''secret'') [] = AgentRunning fl1 sc1 vm1 \<and>
    agent_main ag_conv (ag_host ''n2'') (ag_env ''other'') [] = AgentRunning fl2 sc2 vm2 \<and>
    fst (authority sample_auth_lib 1 (mk_token (startMuxclient fl1 (uuid_text 1))) (token_pg None)) \<noteq> None \<and>
    (isl (fst (stream_open sample_stream sample_ext (RecvMsg (register_message sc1 empty_topology)) None (sample_world []))) \<or>
     isl (fst (stream_open sample_stream sample_ext (RecvMsg (register_message sc2 empty_topology)) None (sample_world []))) \<or>
     fst (authority sample_auth_lib 2 (mk_token (startMuxclient fl2 (uuid_text 2))) (token_pg None)) = None)"
proof -
  from ag_running [of "''n1''" "''secret''"] obtain fl1 sc1 vm1 where a: "agent_main ag_conv (ag_host ''n1'') (ag_env ''secret'') [] = AgentRunning fl1 sc1 vm1"
    "af_token fl1 = ''secret''" by auto
  from ag_running [of "''n2''" "''other''"] obtain fl2 sc2 vm2 where b: "agent_main ag_conv (ag_host ''n2'') (ag_env ''other'') [] = AgentRunning fl2 sc2 vm2"
    by auto
  have r: "\<forall>r\<in>set (node_tokens (tbl (token_pg None))). t_revoked r = None \<longrightarrow> (\<forall>p. bcrypt_Compare sample_auth_lib (t_hash r) p \<longrightarrow>
      (t_node r = 1 \<longrightarrow> p = ''secret'') \<and> (t_node r = 2 \<longrightarrow> p = ''other''))"
    by (simp add: token_pg_def sample_auth_lib_def)
  have v: "fst (authority sample_auth_lib 1 ''secret'' (token_pg None)) \<noteq> None" by code_simp
  from cli_tokens_connect_one_node [OF a(1) b r, of sample_stream sample_ext empty_topology None "sample_world []" empty_topology None "sample_world []"]
    v a b agent_tokens(2) [OF a(1)] show ?thesis by auto
qed

section \<open>The topology report\<close>

text \<open>What the checks of a layout leave for the report.\<close>

definition slots_sound :: "int list \<Rightarrow> Profile_pb \<Rightarrow> bool" where
  "slots_sound known pf \<longleftrightarrow> (\<forall>q\<in>set (pf_slots pf). 0 < sp_gpus q \<and> sp_gpus q = int (length (sp_gpu_indices q)) \<and>
     set (sp_gpu_indices q) \<subseteq> set known) \<and>
   distinct (concat (map sp_gpu_indices (pf_slots pf))) \<and> distinct (filter (\<lambda>d. d \<noteq> []) (map sp_nvlink (pf_slots pf)))"

lemma proto_sound:
  assumes "layout_ok known ss"
  shows "slots_sound known \<lparr>pf_name = nm, pf_hash = h, pf_slots = proto_slots i ss\<rparr>"
proof -
  let ?qs = "proto_slots i ss"
  note m = proto_slots_nth(1) [of i ss]
  have n: "map sp_nvlink ?qs = map sy_nvlink ss" and g: "map sp_gpu_indices ?qs = map sy_gpus ss"
    by (induction i ss rule: proto_slots.induct) simp_all
  have "\<exists>s\<in>set ss. sp_gpus q = sy_size s \<and> sp_gpu_indices q = sy_gpus s" if "q \<in> set ?qs" for q
    using that by (induction i ss rule: proto_slots.induct) auto
  with assms show ?thesis by (fastforce simp: slots_sound_def layout_ok_def n g)
qed

lemma loaded_slots:
  "load_profile H fl = Inr (Some f) \<Longrightarrow> slots_sound (detectGPUIndices H (af_fake fl)) f"
  by (auto simp: load_profile_def Resolve_def Proto_of_def check_slots_iff proto_sound split: sum.splits prod.splits option.splits if_splits)


lemma ag_ready:
  "\<exists>g\<in>set (tp_gpus ag_report). g_vfio_ready g \<and> g_bind_blocker g = [] \<and> g_pci g = ''g''"
proof -
  let ?g = "enrich sample_sysfs (plain_gpu 0 ''g'' (sysfs_model sample_sysfs ''g'') 0)"
  have "?g \<in> set (tp_gpus ag_report)"
    by (simp add: ag_report_def Collect_def collectViaNvidiaSmi_def collectViaSysfs_def no_smi_def sample_sysfs_simps)
  moreover have "VFIOReady sample_sysfs ''g'' = Inr True" by (simp add: VFIOReady_def sample_sysfs_simps)
  moreover have "DiagnoseBindability sample_sysfs ''g'' = Inr (True, [])"
    by (simp add: DiagnoseBindability_def sample_sysfs_simps companion_class_def is_gpu_class_def)
  ultimately show ?thesis by (intro bexI [of _ ?g]) (auto simp: enrich_def diagnose_def plain_gpu_def Let_def split: sum.splits)
qed


end
