(* ===== verification/ControlLoop.thy ===== *)
theory ControlLoop
  imports VmProps StreamProps
begin

text \<open>
  The control loop across the two services: main-api orders, the agent carries the order out and
  reports, main-api takes the reports in (\<open>api/admin_instances.go\<close>, \<open>grpc/agent_stream.go\<close>,
  compute-agent's \<open>vm/handler.go\<close>). The components are the ones of the theories \<open>InstanceApi\<close>,
  \<open>VmHandler\<close> and \<open>AgentStream\<close>; here an instance is followed from the request to the state in which
  the database, the host and the slots agree again.
\<close>

section \<open>A batch of reports\<close>

text \<open>What a sequence of reported states makes of an instance: the abstract machine that
  \<open>receiveLoop\<close> implements.\<close>

fun settle :: "InstanceState \<Rightarrow> InstanceState list \<Rightarrow> InstanceState" where
  "settle st [] = st"
| "settle st (x # xs) = settle (if CanTransition st x then x else st) xs"

definition report_msgs :: "InstanceStatus list \<Rightarrow> recv list" where
  "report_msgs sts = map (\<lambda>st. RecvMsg (MInstanceStatus st)) sts"

definition free_slots_of :: "uuid \<Rightarrow> GpuSlot list \<Rightarrow> GpuSlot list" where
  "free_slots_of i = set_where (\<lambda>q. s_instance q = Some i) free_slot"

text \<open>Two contents of the database that differ in one instance, its slots and the audit trail only.\<close>

definition same_but :: "uuid \<Rightarrow> tables \<Rightarrow> tables \<Rightarrow> bool" where
  "same_but i T T' \<longleftrightarrow> filter (\<lambda>r. i_id r \<noteq> i) (instances T') = filter (\<lambda>r. i_id r \<noteq> i) (instances T) \<and> nodes T' = nodes T"

lemma free_slots_idem [simp]: "free_slots_of i (free_slots_of i ss) = free_slots_of i ss"
  by (auto simp: free_slots_of_def set_where_def free_slot_def)

lemma find_set_where:
  assumes "find (\<lambda>r. i_id r = i) rs = Some row" and "\<And>r. i_id (f r) = i_id r"
  shows "find (\<lambda>r. i_id r = i) (set_where (\<lambda>r. i_id r = i) f rs) = Some (f row)"
  using assms by (induction rs) (auto simp: set_where_def split: if_splits)

lemma filter_set_where:
  assumes "\<And>r. i_id (f r) = i_id r"
  shows "filter (\<lambda>r. i_id r \<noteq> i) (set_where (\<lambda>r. i_id r = i) f rs) = filter (\<lambda>r. i_id r \<noteq> i) rs"
  using assms by (induction rs) (auto simp: set_where_def)

lemma report_one:
  assumes c: "calm t s" and svc: "as_instances svc" "as_slots svc" and u: "uuid_Parse X (st_instance st) = Inr i"
    and m: "mapInstanceState (st_state st) = Inr to" and row: "find (\<lambda>r. i_id r = i) (instances (tbl s)) = Some row"
    and run: "handleAgentMessage svc X nd (MInstanceStatus st) s = (r, s')"
  shows "r = Inr () \<and> calm t s' \<and> same_but i (tbl s) (tbl s') \<and>
    slots (tbl s') = (if IsTerminal to then free_slots_of i (slots (tbl s)) else slots (tbl s)) \<and>
    (\<exists>row'. find (\<lambda>r. i_id r = i) (instances (tbl s')) = Some row' \<and> i_state row' = settle (i_state row) [to])"
proof -
  let ?op = "status_options X st"
  obtain e s1 where tr: "Transition i to ?op s = (e, s1)" by fastforce
  have c1: "calm t s1" by (rule keepsD_eq [OF calm_repo(6) c tr])
  obtain y s2 where rel: "ReleaseForInstance i s1 = (y, s2)" by fastforce
  have c2: "calm t s2" by (rule keepsD_eq [OF calm_repo(4) c1 rel])
  have t2: "tbl s2 = release_tables (\<lambda>q. s_instance q = Some i) (tbl s1)"
    using release_calm(1) [OF c1, of i] rel by simp
  have op: "\<not> o_skip ?op" by (simp add: status_options_def)
  have id: "i_id (apply_transition i to ?op t q) = i_id q" for q by (simp add: apply_transition_def)
  have e: "(\<exists>x. e = Inr x) \<or> (\<exists>x. e = Inl x \<and> err_is x ErrInvalidTransition)"
    and t1: "same_but i (tbl s) (tbl s1) \<and> slots (tbl s1) = slots (tbl s) \<and>
      (\<exists>row'. find (\<lambda>r. i_id r = i) (instances (tbl s1)) = Some row' \<and> i_state row' = settle (i_state row) [to])"
  proof -
    have "((\<exists>x. e = Inr x) \<or> (\<exists>x. e = Inl x \<and> err_is x ErrInvalidTransition)) \<and>
      same_but i (tbl s) (tbl s1) \<and> slots (tbl s1) = slots (tbl s) \<and>
      (\<exists>row'. find (\<lambda>r. i_id r = i) (instances (tbl s1)) = Some row' \<and> i_state row' = settle (i_state row) [to])"
    proof (cases "CanTransition (i_state row) to")
      case True
      from Transition_calm [OF c mapInstanceState_valid [OF m] row True op] tr obtain n where
        "e = Inr (apply_transition i to ?op t row)" "tbl s1 = transition_tables i n (i_state row) to ?op t (tbl s)" by auto
      with True find_set_where [OF row id] show ?thesis
        by (simp add: transition_tables_def same_but_def filter_set_where [OF id]) (simp add: apply_transition_def)
    next
      case False
      from Transition_refused [OF c mapInstanceState_valid [OF m] row False, of ?op] tr False row show ?thesis
        by (auto simp: same_but_def)
    qed
    then show "(\<exists>x. e = Inr x) \<or> (\<exists>x. e = Inl x \<and> err_is x ErrInvalidTransition)"
      and "same_but i (tbl s) (tbl s1) \<and> slots (tbl s1) = slots (tbl s) \<and>
        (\<exists>row'. find (\<lambda>r. i_id r = i) (instances (tbl s1)) = Some row' \<and> i_state row' = settle (i_state row) [to])" by blast+
  qed
  have "r = Inr () \<and> s' = (if IsTerminal to then s2 else s1)"
    using run e svc u m tr rel
    by (auto simp: handleAgentMessage_def applyInstanceStatus_def release_if_terminal_def attempt_def ret_def)
  with t1 t2 c1 c2 show ?thesis
    by (simp add: release_tables_def same_but_def free_slots_of_def free_slot_def [abs_def] del: settle.simps)
qed

lemma same_but_trans: "same_but i T T1 \<Longrightarrow> same_but i T1 T2 \<Longrightarrow> same_but i T T2"
  by (simp add: same_but_def)

lemma reports_loop:
  assumes "calm t s" and "as_instances svc" and "as_slots svc"
    and "\<forall>st\<in>set sts. uuid_Parse X (st_instance st) = Inr i"
    and "map (\<lambda>st. mapInstanceState (st_state st)) sts = map Inr xs"
    and "find (\<lambda>r. i_id r = i) (instances (tbl s)) = Some row"
    and "receiveLoop svc X nd (report_msgs sts) s = (r, s')"
  shows "r = None \<and> calm t s' \<and> same_but i (tbl s) (tbl s') \<and>
    slots (tbl s') = (if list_ex IsTerminal xs then free_slots_of i (slots (tbl s)) else slots (tbl s)) \<and>
    (\<exists>row'. find (\<lambda>r. i_id r = i) (instances (tbl s')) = Some row' \<and> i_state row' = settle (i_state row) xs)"
  using assms
proof (induction sts arbitrary: s xs row)
  case Nil
  then show ?case by (auto simp: report_msgs_def reply_def same_but_def)
next
  case (Cons st sts)
  from Cons.prems(5) obtain to ys where xs: "xs = to # ys" "mapInstanceState (st_state st) = Inr to"
    "map (\<lambda>st. mapInstanceState (st_state st)) sts = map Inr ys" by (cases xs) auto
  obtain e s1 where e: "handleAgentMessage svc X nd (MInstanceStatus st) s = (e, s1)" by fastforce
  have u: "uuid_Parse X (st_instance st) = Inr i" "\<forall>st\<in>set sts. uuid_Parse X (st_instance st) = Inr i"
    using Cons.prems(4) by auto
  from report_one [OF Cons.prems(1-3) u(1) xs(2) Cons.prems(6) e] obtain row1 where
    1: "calm t s1" "same_but i (tbl s) (tbl s1)"
    "slots (tbl s1) = (if IsTerminal to then free_slots_of i (slots (tbl s)) else slots (tbl s))"
    "find (\<lambda>r. i_id r = i) (instances (tbl s1)) = Some row1" "i_state row1 = settle (i_state row) [to]" by blast
  have run: "receiveLoop svc X nd (report_msgs sts) s1 = (r, s')"
    using Cons.prems(7) e by (simp add: report_msgs_def attempt_def)
  from Cons.IH [OF 1(1) Cons.prems(2,3) u(2) xs(3) 1(4) run] 1 xs(1) show ?case
    by (auto intro: same_but_trans)
qed

text \<open>C21. A whole batch of reports on one instance does to the database what the abstract machine says,
  whatever the agent reports and in whatever order: the row ends in the state to which the allowed
  reports among them lead, its slots are free when one of the reported states was terminal and
  untouched otherwise, and no other instance is touched.\<close>

theorem reports_settle:
  assumes "calm t s" and "as_instances svc" and "as_slots svc"
    and "\<forall>st\<in>set sts. uuid_Parse X (st_instance st) = Inr i"
    and "map (\<lambda>st. mapInstanceState (st_state st)) sts = map Inr xs"
    and "find (\<lambda>r. i_id r = i) (instances (tbl s)) = Some row"
    and "receiveLoop svc X nd (report_msgs sts) s = (r, s')"
  shows "r = None \<and> calm t s' \<and> same_but i (tbl s) (tbl s') \<and>
    slots (tbl s') = (if list_ex IsTerminal xs then free_slots_of i (slots (tbl s)) else slots (tbl s)) \<and>
    (\<exists>row'. find (\<lambda>r. i_id r = i) (instances (tbl s')) = Some row' \<and> i_state row' = settle (i_state row) xs)"
  by (rule reports_loop [OF assms])

theorem reports_settle_witness:
  "\<exists>r s' row'. receiveLoop sample_service sample_ext 1 (report_msgs [sample_report INSTANCE_STATE_STOPPING,
       sample_report INSTANCE_STATE_RUNNING, sample_report INSTANCE_STATE_STOPPED]) (sample_pg []) = (r, s') \<and>
     find (\<lambda>r. i_id r = 5) (instances (tbl s')) = Some row' \<and> i_state row' = Stopped \<and> map s_status (slots (tbl s')) = [Free, Free]"
proof -
  let ?sts = "[sample_report INSTANCE_STATE_STOPPING, sample_report INSTANCE_STATE_RUNNING, sample_report INSTANCE_STATE_STOPPED]"
  obtain r s' where e: "receiveLoop sample_service sample_ext 1 (report_msgs ?sts) (sample_pg []) = (r, s')" by fastforce
  have p: "\<forall>st\<in>set ?sts. uuid_Parse sample_ext (st_instance st) = Inr 5" by (simp add: sample_report_simps)
  have m: "map (\<lambda>st. mapInstanceState (st_state st)) ?sts = map Inr [Stopping, Running, Stopped]"
    by (simp add: sample_report_simps mapInstanceState_def)
  have st: "settle (i_state sample_instance) [Stopping, Running, Stopped] = Stopped" by (simp add: sample_instance_def sm_defs)
  have sl: "map s_status (free_slots_of 5 (slots (tbl (sample_pg [])))) = [Free, Free]"
    by (simp add: free_slots_of_def set_where_def free_slot_def sample_defs)
  from reports_settle [OF sample_calm sample_report_simps(2,3) p m sample_row e] e st sl show ?thesis
    by (auto simp: IsTerminal_def simp del: settle.simps)
qed

section \<open>Orders\<close>

text \<open>\<open>uuid.Parse\<close> reads the text form of every UUID back.\<close>

definition uuid_codec :: "ext \<Rightarrow> bool" where
  "uuid_codec X \<longleftrightarrow> (\<forall>u. uuid_Parse X (uuid_text u) = Inr u)"

text \<open>The channel of the node's agent took in one message, and what an agent reported on the way from
  one state of its host to the next has reached the database.\<close>

definition took_order :: "uuid \<Rightarrow> ControlMessage \<Rightarrow> 'z world_scheme \<Rightarrow> 'z world_scheme \<Rightarrow> bool" where
  "took_order nd m s s' \<longleftrightarrow> (\<exists>e. reg s nd = Some e \<and>
     chan_log (chans s' (en_ch e)) = chan_log (chans s (en_ch e)) @ [m])"

text \<open>Time passes, channels and streams move, but the contents of the database stay; it answers.\<close>

definition meanwhile :: "'z pg_scheme \<Rightarrow> 'z pg_scheme \<Rightarrow> bool" where
  "meanwhile s s' \<longleftrightarrow> tbl s' = tbl s \<and> faults s' = []"

lemma meanwhile_calm: "meanwhile s s' \<Longrightarrow> calm (clk s') s'"
  by (simp add: meanwhile_def calm_def)

definition delivered ::
  "AgentStreamService \<Rightarrow> ext \<Rightarrow> uuid \<Rightarrow> 'd vm_host \<Rightarrow> 'd vm_host \<Rightarrow> 'z pg_scheme \<Rightarrow> 'z pg_scheme \<Rightarrow> bool" where
  "delivered svc X nd h h' s s' \<longleftrightarrow>
     receiveLoop svc X nd (report_msgs (List.drop (length (vh_sent h)) (vh_sent h'))) s = (None, s')"

lemma reports_run: "fst (receiveLoop svc X nd (report_msgs sts) s) = None"
  by (induction sts arbitrary: s) (simp_all add: report_msgs_def reply_def attempt_def split: prod.split)

lemma delivered_total:
  obtains s' where "delivered svc X nd g g' s s'"
proof
  show "delivered svc X nd g g' s (snd (receiveLoop svc X nd (report_msgs (List.drop (length (vh_sent g)) (vh_sent g'))) s))"
    using reports_run by (simp add: delivered_def prod_eq_iff)
qed

lemma took_order_Send:
  assumes "same_agents s s1" and "Send nd m s1 = (Inr (), s')"
  shows "took_order nd m s s'"
proof -
  from Send_ok [OF assms(2)] obtain e where "reg s1 nd = Some e"
    "chan_log (chans s' (en_ch e)) = chan_log (chans s1 (en_ch e)) @ [m]" .
  with assms(1) show ?thesis unfolding took_order_def same_agents_def by metis
qed

lemma took_order_unique: "took_order nd m s s' \<Longrightarrow> took_order nd m' s s' \<Longrightarrow> m' = m"
  by (auto simp: took_order_def)

lemma unbind:
  assumes "slots_ok T" and "created_with req node owner T u res t T'"
  shows "free_slots_of u (bound_slots res u (slots T)) = slots T"
proof -
  have "s_instance q \<noteq> Some u" if "q \<in> set (slots T)" for q
    using slots_okD(3) [OF assms(1) that] assms(2) by (auto simp: slot_ok_def created_with_def)
  then show ?thesis
    using assms take_back [OF assms(1), of u]
    by (auto simp: created_with_def free_slots_of_def free_slot_def [abs_def] bound_slots_def set_where_def
        intro!: map_idI split: if_splits)
qed

lemma created_row:
  assumes "created_with req node owner T u res t T'"
  shows "find (\<lambda>r. i_id r = u) (instances T') = Some (new_instance u t (create_params req node owner res))"
proof -
  have "find (\<lambda>r. i_id r = u) (instances T) = None"
    using assms by (auto simp: created_with_def find_None_iff)
  then show ?thesis using assms
    by (simp add: created_with_def find_append new_instance_def)
qed

text \<open>The answer 201: the request is in the database and the order on its way.\<close>

lemma create_ordered:
  assumes "calm t s" and "slots_ok (tbl s)" and "0 \<le> cr_gpus req"
    and "runCreate h X req node owner s = (writeJSON 201 j, s1)" and "took_order (n_id node) (CCreateInstance rq) s s1"
  obtains u res pci where "created_with req node owner (tbl s) u res t (tbl s1)"
    "CCreateInstance rq = create_message (new_instance u t (create_params req node owner res)) res pci"
    "cr_gpus req = 0 \<and> pci = [] \<or> resolvePassthroughPCI X (n_topology node) res = Inr pci"
proof -
  from create_outcomes [OF assms(1-4)] obtain u res pci s0 where
    "created_with req node owner (tbl s) u res t (tbl s1)" and o: "same_agents s s0"
    "Send (n_id node) (create_message (new_instance u t (create_params req node owner res)) res pci) s0 = (Inr (), s1)"
    and "cr_gpus req = 0 \<and> pci = [] \<or> resolvePassthroughPCI X (n_topology node) res = Inr pci"
    by (auto simp: refused_def writeJSON_def)
  moreover from took_order_unique [OF assms(5) took_order_Send [OF o]]
  have "CCreateInstance rq = create_message (new_instance u t (create_params req node owner res)) res pci" by simp
  ultimately show thesis by (intro that)
qed

section \<open>Concrete runs\<close>

text \<open>For the witnesses: an environment whose \<open>uuid.Parse\<close> reads every text form back, and a libvirtd that
  keeps domains by name, with the name as their document.\<close>

definition hexval :: "char \<Rightarrow> nat" where
  "hexval c = length (takeWhile (\<lambda>d. d \<noteq> c) ''0123456789abcdef'')"

definition hex_ext :: ext where
  "hex_ext = sample_ext\<lparr>uuid_Parse := \<lambda>s. if length s = 36
     then Inr (of_nat (foldl (\<lambda>a c. 16 * a + hexval c) 0 (filter (\<lambda>c. c \<noteq> CHR ''-'') s)))
     else Inl (Err ''invalid UUID'')\<rparr>"

lemma hexval_digit: "n < 16 \<Longrightarrow> hexval (hexdigit n) = n \<and> hexdigit n \<noteq> CHR ''-''"
proof -
  have "\<forall>n\<in>set [0..<16]. hexval (hexdigit n) = n \<and> hexdigit n \<noteq> CHR ''-''" by code_simp
  then show "n < 16 \<Longrightarrow> hexval (hexdigit n) = n \<and> hexdigit n \<noteq> CHR ''-''" by simp
qed

lemma uuid_bound: "unat (u :: uuid) < 340282366920938463463374607431768211456"
  using unsigned_less [where 'b = 128 and 'a = nat, of u] by simp

lemma uuid_nibble_nat: "uuid_nibble u i = unat u div 16 ^ (31 - i) mod 16"
  by (simp add: uuid_bound uuid_nibble_def unsigned_take_bit_eq unsigned_drop_bit_eq drop_bit_nat_def take_bit_nat_def power_mult)

lemma read_hex:
  "n \<le> 32 \<Longrightarrow> foldl (\<lambda>a c. 16 * a + hexval c) 0 (map (\<lambda>i. hexdigit (uuid_nibble u i)) [0..<n]) = unat u div 16 ^ (32 - n)"
proof (induction n)
  case 0
  show ?case using uuid_bound [of u] by simp
next
  case (Suc n)
  have "32 - n = Suc (31 - n)" using Suc.prems by simp
  then have "unat u div 16 ^ (32 - n) = unat u div 16 ^ (31 - n) div 16"
    by (simp only: power_Suc div_mult2_eq mult.commute [of 16])
  with Suc show ?case
    by (simp add: hexval_digit uuid_nibble_bound) (simp add: uuid_nibble_nat)
qed

lemma hex_ext_codec: "uuid_codec hex_ext"
proof -
  have "filter (\<lambda>c. c \<noteq> CHR ''-'') (uuid_hex u) = uuid_hex u" for u
    by (auto simp: filter_id_conv uuid_hex_def hexval_digit uuid_nibble_bound)
  then have f: "filter (\<lambda>c. c \<noteq> CHR ''-'') (take n (List.drop m (uuid_hex u))) = take n (List.drop m (uuid_hex u))" for n m u
    by (auto simp: filter_id_conv dest!: in_set_takeD in_set_dropD)
  have "filter (\<lambda>c. c \<noteq> CHR ''-'') (uuid_text u) = uuid_hex u" for u
  proof -
    have h: "uuid_hex u = take 8 (uuid_hex u) @ take 4 (drop 8 (uuid_hex u)) @ take 4 (drop 12 (uuid_hex u)) @
        take 4 (drop 16 (uuid_hex u)) @ drop 20 (uuid_hex u)"
      using append_take_drop_id [of 8 "uuid_hex u"] append_take_drop_id [of 4 "drop 8 (uuid_hex u)"]
        append_take_drop_id [of 4 "drop 12 (uuid_hex u)"] append_take_drop_id [of 4 "drop 16 (uuid_hex u)"] by simp
    show ?thesis using f [of 8 0 u] f [of 4 8 u] f [of 4 12 u] f [of 4 16 u] f [of 12 20 u] h
      by (simp add: uuid_text_def Let_def)
  qed
  then show ?thesis using read_hex [of 32]
    by (simp add: uuid_codec_def hex_ext_def) (simp add: uuid_hex_def)
qed

definition name_lib :: xml_lib where
  "name_lib = \<lparr>xml_MarshalIndent = (\<lambda>d. Inr (dx_name d)), xml_Unmarshal = (\<lambda>_. Inr [])\<rparr>"

definition name_conn :: "(string \<Rightarrow> (bool \<times> string) option) connector" where
  "name_conn = sample_conn\<lparr>DomainDefineXML := \<lambda>x m. (Inr \<lparr>vd_name = x, vd_uuid = []\<rparr>, m(x \<mapsto> (False, x)))\<rparr>"

definition name_env :: "(string \<Rightarrow> (bool \<times> string) option) vm_env" where
  "name_env = sample_env\<lparr>ve_conn := name_conn, ve_xml := name_lib\<rparr>"

lemma name_env_ok: "libvirtd_ok (ve_conn name_env) (ve_xml name_env) (\<lambda>m. m)" "host_calls_succeed name_env"
proof -
  show "libvirtd_ok (ve_conn name_env) (ve_xml name_env) (\<lambda>m. m)"
    unfolding libvirtd_ok_def quiet_def fails_quietly_def
    by (simp add: name_env_def name_conn_def sample_conn_def name_lib_def split: if_splits option.splits prod.splits)
  show "host_calls_succeed name_env"
    by (simp add: host_calls_succeed_def name_env_def sample_env_def)
qed

section \<open>A creation settles\<close>


definition gpu_node :: Node where
  "gpu_node = sample_node\<lparr>n_topology := ''{gpus}''\<rparr>"

definition gpu_created :: world where
  "gpu_created = snd (runCreate sample_handlers hex_ext sample_request gpu_node None (sample_world []))"

definition gpu_order :: CreateInstance_pb where
  "gpu_order = \<lparr>cm_instance = ''00000000-0000-0000-0000-000000000065'', cm_name = ''vm2'', cm_memory = 512, cm_vcpus = 1, cm_pubkeys = [], cm_slots = [1],
     cm_image = [], cm_pci = [''0000:27:00.0'']\<rparr>"

lemma gpu_order_id: "uuid_text 101 = cm_instance gpu_order"
  by code_simp

lemma disk_path_nonempty: "disk_path sample_vm_config i \<noteq> []"
  by (simp add: disk_path_def path_Join_def Clean_def sample_vm_config_def Let_def)

lemma name_env_creates:
  assumes "cm_instance rq \<noteq> []" and "cm_name rq \<noteq> []" and "0 < cm_memory rq" and "0 < cm_vcpus rq"
    and "build_hostdevs (cm_pci rq) = Inr hs" and "vh_dom g (cm_instance rq) = None"
    and "handleCreate name_env sample_vm_config True None rq g = (r, g')"
  shows r
proof -
  have spec: "BuildDomainXML name_lib (vm_spec sample_vm_config rq (disk_path sample_vm_config (cm_instance rq)) (seed_path sample_vm_config (cm_instance rq))) =
      Inr (cm_instance rq)"
    using assms(1,3-5) disk_path_nonempty by (simp add: BuildDomainXML_def Validate_spec_def vm_spec_def name_lib_def domain_doc_def)
  from assms(7) show ?thesis
  proof (cases rule: handleCreate_cases)
    case (unprepared e h2)
    with assms(1,2) show ?thesis
      by (simp add: prepareFiles_def Let_def make_disk_def open_seed_def host_simps action_defs name_env_def sample_env_def
          sample_vm_config_def BuildSeed_def validate_request_def seed_request_def)
  next
    case (uncreated h2 e d)
    from prepareFiles_frame [OF uncreated(2)] have "vh_dom h2 = vh_dom g" by simp
    with uncreated(3) assms(6) spec show ?thesis
      by (simp add: CreateDomain_def name_env_def name_conn_def sample_conn_def vm_spec_def attempt_def define_and_start_def action_defs
          split: prod.splits)
  qed simp
qed


section \<open>A deletion settles\<close>

lemma keeps_agents_Transition [keeps_rules]: "keeps (same_agents s0) (Transition i to op)"
  unfolding Transition_def statement_defs by (intro keeps_rules)

lemma Send_refused:
  assumes "Send nd m s = (Inl e, s')" and "\<not> is_panic e"
  shows "chans s' = chans s"
  using assms tbl_pop_wait
  by (auto simp: Send_def Let_def closed_panic_def is_panic_def split: option.splits if_splits prod.splits wait.splits)

text \<open>What the delete handler does to the row is one more step of the abstract machine.\<close>

lemma delete_ordered:
  assumes c: "calm t s" and row: "find (\<lambda>r. i_id r = i) (instances (tbl s)) = Some inst" and nt: "\<not> IsTerminal (i_state inst)"
    and run: "delete_loaded h inst i reason s = (HStatus 202 None, s')"
    and took: "took_order (i_node inst) (CDestroyInstance m) s s'"
  shows "m = uuid_text i \<and> same_but i (tbl s) (tbl s') \<and> slots (tbl s') = slots (tbl s) \<and>
    (\<exists>row'. find (\<lambda>r. i_id r = i) (instances (tbl s')) = Some row' \<and> i_state row' = settle (i_state inst) [Stopping])"
proof -
  let ?op = "opts reason []"
  have id: "i_id inst = i" using find_SomeD [OF row] by simp
  obtain e s1 where tr: "Transition i Stopping ?op s = (e, s1)" by fastforce
  have a1: "same_agents s s1" by (rule agents_after [OF keeps_agents_Transition tr])
  obtain d s2 where d: "Send (i_node inst) (CDestroyInstance (uuid_text i)) s1 = (d, s2)" by fastforce
  have t2: "tbl s2 = tbl s1" using Send_frame [OF d] by simp
  have aid: "i_id (apply_transition i Stopping ?op t q) = i_id q" for q by (simp add: apply_transition_def)
  have v: "Stopping \<in> set AllStates" by (simp add: AllStates_def)
  have "((\<exists>x. e = Inr x) \<or> (\<exists>x. e = Inl x \<and> err_is x ErrInvalidTransition)) \<and>
      same_but i (tbl s) (tbl s1) \<and> slots (tbl s1) = slots (tbl s) \<and>
      (\<exists>row'. find (\<lambda>r. i_id r = i) (instances (tbl s1)) = Some row' \<and> i_state row' = settle (i_state inst) [Stopping])"
  proof (cases "CanTransition (i_state inst) Stopping")
    case True
    from Transition_calm [OF c v row True, of ?op] tr obtain n where
      "e = Inr (apply_transition i Stopping ?op t inst)" "tbl s1 = transition_tables i n (i_state inst) Stopping ?op t (tbl s)" by auto
    with True find_set_where [OF row aid] show ?thesis
      by (simp add: transition_tables_def same_but_def filter_set_where [OF aid]) (simp add: apply_transition_def)
  next
    case False
    from Transition_refused [OF c v row False, of ?op] tr False row show ?thesis by (auto simp: same_but_def)
  qed
  moreover from this have "attempt (Send (i_node inst) (CDestroyInstance (uuid_text i))) (\<lambda>d. case d of
            Inl e \<Rightarrow> if is_panic e then reply (HPanic (err_text e))
                     else if \<not> err_is e ErrAgentNotConnected then reply (writeError 502 ''dispatch_failed'' (err_text e))
                     else reply (HStatus 202 None)
          | Inr _ \<Rightarrow> reply (HStatus 202 None)) s1 = (HStatus 202 None, s')"
    using run nt tr id by (auto simp: delete_loaded_def attempt_def IsTerminal_def)
  then have s': "s' = s2" and d': "d = Inr () \<or> (\<exists>x. d = Inl x \<and> \<not> is_panic x)"
    using d by (auto simp: attempt_def reply_def split: sum.splits if_splits)
  moreover have "m = uuid_text i"
  proof -
    have "d = Inr ()"
    proof (rule ccontr)
      assume "d \<noteq> Inr ()"
      with d' d Send_refused have "chans s2 = chans s1" by blast
      with took a1 s' show False by (auto simp: took_order_def same_agents_def)
    qed
    with took_order_unique [OF took] took_order_Send [OF a1] d s' show ?thesis by auto
  qed
  ultimately show ?thesis using t2 by simp
qed

section \<open>A life settles\<close>

lemma settle_append: "settle st (xs @ ys) = settle (settle st xs) ys"
  by (induction st xs rule: settle.induct) simp_all

text \<open>The states an agent reports over the life of an instance.\<close>

definition life_states :: "bool \<Rightarrow> bool \<Rightarrow> InstanceState \<Rightarrow> InstanceState list" where
  "life_states r ip fin = [Provisioning, if r then Running else Failed] @ (if ip then [Running] else []) @ [Stopping, fin]"

lemma life_states_ends:
  assumes "fin = Stopped \<or> fin = Failed" and "ip \<longrightarrow> r"
    and "\<not> IsTerminal (settle Pending (take k (life_states r ip fin)))"
  shows "settle (settle (settle Pending (take k (life_states r ip fin))) [Stopping]) (List.drop k (life_states r ip fin)) =
    (if r then fin else Failed)"
proof -
  consider "k = 0" | "k = 1" | "k = 2" | "k = 3" | "k = 4" | "5 \<le> k" by linarith
  then show ?thesis
    using assms by cases (auto simp: life_states_def sm_defs numeral_eq_Suc)
qed

lemma life_states_terminal: "fin = Stopped \<or> fin = Failed \<Longrightarrow> list_ex IsTerminal (life_states r ip fin)"
  by (auto simp: life_states_def IsTerminal_def)

lemma life_reports:
  assumes "handleCreate V cfg True ctx rq g = (r, g1)"
    and "g2 = (if r then detectAndPublishIP C (cm_instance rq) dl rounds g1 else g1)"
    and "vh_sent g3 = vh_sent g2 @ [status_msg (cm_instance rq) INSTANCE_STATE_STOPPING [] [], status_msg (cm_instance rq) ps [] er]"
    and "mapInstanceState ps = Inr fin"
  shows "\<exists>ip. (ip \<longrightarrow> r) \<and>
    map (\<lambda>st. mapInstanceState (st_state st)) (List.drop (length (vh_sent g)) (vh_sent g3)) = map Inr (life_states r ip fin) \<and>
    (\<forall>st\<in>set (List.drop (length (vh_sent g)) (vh_sent g3)). st_instance st = cm_instance rq)"
proof -
  obtain e1 where s1: "vh_sent g1 = vh_sent g @ [status_msg (cm_instance rq) INSTANCE_STATE_PROVISIONING [] [],
    if r then status_msg (cm_instance rq) INSTANCE_STATE_RUNNING [] [] else status_msg (cm_instance rq) INSTANCE_STATE_FAILED [] e1]"
    using handleCreate_sent [OF assms(1)] by blast
  from detect_sent [of C "cm_instance rq" dl rounds g1] assms(2)
  consider "vh_sent g2 = vh_sent g1" | a where "r" "vh_sent g2 = vh_sent g1 @ [status_msg (cm_instance rq) INSTANCE_STATE_RUNNING a []]"
    by (cases r) auto
  then show ?thesis
  proof cases
    case 1
    with s1 assms(3,4) show ?thesis
      by (intro exI [of _ False]) (simp add: life_states_def status_msg_def mapInstanceState_def)
  next
    case (2 a)
    with s1 assms(3,4) show ?thesis
      by (intro exI [of _ True]) (simp add: life_states_def status_msg_def mapInstanceState_def)
  qed
qed


definition pending_world :: world where
  "pending_world = (sample_world [])\<lparr>tbl := sample_tables\<lparr>instances := [sample_instance\<lparr>i_state := Pending\<rparr>]\<rparr>\<rparr>"

definition pending_deleted :: world where
  "pending_deleted = snd (delete_loaded sample_handlers (sample_instance\<lparr>i_state := Pending\<rparr>) 5 ''user_delete'' pending_world)"

definition pending_order :: CreateInstance_pb where
  "pending_order = gpu_order\<lparr>cm_instance := uuid_text 5\<rparr>"


section \<open>A machine that cannot be stopped\<close>

text \<open>libvirtd answers every attempt to power a domain off with an error other than that it does not run.\<close>

definition refuses_destroy :: "'d connector \<Rightarrow> bool" where
  "refuses_destroy C \<longleftrightarrow> (\<forall>d c. \<exists>e c'. DomainDestroy C d c = (Inl e, c') \<and> \<not> isLibvirtDomainNotRunning e)"

lemma DestroyDomain_refused:
  assumes ok: "libvirtd_ok C L view" and rf: "refuses_destroy C" and known: "view c nm \<noteq> None"
  obtains e c' where "DestroyDomain C None nm c = (Inl e, c')" "\<not> err_is e ErrDomainNotFound" "view c' = view c"
proof -
  obtain l c1 where l: "lookup_domain C nm c = (l, c1)" by fastforce
  from lookup_domain_cases [OF ok l] known obtain d where d: "l = Inr d" and v1: "view c1 = view c" by auto
  from rf obtain e c2 where e: "DomainDestroy C d c1 = (Inl e, c2)" "\<not> isLibvirtDomainNotRunning e"
    unfolding refuses_destroy_def by metis
  note ne = libvirtd_okD(15) [OF ok e(1)] and v2 = libvirtd_okD(9) [OF ok e(1)]
  have "DestroyDomain C None nm c = (Inl (WrapErr ''destroy: '' e []), c2)"
    using l d e by (simp add: DestroyDomain_def action_defs)
  moreover have "\<not> err_is (WrapErr ''destroy: '' e []) ErrDomainNotFound" using ne by (simp add: ErrDomainNotFound_def)
  ultimately show thesis using v1 v2 by (intro that [of "WrapErr ''destroy: '' e []" c2]) simp_all
qed

text \<open>C36. A machine that cannot be stopped loses its GPUs all the same: when libvirtd refuses to power the
  machine off, the agent reports \<open>FAILED\<close>, and main-api, for which that is a terminal state like any other,
  frees the slots of the instance, while the machine goes on running on the host with the same document and
  none of its devices was reset. The next creation may be given the same GPUs.\<close>

theorem refused_destroy_frees_gpus:
  assumes "calm t s" and "as_instances svc" and "as_slots svc" and "uuid_codec X"
    and "find (\<lambda>r. i_id r = i) (instances (tbl s)) = Some row" and "i_state row \<in> {Pending, Provisioning, Running, Stopping}"
    and "libvirtd_ok (ve_conn V) (ve_xml V) view" and "refuses_destroy (ve_conn V)"
    and "view (vh_dom g) (uuid_text i) = Some (True, xml)"
    and "handleDestroy V cfg True None (uuid_text i) g = g'" and "delivered svc X nd g g' s s'"
  shows "view (vh_dom g') (uuid_text i) = Some (True, xml) \<and> vh_resets g' = vh_resets g \<and>
    slots (tbl s') = free_slots_of i (slots (tbl s)) \<and>
    (\<exists>row'. find (\<lambda>r. i_id r = i) (instances (tbl s')) = Some row' \<and> i_state row' = Failed)"
proof -
  let ?h1 = "send_status (uuid_text i) INSTANCE_STATE_STOPPING [] [] g"
  obtain q c1 where q: "DomainPassthroughPCI (ve_conn V) (ve_xml V) None (uuid_text i) (vh_dom g) = (q, c1)" by fastforce
  have v1: "view c1 = view (vh_dom g)" using DomainPassthroughPCI_quiet [OF assms(7) q] .
  from DestroyDomain_refused [OF assms(7,8), of c1 "uuid_text i"] v1 assms(9) obtain e c2 where
    r: "DestroyDomain (ve_conn V) None (uuid_text i) c1 = (Inl e, c2)" "\<not> err_is e ErrDomainNotFound" "view c2 = view c1" by auto
  have g': "g' = send_status (uuid_text i) INSTANCE_STATE_FAILED [] (err_text e) (?h1\<lparr>vh_dom := c2\<rparr>)"
    using assms(10) q r(1,2) by (simp add: handleDestroy_def Let_def on_dom_def)
  let ?sts = "List.drop (length (vh_sent g)) (vh_sent g')"
  have sts: "\<forall>st\<in>set ?sts. uuid_Parse X (st_instance st) = Inr i"
    "map (\<lambda>st. mapInstanceState (st_state st)) ?sts = map Inr [Stopping, Failed]"
    using assms(4) by (simp_all add: g' status_msg_def uuid_codec_def mapInstanceState_def)
  have "settle (i_state row) [Stopping, Failed] = Failed" using assms(6) by (auto simp: sm_defs)
  moreover from reports_loop [OF assms(1-3) sts assms(5) assms(11) [unfolded delivered_def]]
  have "slots (tbl s') = free_slots_of i (slots (tbl s))" and
    "\<exists>row'. find (\<lambda>r. i_id r = i) (instances (tbl s')) = Some row' \<and> i_state row' = settle (i_state row) [Stopping, Failed]"
    by (simp_all add: IsTerminal_def del: settle.simps)
  ultimately show ?thesis using g' r(3) v1 assms(9) by auto
qed

definition stuck_env :: "(string \<Rightarrow> (bool \<times> string) option) vm_env" where
  "stuck_env = name_env\<lparr>ve_conn := name_conn\<lparr>DomainDestroy := \<lambda>d m. (Inl (Err ''device busy''), m)\<rparr>\<rparr>"

theorem refused_destroy_frees_gpus_witness:
  "\<exists>g' s'. handleDestroy stuck_env sample_vm_config True None (uuid_text 5) (sample_host [uuid_text 5 \<mapsto> (True, ''x'')]) = g' \<and>
     delivered sample_service hex_ext 1 (sample_host [uuid_text 5 \<mapsto> (True, ''x'')]) g' (sample_pg []) s' \<and>
     vh_dom g' (uuid_text 5) = Some (True, ''x'') \<and> map s_status (slots (tbl s')) = [Free, Free]"
proof -
  let ?g = "sample_host [uuid_text 5 \<mapsto> (True, ''x'')]"
  have ok: "libvirtd_ok (ve_conn stuck_env) (ve_xml stuck_env) (\<lambda>m. m)"
    unfolding libvirtd_ok_def quiet_def fails_quietly_def
    by (simp add: stuck_env_def name_env_def name_conn_def sample_conn_def name_lib_def ErrDomainNotFound_def
        split: if_splits option.splits prod.splits)
  have rf: "refuses_destroy (ve_conn stuck_env)"
    by (simp add: refuses_destroy_def stuck_env_def isLibvirtDomainNotRunning_def errContains_def)
  obtain g' where h: "handleDestroy stuck_env sample_vm_config True None (uuid_text 5) ?g = g'" by simp
  obtain s' where del: "delivered sample_service hex_ext 1 ?g g' (sample_pg []) s'" by (rule delivered_total)
  have st: "i_state sample_instance \<in> {Pending, Provisioning, Running, Stopping}" by (simp add: sample_instance_def)
  have v: "vh_dom ?g (uuid_text 5) = Some (True, ''x'')" by simp
  have sl: "map s_status (free_slots_of 5 (slots (tbl (sample_pg [])))) = [Free, Free]"
    by (simp add: free_slots_of_def set_where_def free_slot_def sample_defs)
  from refused_destroy_frees_gpus [OF sample_calm sample_report_simps(2,3) hex_ext_codec sample_row st ok rf v h del] h del sl
  show ?thesis by auto
qed

end
