(* ===== verification/GpuIsolation.thy ===== *)
theory GpuIsolation
  imports ServiceProps DeployProps ControlLoop
begin

text \<open>
  One GPU, one machine: the way of a GPU from the layout file of a host through the registration of the agent,
  the slot table and a reservation to the devices of a create order (\<open>profile/profile.go\<close>, \<open>slot/repo.go\<close>,
  \<open>api/admin_instances.go\<close>), and where the way leaks: GPUs that share an IOMMU group.
\<close>

section \<open>A GPU is in one slot\<close>

definition layout_sound :: admission where
  "layout_sound nd ps \<longleftrightarrow> distinct (concat (map ps_gpu_indices ps))"

definition node_gpus :: "uuid \<Rightarrow> GpuSlot list \<Rightarrow> int list" where
  "node_gpus nd qs = concat (map s_gpu_indices (filter (\<lambda>q. s_node q = nd) qs))"

definition gpus_apart :: "tables \<Rightarrow> bool" where
  "gpus_apart T \<longleftrightarrow> (\<forall>nd. distinct (node_gpus nd (slots T)))"

lemma node_gpus_set_where:
  assumes "\<And>q. s_node (f q) = s_node q" and "\<And>q. s_gpu_indices (f q) = s_gpu_indices q"
  shows "node_gpus nd (set_where P f qs) = node_gpus nd qs"
  using assms by (induction qs) (simp_all add: node_gpus_def set_where_def)

lemma distinct_concatD:
  "distinct (concat (map f xs)) \<Longrightarrow> x \<in> set xs \<Longrightarrow> y \<in> set xs \<Longrightarrow> g \<in> set (f x) \<Longrightarrow> g \<in> set (f y) \<Longrightarrow> x = y"
  by (induction xs) auto

lemma gpus_apartD:
  assumes "gpus_apart T" and "q \<in> set (slots T)" and "q' \<in> set (slots T)" and "s_node q' = s_node q"
    and "g \<in> set (s_gpu_indices q)" and "g \<in> set (s_gpu_indices q')"
  shows "q' = q"
  using distinct_concatD [of s_gpu_indices "filter (\<lambda>r. s_node r = s_node q) (slots T)" q' q g] assms
  by (simp add: gpus_apart_def node_gpus_def)

lemma node_gpus_profile:
  "length us = length ps \<Longrightarrow> node_gpus nd' (map2 (profile_row nd) ps us) = (if nd' = nd then concat (map ps_gpu_indices ps) else [])"
  by (induction us ps rule: list_induct2') (auto simp: node_gpus_def profile_row_def)

lemma gpus_apart_step: "db_step layout_sound T T' \<Longrightarrow> gpus_apart T \<Longrightarrow> gpus_apart T'"
proof (induction rule: db_step.induct)
  case (synced nd ps T us h t)
  have "length us = length ps" using synced(3) by (simp add: slots_grow_def)
  then have "node_gpus nd' (slots (sync_tables nd h ps us t T)) =
      (if nd' = nd then concat (map ps_gpu_indices ps) else node_gpus nd' (slots T))" for nd'
    using node_gpus_profile [of us ps nd' nd]
    by (auto simp: sync_tables_def node_gpus_def intro!: arg_cong [where f = concat] arg_cong [where f = "map s_gpu_indices"] filter_cong)
  with synced(1,4) show ?case by (simp add: gpus_apart_def layout_sound_def)
qed (simp_all add: gpus_apart_def node_gpus_set_where create_tables_def transition_tables_def delete_tables_def reserve_tables_def
    bind_tables_def release_tables_def post_tables_def same_core_def)

interpretation gpu_layout: db_invariant layout_sound gpus_apart
  by unfold_locales (rule gpus_apart_step)

text \<open>A stream that is opened by an agent as \<open>cmd/compute-agent\<close> starts it.\<close>

definition from_agent :: "recv \<Rightarrow> bool" where
  "from_agent first \<longleftrightarrow> (\<forall>rg. first = RecvMsg (MRegister rg) \<longrightarrow>
     (\<exists>cv H ev args fl sc vm e. agent_main cv H ev args = AgentRunning fl sc vm \<and> MRegister rg \<in> set (fst (register_session sc e))))"

definition agents_only :: "api_event \<Rightarrow> bool" where
  "agents_only ev \<longleftrightarrow> (case ev of EStreamOpen first ack \<Rightarrow> from_agent first | _ \<Rightarrow> True)"

lemma registered_topology:
  "MRegister rg \<in> set (fst (register_session sc e)) \<Longrightarrow> \<exists>t. sf_topology sc = Some (Inr t) \<and> rg_topology rg = Some t"
  by (auto simp: register_session_def register_message_def split: option.splits sum.splits ControlMessage.splits)

lemma running_layout_sound:
  assumes "agent_main cv H ev args = AgentRunning fl sc vm" and "sf_topology sc = Some (Inr t)" and "tp_profile t = Some pf"
  shows "layout_sound nd (toProfileSlots (pf_slots pf))"
proof -
  from agent_running [OF assms(1)] obtain p where p: "load_profile H fl = Inr p" "stream_New (agent_stream_config H fl p) = Inr sc" by metis
  then have "t = agent_collector H fl p"
    using assms(2) by (auto simp: stream_New_def agent_stream_config_def split: if_splits)
  with assms(3) have "p = Some pf" by (auto simp: agent_collector_def empty_topology_def Collect_def split: if_splits)
  with p(1) loaded_slots have "distinct (concat (map sp_gpu_indices (pf_slots pf)))" by (auto simp: slots_sound_def)
  then show ?thesis by (simp add: layout_sound_def toProfileSlots_def comp_def)
qed

lemma agents_admitted: "agents_only ev \<Longrightarrow> event_admits layout_sound ev"
proof (cases ev)
  case (EStreamOpen first ack)
  assume "agents_only ev"
  then have f: "from_agent first" by (simp add: agents_only_def EStreamOpen)
  have "layout_sound nd (toProfileSlots (pf_slots pf))"
    if first: "first = RecvMsg (MRegister rg)" "rg_topology rg = Some tp" "tp_profile tp = Some pf" for rg tp pf nd
  proof -
    from f first(1) obtain cv H ev args fl sc vm e where a: "agent_main cv H ev args = AgentRunning fl sc vm"
      "MRegister rg \<in> set (fst (register_session sc e))" unfolding from_agent_def by blast
    with registered_topology [OF a(2)] first(2) have "sf_topology sc = Some (Inr tp)" by auto
    with running_layout_sound [OF a(1) _ first(3)] show ?thesis by blast
  qed
  then show ?thesis by (simp add: event_admits_def admits_def EStreamOpen)
qed (simp_all add: event_admits_def)

text \<open>While only our agents register, no GPU of a node is ever in two slots, whatever else the service does.\<close>

theorem service_keeps_gpus_apart:
  assumes "api_run_of agents_only c s t" and "gpus_apart (tbl s)"
    and "q \<in> set (slots (tbl t))" and "q' \<in> set (slots (tbl t))" and "s_node q' = s_node q"
    and "g \<in> set (s_gpu_indices q)" and "g \<in> set (s_gpu_indices q')"
  shows "q' = q"
  using gpus_apartD [OF gpu_layout.reachable [OF api_run_of_reach [OF assms(1) agents_admitted] assms(2)] assms(3-7)] .

section \<open>A device is in one order\<close>

text \<open>The PCI functions of a list of GPUs: each with the companions the topology lists for it.\<close>

definition gpu_devices :: "Gpu \<Rightarrow> string set" where
  "gpu_devices g = insert (g_pci g) (set (g_companions g))"

definition devices_of :: "Topology \<Rightarrow> int list \<Rightarrow> string set" where
  "devices_of topo ixs = \<Union> (gpu_devices ` set (filter (\<lambda>g. g_index g \<in> set ixs) (tp_gpus topo)))"

text \<open>No device goes with two GPUs of different index.\<close>

definition groups_apart :: "Topology \<Rightarrow> bool" where
  "groups_apart topo \<longleftrightarrow> (\<forall>g\<in>set (tp_gpus topo). \<forall>g'\<in>set (tp_gpus topo).
     g_index g' \<noteq> g_index g \<longrightarrow> gpu_devices g \<inter> gpu_devices g' = {})"

lemma devices_apart:
  assumes "groups_apart topo" and "set ixs \<inter> set jxs = {}"
  shows "devices_of topo ixs \<inter> devices_of topo jxs = {}"
proof -
  have "x \<notin> gpu_devices g'" if "g \<in> set (tp_gpus topo)" "g' \<in> set (tp_gpus topo)" "g_index g \<in> set ixs" "g_index g' \<in> set jxs"
    "x \<in> gpu_devices g" for g g' x
  proof -
    have "g_index g' \<noteq> g_index g" using that(3,4) assms(2) by auto
    with assms(1) that(1,2,5) show ?thesis unfolding groups_apart_def by blast
  qed
  then show ?thesis by (auto simp: devices_of_def)
qed

text \<open>What a reservation resolves to are the devices of its GPUs.\<close>

lemma resolved_devices:
  assumes "resolvePassthroughPCI X js ss = Inr pcis" and "protojson_Unmarshal X js = Inr topo"
  shows "set pcis \<subseteq> devices_of topo (concat (map s_gpu_indices ss))"
proof -
  let ?ixs = "concat (map s_gpu_indices ss)"
  let ?g = "\<lambda>ix. the (find (\<lambda>g. g_index g = ix) (rev (tp_gpus topo)))"
  from assms have known: "\<forall>q\<in>set ss. \<forall>ix\<in>set (s_gpu_indices q). \<exists>g\<in>set (tp_gpus topo). g_index g = ix"
    and p: "pcis = concat (map (\<lambda>ix. let g = ?g ix in g_pci g # g_companions g) ?ixs)"
    by (auto simp: passthrough_pci)
  have g: "?g ix \<in> set (tp_gpus topo) \<and> g_index (?g ix) = ix" if "ix \<in> set ?ixs" for ix
  proof -
    from known that have "find (\<lambda>g. g_index g = ix) (rev (tp_gpus topo)) \<noteq> None" by (auto simp: find_None_iff)
    then obtain g where "find (\<lambda>g. g_index g = ix) (rev (tp_gpus topo)) = Some g" by auto
    with find_SomeD [OF this] show ?thesis by simp
  qed
  have "set (let g = ?g ix in g_pci g # g_companions g) \<subseteq> devices_of topo ?ixs" if "ix \<in> set ?ixs" for ix
  proof -
    from g [OF that] that have "?g ix \<in> set (filter (\<lambda>g. g_index g \<in> set ?ixs) (tp_gpus topo))" by simp
    then have "gpu_devices (?g ix) \<subseteq> devices_of topo ?ixs" unfolding devices_of_def by blast
    then show ?thesis by (simp add: gpu_devices_def Let_def)
  qed
  then show ?thesis unfolding p by (simp only: set_concat set_map) blast
qed

text \<open>A slot that is not bound by the creation has no GPU in common with one that is.\<close>

lemma bound_gpus_apart:
  assumes ok: "slots_ok T" and apart: "gpus_apart T" and cw: "created_with req node owner T u res t T'"
    and q: "q \<in> set (slots T')" "s_node q = n_id node" "s_instance q \<noteq> Some u" and r: "r \<in> set res"
  shows "set (s_gpu_indices r) \<inter> set (s_gpu_indices q) = {}"
proof (rule ccontr)
  assume "set (s_gpu_indices r) \<inter> set (s_gpu_indices q) \<noteq> {}"
  then obtain g where g: "g \<in> set (s_gpu_indices r)" "g \<in> set (s_gpu_indices q)" by auto
  from cw r have res: "res = reserved_rows (n_id node) (cr_gpus req) 1 T" by (auto simp: created_with_def split: if_splits)
  with r obtain r0 where r0: "r0 \<in> set (slots T)" "r = r0\<lparr>s_status := Reserved\<rparr>"
    "s_id r0 \<in> s_id ` set (picked (n_id node) (cr_gpus req) (nat 1) (slots T))" by (auto simp: reserved_rows_def)
  then have "r0 \<in> set (picked (n_id node) (cr_gpus req) (nat 1) (slots T))"
    using picked_id_iff [OF slots_okD(1) [OF ok]] by blast
  then have nd: "s_node r0 = n_id node" using picked_in by (auto simp: reservable_def)
  from cw q(1,3) have q0: "q \<in> set (slots T)" "s_id q \<notin> s_id ` set res"
    by (auto simp: created_with_def bound_slots_def set_where_def split: if_splits)
  have "q = r0" using gpus_apartD [OF apart r0(1) q0(1), of g] q(2) nd g r0(2) by simp
  then have "s_id q = s_id r" using r0(2) by simp
  with q0(2) r show False by blast
qed

text \<open>C6. No device is handed to two machines. In every run of the service in which only our agents register, when a
  creation is answered with 201 the order names only devices that no other slot of the node has: no PCI
  function that belongs, by the topology of the node, to a GPU of a slot that is free, reserved or bound to another
  instance. This rests on the topology listing no device with two GPUs.\<close>

theorem order_devices_exclusive:
  assumes "api_run_of agents_only c s0 s" and "gpus_apart (tbl s0)" and "slots_ok (tbl s0)"
    and "calm t s" and "0 \<le> cr_gpus req"
    and "runCreate h X req node owner s = (writeJSON 201 j, s1)" and "took_order (n_id node) (CCreateInstance rq) s s1"
    and "protojson_Unmarshal X (n_topology node) = Inr topo" and "groups_apart topo"
  shows "\<exists>u. cm_instance rq = uuid_text u \<and>
    (\<forall>q. q \<in> set (slots (tbl s1)) \<and> s_node q = n_id node \<and> s_instance q \<noteq> Some u \<longrightarrow>
       set (cm_pci rq) \<inter> devices_of topo (s_gpu_indices q) = {})"
proof -
  have apart: "gpus_apart (tbl s)" by (rule gpu_layout.reachable [OF api_run_of_reach [OF assms(1) agents_admitted] assms(2)])
  have ok: "slots_ok (tbl s)" by (rule slot_inv.reachable [OF api_run_of_reach [OF assms(1) agents_admitted] assms(3)])
  from create_ordered [OF assms(4) ok assms(5-7)] obtain u res pci where cw: "created_with req node owner (tbl s) u res t (tbl s1)"
    and m: "CCreateInstance rq = create_message (new_instance u t (create_params req node owner res)) res pci"
    and p: "cr_gpus req = 0 \<and> pci = [] \<or> resolvePassthroughPCI X (n_topology node) res = Inr pci" .
  have rq: "cm_instance rq = uuid_text u" "cm_pci rq = pci" using m by (simp_all add: create_message_def new_instance_def)
  have "set pci \<inter> devices_of topo (s_gpu_indices q) = {}"
    if "q \<in> set (slots (tbl s1))" "s_node q = n_id node" "s_instance q \<noteq> Some u" for q
  proof (cases "pci = []")
    case False
    with p have "resolvePassthroughPCI X (n_topology node) res = Inr pci" by blast
    then have "set pci \<subseteq> devices_of topo (concat (map s_gpu_indices res))" using resolved_devices assms(8) by blast
    moreover have "set (concat (map s_gpu_indices res)) \<inter> set (s_gpu_indices q) = {}"
      using bound_gpus_apart [OF ok apart cw that] by auto
    ultimately show ?thesis using devices_apart [OF assms(9)] by blast
  qed simp
  with rq show ?thesis by blast
qed

text \<open>The world of the witness: the running instance holds the first of two slots, the creation gets the second.\<close>

definition gpu_api :: api_state where
  "gpu_api = snd (runCreate sample_handlers hex_ext sample_request gpu_node None sample_api)"

theorem order_devices_exclusive_witness:
  "set (cm_pci gpu_order) \<inter> devices_of sample_topology (s_gpu_indices (sample_slot 10 0 InUse (Some 5))) = {}"
proof -
  have run0: "api_run_of agents_only sample_cfg sample_api sample_api" by (rule run_refl)
  have apart: "gpus_apart (tbl sample_api)"
    by (simp add: gpus_apart_def node_gpus_def tbl_sample_api) (simp add: sample_tables_def sample_slot_def)
  have ok: "slots_ok (tbl sample_api)" using sample_slots_ok by (simp add: tbl_sample_api)
  have c: "calm 60000000000 sample_api" by (simp add: calm_def sample_api_def sample_world_def world.defs)
  have gp: "0 \<le> cr_gpus sample_request" by (simp add: sample_request_def)
  have "fst (runCreate sample_handlers hex_ext sample_request gpu_node None sample_api) =
    writeJSON 201 (JInstance (toInstanceView (new_instance 101 60000000000 (create_params sample_request gpu_node None [sample_slot 11 1 Free None]))))"
    by code_simp
  then have run: "runCreate sample_handlers hex_ext sample_request gpu_node None sample_api =
    (writeJSON 201 (JInstance (toInstanceView (new_instance 101 60000000000 (create_params sample_request gpu_node None [sample_slot 11 1 Free None])))), gpu_api)"
    by (simp add: gpu_api_def prod_eq_iff)
  have "chan_log (chans gpu_api 0) = [CCreateInstance gpu_order]" by code_simp
  then have took: "took_order (n_id gpu_node) (CCreateInstance gpu_order) sample_api gpu_api"
    by (simp add: took_order_def gpu_node_def sample_node_def) (simp add: sample_api_def sample_world_def chan_log_def world.defs)
  have topo: "protojson_Unmarshal hex_ext (n_topology gpu_node) = Inr sample_topology"
    by (simp add: hex_ext_def sample_ext_def gpu_node_def)
  have groups: "groups_apart sample_topology"
    by (simp add: groups_apart_def gpu_devices_def sample_topology_def sample_gpu_def)
  have "sample_slot 10 0 InUse (Some 5) \<in> set (slots (tbl gpu_api))" by code_simp
  moreover have "s_node (sample_slot 10 0 InUse (Some 5)) = n_id gpu_node" by (simp add: sample_slot_def gpu_node_def sample_node_def)
  moreover have "s_instance (sample_slot 10 0 InUse (Some 5)) \<noteq> Some u" if "cm_instance gpu_order = uuid_text u" for u
    using that by (auto simp: sample_slot_def simp flip: gpu_order_id)
  ultimately show ?thesis using order_devices_exclusive [OF run0 apart ok c gp run took topo groups] by blast
qed

section \<open>GPUs in one IOMMU group\<close>

lemma enrich_companions:
  assumes "g_pci g \<noteq> []" and "GroupMembers S (g_pci g) = Inr ms"
  shows "g_companions (enrich S g) = filter (\<lambda>m. m \<noteq> g_pci g) ms"
proof -
  have "g_companions (diagnose S h) = g_companions h" for h by (auto simp: diagnose_def Let_def split: sum.splits)
  then show ?thesis using assms by (simp add: enrich_def Companions_def Let_def split: sum.split)
qed

lemma find_index:
  "distinct (map k xs) \<Longrightarrow> x \<in> set xs \<Longrightarrow> find (\<lambda>y. k y = k x) (rev xs) = Some x"
  by (induction xs rule: rev_induct) auto

lemma resolve_one:
  assumes "protojson_Unmarshal X js = Inr topo" and "distinct (map g_index (tp_gpus topo))" and "g \<in> set (tp_gpus topo)"
    and "js \<noteq> []" and "js \<noteq> ''{}''" and "s_gpu_indices q = [g_index g]"
  shows "resolvePassthroughPCI X js [q] = Inr (g_pci g # g_companions g)"
  using assms(1,3-6) by (auto simp: passthrough_pci find_index [OF assms(2,3)] Let_def)

text \<open>C40. A layout may split an IOMMU group, and then an order reaches into another slot. The checks of a layout look at GPU
  indices only and those of a group accept several GPUs in it, so the order for a slot with GPU \<open>g\<close> alone lists every other GPU
  \<open>g'\<close> of the group as well. When its machine cannot be created, be it because \<open>g'\<close> is held by the machine of another tenant,
  the clean-up of the failed order resets \<open>g'\<close>.\<close>

theorem shared_group_resets_neighbour:
  assumes "topo = Collect E S lc" and "g \<in> set (tp_gpus topo)" and "g' \<in> set (tp_gpus topo)" and "distinct (map g_index (tp_gpus topo))"
    and "g_pci g \<noteq> []" and "g_pci g' \<noteq> g_pci g" and "GroupMembers S (g_pci g) = Inr ms" and "g_pci g' \<in> set ms"
    and "protojson_Unmarshal X js = Inr topo" and "s_gpu_indices q = [g_index g]"
    and "resolvePassthroughPCI X js [q] = Inr (cm_pci rq)"
    and "host_calls_succeed V" and "HasResetFile (ve_sysfs V) (g_pci g')"
    and "prepareFiles (ve_os V) (ve_iso V) cfg rq (send_status (cm_instance rq) INSTANCE_STATE_PROVISIONING [] [] h) = (Inr ps, h2)"
    and "handleCreate V cfg True ctx rq h = (False, h')"
  shows "\<not> groups_apart topo \<and> g_pci g' \<in> set (cm_pci rq) \<and>
    g_pci g' \<in> set (List.drop (length (vh_resets h)) (vh_resets h'))"
proof -
  from assms(1,2) obtain g0 where "g = enrich S g0" by (auto simp: Collect_def)
  with enrich_companions [of g0 S ms] assms(5,7) have cs: "g_companions g = filter (\<lambda>m. m \<noteq> g_pci g) ms" by simp
  then have comp: "g_pci g' \<in> set (g_companions g)" using assms(6,8) by simp
  have "g_index g' \<noteq> g_index g" using distinct_key_eq [OF assms(4), of g' g] assms(2,3,6) by auto
  then have "\<not> groups_apart topo"
    using comp assms(2,3) unfolding groups_apart_def gpu_devices_def by blast
  moreover have "js \<noteq> []" "js \<noteq> ''{}''" using assms(11) by (auto simp: passthrough_pci)
  with resolve_one [OF assms(9,4,2) _ _ assms(10)] assms(11) have pci: "cm_pci rq = g_pci g # g_companions g" by simp
  moreover have "g_pci g' \<in> set (List.drop (length (vh_resets h)) (vh_resets h'))"
    using assms(15)
  proof (cases rule: handleCreate_cases)
    case (unprepared e h3)
    with assms(14) show ?thesis by simp
  next
    case (uncreated h3 e d)
    have rs: "vh_resets (reset_all (ve_sysfs V) (cm_pci rq) x) = vh_resets x @ filter (HasResetFile (ve_sysfs V)) (cm_pci rq)" for x :: "'c vm_host"
      using assms(12) by (intro reset_all_resets) (auto simp: host_calls_succeed_def)
    from prepareFiles_frame [OF uncreated(2)] have "vh_resets h3 = vh_resets h" by simp
    then have "vh_resets h' = vh_resets h @ filter (HasResetFile (ve_sysfs V)) (cm_pci rq)"
      unfolding uncreated(4) by (simp add: rs cleanupFiles_frame)
    with comp pci assms(13) show ?thesis by simp
  qed simp
  ultimately show ?thesis using comp by simp
qed

text \<open>A host with two GPUs in one group, all checks passed, and a libvirtd that cannot start the domain.\<close>

definition twin_sysfs :: sysfs where
  "twin_sysfs = sample_sysfs\<lparr>sf_ReadDir := \<lambda>p. if p ! 1 = ''kernel/iommu_groups'' \<and> length p = 2 then Inr [''7'']
     else Inr [''0000:16:00.0'', ''0000:27:00.0'']\<rparr>"

definition twin_topology :: Topology where
  "twin_topology = Collect no_smi twin_sysfs \<lparr>lc_smi = [], lc_profile = None\<rparr>"

definition twin_ext :: ext where
  "twin_ext = hex_ext\<lparr>protojson_Unmarshal := \<lambda>_. Inr twin_topology\<rparr>"

definition twin_env :: "(string \<Rightarrow> (bool \<times> string) option) vm_env" where
  "twin_env = name_env\<lparr>ve_conn := name_conn\<lparr>DomainCreate := \<lambda>d m. (Inl (Err ''device in use''), m)\<rparr>, ve_sysfs := twin_sysfs\<rparr>"

definition twin_order :: CreateInstance_pb where
  "twin_order = sample_req\<lparr>cm_pci := [''0000:16:00.0'', ''0000:27:00.0'']\<rparr>"

lemma twin_group: "GroupMembers twin_sysfs x = Inr [''0000:16:00.0'', ''0000:27:00.0'']"
  by (simp add: GroupMembers_def IOMMUGroup_def twin_sysfs_def sample_sysfs_def device_file_def Base_def Let_def)

lemma twin_class: "deviceClass twin_sysfs x = Inr ''0x030000''"
  by (simp add: deviceClass_def twin_sysfs_def sample_sysfs_def device_file_def TrimSpace_def is_space_def)

lemma twin_gpus: "ListNVIDIAGPUs twin_sysfs = Inr [''0000:16:00.0'', ''0000:27:00.0'']"
proof -
  have "nvidia_gpu twin_sysfs x" for x
    unfolding nvidia_gpu_def twin_class
    by (simp add: DeviceVendor_def twin_sysfs_def sample_sysfs_def device_file_def is_gpu_class_def TrimSpace_def is_space_def)
  then show ?thesis by (simp add: ListNVIDIAGPUs_def) (simp add: twin_sysfs_def sample_sysfs_def)
qed

lemma twin_accepted: "DiagnoseBindability twin_sysfs x = Inr (True, [])"
proof -
  have "IOMMUEnabled twin_sysfs" by (simp add: IOMMUEnabled_def twin_sysfs_def sample_sysfs_def)
  then show ?thesis by (simp add: DiagnoseBindability_def twin_group twin_class companion_class_def is_gpu_class_def)
qed

abbreviation twin_gpu :: "nat \<Rightarrow> string \<Rightarrow> Gpu" where
  "twin_gpu i pci \<equiv> enrich twin_sysfs (plain_gpu i pci (sysfs_model twin_sysfs pci) 0)"

lemma twin_topology_gpus: "tp_gpus twin_topology = [twin_gpu 0 ''0000:16:00.0'', twin_gpu 1 ''0000:27:00.0'']"
  by (simp add: twin_topology_def Collect_def collectViaNvidiaSmi_def collectViaSysfs_def no_smi_def twin_gpus)

theorem shared_group_resets_neighbour_witness:
  "\<exists>r h'. handleCreate twin_env sample_vm_config True None twin_order (sample_host (\<lambda>_. None)) = (r, h') \<and>
     ''0000:27:00.0'' \<in> set (vh_resets h') \<and> DiagnoseBindability twin_sysfs ''0000:16:00.0'' = Inr (True, [])"
proof -
  let ?g = "twin_gpu 0 ''0000:16:00.0''" and ?g' = "twin_gpu 1 ''0000:27:00.0''" and ?h = "sample_host (\<lambda>_. None)"
  have p: "g_pci ?g = ''0000:16:00.0''" "g_pci ?g' = ''0000:27:00.0''" "g_index ?g = 0" "g_index ?g' = 1"
    by (simp_all add: plain_gpu_def int32_def)
  have mem: "?g \<in> set (tp_gpus twin_topology)" "?g' \<in> set (tp_gpus twin_topology)" by (simp_all add: twin_topology_gpus)
  have d: "distinct (map g_index (tp_gpus twin_topology))" unfolding twin_topology_gpus using p by simp
  have x: "protojson_Unmarshal twin_ext ''{gpus}'' = Inr twin_topology" by (simp add: twin_ext_def)
  have ix: "s_gpu_indices (sample_slot 10 0 Free None) = [g_index ?g]" using p(3) by (simp add: sample_slot_def)
  have cs: "g_companions ?g = [''0000:27:00.0'']" using enrich_companions [OF _ twin_group] p(1) by (simp add: plain_gpu_def)
  have o: "cm_pci twin_order = [''0000:16:00.0'', ''0000:27:00.0'']" "cm_instance twin_order = ''i1''"
    by (simp_all add: twin_order_def sample_req_def)
  have res: "resolvePassthroughPCI twin_ext ''{gpus}'' [sample_slot 10 0 Free None] = Inr (cm_pci twin_order)"
    using resolve_one [OF x d mem(1) _ _ ix] p(1) cs o(1) by simp
  have calls: "host_calls_succeed twin_env"
    by (simp add: host_calls_succeed_def twin_env_def name_env_def sample_env_def twin_sysfs_def sample_sysfs_def)
  have rf: "HasResetFile (ve_sysfs twin_env) (g_pci ?g')"
    by (simp add: HasResetFile_def twin_env_def twin_sysfs_def sample_sysfs_def)
  obtain p2 h2 where p2: "prepareFiles (ve_os twin_env) (ve_iso twin_env) sample_vm_config twin_order
      (send_status (cm_instance twin_order) INSTANCE_STATE_PROVISIONING [] [] ?h) = (p2, h2)" by fastforce
  then have "\<exists>ps. p2 = Inr ps"
    by (auto simp: prepareFiles_def Let_def make_disk_def open_seed_def host_simps action_defs twin_env_def name_env_def sample_env_def
        sample_vm_config_def BuildSeed_def validate_request_def seed_request_def twin_order_def sample_req_def)
  then obtain ps where prep: "prepareFiles (ve_os twin_env) (ve_iso twin_env) sample_vm_config twin_order
      (send_status (cm_instance twin_order) INSTANCE_STATE_PROVISIONING [] [] ?h) = (Inr ps, h2)" using p2 by auto
  obtain r h' where h: "handleCreate twin_env sample_vm_config True None twin_order ?h = (r, h')" by fastforce
  then have "\<not> r"
  proof (cases rule: handleCreate_cases)
    case (running h3 info d)
    then show ?thesis
      by (auto simp: CreateDomain_def define_and_start_def action_defs twin_env_def name_env_def name_conn_def sample_conn_def
          split: sum.splits prod.splits if_splits)
  qed simp_all
  with h have h: "handleCreate twin_env sample_vm_config True None twin_order ?h = (False, h')" by simp
  from shared_group_resets_neighbour [OF twin_topology_def mem d _ _ twin_group _ x ix res calls rf prep h] p twin_accepted h
  show ?thesis by auto
qed

text \<open>A slot with both GPUs of a group cannot be created either: the order lists each of them twice.\<close>

theorem whole_group_listed_twice:
  assumes "topo = Collect E S lc" and "g \<in> set (tp_gpus topo)" and "g' \<in> set (tp_gpus topo)" and "distinct (map g_index (tp_gpus topo))"
    and "g_pci g \<noteq> []" and "g_pci g' \<noteq> g_pci g" and "GroupMembers S (g_pci g) = Inr ms" and "g_pci g' \<in> set ms"
    and "protojson_Unmarshal X js = Inr topo" and "s_gpu_indices q = [g_index g, g_index g']"
    and "resolvePassthroughPCI X js [q] = Inr pcis"
  shows "\<not> distinct pcis"
proof -
  from assms(1,2) obtain g0 where "g = enrich S g0" by (auto simp: Collect_def)
  with enrich_companions [of g0 S ms] assms(5-8) have "g_pci g' \<in> set (g_companions g)" by simp
  moreover have "pcis = (g_pci g # g_companions g) @ g_pci g' # g_companions g'"
    using assms(9-11) find_index [OF assms(4,2)] find_index [OF assms(4,3)] by (auto simp: passthrough_pci Let_def)
  ultimately show ?thesis by simp
qed

end
