(* ===== verification/MainStop.thy ===== *)
theory MainStop
  imports MainBoot
begin

text \<open>
  The end of main-api (\<open>cmd/main-api/main.go\<close>): after the signal, \<open>main\<close> shuts the HTTP server down, at most ten seconds,
  stops the gRPC server gracefully, and joins the goroutines of the wait group. A labelled step relation interleaves
  \<open>main\<close> with the requests, the streams of the agents and the workers. What gRPC documents of \<open>GracefulStop\<close> is a guard:
  it accepts no stream any more and returns when the streams that are open have ended.
\<close>

datatype worker = WGrpc | WHttp | WSweeper | WBilling | WMetrics

datatype stop_phase = Up | HttpStopping | GrpcStopping | Joining | Gone

record main_down =
  dn_phase :: stop_phase
  dn_requests :: nat
  dn_streams :: nat
  dn_workers :: "worker list" \<comment> \<open>the goroutines of the wait group that still run\<close>

text \<open>The goroutines \<open>main\<close> starts; the billing worker only with a rate table.\<close>

definition main_workers :: "api_cfg \<Rightarrow> worker list" where
  "main_workers c = [WGrpc, WHttp, WSweeper, WMetrics] @ (if ap_rates c = None then [] else [WBilling])"

definition main_up :: "api_cfg \<Rightarrow> main_down" where
  "main_up c = \<lparr>dn_phase = Up, dn_requests = 0, dn_streams = 0, dn_workers = main_workers c\<rparr>"

datatype down_event = RequestIn | RequestOut | StreamIn | StreamOut | HttpFailed | GrpcFailed | Signal | HttpDown | GrpcDown
  | WorkerDone worker | Joined

inductive down_step :: "down_event \<Rightarrow> main_down \<Rightarrow> main_down \<Rightarrow> bool" where
  dn_request_in: "dn_phase s = Up \<Longrightarrow> WHttp \<in> set (dn_workers s) \<Longrightarrow> down_step RequestIn s (s\<lparr>dn_requests := Suc (dn_requests s)\<rparr>)"
| dn_request_out: "0 < dn_requests s \<Longrightarrow> down_step RequestOut s (s\<lparr>dn_requests := dn_requests s - 1\<rparr>)"
| dn_stream_in: "dn_phase s = Up \<or> dn_phase s = HttpStopping \<Longrightarrow> WGrpc \<in> set (dn_workers s) \<Longrightarrow>
    down_step StreamIn s (s\<lparr>dn_streams := Suc (dn_streams s)\<rparr>)"
| dn_stream_out: "0 < dn_streams s \<Longrightarrow> down_step StreamOut s (s\<lparr>dn_streams := dn_streams s - 1\<rparr>)"
| dn_http_failed: "dn_phase s = Up \<Longrightarrow> WHttp \<in> set (dn_workers s) \<Longrightarrow>
    down_step HttpFailed s (s\<lparr>dn_workers := remove1 WHttp (dn_workers s)\<rparr>)"
| dn_grpc_failed: "WGrpc \<in> set (dn_workers s) \<Longrightarrow> down_step GrpcFailed s (s\<lparr>dn_workers := remove1 WGrpc (dn_workers s)\<rparr>)"
| dn_signal: "dn_phase s = Up \<Longrightarrow> down_step Signal s (s\<lparr>dn_phase := HttpStopping\<rparr>)"
| dn_http_down: "dn_phase s = HttpStopping \<Longrightarrow> down_step HttpDown s (s\<lparr>dn_phase := GrpcStopping\<rparr>)"
    \<comment> \<open>the requests have ended, or ten seconds have passed\<close>
| dn_grpc_down: "dn_phase s = GrpcStopping \<Longrightarrow> dn_streams s = 0 \<Longrightarrow> down_step GrpcDown s (s\<lparr>dn_phase := Joining\<rparr>)"
| dn_worker_done: "dn_phase s \<noteq> Up \<Longrightarrow> w \<in> set (dn_workers s) \<Longrightarrow> w = WGrpc \<longrightarrow> dn_phase s = Joining \<Longrightarrow>
    down_step (WorkerDone w) s (s\<lparr>dn_workers := remove1 w (dn_workers s)\<rparr>)"
| dn_joined: "dn_phase s = Joining \<Longrightarrow> dn_workers s = [] \<Longrightarrow> down_step Joined s (s\<lparr>dn_phase := Gone\<rparr>)"

inductive down_run :: "main_down \<Rightarrow> down_event list \<Rightarrow> main_down \<Rightarrow> bool" where
  down_refl: "down_run s [] s"
| down_more: "down_run s evs t \<Longrightarrow> down_step ev t u \<Longrightarrow> down_run s (evs @ [ev]) u"

inductive_cases down_runE: "down_run s evs t"

section \<open>Lemmas\<close>

fun phase_rank :: "stop_phase \<Rightarrow> nat" where
  "phase_rank GrpcStopping = 2"
| "phase_rank Joining = 1"
| "phase_rank p = 0"

definition stopping :: "main_down \<Rightarrow> bool" where
  "stopping s \<longleftrightarrow> dn_phase s = GrpcStopping \<or> dn_phase s = Joining \<or> dn_phase s = Gone"

definition left_to_do :: "main_down \<Rightarrow> nat" where
  "left_to_do s = phase_rank (dn_phase s) + dn_requests s + dn_streams s + length (dn_workers s)"

lemma length_remove1_less: "x \<in> set xs \<Longrightarrow> length (remove1 x xs) < length xs"
  by (induction xs) auto

lemma down_step_decreases:
  "down_step ev s s' \<Longrightarrow> stopping s \<Longrightarrow> stopping s' \<and> left_to_do s' < left_to_do s"
  by (induction rule: down_step.induct) (auto simp: stopping_def left_to_do_def length_remove1_less)

lemma down_run_decreases: "down_run s evs t \<Longrightarrow> stopping s \<Longrightarrow> stopping t \<and> length evs + left_to_do t \<le> left_to_do s"
  by (induction rule: down_run.induct) (auto dest!: down_step_decreases)

text \<open>The streams that are open when \<open>GracefulStop\<close> is called must all end before it returns.\<close>

lemma down_run_waits:
  "down_run s evs t \<Longrightarrow> dn_phase s = GrpcStopping \<Longrightarrow>
   (dn_phase t = GrpcStopping \<longrightarrow> dn_streams t + count_list evs StreamOut = dn_streams s) \<and>
   (dn_phase t \<noteq> GrpcStopping \<longrightarrow> dn_streams s \<le> count_list evs StreamOut)"
proof (induction rule: down_run.induct)
  case (down_more s evs t ev u)
  then have "stopping t" using down_run_decreases [OF down_more(1)] by (simp add: stopping_def)
  with down_more(2) down_more(3) [OF down_more(4)] show ?case
    by (induction rule: down_step.induct) (auto simp: stopping_def)
qed simp

definition joined_ok :: "main_down \<Rightarrow> bool" where
  "joined_ok s \<longleftrightarrow> (dn_phase s = Joining \<or> dn_phase s = Gone \<longrightarrow> dn_streams s = 0) \<and> (dn_phase s = Gone \<longrightarrow> dn_workers s = [])"

lemma joined_ok_run: "down_run s evs t \<Longrightarrow> joined_ok s \<Longrightarrow> joined_ok t"
proof (induction rule: down_run.induct)
  case (down_more s evs t ev u)
  from down_more(2) down_more(3) [OF down_more(4)] show ?case
    by (induction rule: down_step.induct) (auto simp: joined_ok_def)
qed simp

lemma joined_ok_up: "joined_ok (main_up c)"
  by (simp add: joined_ok_def main_up_def)

lemma down_stuck:
  assumes "stopping s" and "joined_ok s" and stuck: "\<And>ev u. \<not> down_step ev s u"
  shows "dn_phase s = Gone"
proof -
  have "dn_streams s = 0" using stuck dn_stream_out [of s] by auto
  then have g: "dn_phase s \<noteq> GrpcStopping" using stuck dn_grpc_down [of s] by auto
  have "dn_phase s \<noteq> Joining"
  proof
    assume j: "dn_phase s = Joining"
    with stuck dn_joined [of s] obtain w where "w \<in> set (dn_workers s)" by (cases "dn_workers s") auto
    with j stuck dn_worker_done [of s w] show False by auto
  qed
  with g assms(1) show ?thesis by (simp add: stopping_def)
qed

section \<open>The end\<close>

text \<open>C33. main-api ends exactly when its agents have gone. Once the HTTP server is down, \<open>main\<close> stays in the graceful stop
  of the gRPC server as long as fewer streams have ended than were open, however long that takes and whatever else
  happens; after the last one every further run is of bounded length, and when nothing is left to happen the process
  has ended. Nothing in the program ends a stream from main-api's side, and no time limit is set.\<close>

theorem stop_waits_for_agents:
  assumes "down_run (main_up c) before s" and "dn_phase s = GrpcStopping" and "down_run s evs t"
  shows "(count_list evs StreamOut < dn_streams s \<longrightarrow> dn_phase t = GrpcStopping) \<and>
    length evs \<le> 2 + dn_requests s + dn_streams s + length (dn_workers s) \<and>
    ((\<forall>ev u. \<not> down_step ev t u) \<longrightarrow> dn_phase t = Gone \<and> dn_streams s \<le> count_list evs StreamOut)"
proof -
  have ok: "joined_ok t" using assms(1,3) joined_ok_run joined_ok_up by blast
  from down_run_decreases [OF assms(3)] assms(2) have d: "stopping t" "length evs + left_to_do t \<le> left_to_do s"
    by (simp_all add: stopping_def)
  from d(2) assms(2) have "length evs \<le> 2 + dn_requests s + dn_streams s + length (dn_workers s)" by (simp add: left_to_do_def)
  with down_run_waits [OF assms(3,2)] down_stuck [OF d(1) ok] show ?thesis by force
qed

definition lone_agent :: "api_cfg \<Rightarrow> main_down" where
  "lone_agent c = \<lparr>dn_phase = GrpcStopping, dn_requests = 0, dn_streams = 1, dn_workers = main_workers c\<rparr>"

lemma lone_agent_run: "down_run (main_up c) [StreamIn, Signal, HttpDown] (lone_agent c)"
proof -
  let ?a = "(main_up c)\<lparr>dn_streams := 1\<rparr>" and ?b = "(main_up c)\<lparr>dn_streams := 1, dn_phase := HttpStopping\<rparr>"
  have 1: "down_run (main_up c) [StreamIn] ?a"
    using down_more [OF down_refl dn_stream_in [of "main_up c"]] by (simp add: main_up_def main_workers_def)
  have "down_step Signal ?a ?b" using dn_signal [of ?a] by (simp add: main_up_def)
  from down_more [OF 1 this] have 2: "down_run (main_up c) [StreamIn, Signal] ?b" by simp
  have "down_step HttpDown ?b (lone_agent c)" using dn_http_down [of ?b] by (simp add: main_up_def lone_agent_def)
  from down_more [OF 2 this] show ?thesis by simp
qed

theorem stop_waits_for_agents_witness:
  "\<forall>c. (\<exists>t. down_run (lone_agent c) [WorkerDone WHttp] t \<and> dn_phase t = GrpcStopping) \<and>
    \<not> (\<exists>evs t. down_run (lone_agent c) evs t \<and> StreamOut \<notin> set evs \<and> dn_phase t \<noteq> GrpcStopping)"
proof (intro allI conjI notI)
  fix c
  have "down_step (WorkerDone WHttp) (lone_agent c) ((lone_agent c)\<lparr>dn_workers := remove1 WHttp (main_workers c)\<rparr>)"
    using dn_worker_done [of "lone_agent c" WHttp] by (simp add: lone_agent_def main_workers_def)
  from down_more [OF down_refl this] show "\<exists>t. down_run (lone_agent c) [WorkerDone WHttp] t \<and> dn_phase t = GrpcStopping"
    by (auto simp: lone_agent_def)
next
  fix c assume "\<exists>evs t. down_run (lone_agent c) evs t \<and> StreamOut \<notin> set evs \<and> dn_phase t \<noteq> GrpcStopping"
  then obtain evs t where r: "down_run (lone_agent c) evs t" and "StreamOut \<notin> set evs" and p: "dn_phase t \<noteq> GrpcStopping" by blast
  then have "count_list evs StreamOut = 0" by (simp add: count_list_0_iff)
  with stop_waits_for_agents [OF lone_agent_run _ r] p show False by (simp add: lone_agent_def)
qed

end
