(* ===== verification/AgentDrain.thy ===== *)
theory AgentDrain
  imports StreamClient VmHandler AgentBoot
begin

text \<open>
  The end of compute-agent: \<open>main\<close> waits for the control stream to return and then for the VM handlers, at most
  \<open>shutdownGrace\<close> (\<open>cmd/compute-agent/main.go\<close>, \<open>vm/handler.go\<close>). A step relation interleaves the reconnect loop, the
  goroutines of its sessions, the handlers they start and \<open>main\<close>.
\<close>

definition shutdownGrace :: int where
  "shutdownGrace = 30 * second"

text \<open>Where \<open>main\<close> is: in \<open>client.Run\<close>, in \<open>vmHandler.Wait\<close>, or past it with its result.\<close>

datatype main_at = InRun | InWait | PastWait bool

text \<open>The current session; the readers of former sessions that still run; the wait group of the VM handler; whether
  SIGTERM arrived; whether an order was accepted after \<open>Run\<close> had returned.\<close>

record agent_run =
  ag_session :: cli_session
  ag_readers :: nat
  ag_handlers :: nat
  ag_term :: bool
  ag_main :: main_at
  ag_late :: bool

definition agent_start :: agent_run where
  "agent_start = \<lparr>ag_session = session_init, ag_readers = 0, ag_handlers = 0, ag_term = False, ag_main = InRun, ag_late = False\<rparr>"

inductive agent_step :: "agent_run \<Rightarrow> agent_run \<Rightarrow> bool" where
  ad_session: "session_step (ag_session s) x \<Longrightarrow> agent_step s (s\<lparr>ag_session := x\<rparr>)"
| ad_order: "cs_reader (ag_session s) \<or> 0 < ag_readers s \<Longrightarrow> OnControl msg \<noteq> None \<Longrightarrow>
    agent_step s (s\<lparr>ag_handlers := Suc (ag_handlers s), ag_late := ag_late s \<or> ag_main s \<noteq> InRun\<rparr>)"
| ad_reader_exit: "0 < ag_readers s \<Longrightarrow> agent_step s (s\<lparr>ag_readers := ag_readers s - 1\<rparr>)"
| ad_done: "0 < ag_handlers s \<Longrightarrow> agent_step s (s\<lparr>ag_handlers := ag_handlers s - 1\<rparr>)"
| ad_sigterm: "agent_step s (s\<lparr>ag_term := True\<rparr>)"
| ad_reconnect: "ag_main s = InRun \<Longrightarrow> cs_phase (ag_session s) = SReturned \<Longrightarrow> \<not> ag_term s \<Longrightarrow>
    agent_step s (s\<lparr>ag_session := session_init, ag_readers := ag_readers s + of_bool (cs_reader (ag_session s))\<rparr>)"
| ad_return: "ag_main s = InRun \<Longrightarrow> cs_phase (ag_session s) = SReturned \<Longrightarrow> ag_term s \<Longrightarrow> agent_step s (s\<lparr>ag_main := InWait\<rparr>)"
| ad_drained: "ag_main s = InWait \<Longrightarrow> ag_handlers s = 0 \<Longrightarrow> agent_step s (s\<lparr>ag_main := PastWait True\<rparr>)"
| ad_grace: "ag_main s = InWait \<Longrightarrow> agent_step s (s\<lparr>ag_main := PastWait False\<rparr>)"

inductive agent_reach :: "agent_run \<Rightarrow> bool" where
  agent_reach_start: "agent_reach agent_start"
| agent_reach_step: "agent_reach s \<Longrightarrow> agent_step s s' \<Longrightarrow> agent_reach s'"

text \<open>When \<open>Wait\<close> reported a clean drain and no order came late, no handler runs.\<close>

lemma drained_ok:
  "agent_reach s \<Longrightarrow> ag_main s = PastWait True \<longrightarrow> \<not> ag_late s \<longrightarrow> ag_handlers s = 0"
proof (induction rule: agent_reach.induct)
  case agent_reach_start
  then show ?case by (simp add: agent_start_def)
next
  case (agent_reach_step s s')
  from agent_reach_step(2,3) show ?case by (induction rule: agent_step.induct) (auto split: if_splits)
qed

text \<open>The wait for the sender is the only one of \<open>runOnce\<close>: a reader can outlive its session, and an order it has
  received starts a handler after \<open>Wait\<close> has reported a clean drain.\<close>

lemma reader_outlives_session: "\<exists>s. session_reach s \<and> cs_phase s = SReturned \<and> cs_reader s"
proof -
  let ?s1 = "session_init\<lparr>cs_cancelled := True\<rparr>"
  let ?s2 = "?s1\<lparr>cs_sender := False, cs_errs := [None]\<rparr>"
  let ?s3 = "?s2\<lparr>cs_phase := SDraining, cs_result := None, cs_cancelled := True\<rparr>"
  let ?s4 = "?s3\<lparr>cs_phase := SReturned\<rparr>"
  have 1: "session_reach ?s1" by (rule session_more [OF session_start ss_cancel])
  have "session_step ?s1 ?s2" using ss_send_exit [of ?s1] by (simp add: session_init_def)
  then have 2: "session_reach ?s2" by (rule session_more [OF 1])
  have "session_step ?s2 ?s3" using ss_first [of ?s2 None "[]"] by (simp add: session_init_def)
  then have 3: "session_reach ?s3" by (rule session_more [OF 2])
  have "session_step ?s3 ?s4" using ss_return [of ?s3] by (simp add: session_init_def)
  then have "session_reach ?s4" by (rule session_more [OF 3])
  moreover have "cs_phase ?s4 = SReturned" "cs_reader ?s4" by (simp_all add: session_init_def)
  ultimately show ?thesis by blast
qed

lemma run_session:
  assumes "session_reach x"
  shows "agent_reach (agent_start\<lparr>ag_session := x\<rparr>)"
  using assms
proof (induction rule: session_reach.induct)
  case session_start
  then show ?case using agent_reach_start by (simp add: agent_start_def)
next
  case (session_more s s')
  have "agent_step (agent_start\<lparr>ag_session := s\<rparr>) (agent_start\<lparr>ag_session := s'\<rparr>)"
    using ad_session [of "agent_start\<lparr>ag_session := s\<rparr>" s'] session_more(2) by simp
  then show ?case by (rule agent_reach_step [OF session_more(3)])
qed

lemma late_order_possible: "\<exists>s. agent_reach s \<and> ag_main s = PastWait True \<and> 0 < ag_handlers s"
proof -
  from reader_outlives_session obtain x where x: "session_reach x" "cs_phase x = SReturned" "cs_reader x" by blast
  let ?s = "agent_start\<lparr>ag_session := x, ag_term := True\<rparr>"
  have r: "agent_reach ?s" using agent_reach_step [OF run_session [OF x(1)] ad_sigterm] by simp
  have "agent_step ?s (?s\<lparr>ag_main := InWait\<rparr>)" using ad_return [of ?s] x(2) by (simp add: agent_start_def)
  from agent_reach_step [OF r this] have r: "agent_reach (?s\<lparr>ag_main := InWait\<rparr>)" .
  have "agent_step (?s\<lparr>ag_main := InWait\<rparr>) (?s\<lparr>ag_main := PastWait True\<rparr>)"
    using ad_drained [of "?s\<lparr>ag_main := InWait\<rparr>"] by (simp add: agent_start_def)
  from agent_reach_step [OF r this] have r: "agent_reach (?s\<lparr>ag_main := PastWait True\<rparr>)" .
  let ?e = "?s\<lparr>ag_main := PastWait True, ag_handlers := 1, ag_late := True\<rparr>"
  from agent_reach_step [OF r ad_order [of _ "CDestroyInstance []"]] x(3) have "agent_reach ?e"
    by (simp add: agent_start_def OnControl_def)
  moreover have "ag_main ?e = PastWait True" "0 < ag_handlers ?e" by simp_all
  ultimately show ?thesis by blast
qed

section \<open>The tools of the host\<close>

text \<open>\<open>qemu-img\<close> is run with a time limit; what a command returns is a parameter: its error, if any, its output, and
  whether it leaves the file.\<close>

type_synonym cmd_run = "string list \<Rightarrow> (err option \<times> string) \<times> bool"

definition qemuImgCreate :: "cmd_run \<Rightarrow> string \<Rightarrow> string \<Rightarrow> err option \<times> bool" where
  "qemuImgCreate run backing dst = (case run [''qemu-img'', ''create'', ''-f'', ''qcow2'', ''-F'', ''qcow2'', ''-b'', backing, dst] of
       ((e, out), left) \<Rightarrow> (map_option (\<lambda>x. WrapErr ''qemu-img: '' x ('': '' @ out)) e, left))"

definition qemuImgResize :: "cmd_run \<Rightarrow> string \<Rightarrow> int \<Rightarrow> err option" where
  "qemuImgResize run dst gb = (case run [''qemu-img'', ''resize'', dst, dec_int gb @ ''G''] of
       ((e, out), _) \<Rightarrow> map_option (\<lambda>x. WrapErr ''qemu-img resize: '' x ('': '' @ out)) e)"

text \<open>\<open>New\<close>: the handler of production, on the host as it is.\<close>

definition vm_New :: "cmd_run \<Rightarrow> 'd connector \<Rightarrow> xml_lib \<Rightarrow> iso_lib \<Rightarrow> sysfs \<Rightarrow> vm_os \<Rightarrow> 'd vm_env" where
  "vm_New run C X Y S os = \<lparr>ve_os = os\<lparr>os_imgFn := qemuImgCreate run, os_resizeFn := qemuImgResize run\<rparr>, ve_conn = C, ve_xml = X,
     ve_sysfs = S, ve_iso = Y\<rparr>"

text \<open>\<open>NewLibvirtManager\<close>: the error of the handshake.\<close>

definition NewLibvirtManager :: "err option \<Rightarrow> 'd connector \<Rightarrow> err + 'd connector" where
  "NewLibvirtManager handshake C = (case handshake of Some e \<Rightarrow> Inl (WrapErr ''libvirt handshake: '' e []) | None \<Rightarrow> Inr C)"

text \<open>An instance whose disk cannot be created by \<open>qemu-img\<close> is reported as failed with what the tool printed, after
  the files are removed.\<close>

lemma qemu_failure_reported:
  assumes "os_MkdirAll os (hc_image_dir cfg) = None" and "os_MkdirAll os (hc_seed_dir cfg) = None" and "hc_base cfg \<noteq> []"
    and "run [''qemu-img'', ''create'', ''-f'', ''qcow2'', ''-F'', ''qcow2'', ''-b'', hc_base cfg, disk_path cfg (cm_instance req)] = ((Some x, out), left)"
  shows "\<exists>h'. handleCreate (vm_New run C X Y S os) cfg True ctx req h = (False, h') \<and>
    vh_sent h' = vh_sent h @ [status_msg (cm_instance req) INSTANCE_STATE_PROVISIONING [] [],
      status_msg (cm_instance req) INSTANCE_STATE_FAILED []
        (''prepare: create disk: qemu-img: '' @ err_text x @ '': '' @ out)]"
  using assms
  by (simp add: handleCreate_def Let_def prepareFiles_def make_disk_def vm_New_def qemuImgCreate_def host_simps action_defs
      cleanupFiles_frame status_msg_def)

end
