(* ===== verification/DbEnums.thy ===== *)
theory DbEnums
  imports Schema
begin

text \<open>
  The enum columns as sqlc reads and writes them (\<open>dbstore/models.go\<close>): the Go types \<open>InstanceState\<close>, \<open>NodeStatus\<close>
  and \<open>SlotStatus\<close> are strings, their scanners accept any text, and wrappers with a flag stand for columns that may
  be NULL.
\<close>

text \<open>A value of the driver: NULL, bytes, a text, or a value of another Go type, by the name of the type.\<close>

datatype db_value = DbNull | DbBytes string | DbText string | DbOther string

text \<open>The scanners share their text; the first result is the error, the second the variable afterwards.\<close>

definition enum_Scan :: "string \<Rightarrow> db_value \<Rightarrow> string \<Rightarrow> err option \<times> string" where
  "enum_Scan name src e = (case src of
       DbBytes s \<Rightarrow> (None, s)
     | DbText s \<Rightarrow> (None, s)
     | DbNull \<Rightarrow> (Some (Err (''unsupported scan type for '' @ name @ '': <nil>'')), e)
     | DbOther t \<Rightarrow> (Some (Err (''unsupported scan type for '' @ name @ '': '' @ t)), e))"

definition InstanceState_Scan :: "db_value \<Rightarrow> string \<Rightarrow> err option \<times> string" where
  "InstanceState_Scan = enum_Scan ''InstanceState''"

definition NodeStatus_Scan :: "db_value \<Rightarrow> string \<Rightarrow> err option \<times> string" where
  "NodeStatus_Scan = enum_Scan ''NodeStatus''"

definition SlotStatus_Scan :: "db_value \<Rightarrow> string \<Rightarrow> err option \<times> string" where
  "SlotStatus_Scan = enum_Scan ''SlotStatus''"

record null_enum =
  ne_text :: string
  ne_valid :: bool

definition null_Scan :: "(db_value \<Rightarrow> string \<Rightarrow> err option \<times> string) \<Rightarrow> db_value \<Rightarrow> null_enum \<Rightarrow> err option \<times> null_enum" where
  "null_Scan scan v ns = (if v = DbNull then (None, \<lparr>ne_text = [], ne_valid = False\<rparr>)
     else case scan v (ne_text ns) of (e, t) \<Rightarrow> (e, \<lparr>ne_text = t, ne_valid = True\<rparr>))"

definition NullInstanceState_Scan :: "db_value \<Rightarrow> null_enum \<Rightarrow> err option \<times> null_enum" where
  "NullInstanceState_Scan = null_Scan InstanceState_Scan"

definition NullNodeStatus_Scan :: "db_value \<Rightarrow> null_enum \<Rightarrow> err option \<times> null_enum" where
  "NullNodeStatus_Scan = null_Scan NodeStatus_Scan"

definition NullSlotStatus_Scan :: "db_value \<Rightarrow> null_enum \<Rightarrow> err option \<times> null_enum" where
  "NullSlotStatus_Scan = null_Scan SlotStatus_Scan"

text \<open>The body the three \<open>Value\<close> methods share.\<close>

definition null_Value :: "null_enum \<Rightarrow> db_value" where
  "null_Value ns = (if ne_valid ns then DbText (ne_text ns) else DbNull)"

definition NullInstanceState_Value :: "null_enum \<Rightarrow> db_value" where
  "NullInstanceState_Value = null_Value"

definition NullNodeStatus_Value :: "null_enum \<Rightarrow> db_value" where
  "NullNodeStatus_Value = null_Value"

definition NullSlotStatus_Value :: "null_enum \<Rightarrow> db_value" where
  "NullSlotStatus_Value = null_Value"

section \<open>Laws\<close>

lemma null_round_trip:
  assumes "\<And>s t. scan (DbText s) t = (None, s)"
  shows "fst (null_Scan scan (null_Value ns) ns') = None \<and> null_Value (snd (null_Scan scan (null_Value ns) ns')) = null_Value ns"
  using assms by (simp add: null_Scan_def null_Value_def)

lemmas enum_round_trip = null_round_trip [of InstanceState_Scan] null_round_trip [of NodeStatus_Scan] null_round_trip [of SlotStatus_Scan]

lemma scan_text: "InstanceState_Scan (DbText s) t = (None, s)" "NodeStatus_Scan (DbText s) t = (None, s)" "SlotStatus_Scan (DbText s) t = (None, s)"
  by (simp_all add: InstanceState_Scan_def NodeStatus_Scan_def SlotStatus_Scan_def enum_Scan_def)

text \<open>A failed scan of a wrapper leaves it valid with its former text.\<close>

lemma failed_scan_valid:
  "fst (NullInstanceState_Scan v ns) = Some e \<Longrightarrow> snd (NullInstanceState_Scan v ns) = \<lparr>ne_text = ne_text ns, ne_valid = True\<rparr>"
  by (auto simp: NullInstanceState_Scan_def null_Scan_def InstanceState_Scan_def enum_Scan_def split: db_value.splits if_splits)

text \<open>The states of the enum are told apart by their texts.\<close>

lemma state_text_inj:
  "\<forall>x. a \<noteq> OtherState x \<Longrightarrow> \<forall>x. b \<noteq> OtherState x \<Longrightarrow> state_text a = state_text b \<Longrightarrow> a = b"
  by (cases a; cases b) auto

end
