(* ===== verification/Metrics.thy ===== *)
theory Metrics
  imports Dbstore "HOL-Library.Multiset"
begin

text \<open>
  The gauges and the histogram main-api exports (\<open>metrics/domain.go\<close>, \<open>metrics/metrics.go\<close>): a sample of the
  database, and the observation of every HTTP request. Prometheus keeps what is written to it.
\<close>

record gauges =
  ga_instances :: "InstanceState \<Rightarrow> nat option"
  ga_slots :: "string \<times> string \<Rightarrow> bool option" \<comment> \<open>by node name and slot index: 1 when in use\<close>
  ga_http :: "(string \<times> string \<times> string) list" \<comment> \<open>method, route and status of every observation\<close>

definition NewCollectors :: gauges where
  "NewCollectors = \<lparr>ga_instances = (\<lambda>_. None), ga_slots = (\<lambda>_. None), ga_http = []\<rparr>"

section \<open>Sampling\<close>

definition state_counts :: "Instance list \<Rightarrow> InstanceState \<Rightarrow> nat option" where
  "state_counts insts st = Some (length (filter (\<lambda>r. i_state r = st) insts))"

fun slot_gauges :: "ListSlotsForAdminViewRow list \<Rightarrow> (string \<times> string \<Rightarrow> bool option) \<Rightarrow> string \<times> string \<Rightarrow> bool option" where
  "slot_gauges [] g = g"
| "slot_gauges (r # rows) g = slot_gauges rows (g((sr_node_name r, dec_int (sr_index r)) \<mapsto> (sr_status r = InUse)))"

definition Sample :: "gauges \<Rightarrow> 'z pg_scheme \<Rightarrow> (err option \<times> gauges) \<times> 'z pg_scheme" where
  "Sample g s = (case ListInstances None s of
       (Inl e, s1) \<Rightarrow> ((Some e, g), s1)
     | (Inr insts, s1) \<Rightarrow>
         let g1 = g\<lparr>ga_instances := state_counts insts\<rparr> in
         (case ListSlotsForAdminView s1 of
            (Inl e, s2) \<Rightarrow> ((Some e, g1), s2)
          | (Inr rows, s2) \<Rightarrow> ((None, g1\<lparr>ga_slots := slot_gauges rows (\<lambda>_. None)\<rparr>), s2)))"

text \<open>\<open>Run\<close>: a sample at the start and one per tick, errors ignored; each tick finds another database.\<close>

definition refresh_interval :: "int \<Rightarrow> int" where
  "refresh_interval i = (if i \<le> 0 then 15 * second else i)"

definition metrics_Run :: "'z pg_scheme list \<Rightarrow> gauges \<Rightarrow> gauges" where
  "metrics_Run dbs g = fold (\<lambda>s g. snd (fst (Sample g s))) dbs g"

section \<open>HTTP\<close>

text \<open>What a handler does with the response writer.\<close>

datatype rw_call = WriteHeader nat | WriteBody

fun recorded :: "rw_call list \<Rightarrow> nat option \<Rightarrow> nat option" where
  "recorded [] code = code"
| "recorded (WriteHeader n # cs) code = recorded cs (case code of None \<Rightarrow> Some n | Some m \<Rightarrow> Some m)"
| "recorded (WriteBody # cs) code = recorded cs code"

definition HTTPMiddleware :: "string \<Rightarrow> string \<Rightarrow> rw_call list \<Rightarrow> gauges \<Rightarrow> gauges" where
  "HTTPMiddleware route method calls g = g\<lparr>ga_http := ga_http g @
     [(method, route, dec_nat (case recorded calls None of None \<Rightarrow> 200 | Some n \<Rightarrow> n))]\<rparr>"

text \<open>The status the client sees: \<open>net/http\<close> sends 200 with the first byte of a body that comes before a header.\<close>

definition sent_status :: "rw_call list \<Rightarrow> nat" where
  "sent_status calls = (case calls of WriteHeader n # _ \<Rightarrow> n | _ \<Rightarrow> 200)"

section \<open>Lemmas\<close>

lemma recorded_Some: "recorded cs (Some n) = Some n"
  by (induction cs "Some n" rule: recorded.induct) auto

lemma recorded_status:
  assumes "\<forall>n. WriteHeader n \<notin> set (tl calls)"
  shows "(case recorded calls None of None \<Rightarrow> 200 | Some n \<Rightarrow> n) = sent_status calls"
proof (cases calls)
  case Nil
  then show ?thesis by (simp add: sent_status_def)
next
  case (Cons c cs)
  have none: "recorded xs None = None" if "\<forall>n. WriteHeader n \<notin> set xs" for xs
    using that
  proof (induction xs)
    case (Cons x xs)
    then show ?case by (cases x) auto
  qed simp
  from Cons assms show ?thesis by (cases c) (simp_all add: sent_status_def recorded_Some none)
qed

lemma slot_gauges_other:
  "\<forall>r\<in>set rows. (sr_node_name r, dec_int (sr_index r)) \<noteq> k \<Longrightarrow> slot_gauges rows g k = g k"
  by (induction rows arbitrary: g) auto

lemma slot_gauges_row:
  assumes "distinct (map (\<lambda>r. (sr_node_name r, dec_int (sr_index r))) rows)" and "r \<in> set rows"
  shows "slot_gauges rows g (sr_node_name r, dec_int (sr_index r)) = Some (sr_status r = InUse)"
  using assms
proof (induction rows arbitrary: g)
  case (Cons q rows)
  show ?case
  proof (cases "r = q")
    case True
    have "\<forall>x\<in>set rows. (sr_node_name x, dec_int (sr_index x)) \<noteq> (sr_node_name q, dec_int (sr_index q))"
      using Cons.prems(1) by (auto simp: image_iff)
    from slot_gauges_other [OF this] True show ?thesis by simp
  next
    case False
    with Cons show ?thesis by simp
  qed
qed simp

lemma length_filter_sort_key: "length (filter P (sort_key f xs)) = length (filter P xs)"
proof -
  have "mset (filter P (sort_key f xs)) = mset (filter P xs)" by simp
  then show ?thesis by (metis size_mset)
qed

text \<open>A sample the database answers shows exactly the state of the tables.\<close>

lemma Sample_exact:
  assumes "faults s = []"
  shows "fst (fst (Sample g s)) = None \<and>
    ga_instances (snd (fst (Sample g s))) st = Some (length (filter (\<lambda>r. i_state r = st) (instances (tbl s))))"
  using assms
  by (simp add: Sample_def ListInstances_def ListSlotsForAdminView_def fine_simps Let_def state_counts_def length_filter_sort_key)

text \<open>A failed sample of the slots leaves their gauges, and those of the instances are new.\<close>

lemma Sample_failed:
  assumes "fst (fst (Sample g s)) = Some e"
  shows "ga_slots (snd (fst (Sample g s))) = ga_slots g"
  using assms by (auto simp: Sample_def Let_def split: prod.splits sum.splits)

end
