(* ===== verification/MuxConf.thy ===== *)
theory MuxConf
  imports MuxClient
begin

text \<open>
  The configuration of yamux both ends of a mux session use (\<open>shared/muxconfig/config.go\<close>). Durations are nanoseconds.
\<close>

record yamux_config =
  yc_keepalive :: int
  yc_open_timeout :: int
  yc_enable_keepalive :: bool
  yc_window :: nat
  yc_write_timeout :: int
  yc_close_timeout :: int
  yc_backlog :: nat
  yc_log_output :: bool

definition muxconfig_Config :: yamux_config where
  "muxconfig_Config = \<lparr>yc_keepalive = 15 * second, yc_open_timeout = 30 * second, yc_enable_keepalive = True,
     yc_window = 256 * 1024, yc_write_timeout = 10 * second, yc_close_timeout = 5 * 60 * second, yc_backlog = 256,
     yc_log_output = True\<rparr>"

text \<open>The agent's end may override the interval.\<close>

definition client_yamux :: "mux_client_config \<Rightarrow> yamux_config" where
  "client_yamux cfg = (if mk_keepalive cfg > 0 then muxconfig_Config\<lparr>yc_keepalive := mk_keepalive cfg\<rparr> else muxconfig_Config)"

text \<open>What \<open>yamux.VerifyConfig\<close> documents of a valid configuration.\<close>

definition yamux_valid :: "yamux_config \<Rightarrow> bool" where
  "yamux_valid c \<longleftrightarrow> 0 < yc_backlog c \<and> yc_keepalive c \<noteq> 0 \<and> 256 * 1024 \<le> yc_window c \<and> yc_log_output c"

lemma client_yamux_valid: "yamux_valid (client_yamux cfg)"
  by (simp add: yamux_valid_def client_yamux_def muxconfig_Config_def second_def)

end
