(* ===== verification/Spec2Isabelle.thy ===== *)
theory Spec2Isabelle
  imports ServiceProps RouterProps AccessProps RepoProps StoreProps InstanceProps StreamProps BillingProps GateProps VmProps
    TunnelProps RelayProps RevokeProps LoopProps AgentProps BootProps DeployProps ControlLoop GpuIsolation MainStop AgentDrain DbEnums Metrics MuxConf
begin

text \<open>
  A verification library of the hybrid-cloud control plane: a Go program of three processes that rents out virtual
  machines with whole GPUs on partners' hosts.

  \<^bold>\<open>The program.\<close> \<open>main-api\<close> keeps users, nodes, GPU slots, instances and credits in PostgreSQL, serves the HTTP API and the
  control stream of the agents, bills running instances and sweeps silent nodes. \<open>compute-agent\<close> runs on a host: it
  reports the host's GPUs and slot layout on the control stream, creates and destroys libvirt domains with the GPUs
  passed through, and holds one outbound mux session. \<open>ssh-proxy\<close> accepts the users' SSH connections, gets a signed ticket
  from main-api for each channel, and relays the bytes over the mux session of the node to port 22 of the machine.
  An operator runs the command line \<open>admin\<close> against the same database.

  \<^bold>\<open>Ground.\<close> \<open>Prelude\<close> holds Go errors as values (\<open>WrapErr\<close> is \<open>%w\<close>, \<open>err_is\<close> is \<open>errors.Is\<close>), 32- and 64-bit integers, the actions
  \<open>'s \<Rightarrow> (err + 'a) \<times> 's\<close> every repository and handler is written in with their composition (\<open>bnd\<close>, \<open>attempt\<close>, \<open>for_each\<close>),
  and the calculus \<open>keeps I m\<close> of invariants of actions with its rules (\<open>keeps_rules\<close>, \<open>db_rules\<close>). \<open>External\<close> names the functions of
  third-party code as fields of records (UUID parsing, protojson, bcrypt, SHA-256, SSH keys); what a theorem needs of
  one is a premise of that theorem. \<open>GoStrings\<close> and \<open>GoFlags\<close> model what the source uses of \<open>strings\<close> and \<open>flag\<close>. \<open>Samples\<close> holds the
  concrete states the witnesses evaluate.

  \<^bold>\<open>The database\<close> (\<open>services/main-api/internal/db/dbstore\<close>). \<open>Schema\<close> has the rows as records, the tables as lists, and the state \<open>pg\<close> of
  a session: tables, clock, and a schedule \<open>faults\<close> that says which statements fail, with or without effect.
  Every statement consults the schedule, so every theorem that does not assume it empty holds whatever fails where.
  \<open>Dbstore\<close> has one definition per query of the \<open>.sql.go\<close> files, with the constraints of the tables; \<open>DbEnums\<close> the scanners of the
  enum types. \<open>DbSteps\<close> makes of them a step relation \<open>db_step\<close> with reachability \<open>db_reach\<close>: its invariants are those of
  claims 1, 2 and 3, and every operation of main-api is shown to stay within it.

  \<^bold>\<open>main-api.\<close> \<open>InstanceRepo\<close> (\<open>instance/state.go\<close>, \<open>repo.go\<close>: state machine, transitions in a transaction, events), \<open>SlotRepo\<close> (\<open>slot/repo.go\<close>:
  reserve, bind, release, profile synchronisation), \<open>CreditRepo\<close> (\<open>credit/repo.go\<close>: ledger with idempotency keys), \<open>Billing\<close>
  (\<open>billing/\<close>), \<open>Proto\<close> (the messages of \<open>shared/proto/agent/v1\<close>), \<open>AgentRegistry\<close> (\<open>grpc/registry.go\<close>: live streams and channels, with the
  contract of \<open>GuardedMap\<close>), \<open>AgentStream\<close> (\<open>node/repo.go\<close>, \<open>grpc/agent_stream.go\<close>), \<open>Http\<close>, \<open>InstanceApi\<close>, \<open>AdminApi\<close>, \<open>Auth\<close>, \<open>SshTicket\<close>
  (\<open>api/\<close>, \<open>auth/\<close>, \<open>sshkeys/\<close>, \<open>sshticket/\<close>), \<open>AgentAuth\<close> (\<open>agentauth/\<close>, with the contract of \<open>TtlCache\<close>), \<open>Router\<close> (\<open>api/router.go\<close>), \<open>AdminCli\<close> (\<open>cmd/admin\<close>),
  \<open>Config\<close> and \<open>MainBoot\<close> (\<open>config/\<close>, \<open>cmd/main-api\<close>: start-up, exit codes and wiring), \<open>MainStop\<close> (its shutdown), \<open>Metrics\<close> (\<open>metrics/\<close>). \<open>MainApi\<close> puts them together:
  \<open>api_step\<close> is what one event (a request, a stream opening, a message, a tick, a CLI call) does to the whole state, and
  \<open>api_run\<close> any sequence of events, during which the clock moves and statements begin to fail.

  \<^bold>\<open>ssh-proxy.\<close> \<open>SshServer\<close> (\<open>server/\<close>, \<open>router/\<close>: channel checks, and the accept loop with its cap and drain as a step relation),
  \<open>Wire\<close> and \<open>Tunnel\<close> (\<open>ticketclient/\<close>, \<open>tunnelhandler/\<close> up to the header of the stream), \<open>ByteRelay\<close> (the relay loops of \<open>relay.go\<close> and
  of the agent's \<open>handler.go\<close>, one step relation of three goroutines), \<open>MuxRegistry\<close> (\<open>muxregistry/\<close>, with the contract of
  \<open>GuardedMap\<close>), \<open>MuxServer\<close> (\<open>muxserver/\<close>: authentication of agents, with the contract of \<open>TtlCache\<close>), \<open>HostKey\<close>, \<open>MuxConf\<close>
  (\<open>shared/muxconfig\<close>), \<open>ProxyBoot\<close> (\<open>cmd/ssh-proxy\<close>).

  \<^bold>\<open>compute-agent.\<close> \<open>Gpu\<close> (\<open>gpu/iommu.go\<close> over the files of sysfs), \<open>Topo\<close> (\<open>topology/\<close>), \<open>Profile\<close> (\<open>profile/\<close>), \<open>CloudInit\<close>, \<open>DomainXml\<close> and \<open>Libvirt\<close>
  (\<open>libvirt/\<close> over the interface of the daemon), \<open>VmHandler\<close> (\<open>vm/handler.go\<close>: one order at a time), \<open>OpSlots\<close> (its in-flight slots: all
  orders at once, as a step relation of goroutines), \<open>Backoff\<close>, \<open>StreamClient\<close> (\<open>stream/client.go\<close>: handshake, the goroutines of a
  session as a step relation, the reconnect loop), \<open>MuxClient\<close> and \<open>AgentTunnel\<close> (\<open>muxclient/\<close>), \<open>AgentBoot\<close> and \<open>AgentDrain\<close>
  (\<open>cmd/compute-agent\<close>: start, and the drain at the end).

  \<^bold>\<open>Interfaces.\<close> Two locales state contracts two components share: \<open>guarded_map\<close> (\<open>GuardedMap\<close>: a table with one current holder per key, who
  removes itself only while current), interpreted by the agent registry and by the mux registry; and \<open>ttl_cache\<close> (\<open>TtlCache\<close>:
  positive answers with a time to live before an authority that may change its mind), interpreted by main-api's agent-auth
  handler and by the verifier of ssh-proxy. The theorems on revocation and on live sessions are proved from them.

  \<^bold>\<open>Across the services.\<close> \<open>ControlLoop\<close> composes main-api and the agent: an order that \<open>InstanceApi\<close> puts into a channel, what \<open>VmHandler\<close> makes of
  it on the host, and its reports on the way back through \<open>receiveLoop\<close>; its \<open>settle\<close> is the abstract machine such a batch of reports
  implements. \<open>GpuIsolation\<close> follows a GPU from the layout file over the registration, the slot table and a reservation to the devices
  of an order. \<open>db_step\<close> and \<open>api_run_of\<close> carry a parameter for it: which layouts are synchronised, and which events happen.

  \<^bold>\<open>What the theorems show.\<close> Claims 1 to 3 are invariants of every run of main-api: slots, audit trail, ledger. Claims 4, 16 and 19
  are about the deployed system, from the start of the processes on: where a tunnel leads, how long a revoked token
  lives, what ssh-proxy is when it serves; 5 and 20 about who holds the mux session of a node. Claims 6, 8 and 9 go across main-api and the
  agent: no device is in two orders, a creation settles, a deletion settles, whenever it comes. Claims 7, 10, 11, 17, 18 and 23 are
  the contracts of single operations under faults: creation, charging, reservation, posting, synchronisation,
  sweeping; 21 and 22 refine the abstract state machine of instances, for a batch of reports and for one transition. Claims 12 to 15, 31 to 34
  treat the goroutines: orders complete, the relay delivers and ends, the front is bounded and drains, the loops of the agent
  return only when told to, main-api ends when its agents have gone. Claims 29 and 35 are compute-agent's: passthrough
  devices, and the report of a running agent. Claims 24 to 28 and 30 are about the ways in. Claims 36 to 40 fix the behaviour of error
  paths that differ from what a reader of the code or its comments expects: GPUs freed under a machine that runs, a send on a closing
  stream, an order delivered twice, a half-closed relay, GPUs that share an IOMMU group.

  \<^bold>\<open>Bounds and fuel.\<close> No definition runs on fuel. Loops over data are structural recursion. A loop that waits for the outside world
  (accept loops, reconnect loops, the search for an address) recurs over the list of what each round finds, so a statement
  about all lists covers every finite prefix of it; where such a loop must return, a theorem says so. Goroutines are
  inductive step relations, at the granularity of critical sections, channel operations and calls. 64-bit durations wrap
  (\<open>int64\<close>), the layout's slot index is an \<open>int32\<close>; a balance that would leave 64 bits is the
  database's error.

  \<^bold>\<open>Not modelled.\<close> The generated gRPC stubs and the accessors of the protobuf messages; the plumbing of sqlc (an interface that repeats
  the queries), the embedded migrations and goose; the listeners of HTTP, gRPC and \<open>/metrics\<close> and the registration of the
  counters with Prometheus; log lines. TLS, yamux, SSH, JSON, XML, YAML, bcrypt, HMAC, libvirt, qemu-img and the
  operating system are parameters. In \<open>Topo\<close> and \<open>Gpu\<close> the host is one snapshot: files do not change during a collection. Requests and
  messages of main-api interleave as whole events, and a transaction is one atomic action.
\<close>

end
